(* ===== verification/Prelude.thy ===== *)
theory Prelude
  imports Main "HOL-Library.Char_ord" "HOL-Library.List_Lexorder" "HOL-Library.Multiset"
    "HOL-Library.Sublist"
begin

section \<open>Shared vocabulary of the Pafio model\<close>

text \<open>
  The vocabulary every component uses: the exception classes of \<open>src/PafioCore/Errors.hpp\<close> as
  one datatype, results and effectful computations that carry them, \<open>std::sort\<close> and
  \<open>std::unique\<close> behind an interface, the \<open>std::string\<close> operations the sources call
  (\<open>find\<close>, \<open>rfind\<close>, \<open>starts_with\<close>, \<open>getline\<close>, stream output of integers) and a small
  regular-expression matcher for the patterns given to \<open>std::regex_match\<close>.  Strings are lists of
  bytes; their order is the one of \<open>std::string::operator<\<close> (unsigned bytes, lexicographic).
\<close>

named_theorems result_simps \<open>inversion of result and io computations\<close>
named_theorems string_simps \<open>computation with the string helpers\<close>

subsection \<open>Errors\<close>

text \<open>
  The exception classes of the sources.  \<open>RuntimeError\<close> is a plain \<open>std::runtime_error\<close> or an exception of
  a library (toml++, nlohmann::json), \<open>LogicError\<close> a \<open>std::logic_error\<close> (also those of \<open>std::stoi\<close> and
  \<open>at\<close>), \<open>FilesystemError\<close> an exception thrown by \<open>std::filesystem\<close>; \<open>OutOfFuel\<close> is not raised by the code:
  it marks a run of a fuelled recursion that was cut off, and theorems exclude it.
\<close>

datatype error =
    ValidationError string
  | WorkspaceError string
  | ResolutionError string
  | FetchError string
  | CacheError string
  | PackError string
  | PublishError string
  | ToolError string
  | VendorError string
  | PlanError string
  | CompatibilityError string
  | CompilerProbeError string
  | RuntimeError string
  | LogicError string
  | FilesystemError string
  | OutOfFuel

text \<open>The process exit codes.\<close>

definition kExitUsage :: int where "kExitUsage = 2"
definition kExitManifest :: int where "kExitManifest = 10"
definition kExitLock :: int where "kExitLock = 11"
definition kExitWorkspace :: int where "kExitWorkspace = 12"
definition kExitResolve :: int where "kExitResolve = 13"
definition kExitFetch :: int where "kExitFetch = 14"
definition kExitCache :: int where "kExitCache = 15"

text \<open>The project version the build passes in (\<open>CMakeLists.txt\<close>).\<close>

definition kVersion :: string where "kVersion = ''0.1.0-dev''"

text \<open>The \<open>CommandError\<close> structure commands report.\<close>

record command_error =
  ce_category :: string
  ce_code :: int
  ce_message :: string
  ce_command :: string

subsection \<open>Results and effects\<close>

type_synonym 'a result = "error + 'a"

definition rbind :: "'e + 'a \<Rightarrow> ('a \<Rightarrow> 'e + 'b) \<Rightarrow> 'e + 'b" where
  "rbind m f = (case m of Inl e \<Rightarrow> Inl e | Inr x \<Rightarrow> f x)"

definition guard :: "bool \<Rightarrow> 'e \<Rightarrow> 'e + unit" where
  "guard b e = (if b then Inr () else Inl e)"

fun rmap :: "('a \<Rightarrow> 'e + 'b) \<Rightarrow> 'a list \<Rightarrow> 'e + 'b list" where
  "rmap f [] = Inr []"
| "rmap f (x # xs) = rbind (f x) (\<lambda>y. rbind (rmap f xs) (\<lambda>ys. Inr (y # ys)))"

text \<open>A loop over a list that threads a state and stops at the first throw.\<close>

fun rfold :: "('a \<Rightarrow> 's \<Rightarrow> 'e + 's) \<Rightarrow> 'a list \<Rightarrow> 's \<Rightarrow> 'e + 's" where
  "rfold f [] s = Inr s"
| "rfold f (x # xs) s = rbind (f x s) (rfold f xs)"

lemma rbind_Inr [simp]: "rbind (Inr x) f = f x"
  and rbind_Inl [simp]: "rbind (Inl e) f = Inl e"
  by (simp_all add: rbind_def)

lemma rbind_eq_Inr [result_simps]:
  "rbind m f = Inr y \<longleftrightarrow> (\<exists>x. m = Inr x \<and> f x = Inr y)"
  by (cases m) auto

lemma if_else_Inl_eq_Inr [result_simps]: "(if b then r else Inl e) = Inr y \<longleftrightarrow> b \<and> r = Inr y"
  and if_then_Inl_eq_Inr [result_simps]: "(if b then Inl e else r) = Inr y \<longleftrightarrow> \<not> b \<and> r = Inr y"
  by simp_all

lemma guard_eq_Inr [result_simps]: "guard b e = Inr u \<longleftrightarrow> b"
  by (simp add: guard_def)

lemma rbind_guard [simp]: "rbind (guard b e) f = (if b then f () else Inl e)"
  by (simp add: guard_def)

lemma guard_True [simp]: "guard True e = Inr ()"
  and guard_False [simp]: "guard False e = Inl e"
  by (simp_all add: guard_def)

lemma rmap_eq_Inr: "rmap f xs = Inr ys \<Longrightarrow> list_all2 (\<lambda>x y. f x = Inr y) xs ys"
  by (induction xs arbitrary: ys) (auto simp: result_simps)

lemma rmap_eq_Inr_iff: "rmap f xs = Inr ys \<longleftrightarrow> list_all2 (\<lambda>x y. f x = Inr y) xs ys"
  by (induction xs arbitrary: ys) (auto simp: result_simps list_all2_Cons1)

lemma rmap_Inr_map: "(\<And>x. x \<in> set xs \<Longrightarrow> f x = Inr (g x)) \<Longrightarrow> rmap f xs = Inr (map g xs)"
  by (induction xs) auto

lemma rmap_Inr_in_set: "rmap f xs = Inr ys \<Longrightarrow> y \<in> set ys \<Longrightarrow> \<exists>x \<in> set xs. f x = Inr y"
  by (induction xs arbitrary: ys) (auto simp: result_simps)

text \<open>
  A computation on a world of type \<open>'w\<close>: the world is changed also when the computation throws,
  which is what a \<open>catch\<close> block sees.
\<close>

type_synonym ('w, 'a) io = "'w \<Rightarrow> 'a result \<times> 'w"

definition io_return :: "'a \<Rightarrow> ('w, 'a) io" where
  "io_return x = (\<lambda>w. (Inr x, w))"

definition io_throw :: "error \<Rightarrow> ('w, 'a) io" where
  "io_throw e = (\<lambda>w. (Inl e, w))"

definition io_lift :: "'a result \<Rightarrow> ('w, 'a) io" where
  "io_lift r = (\<lambda>w. (r, w))"

definition io_bind :: "('w, 'a) io \<Rightarrow> ('a \<Rightarrow> ('w, 'b) io) \<Rightarrow> ('w, 'b) io" where
  "io_bind m f = (\<lambda>w. case m w of (Inl e, w') \<Rightarrow> (Inl e, w') | (Inr x, w') \<Rightarrow> f x w')"

definition io_guard :: "bool \<Rightarrow> error \<Rightarrow> ('w, unit) io" where
  "io_guard b e = io_lift (guard b e)"

text \<open>\<open>try { m } catch (...) { h; throw; }\<close>\<close>

definition io_on_error :: "('w, 'a) io \<Rightarrow> ('w, unit) io \<Rightarrow> ('w, 'a) io" where
  "io_on_error m h = (\<lambda>w. case m w of
      (Inr x, w') \<Rightarrow> (Inr x, w')
    | (Inl e, w') \<Rightarrow> (case h w' of (Inl e', w'') \<Rightarrow> (Inl e', w'') | (Inr _, w'') \<Rightarrow> (Inl e, w'')))"

lemma io_bind_Inr [result_simps]:
  "io_bind m f w = (Inr y, w'') \<longleftrightarrow> (\<exists>x w'. m w = (Inr x, w') \<and> f x w' = (Inr y, w''))"
  by (auto simp: io_bind_def split: prod.splits sum.splits)

lemma io_bind_Inl [result_simps]:
  "io_bind m f w = (Inl e, w'') \<longleftrightarrow>
     m w = (Inl e, w'') \<or> (\<exists>x w'. m w = (Inr x, w') \<and> f x w' = (Inl e, w''))"
  by (auto simp: io_bind_def split: prod.splits sum.splits)

lemma io_return_eq [result_simps]: "io_return x w = (r, w') \<longleftrightarrow> r = Inr x \<and> w' = w"
  by (auto simp: io_return_def)

lemma io_throw_eq [result_simps]: "io_throw e w = (r, w') \<longleftrightarrow> r = Inl e \<and> w' = w"
  by (auto simp: io_throw_def)

lemma io_lift_eq [result_simps]: "io_lift r w = (r', w') \<longleftrightarrow> r = r' \<and> w' = w"
  by (auto simp: io_lift_def)

lemma io_guard_Inr [result_simps]: "io_guard b e w = (Inr u, w') \<longleftrightarrow> b \<and> w' = w"
  by (auto simp: io_guard_def io_lift_def guard_def)

lemma io_guard_Inl [result_simps]: "io_guard b e w = (Inl e', w') \<longleftrightarrow> \<not> b \<and> e' = e \<and> w' = w"
  by (auto simp: io_guard_def io_lift_def guard_def)

lemma io_on_error_Inr [result_simps]: "io_on_error m h w = (Inr x, w') \<longleftrightarrow> m w = (Inr x, w')"
  by (auto simp: io_on_error_def split: prod.splits sum.splits)

text \<open>A handler that cannot fail.\<close>

lemma io_on_error_Inl:
  "io_on_error m (\<lambda>w. (Inr (), f w)) w = (Inl e, w') \<longleftrightarrow> (\<exists>w1. m w = (Inl e, w1) \<and> w' = f w1)"
  by (auto simp: io_on_error_def split: prod.splits sum.splits)

text \<open>A loop over a list that threads an accumulator and stops at the first throw.\<close>

fun io_fold :: "('a \<Rightarrow> 's \<Rightarrow> ('w, 's) io) \<Rightarrow> 'a list \<Rightarrow> 's \<Rightarrow> ('w, 's) io" where
  "io_fold f [] s = io_return s"
| "io_fold f (x # xs) s = io_bind (f x s) (io_fold f xs)"

text \<open>An invariant of the loop body is an invariant of the loop.\<close>

lemma io_fold_invariant:
  assumes "io_fold f xs s w = (Inr s', w')" and "P s w"
    and "\<And>x s w s' w'. x \<in> set xs \<Longrightarrow> P s w \<Longrightarrow> f x s w = (Inr s', w') \<Longrightarrow> P s' w'"
  shows "P s' w'"
  using assms
proof (induction xs arbitrary: s w)
  case Nil
  then show ?case by (auto simp: result_simps)
next
  case (Cons x xs)
  from Cons.prems(1) obtain s1 w1 where step: "f x s w = (Inr s1, w1)"
    and rest: "io_fold f xs s1 w1 = (Inr s', w')"
    by (auto simp: result_simps)
  have "P s1 w1" by (rule Cons.prems(3) [OF _ Cons.prems(2) step]) simp
  from rest this show ?case
    by (rule Cons.IH) (auto intro: Cons.prems(3))
qed

lemma list_all2_ex_right: "list_all2 P xs ys \<Longrightarrow> x \<in> set xs \<Longrightarrow> \<exists>y \<in> set ys. P x y"
  and list_all2_ex_left: "list_all2 P xs ys \<Longrightarrow> y \<in> set ys \<Longrightarrow> \<exists>x \<in> set xs. P x y"
  by (induction rule: list_all2_induct) auto

text \<open>Bounded forms of statements about an optional value, for evaluation.\<close>

lemma option_all: "(\<forall>x. m = Some x \<longrightarrow> P x) \<longleftrightarrow> (case m of None \<Rightarrow> True | Some x \<Rightarrow> P x)"
  and option_ex: "(\<exists>x. m = Some x \<and> P x) \<longleftrightarrow> (case m of None \<Rightarrow> False | Some x \<Rightarrow> P x)"
  by (cases m; simp)+

text \<open>A loop whose body never throws \<open>e\<close> does not throw it.\<close>

lemma io_fold_no_error:
  assumes "io_fold f xs s w = (r, w')" and "P s w"
    and "\<And>x s w r w'. x \<in> set xs \<Longrightarrow> P s w \<Longrightarrow> f x s w = (r, w') \<Longrightarrow>
      r \<noteq> Inl e \<and> (\<forall>s'. r = Inr s' \<longrightarrow> P s' w')"
  shows "r \<noteq> Inl e \<and> (\<forall>s'. r = Inr s' \<longrightarrow> P s' w')"
  using assms
proof (induction xs arbitrary: s w)
  case Nil
  then show ?case by (auto simp: io_return_eq)
next
  case (Cons x xs)
  obtain r1 w1 where step: "f x s w = (r1, w1)" by (cases "f x s w") auto
  note ok = Cons.prems(3) [OF _ Cons.prems(2) step]
  show ?case
  proof (cases r1)
    case (Inl e')
    with Cons.prems(1) step ok show ?thesis by (auto simp: io_bind_def)
  next
    case (Inr s1)
    with Cons.prems(1) step have "io_fold f xs s1 w1 = (r, w')" by (simp add: io_bind_def)
    moreover have "P s1 w1" using ok Inr by simp
    ultimately show ?thesis by (rule Cons.IH) (rule Cons.prems(3), auto)
  qed
qed

text \<open>Results that are not the mark of exhausted fuel.\<close>

definition no_fuel :: "'a result \<Rightarrow> bool" where
  "no_fuel r \<longleftrightarrow> r \<noteq> Inl OutOfFuel"

named_theorems no_fuel_intros \<open>the operations that never report exhausted fuel\<close>

lemma no_fuel_basic [no_fuel_intros]:
  "no_fuel (Inr x)"
  "e \<noteq> OutOfFuel \<Longrightarrow> no_fuel (Inl e)"
  "e \<noteq> OutOfFuel \<Longrightarrow> no_fuel (guard b e)"
  "no_fuel m \<Longrightarrow> (\<And>x. no_fuel (f x)) \<Longrightarrow> no_fuel (rbind m f)"
  "(b \<Longrightarrow> no_fuel r) \<Longrightarrow> (\<not> b \<Longrightarrow> no_fuel r') \<Longrightarrow> no_fuel (if b then r else r')"
  "no_fuel r'' \<Longrightarrow> (\<And>x. no_fuel (g x)) \<Longrightarrow> no_fuel (case m' of None \<Rightarrow> r'' | Some x \<Rightarrow> g x)"
  "no_fuel r \<Longrightarrow> no_fuel (map_sum id h r)"
  by (auto simp: no_fuel_def guard_def rbind_def split: sum.splits option.splits) (cases r; simp)

lemma no_fuel_rmap [no_fuel_intros]: "(\<And>x. no_fuel (f x)) \<Longrightarrow> no_fuel (rmap f xs)"
  by (induction xs) (auto intro!: no_fuel_basic)

subsection \<open>Sorting\<close>

text \<open>
  What the sources use of \<open>std::sort\<close> with a comparison on a key: the result is a permutation
  ordered by the key.  Elements with equal keys may come out in any order; every result below
  that depends on the order has distinct keys.
\<close>

locale sorting =
  fixes srt :: "('a \<Rightarrow> 'k::linorder) \<Rightarrow> 'a list \<Rightarrow> 'a list"
  assumes srt_mset: "mset (srt f xs) = mset xs"
    and srt_sorted: "sorted (map f (srt f xs))"
begin

lemma srt_set: "set (srt f xs) = set xs"
  by (metis srt_mset set_mset_mset)

lemma srt_length: "length (srt f xs) = length xs"
  by (metis srt_mset size_mset)

lemma srt_distinct_map: "distinct (map g (srt f xs)) = distinct (map g xs)"
  by (metis srt_mset mset_map mset_eq_imp_distinct_iff)

text \<open>With distinct keys the result does not depend on the order of the input.\<close>

lemma srt_canonical:
  assumes "mset xs = mset ys" and "distinct (map f xs)"
  shows "srt f xs = srt f ys"
proof -
  have d: "distinct (map f (srt f xs))"
    using assms(2) by (simp add: srt_distinct_map)
  have "mset (srt f xs) = mset (srt f ys)"
    using assms(1) by (simp add: srt_mset)
  moreover have "inj_on f (set (srt f xs))"
    using d by (simp add: distinct_map)
  ultimately show ?thesis
    by (metis srt_sorted sort_key_inj_key_eq)
qed

lemma srt_idem:
  assumes "distinct (map f xs)"
  shows "srt f (srt f xs) = srt f xs"
  by (rule srt_canonical) (use assms in \<open>simp_all add: srt_mset srt_distinct_map\<close>)

end

text \<open>The model's sort is insertion sort on the key, which the library provides.\<close>

interpretation std_sort: sorting sort_key
  by unfold_locales simp_all

text \<open>\<open>std::sort\<close> then \<open>erase(std::unique(...))\<close>.\<close>

definition sort_unique :: "'a::linorder list \<Rightarrow> 'a list" where
  "sort_unique xs = remdups_adj (sort xs)"

lemma set_sort_unique [simp]: "set (sort_unique xs) = set xs"
  by (simp add: sort_unique_def)

lemma distinct_remdups_adj_sorted: "sorted xs \<Longrightarrow> distinct (remdups_adj xs)"
  by (induction xs rule: remdups_adj.induct) auto

lemma distinct_sort_unique [simp]: "distinct (sort_unique xs)"
  by (simp add: sort_unique_def distinct_remdups_adj_sorted)

lemma sorted_sort_unique [simp]: "sorted (sort_unique xs)"
  by (simp add: sort_unique_def sorted_remdups_adj)

end
