(* ===== verification/Text.thy ===== *)
theory Text
  imports Prelude
begin

section \<open>Strings, numerals and regular expressions\<close>

text \<open>
  The part of the C++ standard library the sources use on \<open>std::string\<close>: searching, prefixes,
  \<open>std::getline\<close>, joining with a separator, stream output of unsigned integers in a base, and
  \<open>std::regex_match\<close> for patterns built of character classes, concatenation and repetition.
\<close>

subsection \<open>Searching and splitting\<close>

definition starts_with :: "string \<Rightarrow> string \<Rightarrow> bool" where
  "starts_with s p \<longleftrightarrow> take (length p) s = p"

definition ends_with :: "string \<Rightarrow> string \<Rightarrow> bool" where
  "ends_with s p \<longleftrightarrow> length p \<le> length s \<and> drop (length s - length p) s = p"

lemma starts_with_append [string_simps]: "starts_with (p @ s) p"
  by (simp add: starts_with_def)

lemma starts_with_iff: "starts_with s p \<longleftrightarrow> (\<exists>t. s = p @ t)"
  by (auto simp: starts_with_def) (metis append_take_drop_id)

lemma ends_with_iff: "ends_with s p \<longleftrightarrow> (\<exists>t. s = t @ p)"
  by (auto simp: ends_with_def) (metis append_take_drop_id)

text \<open>\<open>find\<close> and \<open>rfind\<close> of a character: \<open>None\<close> is \<open>npos\<close>.\<close>

fun find_char :: "char \<Rightarrow> string \<Rightarrow> nat option" where
  "find_char d [] = None"
| "find_char d (c # cs) = (if c = d then Some 0 else map_option Suc (find_char d cs))"

text \<open>\<open>rfind(d, pos)\<close>: the last occurrence at an index at most \<open>pos\<close>.\<close>

fun rfind_upto :: "char \<Rightarrow> string \<Rightarrow> nat \<Rightarrow> nat option" where
  "rfind_upto d s 0 = (if s \<noteq> [] \<and> s ! 0 = d then Some 0 else None)"
| "rfind_upto d s (Suc n) =
     (if Suc n < length s \<and> s ! (Suc n) = d then Some (Suc n) else rfind_upto d s n)"

definition rfind_char :: "char \<Rightarrow> string \<Rightarrow> nat option" where
  "rfind_char d s = (if s = [] then None else rfind_upto d s (length s - 1))"

definition substr :: "string \<Rightarrow> nat \<Rightarrow> nat \<Rightarrow> string" where
  "substr s pos n = take n (drop pos s)"

lemma find_char_Some: "find_char d s = Some i \<Longrightarrow> i < length s \<and> s ! i = d \<and> d \<notin> set (take i s)"
proof (induction s arbitrary: i)
  case Nil
  then show ?case by simp
next
  case (Cons c s)
  show ?case
  proof (cases "c = d")
    case True
    with Cons.prems show ?thesis by simp
  next
    case False
    with Cons.prems obtain j where "find_char d s = Some j" and "i = Suc j" by auto
    with Cons.IH [of j] False show ?thesis by simp
  qed
qed

lemma find_char_None [string_simps]: "find_char d s = None \<longleftrightarrow> d \<notin> set s"
  by (induction s) auto

lemma find_char_append [string_simps]:
  "d \<notin> set a \<Longrightarrow> find_char d (a @ d # b) = Some (length a)"
  by (induction a) auto

lemma find_char_split: "find_char d s = Some i \<Longrightarrow> s = take i s @ d # drop (Suc i) s"
  by (metis find_char_Some id_take_nth_drop)

lemma rfind_upto_Some:
  "rfind_upto d s n = Some i \<Longrightarrow> i \<le> n \<and> i < length s \<and> s ! i = d"
  by (induction n) (auto split: if_splits)

lemma rfind_upto_None:
  "rfind_upto d s n = None \<Longrightarrow> \<forall>i \<le> n. i < length s \<longrightarrow> s ! i \<noteq> d"
  by (induction n) (auto split: if_splits simp: le_Suc_eq)

lemma rfind_upto_last:
  "rfind_upto d s n = Some i \<Longrightarrow> i < j \<Longrightarrow> j \<le> n \<Longrightarrow> j < length s \<Longrightarrow> s ! j \<noteq> d"
  by (induction n) (auto split: if_splits simp: le_Suc_eq)

lemma rfind_char_Some: "rfind_char d s = Some i \<Longrightarrow> i < length s \<and> s ! i = d"
  by (auto simp: rfind_char_def dest: rfind_upto_Some split: if_splits)

lemma rfind_char_None [string_simps]: "rfind_char d s = None \<longleftrightarrow> d \<notin> set s"
proof
  assume "rfind_char d s = None"
  then show "d \<notin> set s"
    using rfind_upto_None [of d s "length s - 1"]
    by (auto simp: rfind_char_def in_set_conv_nth split: if_splits)
next
  assume "d \<notin> set s"
  then show "rfind_char d s = None"
    using rfind_char_Some [of d s] by (cases "rfind_char d s") (auto dest: nth_mem)
qed

fun split_on :: "char \<Rightarrow> string \<Rightarrow> string list" where
  "split_on d [] = [[]]"
| "split_on d (c # cs) =
     (if c = d then [] # split_on d cs
      else (case split_on d cs of [] \<Rightarrow> [[c]] | p # ps \<Rightarrow> (c # p) # ps))"

fun join :: "string \<Rightarrow> string list \<Rightarrow> string" where
  "join sep [] = []"
| "join sep [p] = p"
| "join sep (p # q # ps) = p @ sep @ join sep (q # ps)"

lemma split_on_not_Nil [simp]: "split_on d s \<noteq> []"
  by (induction s) (auto split: list.splits)

lemma split_on_no_sep [string_simps]: "d \<notin> set s \<Longrightarrow> split_on d s = [s]"
  by (induction s) auto

lemma split_on_append [string_simps]:
  "d \<notin> set a \<Longrightarrow> split_on d (a @ d # b) = a # split_on d b"
  by (induction a) auto

lemma split_on_parts: "p \<in> set (split_on d s) \<Longrightarrow> d \<notin> set p \<and> set p \<subseteq> set s"
proof (induction s arbitrary: p)
  case Nil
  then show ?case by simp
next
  case (Cons c s)
  show ?case
  proof (cases "c = d")
    case True
    with Cons show ?thesis by auto
  next
    case False
    obtain q qs where q: "split_on d s = q # qs" by (cases "split_on d s") auto
    with Cons.prems False have "p = c # q \<or> p \<in> set qs" by auto
    then show ?thesis using Cons.IH [of p] Cons.IH [of q] q False by auto
  qed
qed

lemma split_on_join: "join [d] (split_on d s) = s"
proof (induction s)
  case Nil
  then show ?case by simp
next
  case (Cons c s)
  obtain q qs where q: "split_on d s = q # qs" by (cases "split_on d s") auto
  then show ?case using Cons by (cases qs) auto
qed

lemma join_split_on:
  "ps \<noteq> [] \<Longrightarrow> \<forall>p \<in> set ps. d \<notin> set p \<Longrightarrow> split_on d (join [d] ps) = ps"
  by (induction "[d]" ps rule: join.induct) (auto simp: string_simps)

text \<open>\<open>while (std::getline(stream, part, d))\<close>: a trailing delimiter gives no empty last part.\<close>

definition getlines :: "char \<Rightarrow> string \<Rightarrow> string list" where
  "getlines d s =
     (let ps = split_on d s in if last ps = [] then butlast ps else ps)"

text \<open>\<open>while (!value.empty() && p(value.back())) value.pop_back();\<close> and its mirror image.\<close>

fun pop_back_while :: "(char \<Rightarrow> bool) \<Rightarrow> string \<Rightarrow> string" where
  "pop_back_while p s = rev (dropWhile p (rev s))"

lemma pop_back_while_idem [simp]: "pop_back_while p (pop_back_while p s) = pop_back_while p s"
  by simp

lemma pop_back_while_last: "pop_back_while p s \<noteq> [] \<Longrightarrow> \<not> p (last (pop_back_while p s))"
  by (simp add: last_rev hd_dropWhile)

lemma pop_back_while_prefix: "\<exists>t. s = pop_back_while p s @ t \<and> (\<forall>c \<in> set t. p c)"
proof -
  have "rev s = takeWhile p (rev s) @ dropWhile p (rev s)" by simp
  then have "s = rev (dropWhile p (rev s)) @ rev (takeWhile p (rev s))"
    by (metis rev_append rev_rev_ident)
  then show ?thesis
    by (intro exI [of _ "rev (takeWhile p (rev s))"]) (auto dest: set_takeWhileD)
qed

text \<open>Text between single quotes, in messages.\<close>

definition squote :: "string \<Rightarrow> string" where
  "squote s = CHR 0x27 # s @ [CHR 0x27]"

subsection \<open>Numerals\<close>

text \<open>Stream output of an unsigned integer in base \<open>b\<close> (\<open>std::oct\<close>, \<open>std::dec\<close>, \<open>std::hex\<close>).\<close>

function radix :: "nat \<Rightarrow> nat \<Rightarrow> nat list" where
  "radix b n = (if n < b \<or> b < 2 then [n] else radix b (n div b) @ [n mod b])"
  by pat_completeness auto
termination
  by (relation "measure snd") auto

declare radix.simps [simp del]

definition digit_char :: "nat \<Rightarrow> char" where
  "digit_char d = (if d < 10 then char_of (48 + d) else char_of (87 + d))"

definition char_digit :: "char \<Rightarrow> nat" where
  "char_digit c = (let n = of_char c in if n < 58 then n - 48 else n - 87)"

definition render :: "nat \<Rightarrow> nat \<Rightarrow> string" where
  "render b n = map digit_char (radix b n)"

definition horner :: "nat \<Rightarrow> nat list \<Rightarrow> nat" where
  "horner b ds = foldl (\<lambda>acc d. acc * b + d) 0 ds"

definition unrender :: "nat \<Rightarrow> string \<Rightarrow> nat" where
  "unrender b s = horner b (map char_digit s)"

abbreviation to_dec :: "nat \<Rightarrow> string" where "to_dec \<equiv> render 10"

lemma horner_Nil [simp]: "horner b [] = 0"
  by (simp add: horner_def)

lemma horner_snoc [simp]: "horner b (ds @ [d]) = horner b ds * b + d"
  by (simp add: horner_def)

lemma horner_replicate_0 [simp]: "horner b (replicate k 0 @ ds) = horner b ds"
proof (induction ds rule: rev_induct)
  case Nil
  have "horner b (replicate k 0) = 0"
    by (induction k) (simp_all add: horner_def)
  then show ?case by simp
next
  case (snoc d ds)
  then show ?case by (simp flip: append_assoc)
qed

lemma horner_radix [simp]: "horner b (radix b n) = n"
proof (induction b n rule: radix.induct)
  case (1 b n)
  show ?case
  proof (cases "n < b \<or> b < 2")
    case True
    then show ?thesis by (simp add: radix.simps [of b n] horner_def)
  next
    case False
    with 1 show ?thesis by (simp add: radix.simps [of b n] mult.commute)
  qed
qed

lemma radix_digits: "2 \<le> b \<Longrightarrow> d \<in> set (radix b n) \<Longrightarrow> d < b"
proof (induction b n rule: radix.induct)
  case (1 b n)
  then show ?case
    by (cases "n < b \<or> b < 2") (auto simp: radix.simps [of b n])
qed

lemma radix_not_Nil [simp]: "radix b n \<noteq> []"
  by (subst radix.simps) simp

lemma length_radix_le:
  assumes "2 \<le> b" and "0 < k" and "n < b ^ k"
  shows "length (radix b n) \<le> k"
  using assms(2,3)
proof (induction k arbitrary: n)
  case 0
  then show ?case by simp
next
  case (Suc k)
  show ?case
  proof (cases "n < b")
    case True
    then show ?thesis by (simp add: radix.simps [of b n])
  next
    case False
    with Suc.prems assms(1) have "0 < k" by (cases k) auto
    moreover have "n div b < b ^ k"
      using Suc.prems(2) assms(1) by (simp add: div_less_iff_less_mult mult.commute)
    ultimately have "length (radix b (n div b)) \<le> k" by (rule Suc.IH)
    with False assms(1) show ?thesis by (simp add: radix.simps [of b n])
  qed
qed

lemma length_radix_bound: "2 \<le> b \<Longrightarrow> length (radix b n) \<le> k \<Longrightarrow> n < b ^ k"
proof (induction k arbitrary: n)
  case 0
  then show ?case by simp
next
  case (Suc k)
  show ?case
  proof (cases "n < b")
    case True
    also have "b \<le> b ^ Suc k" using Suc.prems(1) by simp
    finally show ?thesis .
  next
    case False
    with Suc.prems have "length (radix b (n div b)) \<le> k"
      by (simp add: radix.simps [of b n])
    with Suc have "n div b < b ^ k" by blast
    with Suc.prems(1) show ?thesis by (simp add: div_less_iff_less_mult mult.commute)
  qed
qed

lemma char_digit_digit_char [simp]: "d < 36 \<Longrightarrow> char_digit (digit_char d) = d"
  by (auto simp: char_digit_def digit_char_def of_char_of take_bit_eq_mod)

lemma map_char_digit_render:
  "2 \<le> b \<Longrightarrow> b \<le> 16 \<Longrightarrow> map char_digit (render b n) = radix b n"
proof -
  assume b: "2 \<le> b" "b \<le> 16"
  have "char_digit (digit_char d) = d" if "d \<in> set (radix b n)" for d
    using radix_digits [OF b(1) that] b(2) by simp
  then show ?thesis by (simp add: render_def map_idI)
qed

lemma unrender_render: "2 \<le> b \<Longrightarrow> b \<le> 16 \<Longrightarrow> unrender b (render b n) = n"
  by (simp add: unrender_def map_char_digit_render)

lemma render_inj: "2 \<le> b \<Longrightarrow> b \<le> 16 \<Longrightarrow> render b m = render b n \<longleftrightarrow> m = n"
  by (metis unrender_render)

lemma length_render [simp]: "length (render b n) = length (radix b n)"
  by (simp add: render_def)

lemma render_not_Nil [simp]: "render b n \<noteq> []"
  by (simp add: render_def)

lemma render_chars:
  assumes "2 \<le> b" "c \<in> set (render b n)"
  obtains d where "d < b" "c = digit_char d"
proof -
  from assms(2) obtain d where d: "d \<in> set (radix b n)" and c: "c = digit_char d"
    by (auto simp: render_def)
  show ?thesis by (rule that [OF radix_digits [OF assms(1) d] c])
qed

subsection \<open>Regular expressions\<close>

text \<open>
  The patterns of the sources, matched by Brzozowski derivatives; \<open>rx_match\<close> is
  \<open>std::regex_match\<close>, a match of the whole string.
\<close>

datatype rx = Void | Eps | Cls "char \<Rightarrow> bool" | Cat rx rx | Alt rx rx | Rep rx

fun nullable :: "rx \<Rightarrow> bool" where
  "nullable Void = False"
| "nullable Eps = True"
| "nullable (Cls p) = False"
| "nullable (Cat r s) = (nullable r \<and> nullable s)"
| "nullable (Alt r s) = (nullable r \<or> nullable s)"
| "nullable (Rep r) = True"

fun deriv :: "char \<Rightarrow> rx \<Rightarrow> rx" where
  "deriv c Void = Void"
| "deriv c Eps = Void"
| "deriv c (Cls p) = (if p c then Eps else Void)"
| "deriv c (Cat r s) =
     (if nullable r then Alt (Cat (deriv c r) s) (deriv c s) else Cat (deriv c r) s)"
| "deriv c (Alt r s) = Alt (deriv c r) (deriv c s)"
| "deriv c (Rep r) = Cat (deriv c r) (Rep r)"

fun rx_match :: "rx \<Rightarrow> string \<Rightarrow> bool" where
  "rx_match r [] = nullable r"
| "rx_match r (c # cs) = rx_match (deriv c r) cs"

definition rx_plus :: "rx \<Rightarrow> rx" where "rx_plus r = Cat r (Rep r)"

fun rx_power :: "rx \<Rightarrow> nat \<Rightarrow> rx" where
  "rx_power r 0 = Eps"
| "rx_power r (Suc n) = Cat r (rx_power r n)"

definition rx_lit :: "char \<Rightarrow> rx" where "rx_lit d = Cls (\<lambda>c. c = d)"

lemma rx_Void [simp]: "rx_match Void s = False"
  by (induction s) auto

lemma rx_Eps [simp]: "rx_match Eps s \<longleftrightarrow> s = []"
  by (cases s) auto

lemma rx_Cls [simp]: "rx_match (Cls p) s \<longleftrightarrow> (\<exists>c. s = [c] \<and> p c)"
  by (cases s) auto

lemma rx_Alt [simp]: "rx_match (Alt r t) s \<longleftrightarrow> rx_match r s \<or> rx_match t s"
  by (induction s arbitrary: r t) auto

lemma rx_Cat: "rx_match (Cat r t) s \<longleftrightarrow> (\<exists>u v. s = u @ v \<and> rx_match r u \<and> rx_match t v)"
proof (induction s arbitrary: r)
  case Nil
  then show ?case by auto
next
  case (Cons c s)
  have split: "(\<exists>u v. c # s = u @ v \<and> rx_match r u \<and> rx_match t v) \<longleftrightarrow>
      nullable r \<and> rx_match t (c # s) \<or>
      (\<exists>u v. s = u @ v \<and> rx_match (deriv c r) u \<and> rx_match t v)"
    by (auto simp: Cons_eq_append_conv) (metis append_Cons rx_match.simps)+
  show ?case
    unfolding split by (auto simp: Cons.IH)
qed

lemma rx_Rep_Cls [simp]: "rx_match (Rep (Cls p)) s \<longleftrightarrow> (\<forall>c \<in> set s. p c)"
proof (induction s)
  case Nil
  then show ?case by simp
next
  case (Cons c s)
  have "rx_match (Cat (deriv c (Cls p)) (Rep (Cls p))) s \<longleftrightarrow> p c \<and> rx_match (Rep (Cls p)) s"
    by (auto simp: rx_Cat)
  with Cons show ?case by simp
qed

lemma rx_Cat_Cls [simp]: "rx_match (Cat (Cls p) r) s \<longleftrightarrow> (\<exists>c t. s = c # t \<and> p c \<and> rx_match r t)"
  unfolding rx_Cat by (metis append_Cons append_Nil rx_Cls)

lemma rx_plus_Cls [simp]: "rx_match (rx_plus (Cls p)) s \<longleftrightarrow> s \<noteq> [] \<and> (\<forall>c \<in> set s. p c)"
  by (cases s) (auto simp: rx_plus_def simp del: rx_match.simps)

lemma rx_power_Cls [simp]:
  "rx_match (rx_power (Cls p) n) s \<longleftrightarrow> length s = n \<and> (\<forall>c \<in> set s. p c)"
  by (induction n arbitrary: s) (auto simp: length_Suc_conv)

subsection \<open>The name, version and digest patterns\<close>

definition is_lower_or_digit :: "char \<Rightarrow> bool" where
  "is_lower_or_digit c \<longleftrightarrow> (CHR ''a'' \<le> c \<and> c \<le> CHR ''z'') \<or> (CHR ''0'' \<le> c \<and> c \<le> CHR ''9'')"

definition is_digit :: "char \<Rightarrow> bool" where
  "is_digit c \<longleftrightarrow> CHR ''0'' \<le> c \<and> c \<le> CHR ''9''"

definition is_name_char :: "char \<Rightarrow> bool" where
  "is_name_char c \<longleftrightarrow> is_lower_or_digit c \<or> c = CHR ''_'' \<or> c = CHR ''-''"

text \<open>\<open>^[a-z0-9][a-z0-9_-]*/[a-z0-9][a-z0-9_-]*$\<close>\<close>

definition NameRegex :: rx where
  "NameRegex = Cat (Cls is_lower_or_digit) (Cat (Rep (Cls is_name_char)) (Cat (rx_lit CHR ''/'')
     (Cat (Cls is_lower_or_digit) (Rep (Cls is_name_char)))))"

text \<open>\<open>^\d+\.\d+\.\d+$\<close>\<close>

definition SemverRegex :: rx where
  "SemverRegex = Cat (rx_plus (Cls is_digit)) (Cat (rx_lit CHR ''.'')
     (Cat (rx_plus (Cls is_digit)) (Cat (rx_lit CHR ''.'') (rx_plus (Cls is_digit)))))"

text \<open>\<open>^[0-9a-f]{64}$\<close>\<close>

definition is_lower_hex :: "char \<Rightarrow> bool" where
  "is_lower_hex c \<longleftrightarrow> is_digit c \<or> (CHR ''a'' \<le> c \<and> c \<le> CHR ''f'')"

definition Sha256Regex :: rx where
  "Sha256Regex = rx_power (Cls is_lower_hex) 64"

text \<open>\<open>^[A-Za-z0-9_-]+$\<close>\<close>

definition is_bare_key_char :: "char \<Rightarrow> bool" where
  "is_bare_key_char c \<longleftrightarrow>
     is_name_char c \<or> (CHR ''A'' \<le> c \<and> c \<le> CHR ''Z'')"

definition BareKeyRegex :: rx where
  "BareKeyRegex = rx_plus (Cls is_bare_key_char)"

text \<open>What the patterns accept, without the matcher.\<close>

definition name_segment :: "string \<Rightarrow> bool" where
  "name_segment s \<longleftrightarrow> s \<noteq> [] \<and> is_lower_or_digit (hd s) \<and> list_all is_name_char s"

lemma is_lower_or_digit_name_char [simp]: "is_lower_or_digit c \<Longrightarrow> is_name_char c"
  by (simp add: is_name_char_def)

lemma slash_not_name_char [simp]: "\<not> is_name_char CHR ''/''"
  by (simp add: is_name_char_def is_lower_or_digit_def less_eq_char_def)

lemma at_not_name_char [simp]: "\<not> is_name_char CHR ''@''"
  by (simp add: is_name_char_def is_lower_or_digit_def less_eq_char_def)

lemma name_segment_no_slash: "name_segment s \<Longrightarrow> CHR ''/'' \<notin> set s"
  by (auto simp: name_segment_def list_all_iff)

lemma rx_name_segment:
  "rx_match (Cat (Cls is_lower_or_digit) (Rep (Cls is_name_char))) s \<longleftrightarrow> name_segment s"
  by (cases s) (auto simp: name_segment_def list_all_iff simp del: rx_match.simps)

lemma NameRegex_iff:
  "rx_match NameRegex s \<longleftrightarrow> (\<exists>a b. s = a @ CHR ''/'' # b \<and> name_segment a \<and> name_segment b)"
  (is "?L \<longleftrightarrow> ?R")
proof -
  have "?L \<longleftrightarrow> (\<exists>c u v. s = c # u @ CHR ''/'' # v \<and> is_lower_or_digit c \<and>
      (\<forall>x \<in> set u. is_name_char x) \<and>
      rx_match (Cat (Cls is_lower_or_digit) (Rep (Cls is_name_char))) v)"
    unfolding NameRegex_def rx_lit_def by (simp only: rx_Cat_Cls rx_Cat [of "Rep r" for r] rx_Rep_Cls) blast
  also have "\<dots> \<longleftrightarrow> ?R"
  proof
    assume "\<exists>c u v. s = c # u @ CHR ''/'' # v \<and> is_lower_or_digit c \<and>
      (\<forall>x \<in> set u. is_name_char x) \<and>
      rx_match (Cat (Cls is_lower_or_digit) (Rep (Cls is_name_char))) v"
    then obtain c u v where "s = (c # u) @ CHR ''/'' # v" "name_segment (c # u)" "name_segment v"
      by (auto simp: rx_name_segment name_segment_def list_all_iff simp del: rx_Cat_Cls)
    then show ?R by blast
  next
    assume ?R
    then obtain a b where ab: "s = a @ CHR ''/'' # b" "name_segment a" "name_segment b" by blast
    then obtain c u where "a = c # u" "is_lower_or_digit c" "\<forall>x \<in> set u. is_name_char x"
      by (cases a) (auto simp: name_segment_def list_all_iff)
    with ab show "\<exists>c u v. s = c # u @ CHR ''/'' # v \<and> is_lower_or_digit c \<and>
      (\<forall>x \<in> set u. is_name_char x) \<and>
      rx_match (Cat (Cls is_lower_or_digit) (Rep (Cls is_name_char))) v"
      by (auto simp: rx_name_segment simp del: rx_Cat_Cls)
  qed
  finally show ?thesis .
qed

end
