(* ===== verification/Digest.thy ===== *)
theory Digest
  imports Text "HOL-Library.Word"
begin

unbundle bit_operations_syntax

section \<open>Hashes\<close>

text \<open>
  \<open>src/PafioCore/Sha256.cpp\<close>: the class \<open>Sha256\<close> with its state record, \<open>Update\<close>, \<open>FinalHex\<close> and
  \<open>Transform\<close>, and its two callers; and the FNV-1a cache-key hash with its hexadecimal rendering,
  which the resolver, the compile planner, the registry client and the source builder each define.
  The reference is the padded-message digest of FIPS 180-4; the streaming interface is the locale
  \<open>stream_digest\<close>, which the class interprets.
\<close>

type_synonym u8 = "8 word"
type_synonym u32 = "32 word"
type_synonym u64 = "64 word"

definition byte_of :: "char \<Rightarrow> u8" where "byte_of c = word_of_nat (of_char c)"

definition bytes_of :: "string \<Rightarrow> u8 list" where "bytes_of s = map byte_of s"

subsection \<open>FNV-1a\<close>

definition fnv_prime :: u64 where "fnv_prime = 1099511628211"

definition fnv_step :: "u64 \<Rightarrow> char \<Rightarrow> u64" where
  "fnv_step hash ch = (hash XOR ucast (byte_of ch)) * fnv_prime"

definition Fnv1a64 :: "string \<Rightarrow> u64" where
  "Fnv1a64 value = foldl fnv_step 1469598103934665603 value"

definition Hex64 :: "u64 \<Rightarrow> string" where
  "Hex64 value = render 16 (unat value)"

text \<open>The variant of \<open>SourceBuild.cpp\<close>, padded to sixteen digits.\<close>

definition pad_left :: "nat \<Rightarrow> char \<Rightarrow> string \<Rightarrow> string" where
  "pad_left n c s = replicate (n - length s) c @ s"

definition Hex64_padded :: "u64 \<Rightarrow> string" where
  "Hex64_padded value = pad_left 16 CHR ''0'' (render 16 (unat value))"

lemma unat_byte_of: "unat (byte_of x) = of_char x"
  by (simp add: byte_of_def unat_of_nat)

lemma byte_of_inj: "byte_of c = byte_of d \<longleftrightarrow> c = d"
proof
  assume "byte_of c = byte_of d"
  then have "unat (byte_of c) = unat (byte_of d)" by (rule arg_cong)
  then have "(of_char c :: nat) = of_char d" unfolding unat_byte_of .
  then show "c = d" by (rule of_char_eq_iff [THEN iffD1])
qed (rule arg_cong)

lemma fnv_prime_inverse: "fnv_prime * 14886173955864302971 = 1"
  unfolding fnv_prime_def by code_simp

text \<open>The prime is odd, so multiplying by it is a bijection of the 64-bit words.\<close>

lemma fnv_prime_cancel:
  assumes "x * fnv_prime = y * fnv_prime"
  shows "x = y"
proof -
  have "(x * fnv_prime) * 14886173955864302971 = (y * fnv_prime) * 14886173955864302971"
    using assms by simp
  then show ?thesis by (simp only: mult.assoc fnv_prime_inverse mult_1_right)
qed

lemma xor_left_cancel:
  fixes a :: "'a::len word"
  assumes "a XOR b = a XOR c"
  shows "b = c"
proof -
  from assms have "a XOR (a XOR b) = a XOR (a XOR c)" by simp
  then show ?thesis by (simp flip: xor.assoc)
qed

lemma fnv_step_inj_hash: "fnv_step h c = fnv_step h' c \<Longrightarrow> h = h'"
  unfolding fnv_step_def
  by (drule fnv_prime_cancel) (simp only: xor.commute [of _ "ucast (byte_of c)"] xor_left_cancel)

lemma inj_ucast: "inj (ucast :: u8 \<Rightarrow> u64)"
proof (rule injI)
  fix x y :: u8
  assume "(ucast x :: u64) = ucast y"
  then have "(ucast (ucast x :: u64) :: u8) = ucast (ucast y :: u64)" by simp
  then show "x = y" by (simp add: ucast_up_ucast_id is_up)
qed

lemma fnv_step_inj_char: "fnv_step h c = fnv_step h d \<Longrightarrow> c = d"
proof -
  assume "fnv_step h c = fnv_step h d"
  then have "(ucast (byte_of c) :: u64) = ucast (byte_of d)"
    unfolding fnv_step_def by (rule xor_left_cancel [OF fnv_prime_cancel])
  then have "byte_of c = byte_of d"
    by (rule injD [OF inj_ucast])
  then show "c = d" by (simp add: byte_of_inj)
qed

lemma foldl_fnv_inj: "foldl fnv_step h s = foldl fnv_step h' s \<Longrightarrow> h = h'"
  by (induction s arbitrary: h h') (auto dest: fnv_step_inj_hash)

lemma Hex64_inj: "Hex64 a = Hex64 b \<longleftrightarrow> a = b"
  by (simp add: Hex64_def render_inj word_unat_eq_iff)

text \<open>The same digits computed on integers, for evaluation.\<close>

primrec render_int :: "nat \<Rightarrow> int \<Rightarrow> int \<Rightarrow> string" where
  "render_int 0 b v = [digit_char (nat v)]"
| "render_int (Suc k) b v =
     (if v < b then [digit_char (nat v)] else render_int k b (v div b) @ [digit_char (nat (v mod b))])"

lemma render_int:
  "2 \<le> b \<Longrightarrow> 0 \<le> v \<Longrightarrow> v < b ^ Suc k \<Longrightarrow> render_int k b v = render (nat b) (nat v)"
proof (induction k arbitrary: v)
  case 0
  then show ?case by (simp add: render_def radix.simps)
next
  case (Suc k)
  show ?case
  proof (cases "v < b")
    case True
    with Suc.prems show ?thesis by (simp add: render_def radix.simps)
  next
    case False
    have "v div b * b \<le> v" using Suc.prems(1) by (simp add: minus_mod_eq_div_mult [symmetric])
    also have "v < b ^ Suc k * b" using Suc.prems(3) by (simp add: mult_ac)
    finally have "v div b < b ^ Suc k" using Suc.prems(1) by (simp add: mult.commute)
    then have "render_int k b (v div b) = render (nat b) (nat (v div b))"
      using Suc.prems by (intro Suc.IH) (auto simp: pos_imp_zdiv_nonneg_iff)
    moreover have "render (nat b) (nat v) = render (nat b) (nat v div nat b) @ [digit_char (nat v mod nat b)]"
      using False Suc.prems by (subst render_def, subst radix.simps) (auto simp: render_def)
    ultimately show ?thesis
      using False Suc.prems by (simp add: nat_div_distrib nat_mod_distrib)
  qed
qed

lemma Hex64_code [code]: "Hex64 v = render_int 15 16 (uint v)"
proof -
  have "uint v < 16 ^ Suc 15" using uint_bounded [of v] by simp
  then show ?thesis by (subst render_int) (simp_all add: Hex64_def)
qed

subsection \<open>The class Sha256\<close>

text \<open>The round constants, in decimal.\<close>

definition kConstants :: "u32 list" where
  "kConstants =
    [1116352408, 1899447441, 3049323471, 3921009573, 961987163, 1508970993,
     2453635748, 2870763221, 3624381080, 310598401, 607225278, 1426881987,
     1925078388, 2162078206, 2614888103, 3248222580, 3835390401, 4022224774,
     264347078, 604807628, 770255983, 1249150122, 1555081692, 1996064986,
     2554220882, 2821834349, 2952996808, 3210313671, 3336571891, 3584528711,
     113926993, 338241895, 666307205, 773529912, 1294757372, 1396182291,
     1695183700, 1986661051, 2177026350, 2456956037, 2730485921, 2820302411,
     3259730800, 3345764771, 3516065817, 3600352804, 4094571909, 275423344,
     430227734, 506948616, 659060556, 883997877, 958139571, 1322822218,
     1537002063, 1747873779, 1955562222, 2024104815, 2227730452, 2361852424,
     2428436474, 2756734187, 3204031479, 3329325298]"

definition RotateRight :: "u32 \<Rightarrow> nat \<Rightarrow> u32" where
  "RotateRight value bits = drop_bit bits value OR push_bit (32 - bits) value"

definition Ch :: "u32 \<Rightarrow> u32 \<Rightarrow> u32 \<Rightarrow> u32" where
  "Ch x y z = (x AND y) XOR (NOT x AND z)"

definition Maj :: "u32 \<Rightarrow> u32 \<Rightarrow> u32 \<Rightarrow> u32" where
  "Maj x y z = (x AND y) XOR (x AND z) XOR (y AND z)"

definition BigSigma0 :: "u32 \<Rightarrow> u32" where
  "BigSigma0 value = RotateRight value 2 XOR RotateRight value 13 XOR RotateRight value 22"

definition BigSigma1 :: "u32 \<Rightarrow> u32" where
  "BigSigma1 value = RotateRight value 6 XOR RotateRight value 11 XOR RotateRight value 25"

definition SmallSigma0 :: "u32 \<Rightarrow> u32" where
  "SmallSigma0 value = RotateRight value 7 XOR RotateRight value 18 XOR drop_bit 3 value"

definition SmallSigma1 :: "u32 \<Rightarrow> u32" where
  "SmallSigma1 value = RotateRight value 17 XOR RotateRight value 19 XOR drop_bit 10 value"

text \<open>The first sixteen entries of the schedule read the block, the rest are computed in place.\<close>

definition schedule_word :: "u8 list \<Rightarrow> nat \<Rightarrow> u32" where
  "schedule_word chunk index = (let base = index * 4 in
     push_bit 24 (ucast (chunk ! base)) OR push_bit 16 (ucast (chunk ! (base + 1))) OR
     push_bit 8 (ucast (chunk ! (base + 2))) OR ucast (chunk ! (base + 3)))"

definition schedule_step :: "nat \<Rightarrow> u32 list \<Rightarrow> u32 list" where
  "schedule_step index w = w[index :=
     SmallSigma1 (w ! (index - 2)) + w ! (index - 7) + SmallSigma0 (w ! (index - 15)) + w ! (index - 16)]"

definition schedule :: "u8 list \<Rightarrow> u32 list" where
  "schedule chunk =
     fold schedule_step [16..<64] (map (schedule_word chunk) [0..<16] @ replicate 48 0)"

fun round_step :: "u32 list \<Rightarrow> nat \<Rightarrow> u32 list \<Rightarrow> u32 list" where
  "round_step w index [a, b, c, d, e, f, g, h] =
     (let t1 = h + BigSigma1 e + Ch e f g + kConstants ! index + w ! index;
          t2 = BigSigma0 a + Maj a b c
      in [t1 + t2, a, b, c, d + t1, e, f, g])"
| "round_step w index vs = vs"

definition Transform :: "u32 list \<Rightarrow> u8 list \<Rightarrow> u32 list" where
  "Transform state chunk =
     map2 (+) state (fold (round_step (schedule chunk)) [0..<64] state)"

record sha256 =
  sha_state :: "u32 list"
  sha_buffer :: "u8 list"
  sha_buffer_size :: nat
  sha_total_size :: u64

definition sha_init :: sha256 where
  "sha_init = \<lparr>sha_state = [0x6a09e667, 0xbb67ae85, 0x3c6ef372, 0xa54ff53a, 0x510e527f, 0x9b05688c,
       0x1f83d9ab, 0x5be0cd19],
     sha_buffer = replicate 64 0, sha_buffer_size = 0, sha_total_size = 0\<rparr>"

text \<open>
  One pass of the loop of \<open>Update\<close>: copy a chunk into the buffer at \<open>buffer_size_\<close>, and compress
  when the buffer is full.  The loop itself is partial (it would not stop from a state whose
  buffer is over-full); \<open>Update_returns\<close> shows that no such state arises.
\<close>

definition sha_chunk :: "sha256 \<Rightarrow> u8 list \<Rightarrow> nat" where
  "sha_chunk s data =
     min (if sha_buffer_size s < 64 then 64 - sha_buffer_size s else 0) (length data)"

definition sha_absorb :: "sha256 \<Rightarrow> u8 list \<Rightarrow> sha256" where
  "sha_absorb s data =
     (let chunk = sha_chunk s data; n = sha_buffer_size s;
          buf = take n (sha_buffer s) @ take chunk data @ drop (n + chunk) (sha_buffer s)
      in if n + chunk = 64
         then s\<lparr>sha_buffer := buf, sha_state := Transform (sha_state s) buf, sha_buffer_size := 0\<rparr>
         else s\<lparr>sha_buffer := buf, sha_buffer_size := n + chunk\<rparr>)"

partial_function (option) update_loop :: "sha256 \<Rightarrow> u8 list \<Rightarrow> sha256 option" where
  "update_loop s data =
     (if data = [] then Some s
      else update_loop (sha_absorb s data) (drop (sha_chunk s data) data))"

declare update_loop.simps [code]

definition Update :: "sha256 \<Rightarrow> u8 list \<Rightarrow> sha256 option" where
  "Update s data =
     update_loop (s\<lparr>sha_total_size := sha_total_size s + word_of_nat (length data)\<rparr>) data"

text \<open>\<open>FinalHex\<close>: the padding of the last block, the bit count, and the rendering.\<close>

definition length_bytes :: "u64 \<Rightarrow> u8 list" where
  "length_bytes total_bits = map (\<lambda>index. ucast (drop_bit ((7 - index) * 8) total_bits)) [0..<8]"

definition final_state :: "sha256 \<Rightarrow> u32 list" where
  "final_state s =
     (let block = (sha_buffer s)[sha_buffer_size s := 0x80];
          size = sha_buffer_size s + 1;
          (st, block, size) =
            (if size > 56
             then (Transform (sha_state s) (take size block @ replicate (64 - size) 0),
                   replicate 64 0, 0)
             else (sha_state s, block, size));
          block = take size block @ replicate (56 - size) 0 @ length_bytes (sha_total_size s * 8)
      in Transform st block)"

definition hex_word :: "u32 \<Rightarrow> string" where
  "hex_word w = pad_left 8 CHR ''0'' (render 16 (unat w))"

definition FinalHex :: "sha256 \<Rightarrow> string" where
  "FinalHex s = concat (map hex_word (final_state s))"


text \<open>
  \<open>Sha256Text\<close> hashes the bytes of a string in one call; \<open>Sha256File\<close> hashes the contents of a file
  read in pieces of at most 8192 bytes.  \<open>None\<close> would be a call that does not return.
\<close>

function chunks :: "nat \<Rightarrow> 'a list \<Rightarrow> 'a list list" where
  "chunks n xs = (if xs = [] \<or> n = 0 then [] else take n xs # chunks n (drop n xs))"
  by pat_completeness auto
termination
  by (relation "measure (\<lambda>(n, xs). length xs)") auto

declare chunks.simps [simp del]

fun update_all :: "('s \<Rightarrow> 'b list \<Rightarrow> 's option) \<Rightarrow> 's \<Rightarrow> 'b list list \<Rightarrow> 's option" where
  "update_all upd s [] = Some s"
| "update_all upd s (c # cs) = Option.bind (upd s c) (\<lambda>s'. update_all upd s' cs)"

definition Sha256Text :: "string \<Rightarrow> string option" where
  "Sha256Text text = map_option FinalHex (Update sha_init (bytes_of text))"

definition Sha256File :: "string \<Rightarrow> string option" where
  "Sha256File contents = map_option FinalHex (update_all Update sha_init (chunks 8192 (bytes_of contents)))"

subsection \<open>The streaming interface\<close>

text \<open>
  What a caller of a streaming hash relies on: a state stands for the bytes fed so far, feeding
  more always returns, and the final value is a function of the bytes alone.
\<close>

locale stream_digest =
  fixes init :: 's
    and upd :: "'s \<Rightarrow> 'b list \<Rightarrow> 's option"
    and fin :: "'s \<Rightarrow> 'd"
    and stands_for :: "'s \<Rightarrow> 'b list \<Rightarrow> bool"
    and digest :: "'b list \<Rightarrow> 'd"
  assumes init_stands: "stands_for init []"
    and upd_returns: "stands_for s m \<Longrightarrow> \<exists>s'. upd s d = Some s' \<and> stands_for s' (m @ d)"
    and fin_digest: "stands_for s m \<Longrightarrow> fin s = digest m"
begin

lemma one_call: "map_option fin (upd init m) = Some (digest m)"
  using upd_returns [OF init_stands, of m] fin_digest by fastforce

lemma update_all_stands:
  "stands_for s m \<Longrightarrow> \<exists>s'. update_all upd s cs = Some s' \<and> stands_for s' (m @ concat cs)"
proof (induction cs arbitrary: s m)
  case Nil
  then show ?case by simp
next
  case (Cons c cs)
  from upd_returns [OF Cons.prems] obtain s1 where "upd s c = Some s1" "stands_for s1 (m @ c)"
    by blast
  with Cons.IH show ?case by fastforce
qed

text \<open>However the input is cut into pieces, the digest is that of the whole.\<close>

lemma pieces: "map_option fin (update_all upd init cs) = Some (digest (concat cs))"
  using update_all_stands [OF init_stands, of cs] fin_digest by fastforce

end

subsection \<open>The reference digest\<close>

definition sha_pad :: "u8 list \<Rightarrow> u8 list" where
  "sha_pad m = m @ 0x80 # replicate ((119 - length m mod 64) mod 64) 0 @
     length_bytes (8 * word_of_nat (length m))"

definition sha_reference :: "u8 list \<Rightarrow> u32 list" where
  "sha_reference m = foldl Transform (sha_state sha_init) (chunks 64 (sha_pad m))"

definition sha_hex :: "u8 list \<Rightarrow> string" where
  "sha_hex m = concat (map hex_word (sha_reference m))"

lemma concat_chunks: "0 < n \<Longrightarrow> concat (chunks n xs) = xs"
  by (induction n xs rule: chunks.induct) (subst chunks.simps, simp)

lemma chunks_Nil [simp]: "chunks n [] = []"
  by (subst chunks.simps) simp

lemma chunks_full: "length b = n \<Longrightarrow> 0 < n \<Longrightarrow> chunks n (b @ r) = b # chunks n r"
  by (subst chunks.simps) auto

lemma chunks_concat:
  "0 < n \<Longrightarrow> \<forall>b \<in> set bs. length b = n \<Longrightarrow> chunks n (concat bs @ r) = bs @ chunks n r"
  by (induction bs) (simp_all add: chunks_full)

text \<open>The state after the bytes \<open>m\<close>, apart from the byte count.\<close>

definition sha_holds :: "sha256 \<Rightarrow> u8 list \<Rightarrow> bool" where
  "sha_holds s m \<longleftrightarrow> (\<exists>blocks tail. m = concat blocks @ tail \<and>
     (\<forall>b \<in> set blocks. length b = 64) \<and> length tail < 64 \<and>
     sha_state s = foldl Transform (sha_state sha_init) blocks \<and>
     sha_buffer_size s = length tail \<and> length (sha_buffer s) = 64 \<and>
     take (length tail) (sha_buffer s) = tail)"

definition sha_stands :: "sha256 \<Rightarrow> u8 list \<Rightarrow> bool" where
  "sha_stands s m \<longleftrightarrow> sha_holds s m \<and> sha_total_size s = word_of_nat (length m)"

lemma sha_absorb_holds:
  assumes "sha_holds s m"
  shows "sha_holds (sha_absorb s data) (m @ take (sha_chunk s data) data)"
    and "sha_total_size (sha_absorb s data) = sha_total_size s"
    and "data \<noteq> [] \<Longrightarrow> 0 < sha_chunk s data"
proof -
  from assms obtain blocks tail where m: "m = concat blocks @ tail"
    and blk: "\<forall>b \<in> set blocks. length b = 64" and tl: "length tail < 64"
    and st: "sha_state s = foldl Transform (sha_state sha_init) blocks"
    and bs: "sha_buffer_size s = length tail" and bl: "length (sha_buffer s) = 64"
    and tk: "take (length tail) (sha_buffer s) = tail"
    by (auto simp: sha_holds_def)
  define k where "k = sha_chunk s data"
  have k: "k = min (64 - length tail) (length data)"
    using tl bs by (simp add: k_def sha_chunk_def)
  define buf where "buf = tail @ take k data @ drop (length tail + k) (sha_buffer s)"
  have len: "length buf = 64" using k tl bl by (simp add: buf_def)
  have pre: "take (length tail + k) buf = tail @ take k data"
    using k by (simp add: buf_def)
  have ab: "sha_absorb s data =
      (if length tail + k = 64
       then s\<lparr>sha_buffer := buf, sha_state := Transform (sha_state s) buf, sha_buffer_size := 0\<rparr>
       else s\<lparr>sha_buffer := buf, sha_buffer_size := length tail + k\<rparr>)"
    by (simp add: sha_absorb_def k_def [symmetric] bs tk buf_def Let_def)
  show "sha_total_size (sha_absorb s data) = sha_total_size s" by (simp add: ab)
  show "data \<noteq> [] \<Longrightarrow> 0 < sha_chunk s data" using k tl by (simp add: k_def [symmetric])
  have "sha_holds (sha_absorb s data) (m @ take k data)"
  proof (cases "length tail + k = 64")
    case True
    with pre len have "buf = tail @ take k data" by simp
    then have "m @ take k data = concat (blocks @ [buf]) @ []" by (simp add: m)
    moreover have "\<forall>b \<in> set (blocks @ [buf]). length b = 64" using blk len by simp
    ultimately show ?thesis
      unfolding sha_holds_def using True len
      by (intro exI [of _ "blocks @ [buf]"] exI [of _ "[]"]) (simp add: ab st)
  next
    case False
    then have "length (tail @ take k data) < 64" using k tl by simp
    then show ?thesis
      unfolding sha_holds_def using False len blk pre k
      by (intro exI [of _ blocks] exI [of _ "tail @ take k data"]) (simp add: ab st m)
  qed
  then show "sha_holds (sha_absorb s data) (m @ take (sha_chunk s data) data)"
    by (simp add: k_def)
qed

lemma update_loop_holds:
  "sha_holds s m \<Longrightarrow> \<exists>s'. update_loop s data = Some s' \<and> sha_holds s' (m @ data) \<and>
     sha_total_size s' = sha_total_size s"
proof (induction data arbitrary: s m rule: length_induct)
  case (1 data)
  show ?case
  proof (cases "data = []")
    case True
    with 1 show ?thesis by (simp add: update_loop.simps)
  next
    case False
    let ?k = "sha_chunk s data" and ?s1 = "sha_absorb s data"
    note ab = sha_absorb_holds [OF "1.prems", of data]
    have "length (drop ?k data) < length data" using False ab(3) by simp
    with 1 ab(1) obtain s' where "update_loop ?s1 (drop ?k data) = Some s'"
      "sha_holds s' ((m @ take ?k data) @ drop ?k data)" "sha_total_size s' = sha_total_size ?s1"
      by blast
    with False ab(2) show ?thesis by (subst update_loop.simps) simp
  qed
qed

lemma Update_returns:
  assumes "sha_stands s m"
  shows "\<exists>s'. Update s data = Some s' \<and> sha_stands s' (m @ data)"
proof -
  let ?s = "s\<lparr>sha_total_size := sha_total_size s + word_of_nat (length data)\<rparr>"
  have "sha_holds ?s m" using assms by (simp add: sha_stands_def sha_holds_def)
  then obtain s' where "update_loop ?s data = Some s'" "sha_holds s' (m @ data)"
    "sha_total_size s' = sha_total_size ?s"
    using update_loop_holds by blast
  then show ?thesis using assms by (simp add: Update_def sha_stands_def)
qed

lemma length_length_bytes [simp]: "length (length_bytes n) = 8"
  by (simp add: length_bytes_def)

lemma final_state_reference:
  assumes "sha_stands s m"
  shows "final_state s = sha_reference m"
proof -
  from assms obtain blocks tail where m: "m = concat blocks @ tail"
    and blk: "\<forall>b \<in> set blocks. length b = 64" and tl: "length tail < 64"
    and st: "sha_state s = foldl Transform (sha_state sha_init) blocks"
    and bs: "sha_buffer_size s = length tail" and bl: "length (sha_buffer s) = 64"
    and tk: "take (length tail) (sha_buffer s) = tail"
    and tot: "sha_total_size s = word_of_nat (length m)"
    by (auto simp: sha_holds_def sha_stands_def)
  let ?n = "length tail" and ?L = "length_bytes (8 * word_of_nat (length m))"
  have len_blocks: "length (concat blocks) = 64 * length blocks"
    using blk by (induction blocks) auto
  have md: "length m mod 64 = ?n" using tl by (simp add: m len_blocks)
  have mark: "take (Suc ?n) ((sha_buffer s)[?n := 0x80]) = tail @ [0x80]"
    using tl bl tk by (simp add: take_Suc_conv_app_nth)
  have pad: "sha_pad m = concat blocks @ (tail @ 0x80 # replicate ((119 - ?n) mod 64) 0 @ ?L)"
    by (simp add: sha_pad_def md) (simp add: m)
  have ref: "sha_reference m = foldl Transform (sha_state s)
      (chunks 64 (tail @ 0x80 # replicate ((119 - ?n) mod 64) 0 @ ?L))"
    by (simp add: sha_reference_def pad chunks_concat blk st)
  show ?thesis
  proof (cases "?n \<le> 55")
    case True
    then have z: "(119 - ?n) mod 64 = 55 - ?n" by (simp add: mod_if)
    have "chunks 64 (tail @ 0x80 # replicate (55 - ?n) 0 @ ?L) =
        [tail @ 0x80 # replicate (55 - ?n) 0 @ ?L]"
      using True chunks_full [of "tail @ 0x80 # replicate (55 - ?n) 0 @ ?L" 64 "[]"] by simp
    then show ?thesis using True mark
      by (simp add: ref z final_state_def bs tot Let_def mult.commute)
  next
    case False
    then have z: "(119 - ?n) mod 64 = (63 - ?n) + 56" using tl by (simp add: mod_if)
    let ?b1 = "tail @ 0x80 # replicate (63 - ?n) 0" and ?b2 = "replicate 56 0 @ ?L"
    have "chunks 64 (?b1 @ ?b2 @ []) = [?b1, ?b2]"
      using False tl by (subst chunks_full, simp, simp, subst chunks_full, simp_all)
    then have "sha_reference m = Transform (Transform (sha_state s) ?b1) ?b2"
      unfolding ref z replicate_add by simp
    then show ?thesis using False mark
      by (simp add: final_state_def bs tot Let_def mult.commute)
  qed
qed

interpretation sha: stream_digest sha_init Update FinalHex sha_stands sha_hex
proof unfold_locales
  show "sha_stands sha_init []"
    by (simp add: sha_stands_def sha_holds_def sha_init_def)
       (intro exI [of _ "[]"], simp)
next
  fix s m d
  assume "sha_stands s m"
  then show "\<exists>s'. Update s d = Some s' \<and> sha_stands s' (m @ d)" by (rule Update_returns)
next
  fix s m
  assume "sha_stands s m"
  then show "FinalHex s = sha_hex m" by (simp add: FinalHex_def sha_hex_def final_state_reference)
qed

lemma Sha256Text_eq: "Sha256Text t = Some (sha_hex (bytes_of t))"
  unfolding Sha256Text_def by (rule sha.one_call)

lemma Sha256File_eq: "Sha256File t = Some (sha_hex (bytes_of t))"
  unfolding Sha256File_def by (simp add: sha.pieces concat_chunks)

subsection \<open>The shape of a digest\<close>

lemma length_round_step: "length (round_step w i vs) = length vs"
  by (cases "(w, i, vs)" rule: round_step.cases) (simp_all add: Let_def)

lemma length_Transform: "length (Transform st c) = length st"
proof -
  have "length (fold (round_step w) is vs) = length vs" for w "is" vs
    by (induction "is" arbitrary: vs) (simp_all add: length_round_step)
  then show ?thesis by (simp add: Transform_def)
qed

lemma length_hex_word: "length (hex_word w) = 8"
proof -
  have "unat w < 16 ^ 8" using unsigned_less [of w] by simp
  then have "length (radix 16 (unat w)) \<le> 8" by (intro length_radix_le) simp_all
  then show ?thesis by (simp add: hex_word_def pad_left_def)
qed

lemma digit_char_lower_hex: "d < 16 \<Longrightarrow> is_lower_hex (digit_char d)"
  by (cases "d < 10")
     (simp_all add: digit_char_def is_lower_hex_def is_digit_def less_eq_char_def take_bit_eq_mod)

lemma hex_word_chars: "c \<in> set (hex_word w) \<Longrightarrow> is_lower_hex c"
proof -
  have "is_lower_hex CHR ''0''" by code_simp
  then show "c \<in> set (hex_word w) \<Longrightarrow> is_lower_hex c"
    by (auto simp: hex_word_def pad_left_def elim!: render_chars [rotated] intro: digit_char_lower_hex)
qed

lemma sha_hex_length: "length (sha_hex m) = 64"
proof -
  have "length (foldl Transform st cs) = length st" for st cs
    by (induction cs arbitrary: st) (simp_all add: length_Transform)
  then have "length (sha_reference m) = 8" by (simp add: sha_reference_def sha_init_def)
  moreover have "length (concat (map hex_word ws)) = 8 * length ws" for ws
    by (induction ws) (simp_all add: length_hex_word)
  ultimately show ?thesis by (simp add: sha_hex_def)
qed
lemma sha_hex_format: "rx_match Sha256Regex (sha_hex m)"
  by (auto simp: Sha256Regex_def sha_hex_length) (auto simp: sha_hex_def intro: hex_word_chars)
end
