(* ===== verification/Paths.thy ===== *)
theory Paths
  imports Text
begin

section \<open>Lexical paths\<close>

text \<open>
  The lexical operations of \<open>std::filesystem::path\<close> (POSIX) that the sources use, on the native
  text of a path: \<open>operator/\<close>, \<open>parent_path\<close>, \<open>filename\<close>, \<open>lexically_normal\<close>,
  \<open>lexically_relative\<close>; the function \<open>CanonicalAbsolutePath\<close> of \<open>src/PafioCore/Paths.cpp\<close>, the
  layout functions built on it, and the containment tests \<open>PathIsWithin\<close> (resolver) and
  \<open>IsRelativePathPrefix\<close> (packer).  The current directory is an argument; \<open>absolute\<close> of the empty
  path, on which the library throws, is read as the current directory.
\<close>

subsection \<open>Operations of the standard library\<close>

abbreviation slash :: char where "slash \<equiv> CHR ''/''"

definition is_absolute :: "string \<Rightarrow> bool" where
  "is_absolute p \<longleftrightarrow> p \<noteq> [] \<and> hd p = slash"

text \<open>The names between separators.\<close>

definition comps :: "string \<Rightarrow> string list" where
  "comps p = filter (\<lambda>c. c \<noteq> []) (split_on slash p)"

definition path_append :: "string \<Rightarrow> string \<Rightarrow> string" where
  "path_append a b =
     (if is_absolute b then b
      else if a \<noteq> [] \<and> last a \<noteq> slash then a @ ''/'' @ b else a @ b)"

definition filename :: "string \<Rightarrow> string" where
  "filename p = last (split_on slash p)"

definition parent_path :: "string \<Rightarrow> string" where
  "parent_path p =
     (if list_all (\<lambda>c. c = slash) p then p
      else let dir = take (length p - length (filename p)) p;
               stripped = pop_back_while (\<lambda>c. c = slash) dir
           in if dir \<noteq> [] \<and> stripped = [] then ''/'' else stripped)"

text \<open>
  \<open>lexically_normal\<close>: the names in order, a dot dropped, a dot-dot removing the name before it
  (kept at the front of a relative path, dropped at the root); a separator stays at the end when
  the path ends in one or in a removed dot or dot-dot.
\<close>

definition norm_step :: "bool \<Rightarrow> string list \<Rightarrow> string \<Rightarrow> string list" where
  "norm_step root stack c =
     (if c = ''.'' then stack
      else if c = ''..'' then
        (if stack \<noteq> [] \<and> last stack \<noteq> ''..'' then butlast stack
         else if root then stack else stack @ [''..''])
      else stack @ [c])"

definition norm_comps :: "string \<Rightarrow> string list" where
  "norm_comps p = foldl (norm_step (is_absolute p)) [] (comps p)"

definition ends_as_dir :: "string \<Rightarrow> bool" where
  "ends_as_dir p \<longleftrightarrow> (p \<noteq> [] \<and> last p = slash) \<or>
     (comps p \<noteq> [] \<and> (last (comps p) = ''.'' \<or> last (comps p) = ''..''))"

definition unparse_path :: "bool \<Rightarrow> string list \<Rightarrow> bool \<Rightarrow> string" where
  "unparse_path root cs dir =
     (if root then ''/'' else []) @ join ''/'' cs @ (if dir \<and> cs \<noteq> [] \<and> last cs \<noteq> ''..'' then ''/'' else [])"

definition lexically_normal :: "string \<Rightarrow> string" where
  "lexically_normal p =
     (if p = [] then []
      else let r = unparse_path (is_absolute p) (norm_comps p) (ends_as_dir p)
           in if r = [] then ''.'' else r)"

definition absolute :: "string \<Rightarrow> string \<Rightarrow> string" where
  "absolute cwd p = (if is_absolute p then p else path_append cwd p)"

text \<open>The elements a path iterates over: the root, the names, and an empty one after a last separator.\<close>

definition elements :: "string \<Rightarrow> string list" where
  "elements p = (if is_absolute p then [''/''] else []) @ comps p @
     (if comps p \<noteq> [] \<and> last p = slash then [[]] else [])"

fun strip_common :: "'a list \<Rightarrow> 'a list \<Rightarrow> 'a list \<times> 'a list" where
  "strip_common (x # xs) (y # ys) = (if x = y then strip_common xs ys else (x # xs, y # ys))"
| "strip_common xs ys = (xs, ys)"

definition lexically_relative :: "string \<Rightarrow> string \<Rightarrow> string" where
  "lexically_relative p base =
     (if is_absolute p \<noteq> is_absolute base then []
      else let (a, b) = strip_common (elements p) (elements base) in
        if a = [] \<and> b = [] then ''.''
        else let ups = int (length (filter (\<lambda>c. c \<noteq> [] \<and> c \<noteq> ''.'' \<and> c \<noteq> ''..'') b))
                     - int (length (filter (\<lambda>c. c = ''..'') b))
        in if ups < 0 then []
           else if ups = 0 \<and> (a = [] \<or> hd a = []) then ''.''
           else foldl path_append [] (replicate (nat ups) ''..'' @ a))"

subsection \<open>Functions of the sources\<close>

definition CanonicalAbsolutePath :: "string \<Rightarrow> string \<Rightarrow> string" where
  "CanonicalAbsolutePath cwd p = lexically_normal (absolute cwd p)"

text \<open>\<open>PathIsWithin\<close> of the resolver.\<close>

definition PathIsWithin :: "string \<Rightarrow> string \<Rightarrow> string \<Rightarrow> bool" where
  "PathIsWithin cwd candidate root =
     (let text = lexically_relative (CanonicalAbsolutePath cwd candidate) (CanonicalAbsolutePath cwd root)
      in text \<noteq> [] \<and> text \<noteq> ''..'' \<and> \<not> starts_with text ''../'')"

text \<open>\<open>IsRelativePathPrefix\<close> and \<open>IsUnderRoot\<close> of the packer.\<close>

definition IsRelativePathPrefix :: "string \<Rightarrow> string \<Rightarrow> bool" where
  "IsRelativePathPrefix candidate base =
     (let text = lexically_relative candidate base
      in text \<noteq> [] \<and> (text = ''.'' \<or> (text \<noteq> ''..'' \<and> \<not> starts_with text ''../'')))"

definition IsUnderRoot :: "string \<Rightarrow> string \<Rightarrow> string \<Rightarrow> bool" where
  "IsUnderRoot cwd candidate root =
     IsRelativePathPrefix (CanonicalAbsolutePath cwd candidate) (CanonicalAbsolutePath cwd root)"

subsection \<open>Names of a path\<close>

definition proper_name :: "string \<Rightarrow> bool" where
  "proper_name c \<longleftrightarrow> c \<noteq> [] \<and> slash \<notin> set c \<and> c \<noteq> ''.'' \<and> c \<noteq> ''..''"

definition plain_name :: "string \<Rightarrow> bool" where
  "plain_name c \<longleftrightarrow> c \<noteq> [] \<and> slash \<notin> set c"

lemma comps_plain: "c \<in> set (comps p) \<Longrightarrow> plain_name c"
  by (auto simp: comps_def plain_name_def dest: split_on_parts)

lemma comps_Nil [simp]: "comps [] = []"
  by (simp add: comps_def)

lemma comps_slash [simp]: "comps (slash # p) = comps p"
  by (simp add: comps_def)

lemma comps_name: "plain_name c \<Longrightarrow> comps c = [c]"
  by (simp add: comps_def plain_name_def split_on_no_sep)

lemma comps_name_append: "plain_name c \<Longrightarrow> comps (c @ slash # p) = c # comps p"
  by (simp add: comps_def plain_name_def split_on_append)

lemma comps_join:
  "\<forall>c \<in> set cs. plain_name c \<Longrightarrow> comps (join ''/'' cs) = cs"
  "\<forall>c \<in> set cs. plain_name c \<Longrightarrow> cs \<noteq> [] \<Longrightarrow> comps (join ''/'' cs @ ''/'') = cs"
  by (induction "''/''" cs rule: join.induct) (simp_all add: comps_name comps_name_append)

lemma split_on_append_sep: "split_on d (a @ d # b) = split_on d a @ split_on d b"
proof (induction a)
  case Nil
  then show ?case by simp
next
  case (Cons c a)
  obtain q qs where "split_on d a = q # qs" by (cases "split_on d a") auto
  with Cons show ?case by simp
qed

lemma comps_append_sep: "comps (a @ slash # b) = comps a @ comps b"
  by (simp add: comps_def split_on_append_sep)

lemma comps_path_append:
  "\<not> is_absolute b \<Longrightarrow> comps (path_append a b) = comps a @ comps b"
proof -
  assume b: "\<not> is_absolute b"
  show ?thesis
  proof (cases "a \<noteq> [] \<and> last a \<noteq> slash")
    case True
    with b show ?thesis by (simp add: path_append_def comps_append_sep)
  next
    case False
    show ?thesis
    proof (cases "a = []")
      case True
      with b show ?thesis by (simp add: path_append_def)
    next
      case ne: False
      with False obtain a' where a: "a = a' @ [slash]"
        by (metis append_butlast_last_id)
      then have "comps a = comps a'" using comps_append_sep [of a' "[]"] by simp
      with b False a show ?thesis
        using comps_append_sep [of a' b] by (simp add: path_append_def)
    qed
  qed
qed

subsection \<open>Normal absolute paths\<close>

text \<open>The paths \<open>CanonicalAbsolutePath\<close> produces: the root, proper names, perhaps a last separator.\<close>

definition normal_abs :: "string \<Rightarrow> bool" where
  "normal_abs p \<longleftrightarrow> (\<exists>cs dir. p = unparse_path True cs dir \<and> (\<forall>c \<in> set cs. proper_name c))"

lemma proper_plain [simp]: "proper_name c \<Longrightarrow> plain_name c"
  by (simp add: proper_name_def plain_name_def)

lemma norm_step_proper:
  "\<forall>c \<in> set st. proper_name c \<Longrightarrow> plain_name c' \<Longrightarrow> \<forall>c \<in> set (norm_step True st c'). proper_name c"
  by (auto simp: norm_step_def proper_name_def plain_name_def dest: in_set_butlastD)

lemma norm_foldl_proper:
  "\<forall>c \<in> set st. proper_name c \<Longrightarrow> \<forall>c \<in> set cs. plain_name c \<Longrightarrow>
   \<forall>c \<in> set (foldl (norm_step True) st cs). proper_name c"
proof (induction cs arbitrary: st)
  case Nil
  then show ?case by simp
next
  case (Cons a cs)
  then have "plain_name a" and "\<forall>c \<in> set cs. plain_name c" by auto
  with Cons.prems(1) show ?case
    unfolding foldl_Cons by (intro Cons.IH norm_step_proper)
qed

lemma norm_comps_proper: "is_absolute p \<Longrightarrow> c \<in> set (norm_comps p) \<Longrightarrow> proper_name c"
  using norm_foldl_proper [of "[]" "comps p"] by (simp add: norm_comps_def comps_plain)

lemma norm_foldl_id: "\<forall>c \<in> set cs. proper_name c \<Longrightarrow> foldl (norm_step r) st cs = st @ cs"
  by (induction cs arbitrary: st) (auto simp: norm_step_def proper_name_def)

lemma unparse_simps [simp]:
  "is_absolute (unparse_path True cs dir)"
  "unparse_path True cs dir \<noteq> []"
  by (simp_all add: unparse_path_def is_absolute_def)

lemma comps_unparse:
  "\<forall>c \<in> set cs. plain_name c \<Longrightarrow> comps (unparse_path True cs dir) = cs"
  by (cases "cs = []") (simp_all add: unparse_path_def comps_join)

lemma last_join: "cs \<noteq> [] \<Longrightarrow> last cs \<noteq> [] \<Longrightarrow> last (join sep cs) = last (last cs) \<and> join sep cs \<noteq> []"
  by (induction sep cs rule: join.induct) (auto split: if_splits)

lemma ends_as_dir_unparse:
  assumes "\<forall>c \<in> set cs. proper_name c" and "cs \<noteq> []"
  shows "ends_as_dir (unparse_path True cs dir) = dir"
proof -
  have l: "proper_name (last cs)" using assms by simp
  then have "last cs \<noteq> []" "last (last cs) \<noteq> slash" "last cs \<noteq> ''..''" "last cs \<noteq> ''.''"
    by (auto simp: proper_name_def dest: last_in_set)
  moreover have "comps (unparse_path True cs dir) = cs"
    using assms(1) by (intro comps_unparse) simp
  ultimately show ?thesis
    using assms(2) last_join [of cs "''/''"] by (simp add: ends_as_dir_def unparse_path_def)
qed

lemma lexically_normal_normal:
  assumes "normal_abs p"
  shows "lexically_normal p = p"
proof -
  from assms obtain cs dir where p: "p = unparse_path True cs dir" and cs: "\<forall>c \<in> set cs. proper_name c"
    by (auto simp: normal_abs_def)
  have "norm_comps p = cs"
    using cs by (simp add: norm_comps_def p comps_unparse norm_foldl_id)
  moreover have "unparse_path True cs (ends_as_dir p) = p"
    using ends_as_dir_unparse [OF cs] by (cases "cs = []") (simp_all add: p unparse_path_def)
  ultimately show ?thesis by (simp add: lexically_normal_def p)
qed

lemma lexically_normal_abs:
  assumes "is_absolute p"
  shows "normal_abs (lexically_normal p)" and "comps (lexically_normal p) = norm_comps p"
proof -
  have "p \<noteq> []" using assms by (auto simp: is_absolute_def)
  then have e: "lexically_normal p = unparse_path True (norm_comps p) (ends_as_dir p)"
    using assms by (simp add: lexically_normal_def)
  show "normal_abs (lexically_normal p)"
    unfolding e normal_abs_def using norm_comps_proper [OF assms] by blast
  show "comps (lexically_normal p) = norm_comps p"
    unfolding e using norm_comps_proper [OF assms] by (intro comps_unparse) simp
qed

lemma normal_abs_is_absolute [simp]: "normal_abs p \<Longrightarrow> is_absolute p"
  by (auto simp: normal_abs_def)

lemma normal_abs_comps: "normal_abs p \<Longrightarrow> c \<in> set (comps p) \<Longrightarrow> proper_name c"
  by (auto simp: normal_abs_def comps_unparse)

lemma absolute_is_absolute: "is_absolute cwd \<Longrightarrow> is_absolute (absolute cwd p)"
  by (auto simp: absolute_def path_append_def is_absolute_def)

lemma canonical_normal: "is_absolute cwd \<Longrightarrow> normal_abs (CanonicalAbsolutePath cwd p)"
  by (simp add: CanonicalAbsolutePath_def lexically_normal_abs absolute_is_absolute)

lemma canonical_of_normal: "normal_abs p \<Longrightarrow> CanonicalAbsolutePath cwd p = p"
  by (simp add: CanonicalAbsolutePath_def absolute_def lexically_normal_normal)

lemma canonical_idem:
  "is_absolute cwd \<Longrightarrow> CanonicalAbsolutePath cwd (CanonicalAbsolutePath cwd p) = CanonicalAbsolutePath cwd p"
  by (simp add: canonical_of_normal canonical_normal)


subsection \<open>Containment\<close>

lemma strip_common_append: "strip_common (z @ u) (z @ v) = strip_common u v"
  by (induction z) auto

lemma strip_common_split: "strip_common xs ys = (a, b) \<Longrightarrow> \<exists>z. xs = z @ a \<and> ys = z @ b"
  by (induction xs ys rule: strip_common.induct) (auto split: if_splits intro: exI [of _ "_ # _"])

lemma elements_normal:
  assumes "normal_abs p"
  obtains t where "elements p = ''/'' # comps p @ t" and "t = [] \<or> t = [[]]"
  using assms by (auto simp: elements_def split: if_splits)

lemma foldl_path_append_comps:
  "\<forall>x \<in> set xs. \<not> is_absolute x \<Longrightarrow> comps (foldl path_append u xs) = comps u @ concat (map comps xs)"
  by (induction xs arbitrary: u) (simp_all add: comps_path_append)

lemma foldl_path_append_grows:
  "\<forall>x \<in> set xs. \<not> is_absolute x \<Longrightarrow> u \<noteq> [] \<Longrightarrow> last u \<noteq> slash \<Longrightarrow>
   foldl path_append u xs = u \<or> (\<exists>t. foldl path_append u xs = u @ slash # t)"
proof (induction xs rule: rev_induct)
  case Nil
  then show ?case by simp
next
  case (snoc x xs)
  then show ?case by (auto simp: path_append_def)
qed

definition climbs :: "string \<Rightarrow> bool" where
  "climbs text \<longleftrightarrow> text = [] \<or> text = ''..'' \<or> starts_with text ''../''"

lemma climbs_comps: "climbs text \<Longrightarrow> text = [] \<or> (\<exists>cs. comps text = ''..'' # cs)"
proof -
  assume "climbs text"
  then consider "text = []" | "text = ''..''" | t where "text = ''..'' @ slash # t"
    by (auto simp: climbs_def starts_with_iff)
  then show ?thesis
    by cases (simp_all add: comps_name comps_name_append plain_name_def del: append.simps)
qed

lemma relative_inside:
  assumes d: "\<forall>c \<in> set d. proper_name c" and t: "t = [] \<or> t = [[]]" and t': "t' = [] \<or> t' = [[]]"
    and ab: "strip_common (d @ t) t' = (a, b)"
  shows "(a = [] \<and> b = []) \<or> (filter (\<lambda>c. c \<noteq> []) b = [] \<and>
     (a = [] \<or> hd a = [] \<or> \<not> climbs (foldl path_append [] a)))"
proof (cases d)
  case Nil
  with t t' ab show ?thesis by auto
next
  case (Cons x d')
  with d have x: "proper_name x" by simp
  with t' ab Cons have "a = d @ t" and b: "filter (\<lambda>c. c \<noteq> []) b = []"
    by (auto simp: proper_name_def)
  have na: "\<forall>y \<in> set a. \<not> is_absolute y"
    using d t \<open>a = d @ t\<close> by (fastforce simp: is_absolute_def proper_name_def dest: hd_in_set)
  have "comps (foldl path_append [] a) = comps x @ concat (map comps (d' @ t))"
    using foldl_path_append_comps [OF na, of "[]"] by (simp add: \<open>a = d @ t\<close> Cons)
  then have "\<exists>cs. comps (foldl path_append [] a) = x # cs"
    using x by (simp add: comps_name)
  then have "\<not> climbs (foldl path_append [] a)"
    using x climbs_comps by (fastforce simp: proper_name_def)
  with b show ?thesis by blast
qed

lemma climbs_relative_iff:
  assumes "normal_abs p" and "normal_abs r"
  shows "\<not> climbs (lexically_relative p r) \<longleftrightarrow> prefix (comps r) (comps p)"
proof -
  obtain tp where ep: "elements p = ''/'' # comps p @ tp" and tp: "tp = [] \<or> tp = [[]]"
    by (rule elements_normal [OF assms(1)])
  obtain tr where er: "elements r = ''/'' # comps r @ tr" and tr: "tr = [] \<or> tr = [[]]"
    by (rule elements_normal [OF assms(2)])
  obtain a b where ab: "strip_common (comps p @ tp) (comps r @ tr) = (a, b)" by fastforce
  obtain z where z: "comps p @ tp = z @ a" "comps r @ tr = z @ b"
    using strip_common_split [OF ab] by blast
  let ?F = "filter (\<lambda>c. c \<noteq> [])"
  have F: "?F (comps q @ t) = comps q" if "normal_abs q" "t = [] \<or> t = [[]]" for q t
    using that normal_abs_comps [OF that(1)] by (auto simp: proper_name_def intro!: filter_True)
  have cp: "comps p = ?F z @ ?F a" and cr: "comps r = ?F z @ ?F b"
    using F [OF assms(1) tp] F [OF assms(2) tr] z by (metis filter_append)+
  have propb: "proper_name c" if "c \<in> set (?F b)" for c
    using that cr normal_abs_comps [OF assms(2)] by simp
  have ups: "filter (\<lambda>c. c \<noteq> [] \<and> c \<noteq> ''.'' \<and> c \<noteq> ''..'') b = ?F b" "filter (\<lambda>c. c = ''..'') b = []"
    using propb by (auto simp: proper_name_def filter_empty_conv intro!: filter_cong)
  have na: "\<forall>y \<in> set a. \<not> is_absolute y"
  proof
    fix y assume "y \<in> set a"
    then have "y \<in> set (comps p @ tp)" using z(1) by simp
    then show "\<not> is_absolute y"
      using tp normal_abs_comps [OF assms(1), of y]
      by (auto simp: is_absolute_def proper_name_def dest: hd_in_set)
  qed
  have rel: "lexically_relative p r =
      (if a = [] \<and> b = [] \<or> ?F b = [] \<and> (a = [] \<or> hd a = []) then ''.''
       else foldl path_append [] (replicate (length (?F b)) ''..'' @ a))"
    using assms by (auto simp: lexically_relative_def ep er ab ups Let_def)
  show ?thesis
  proof (cases "prefix (comps r) (comps p)")
    case True
    then obtain d where d: "comps p = comps r @ d" by (auto simp: prefix_def)
    then have "strip_common (d @ tp) tr = (a, b)"
      using ab by (simp add: strip_common_append)
    moreover have "\<forall>c \<in> set d. proper_name c"
      using d normal_abs_comps [OF assms(1)] by simp
    ultimately have "(a = [] \<and> b = []) \<or> (?F b = [] \<and>
        (a = [] \<or> hd a = [] \<or> \<not> climbs (foldl path_append [] a)))"
      using relative_inside tp tr by blast
    moreover have "\<not> climbs ''.''" by (simp add: climbs_def starts_with_def)
    ultimately have "\<not> climbs (lexically_relative p r)" by (auto simp: rel)
    with True show ?thesis by simp
  next
    case False
    then have "?F b \<noteq> []" using cp cr by auto
    then obtain n where n: "length (?F b) = Suc n" by (cases "?F b") auto
    have "\<forall>y \<in> set (replicate n ''..'' @ a). \<not> is_absolute y"
      using na by (auto simp: is_absolute_def)
    then have "climbs (foldl path_append ''..'' (replicate n ''..'' @ a))"
      using foldl_path_append_grows [of "replicate n ''..'' @ a" "''..''"]
      by (auto simp: climbs_def starts_with_def)
    moreover have "lexically_relative p r = foldl path_append ''..'' (replicate n ''..'' @ a)"
      using \<open>?F b \<noteq> []\<close> n by (auto simp: rel path_append_def is_absolute_def)
    ultimately show ?thesis using False by simp
  qed
qed

text \<open>Both containment tests decide whether the names of the root are a prefix of the candidate's.\<close>

lemma PathIsWithin_iff:
  assumes "is_absolute cwd"
  shows "PathIsWithin cwd candidate root \<longleftrightarrow>
    prefix (comps (CanonicalAbsolutePath cwd root)) (comps (CanonicalAbsolutePath cwd candidate))"
  using climbs_relative_iff [OF canonical_normal canonical_normal, OF assms assms, of candidate root]
  by (simp add: PathIsWithin_def climbs_def Let_def)

lemma IsUnderRoot_iff_PathIsWithin: "IsUnderRoot cwd candidate root \<longleftrightarrow> PathIsWithin cwd candidate root"
  by (auto simp: IsUnderRoot_def IsRelativePathPrefix_def PathIsWithin_def Let_def starts_with_def)

text \<open>Appending proper names to a path appends them to its canonical names.\<close>

lemma canonical_append:
  assumes "is_absolute cwd" and "\<not> is_absolute q" and "\<forall>c \<in> set (comps q). proper_name c"
  shows "comps (CanonicalAbsolutePath cwd (path_append root q)) = comps (CanonicalAbsolutePath cwd root) @ comps q"
proof -
  have norm: "comps (CanonicalAbsolutePath cwd x) = norm_comps (absolute cwd x)" "is_absolute (absolute cwd x)" for x
    using absolute_is_absolute [OF assms(1)] by (simp_all add: CanonicalAbsolutePath_def lexically_normal_abs)
  have "comps (absolute cwd (path_append root q)) = comps (absolute cwd root) @ comps q"
  proof (cases "is_absolute root")
    case True
    then have "is_absolute (path_append root q)" using assms(2) by (auto simp: path_append_def is_absolute_def)
    with True show ?thesis by (simp add: absolute_def comps_path_append [OF assms(2)])
  next
    case False
    then have "\<not> is_absolute (path_append root q)"
      using assms(2) by (cases root) (auto simp: path_append_def is_absolute_def)
    with False show ?thesis by (simp add: absolute_def comps_path_append assms(2))
  qed
  then show ?thesis
    unfolding norm(1) norm_comps_def using norm(2) norm_foldl_id [OF assms(3)] by simp
qed

end
