(* ===== verification/World.thy ===== *)
theory World
  imports Paths "HOL-Library.AList"
begin

section \<open>The world the program runs in\<close>

text \<open>
  File system, environment and child processes, as far as the sources use them.  The file system
  is a finite list of nodes keyed by the names of a normal absolute path; permissions are a
  predicate of the environment; symbolic links are opaque nodes that are never followed.  Child
  processes (\<open>git\<close>, \<open>tar\<close>, \<open>curl\<close>, \<open>cmake\<close>, the compiler) and the TOML library toml++ are not part of
  the repository: they are fields of the environment record \<open>env\<close>, an argument of every definition
  that uses them.  Also here: the pure part of \<open>src/PafioCore/Process.cpp\<close> and the layout functions
  of \<open>src/PafioCore/Paths.cpp\<close>.
\<close>

subsection \<open>TOML documents\<close>

text \<open>
  The data model of a TOML document as toml++ presents it; a table lists its entries in the order
  the library iterates.  The conversions \<open>value<T>()\<close> and the parser belong to the library.
\<close>

datatype toml =
    TString string
  | TInteger int
  | TFloat string
  | TBoolean bool
  | TDateTime string
  | TArray "toml list"
  | TTable "(string \<times> toml) list"

type_synonym toml_table = "(string \<times> toml) list"

record toml_api =
  toml_parse :: "string \<Rightarrow> string + toml_table"
  toml_open_error :: string
  toml_string :: "toml \<Rightarrow> string option"
  toml_bool :: "toml \<Rightarrow> bool option"
  toml_int64 :: "toml \<Rightarrow> int option"

text \<open>What the documentation of \<open>value<T>()\<close> says of a node that holds a value of that type.\<close>

definition toml_values_ok :: "toml_api \<Rightarrow> bool" where
  "toml_values_ok api \<longleftrightarrow> (\<forall>s. toml_string api (TString s) = Some s) \<and>
     (\<forall>b. toml_bool api (TBoolean b) = Some b) \<and> (\<forall>i. toml_int64 api (TInteger i) = Some i)"

definition as_table :: "toml option \<Rightarrow> toml_table option" where
  "as_table n = (case n of Some (TTable t) \<Rightarrow> Some t | _ \<Rightarrow> None)"

definition as_array :: "toml option \<Rightarrow> toml list option" where
  "as_array n = (case n of Some (TArray a) \<Rightarrow> Some a | _ \<Rightarrow> None)"

definition table_contains :: "toml_table \<Rightarrow> string \<Rightarrow> bool" where
  "table_contains t key \<longleftrightarrow> map_of t key \<noteq> None"

subsection \<open>JSON values\<close>

text \<open>
  The values of nlohmann::json.  An object is a \<open>std::map\<close>: its entries are listed by increasing
  key.  \<open>operator[]\<close> on an object inserts or overwrites (\<open>jput\<close>); an initializer list keeps the first
  entry of a key (\<open>jobject\<close>).  The parser, the stream operator \<open>>>\<close> (which stops after one
  value), the value of a float as an integer, and \<open>dump\<close>, which throws on a string that is not UTF-8, are the library's.
\<close>

datatype json =
    JNull
  | JBool bool
  | JInt int
  | JFloat string
  | JString string
  | JArray "json list"
  | JObject "(string \<times> json) list"

fun jput :: "string \<Rightarrow> json \<Rightarrow> (string \<times> json) list \<Rightarrow> (string \<times> json) list" where
  "jput k v [] = [(k, v)]"
| "jput k v ((k', v') # kvs) =
     (if k = k' then (k, v) # kvs else if k < k' then (k, v) # (k', v') # kvs else (k', v') # jput k v kvs)"

definition jobject :: "(string \<times> json) list \<Rightarrow> json" where
  "jobject kvs = JObject (foldr (\<lambda>(k, v). jput k v) kvs [])"

definition jget :: "string \<Rightarrow> json \<Rightarrow> json option" where
  "jget k j = (case j of JObject kvs \<Rightarrow> map_of kvs k | _ \<Rightarrow> None)"

lemma map_of_jput [simp]: "map_of (jput k v kvs) = (map_of kvs)(k \<mapsto> v)"
  by (induction kvs rule: jput.induct [where ?a0.0 = k and ?a1.0 = v]) (auto simp: fun_eq_iff)

lemma jget_jobject [simp]: "jget k (jobject kvs) = map_of kvs k"
proof -
  have "map_of (foldr (\<lambda>(k, v). jput k v) kvs []) = map_of kvs"
    by (induction kvs) (auto simp: fun_eq_iff)
  then show ?thesis by (simp add: jget_def jobject_def)
qed

record json_api =
  json_dump :: "int \<Rightarrow> json \<Rightarrow> string + string"
  json_parse :: "string \<Rightarrow> string + json"
  json_trunc :: "string \<Rightarrow> int"
  json_stream :: "string \<Rightarrow> string + json"

subsection \<open>File system, processes, environment\<close>

datatype node = File string | Dir | Symlink | Special

type_synonym fs = "(string list \<times> node) list"

record process_request =
  pr_program :: string
  pr_args :: "string list"
  pr_workdir :: "string option"
  pr_search_path :: bool
  pr_timeout_ms :: int
  pr_context :: string

record process_result =
  exit_code :: int
  terminated_by_signal :: bool
  signal_number :: int
  timed_out :: bool
  stdout_truncated :: bool
  stderr_truncated :: bool
  stdout_text :: string
  stderr_text :: string

record env =
  env_cwd :: string
  env_getenv :: "string \<Rightarrow> string option"
  env_writable :: "string list \<Rightarrow> bool"
  env_spawn :: "process_request \<Rightarrow> fs \<Rightarrow> (string + process_result) \<times> fs"
  env_toml :: toml_api
  env_json :: json_api
  env_project_root :: string

abbreviation canonical :: "env \<Rightarrow> string \<Rightarrow> string" where
  "canonical env p \<equiv> CanonicalAbsolutePath (env_cwd env) p"

definition path_key :: "env \<Rightarrow> string \<Rightarrow> string list" where
  "path_key env p = comps (canonical env p)"

definition node_at :: "env \<Rightarrow> fs \<Rightarrow> string \<Rightarrow> node option" where
  "node_at env w p = (if path_key env p = [] then Some Dir else map_of w (path_key env p))"

definition fs_exists :: "env \<Rightarrow> fs \<Rightarrow> string \<Rightarrow> bool" where
  "fs_exists env w p \<longleftrightarrow> node_at env w p \<noteq> None"

definition fs_is_directory :: "env \<Rightarrow> fs \<Rightarrow> string \<Rightarrow> bool" where
  "fs_is_directory env w p \<longleftrightarrow> node_at env w p = Some Dir"

definition fs_is_regular_file :: "env \<Rightarrow> fs \<Rightarrow> string \<Rightarrow> bool" where
  "fs_is_regular_file env w p \<longleftrightarrow> (\<exists>c. node_at env w p = Some (File c))"

lemma fs_is_regular_file_code [code]:
  "fs_is_regular_file env w p = (case node_at env w p of Some (File c) \<Rightarrow> True | _ \<Rightarrow> False)"
  by (auto simp: fs_is_regular_file_def split: option.splits node.splits)

text \<open>Opening and reading a file; \<open>None\<close> when the stream does not open.\<close>

definition fs_read :: "env \<Rightarrow> fs \<Rightarrow> string \<Rightarrow> string option" where
  "fs_read env w p = (case node_at env w p of Some (File c) \<Rightarrow> Some c | _ \<Rightarrow> None)"

text \<open>Whether an output stream on the path opens: a writable file, or a new one in a directory.\<close>

definition fs_can_write :: "env \<Rightarrow> fs \<Rightarrow> string \<Rightarrow> bool" where
  "fs_can_write env w p \<longleftrightarrow> path_key env p \<noteq> [] \<and> env_writable env (path_key env p) \<and>
     (case map_of w (path_key env p) of
        Some (File c) \<Rightarrow> True
      | Some _ \<Rightarrow> False
      | None \<Rightarrow> butlast (path_key env p) = [] \<or> map_of w (butlast (path_key env p)) = Some Dir)"

definition fs_put :: "env \<Rightarrow> string \<Rightarrow> node \<Rightarrow> fs \<Rightarrow> fs" where
  "fs_put env p n w = AList.update (path_key env p) n w"

definition fs_write :: "env \<Rightarrow> string \<Rightarrow> string \<Rightarrow> error \<Rightarrow> (fs, unit) io" where
  "fs_write env p content err = (\<lambda>w.
     if fs_can_write env w p then (Inr (), fs_put env p (File content) w) else (Inl err, w))"

definition fs_remove :: "env \<Rightarrow> string \<Rightarrow> fs \<Rightarrow> fs" where
  "fs_remove env p w = AList.delete (path_key env p) w"

definition fs_remove_all :: "env \<Rightarrow> string \<Rightarrow> fs \<Rightarrow> fs" where
  "fs_remove_all env p w = filter (\<lambda>(k, n). \<not> prefix (path_key env p) k) w"

text \<open>\<open>create_directories\<close>: every missing ancestor becomes a directory; a non-directory on the way throws.\<close>

fun make_dirs :: "string list \<Rightarrow> string list \<Rightarrow> fs \<Rightarrow> fs option" where
  "make_dirs done [] w = Some w"
| "make_dirs done (c # cs) w =
     (case map_of w (done @ [c]) of
        None \<Rightarrow> make_dirs (done @ [c]) cs (AList.update (done @ [c]) Dir w)
      | Some Dir \<Rightarrow> make_dirs (done @ [c]) cs w
      | Some _ \<Rightarrow> None)"

definition fs_create_directories :: "env \<Rightarrow> string \<Rightarrow> (fs, unit) io" where
  "fs_create_directories env p = (\<lambda>w. case make_dirs [] (path_key env p) w of
      None \<Rightarrow> (Inl (FilesystemError ''create_directories''), w)
    | Some w' \<Rightarrow> (Inr (), w'))"

lemma node_at_put_same:
  "path_key env p \<noteq> [] \<Longrightarrow> node_at env (fs_put env p n w) p = Some n"
  by (simp add: node_at_def fs_put_def update_conv')

lemma node_at_put_other:
  "path_key env q \<noteq> path_key env p \<Longrightarrow> node_at env (fs_put env p n w) q = node_at env w q"
  by (simp add: node_at_def fs_put_def update_conv')

lemma fs_write_read:
  "fs_write env p c e w = (Inr u, w') \<Longrightarrow> fs_read env w' p = Some c"
  by (auto simp: fs_write_def fs_read_def fs_can_write_def node_at_put_same split: if_splits)

lemma fs_write_frame:
  "fs_write env p c e w = (r, w') \<Longrightarrow> path_key env q \<noteq> path_key env p \<Longrightarrow> node_at env w' q = node_at env w q"
  by (auto simp: fs_write_def node_at_put_other split: if_splits)

text \<open>Creating directories keeps every node there is and adds directories only.\<close>

lemma make_dirs_keeps: "make_dirs pre cs w = Some w' \<Longrightarrow> map_of w k = Some n \<Longrightarrow> map_of w' k = Some n"
proof (induction pre cs w rule: make_dirs.induct)
  case (2 pre c cs w)
  then show ?case
    by (cases "k = pre @ [c]") (auto simp: update_conv' split: option.splits node.splits)
qed simp

lemma make_dirs_new:
  "make_dirs pre cs w = Some w' \<Longrightarrow> map_of w k = None \<Longrightarrow> map_of w' k = None \<or> map_of w' k = Some Dir"
proof (induction pre cs w rule: make_dirs.induct)
  case (2 pre c cs w)
  show ?case
  proof (cases "map_of w (pre @ [c])")
    case None
    with 2 show ?thesis by (cases "k = pre @ [c]") (auto simp: update_conv' dest: make_dirs_keeps)
  next
    case (Some n)
    with 2 show ?thesis by (cases n) auto
  qed
qed simp

lemma fs_create_directories_keeps:
  "fs_create_directories env p w = (r, w') \<Longrightarrow> map_of w k = Some n \<Longrightarrow> map_of w' k = Some n"
  by (auto simp: fs_create_directories_def dest: make_dirs_keeps split: option.splits)

lemma fs_create_directories_new:
  "fs_create_directories env p w = (r, w') \<Longrightarrow> map_of w k = None \<Longrightarrow> map_of w' k = None \<or> map_of w' k = Some Dir"
  by (auto simp: fs_create_directories_def dest: make_dirs_new split: option.splits)

lemma fs_create_directories_Inl:
  "fs_create_directories env p w = (Inl e, w') \<Longrightarrow> e = FilesystemError ''create_directories'' \<and> w' = w"
  by (auto simp: fs_create_directories_def split: option.splits)

lemma fs_write_map:
  "fs_write env p c e w = (r, w') \<Longrightarrow> k \<noteq> path_key env p \<Longrightarrow> map_of w' k = map_of w k"
  by (auto simp: fs_write_def fs_put_def update_conv' split: if_splits)

lemma fs_write_Inl: "fs_write env p c err w = (Inl e, w') \<Longrightarrow> e = err \<and> w' = w"
  by (auto simp: fs_write_def split: if_splits)

text \<open>What an operation may do to a file system: keep every node but those of the given keys, add directories.\<close>

definition only_adds :: "string list set \<Rightarrow> fs \<Rightarrow> fs \<Rightarrow> bool" where
  "only_adds K w w' \<longleftrightarrow> (\<forall>k. k \<notin> K \<longrightarrow>
     (\<forall>n. map_of w k = Some n \<longrightarrow> map_of w' k = Some n) \<and>
     (map_of w k = None \<longrightarrow> map_of w' k = None \<or> map_of w' k = Some Dir))"

lemma only_adds_refl [simp]: "only_adds K w w"
  by (simp add: only_adds_def)

lemma only_adds_trans: "only_adds K w w' \<Longrightarrow> only_adds K w' w'' \<Longrightarrow> only_adds K w w''"
  unfolding only_adds_def by (metis option.exhaust)

lemma only_adds_mono: "only_adds K w w' \<Longrightarrow> K \<subseteq> K' \<Longrightarrow> only_adds K' w w'"
  unfolding only_adds_def by blast

lemma only_adds_dirs: "fs_create_directories env p w = (r, w') \<Longrightarrow> only_adds K w w'"
  unfolding only_adds_def using fs_create_directories_keeps fs_create_directories_new by blast

lemma only_adds_write: "fs_write env p c e w = (r, w') \<Longrightarrow> path_key env p \<in> K \<Longrightarrow> only_adds K w w'"
  unfolding only_adds_def using fs_write_map by (metis option.exhaust)

text \<open>\<open>rename\<close> of a file or a directory tree, and \<open>remove\<close> with its error ignored.\<close>

definition has_children :: "fs \<Rightarrow> string list \<Rightarrow> bool" where
  "has_children w k \<longleftrightarrow> list_ex (\<lambda>(k', n). strict_prefix k k') w"

definition fs_rename :: "env \<Rightarrow> string \<Rightarrow> string \<Rightarrow> (fs, unit) io" where
  "fs_rename env a b = (\<lambda>w. (let ka = path_key env a; kb = path_key env b; failed = (Inl (FilesystemError ''rename''), w) in
     case map_of w ka of
       None \<Rightarrow> failed
     | Some n \<Rightarrow>
        (if kb = [] \<or> \<not> env_writable env kb \<or> (butlast kb \<noteq> [] \<and> map_of w (butlast kb) \<noteq> Some Dir) \<or> strict_prefix ka kb
         then failed
         else if (case map_of w kb of
             None \<Rightarrow> False
           | Some m \<Rightarrow> (m = Dir) \<noteq> (n = Dir) \<or> m = Dir \<and> has_children w kb) then failed
         else (Inr (), map (\<lambda>(k, n). (if prefix ka k then kb @ drop (length ka) k else k, n))
                (filter (\<lambda>(k, n). prefix ka k \<or> \<not> prefix kb k) w)))))"

definition fs_remove_quiet :: "env \<Rightarrow> string \<Rightarrow> fs \<Rightarrow> fs" where
  "fs_remove_quiet env p w = (if map_of w (path_key env p) = Some Dir \<and> has_children w (path_key env p)
     then w else fs_remove env p w)"

lemma fs_rename_Inr:
  assumes "fs_rename env a b w = (Inr u, w')"
  shows "map_of w (path_key env a) \<noteq> None \<and> map_of w' (path_key env b) = map_of w (path_key env a) \<and> path_key env b \<noteq> []"
proof -
  let ?ka = "path_key env a" and ?kb = "path_key env b"
  from assms obtain n where n: "map_of w ?ka = Some n" and kb: "?kb \<noteq> []"
    and w': "w' = map (\<lambda>(k, n). (if prefix ?ka k then ?kb @ drop (length ?ka) k else k, n))
                (filter (\<lambda>(k, n). prefix ?ka k \<or> \<not> prefix ?kb k) w)"
    by (auto simp: fs_rename_def Let_def split: option.splits if_splits)
  have "map_of w k = Some m \<Longrightarrow> k = ?ka \<Longrightarrow>
      map_of (map (\<lambda>(k, n). (if prefix ?ka k then ?kb @ drop (length ?ka) k else k, n))
        (filter (\<lambda>(k, n). prefix ?ka k \<or> \<not> prefix ?kb k) w)) ?kb = Some m" for k m w
    by (induction w) (auto simp: prefix_def split: if_splits)
  from this [OF n refl] n w' kb show ?thesis by simp
qed

lemma fs_rename_frame:
  assumes "fs_rename env a b w = (r, w')" and "\<not> prefix (path_key env a) k" and "\<not> prefix (path_key env b) k"
  shows "map_of w' k = map_of w k"
proof -
  let ?ka = "path_key env a" and ?kb = "path_key env b"
  have "map_of (map (\<lambda>(k, n). (if prefix ?ka k then ?kb @ drop (length ?ka) k else k, n))
        (filter (\<lambda>(k, n). prefix ?ka k \<or> \<not> prefix ?kb k) w)) k = map_of w k" for w :: fs
    using assms(2,3) by (induction w) auto
  with assms(1) show ?thesis
    by (auto simp: fs_rename_def Let_def split: option.splits if_splits)
qed

lemma fs_rename_Inl: "fs_rename env a b w = (Inl e, w') \<Longrightarrow> e = FilesystemError ''rename'' \<and> w' = w"
  by (auto simp: fs_rename_def Let_def split: option.splits if_splits)

lemma only_adds_remove_quiet: "path_key env p \<in> K \<Longrightarrow> only_adds K w (fs_remove_quiet env p w)"
  by (auto simp: only_adds_def fs_remove_quiet_def fs_remove_def delete_conv')

lemma fs_remove_quiet_read: "fs_read env (fs_remove_quiet env p w) p = None"
  by (auto simp: fs_remove_quiet_def fs_remove_def fs_read_def node_at_def delete_conv' split: option.splits node.splits)

lemma fs_remove_quiet_frame: "k \<noteq> path_key env p \<Longrightarrow> map_of (fs_remove_quiet env p w) k = map_of w k"
  by (simp add: fs_remove_quiet_def fs_remove_def delete_conv')

subsection \<open>Child processes\<close>

text \<open>\<open>RunProcess<Error>\<close>: a failure to run the child becomes the caller's exception class.\<close>

definition RunProcess :: "env \<Rightarrow> (string \<Rightarrow> error) \<Rightarrow> process_request \<Rightarrow> (fs, process_result) io" where
  "RunProcess env exn req = (\<lambda>w. case env_spawn env req w of
      (Inl what, w') \<Rightarrow> (Inl (exn what), w') | (Inr r, w') \<Rightarrow> (Inr r, w'))"

definition kExternalProcessProbeTimeout :: int where "kExternalProcessProbeTimeout = 30 * 1000"
definition kExternalProcessStepTimeout :: int where "kExternalProcessStepTimeout = 10 * 60 * 1000"

definition TrimTrailingNewline :: "string \<Rightarrow> string" where
  "TrimTrailingNewline text = pop_back_while (\<lambda>c. c = char_of (10::nat) \<or> c = char_of (13::nat)) text"

definition int_to_string :: "int \<Rightarrow> string" where
  "int_to_string i = (if i < 0 then ''-'' @ to_dec (nat (- i)) else to_dec (nat i))"

definition DescribeProcessFailure :: "process_result \<Rightarrow> string" where
  "DescribeProcessFailure r =
     (if timed_out r then ''process timed out''
      else if stderr_text r \<noteq> [] then TrimTrailingNewline (stderr_text r)
      else if stdout_text r \<noteq> [] then TrimTrailingNewline (stdout_text r)
      else if terminated_by_signal r
        then ''process terminated by signal '' @ int_to_string (signal_number r)
      else ''process exited with code '' @ int_to_string (exit_code r))"

text \<open>\<open>AppendOutputChunk\<close> on the collected text and its truncation flag.\<close>

definition AppendOutputChunk :: "string \<times> bool \<Rightarrow> string \<Rightarrow> nat \<Rightarrow> string \<times> bool" where
  "AppendOutputChunk tt chunk limit = (case tt of (target, truncated) \<Rightarrow>
     if limit = 0 then (target, truncated \<or> chunk \<noteq> [])
     else if limit \<le> length target then (target, truncated \<or> chunk \<noteq> [])
     else let to_copy = min (limit - length target) (length chunk)
          in (target @ take to_copy chunk, if to_copy < length chunk then True else truncated))"

text \<open>The bytes kept are the first \<open>limit\<close> bytes of what the child wrote, however it was read.\<close>

lemma AppendOutputChunk_step:
  "AppendOutputChunk (take limit out, length out > limit) chunk limit =
     (take limit (out @ chunk), length (out @ chunk) > limit)"
  by (cases "length out \<le> limit") (auto simp: AppendOutputChunk_def min_def Let_def)

lemma AppendOutputChunk_fold:
  "foldl (\<lambda>tt chunk. AppendOutputChunk tt chunk limit) ([], False) pieces =
     (take limit (concat pieces), limit < length (concat pieces))"
proof (induction pieces rule: rev_induct)
  case Nil
  then show ?case by simp
next
  case (snoc p pieces)
  then show ?case using AppendOutputChunk_step [of limit "concat pieces" p] by simp
qed

subsection \<open>Layout of the project and of PAFIO\_HOME\<close>

definition ProjectStateRootForManifest :: "env \<Rightarrow> string \<Rightarrow> string" where
  "ProjectStateRootForManifest env manifest_path =
     canonical env (path_append (parent_path (canonical env manifest_path)) ''.pafio'')"

definition ProjectVendorRootForManifest :: "env \<Rightarrow> string \<Rightarrow> string" where
  "ProjectVendorRootForManifest env manifest_path =
     canonical env (path_append (ProjectStateRootForManifest env manifest_path) ''vendor'')"

definition ProjectToolchainPinPathForManifest :: "env \<Rightarrow> string \<Rightarrow> string" where
  "ProjectToolchainPinPathForManifest env manifest_path =
     canonical env (path_append (parent_path (canonical env manifest_path)) ''pafio-toolchain.toml'')"

definition ProjectToolchainStatePathForManifest :: "env \<Rightarrow> string \<Rightarrow> string" where
  "ProjectToolchainStatePathForManifest env manifest_path =
     canonical env (path_append (parent_path (canonical env manifest_path)) ''pafio-toolchain.lock'')"

text \<open>The upward search for a file, ending where the parent directory is the directory itself.\<close>

lemma length_parent_path: "parent_path p \<noteq> p \<Longrightarrow> length (parent_path p) < length p"
proof -
  assume ne: "parent_path p \<noteq> p"
  then have not_all: "\<not> list_all (\<lambda>c. c = slash) p" by (auto simp: parent_path_def)
  define dir where "dir = take (length p - length (filename p)) p"
  define st where "st = pop_back_while (\<lambda>c. c = slash) dir"
  have pp: "parent_path p = (if dir \<noteq> [] \<and> st = [] then ''/'' else st)"
    using not_all by (simp add: parent_path_def dir_def st_def Let_def)
  obtain t where t: "dir = st @ t" "\<forall>c \<in> set t. c = slash"
    using pop_back_while_prefix [of dir "\<lambda>c. c = slash"] unfolding st_def by blast
  have "length dir \<le> length p" by (simp add: dir_def)
  show ?thesis
  proof (cases "dir \<noteq> [] \<and> st = []")
    case True
    then have "list_all (\<lambda>c. c = slash) dir" using t by (simp add: list_all_iff)
    with not_all have "dir \<noteq> p" by auto
    then have "length dir < length p" by (simp add: dir_def)
    with True show ?thesis by (simp add: pp) (cases dir; simp)
  next
    case False
    then have "st \<noteq> p" using pp ne by auto
    moreover have "\<exists>s. p = st @ s" using t(1) by (metis append_take_drop_id append_assoc dir_def)
    ultimately show ?thesis using False by (auto simp: pp)
  qed
qed

function find_up :: "env \<Rightarrow> fs \<Rightarrow> string \<Rightarrow> string \<Rightarrow> string option" where
  "find_up env w name current =
     (let candidate = canonical env (path_append current name)
      in if fs_exists env w candidate then Some candidate
         else if parent_path current = current then None
         else find_up env w name (parent_path current))"
  by pat_completeness auto
termination
  by (relation "measure (\<lambda>(env, w, name, current). length current)") (auto simp: length_parent_path)

declare find_up.simps [simp del]

text \<open>The candidate of the \<open>n\<close>-th ancestor directory.\<close>

definition ancestor_file :: "env \<Rightarrow> string \<Rightarrow> string \<Rightarrow> nat \<Rightarrow> string" where
  "ancestor_file env name current n = canonical env (path_append ((parent_path ^^ n) current) name)"

lemma ancestor_file_0: "ancestor_file env name current 0 = canonical env (path_append current name)"
  and ancestor_file_Suc: "ancestor_file env name current (Suc n) = ancestor_file env name (parent_path current) n"
  by (simp_all add: ancestor_file_def funpow_swap1)

lemma ancestor_file_top: "parent_path current = current \<Longrightarrow> ancestor_file env name current n = ancestor_file env name current 0"
  by (induction n) (simp_all add: ancestor_file_Suc)

lemma find_up_Some:
  "find_up env w name current = Some p \<Longrightarrow>
     \<exists>n. p = ancestor_file env name current n \<and> fs_exists env w p \<and>
       (\<forall>m<n. \<not> fs_exists env w (ancestor_file env name current m))"
proof (induction env w name current rule: find_up.induct)
  case (1 env w name current)
  show ?case
  proof (cases "fs_exists env w (ancestor_file env name current 0)")
    case True
    with "1.prems" have "p = ancestor_file env name current 0"
      by (subst (asm) find_up.simps) (simp add: ancestor_file_0 Let_def)
    with True show ?thesis by blast
  next
    case False
    with "1.prems" have "parent_path current \<noteq> current" "find_up env w name (parent_path current) = Some p"
      by (subst (asm) find_up.simps; simp add: ancestor_file_0 Let_def split: if_splits)+
    with "1.IH" [OF refl] False obtain n where "p = ancestor_file env name (parent_path current) n" "fs_exists env w p"
      "\<forall>m<n. \<not> fs_exists env w (ancestor_file env name (parent_path current) m)"
      by (auto simp: ancestor_file_0)
    with False show ?thesis
      by (intro exI [of _ "Suc n"]) (auto simp: ancestor_file_Suc less_Suc_eq_0_disj)
  qed
qed

lemma find_up_None:
  "find_up env w name current = None \<Longrightarrow> \<not> fs_exists env w (ancestor_file env name current n)"
proof (induction env w name current arbitrary: n rule: find_up.induct)
  case (1 env w name current)
  have here: "\<not> fs_exists env w (ancestor_file env name current 0)"
    using "1.prems" by (subst (asm) find_up.simps) (auto simp: ancestor_file_0 Let_def split: if_splits)
  show ?case
  proof (cases "parent_path current = current")
    case True
    with here show ?thesis using ancestor_file_top by metis
  next
    case False
    with "1.prems" here have "find_up env w name (parent_path current) = None"
      by (subst (asm) find_up.simps) (simp add: ancestor_file_0 Let_def)
    with "1.IH" [OF refl] here False show ?thesis
      by (cases n) (auto simp: ancestor_file_0 ancestor_file_Suc)
  qed
qed

lemma find_up_nearest:
  "find_up env w name current = Some p \<longleftrightarrow>
     (\<exists>n. p = ancestor_file env name current n \<and> fs_exists env w p \<and>
       (\<forall>m<n. \<not> fs_exists env w (ancestor_file env name current m)))" (is "_ \<longleftrightarrow> ?near p")
proof
  assume near: "?near p"
  then obtain q where q: "find_up env w name current = Some q"
    using find_up_None by (cases "find_up env w name current") blast+
  from near find_up_Some [OF q] obtain n m where
    "p = ancestor_file env name current n" "fs_exists env w p" "\<forall>k<n. \<not> fs_exists env w (ancestor_file env name current k)"
    "q = ancestor_file env name current m" "fs_exists env w q" "\<forall>k<m. \<not> fs_exists env w (ancestor_file env name current k)"
    by blast
  then have "n = m" by (metis nat_neq_iff)
  with q \<open>p = _\<close> \<open>q = _\<close> show "find_up env w name current = Some p" by simp
qed (rule find_up_Some)

definition FindProjectToolchainPinPath :: "env \<Rightarrow> fs \<Rightarrow> string \<Rightarrow> string option" where
  "FindProjectToolchainPinPath env w manifest_path =
     find_up env w ''pafio-toolchain.toml'' (parent_path (canonical env manifest_path))"

definition FindProjectToolchainStatePath :: "env \<Rightarrow> fs \<Rightarrow> string \<Rightarrow> string option" where
  "FindProjectToolchainStatePath env w manifest_path =
     find_up env w ''pafio-toolchain.lock'' (parent_path (canonical env manifest_path))"

definition ResolveOptionalPafioHome :: "env \<Rightarrow> string option" where
  "ResolveOptionalPafioHome env =
     (case env_getenv env ''PAFIO_HOME'' of
        Some (c # cs) \<Rightarrow> Some (canonical env (c # cs))
      | _ \<Rightarrow> (case env_getenv env ''HOME'' of
            Some (c # cs) \<Rightarrow> Some (canonical env (path_append (c # cs) ''.pafio''))
          | _ \<Rightarrow> None))"

definition ResolvePafioHome :: "env \<Rightarrow> string result" where
  "ResolvePafioHome env =
     (case ResolveOptionalPafioHome env of
        None \<Rightarrow> Inl (CacheError ''unable to resolve PAFIO_HOME: set PAFIO_HOME or HOME'')
      | Some h \<Rightarrow> Inr h)"

definition ManagedToolsRoot :: "env \<Rightarrow> string \<Rightarrow> string" where
  "ManagedToolsRoot env pafio_home = canonical env (path_append (canonical env pafio_home) ''tools'')"

definition ManagedStyioRoot :: "env \<Rightarrow> string \<Rightarrow> string" where
  "ManagedStyioRoot env pafio_home = canonical env (path_append (ManagedToolsRoot env pafio_home) ''styio'')"

definition ManagedStyioInstallRoot :: "env \<Rightarrow> string \<Rightarrow> string \<Rightarrow> string \<Rightarrow> string" where
  "ManagedStyioInstallRoot env pafio_home channel compiler_version =
     canonical env (path_append (path_append (ManagedStyioRoot env pafio_home) channel) compiler_version)"

definition ManagedStyioCurrentRoot :: "env \<Rightarrow> string \<Rightarrow> string" where
  "ManagedStyioCurrentRoot env pafio_home = canonical env (path_append (ManagedStyioRoot env pafio_home) ''current'')"

definition ManagedStyioBinaryPath :: "env \<Rightarrow> string \<Rightarrow> string" where
  "ManagedStyioBinaryPath env root = canonical env (path_append (path_append root ''bin'') ''styio'')"

definition ManagedStyioMetadataPath :: "env \<Rightarrow> string \<Rightarrow> string" where
  "ManagedStyioMetadataPath env root = canonical env (path_append root ''install.json'')"

definition SourceStateRoot :: "env \<Rightarrow> string \<Rightarrow> string" where
  "SourceStateRoot env pafio_home =
     canonical env (path_append (path_append (canonical env pafio_home) ''src'') ''styio'')"

definition SourceCheckoutRoot :: "env \<Rightarrow> string \<Rightarrow> string \<Rightarrow> string \<Rightarrow> string" where
  "SourceCheckoutRoot env pafio_home channel identity =
     canonical env (path_append (path_append (path_append (SourceStateRoot env pafio_home) channel) identity) ''source'')"

definition SourceToolchainBuildRoot :: "env \<Rightarrow> string \<Rightarrow> string \<Rightarrow> string \<Rightarrow> string \<Rightarrow> string" where
  "SourceToolchainBuildRoot env pafio_home channel identity build_mode =
     canonical env (foldl path_append (canonical env pafio_home)
       [''toolchains'', ''source'', channel, identity, build_mode])"

definition RegistryCacheRoot :: "env \<Rightarrow> string \<Rightarrow> string" where
  "RegistryCacheRoot env pafio_home = canonical env (path_append (canonical env pafio_home) ''registry'')"

definition RegistryTrustRoot :: "env \<Rightarrow> string \<Rightarrow> string" where
  "RegistryTrustRoot env pafio_home = canonical env (path_append (RegistryCacheRoot env pafio_home) ''trust'')"

definition RegistryTrustStorePath :: "env \<Rightarrow> string \<Rightarrow> string" where
  "RegistryTrustStorePath env pafio_home =
     canonical env (path_append (RegistryTrustRoot env pafio_home) ''registry-trust.json'')"

definition RegistryIndexCacheRoot :: "env \<Rightarrow> string \<Rightarrow> string" where
  "RegistryIndexCacheRoot env pafio_home = canonical env (path_append (RegistryCacheRoot env pafio_home) ''index'')"

definition RegistryBlobCacheRoot :: "env \<Rightarrow> string \<Rightarrow> string" where
  "RegistryBlobCacheRoot env pafio_home =
     canonical env (path_append (path_append (RegistryCacheRoot env pafio_home) ''blobs'') ''sha256'')"

definition RegistryCheckoutRoot :: "env \<Rightarrow> string \<Rightarrow> string" where
  "RegistryCheckoutRoot env pafio_home = canonical env (path_append (RegistryCacheRoot env pafio_home) ''checkouts'')"

definition ServerStateRoot :: "env \<Rightarrow> string \<Rightarrow> string" where
  "ServerStateRoot env pafio_home = canonical env (path_append (canonical env pafio_home) ''server'')"

definition RegistryServerRoot :: "env \<Rightarrow> string \<Rightarrow> string" where
  "RegistryServerRoot env pafio_home = canonical env (path_append (ServerStateRoot env pafio_home) ''registry'')"

definition RegistryPublishProfileRoot :: "env \<Rightarrow> string \<Rightarrow> string" where
  "RegistryPublishProfileRoot env pafio_home =
     canonical env (path_append (RegistryServerRoot env pafio_home) ''publish-profiles'')"

definition RegistryPublishProfilePath :: "env \<Rightarrow> string \<Rightarrow> string \<Rightarrow> string" where
  "RegistryPublishProfilePath env pafio_home profile_name =
     canonical env (path_append (RegistryPublishProfileRoot env pafio_home) (profile_name @ ''.toml''))"

end
