(* ===== verification/Manifest.thy ===== *)
theory Manifest
  imports World
begin

section \<open>Package manifests\<close>

text \<open>
  \<open>src/PafioManifest/Manifest.hpp\<close> and \<open>Manifest.cpp\<close>: the manifest data, the validation and parsing
  of a TOML document into it, and the canonical serializer.  \<open>wf_manifest\<close> is the contract of an
  accepted manifest; the canonical form of a manifest sorts its targets and dependencies.
\<close>

subsection \<open>Data\<close>

datatype dependency_source_kind = kPath | kGit | kRegistry

record dependency =
  dep_alias :: string
  dep_package :: "string option"
  dep_source_kind :: dependency_source_kind
  dep_source :: string
  dep_rev :: "string option"
  dep_version :: "string option"

record toolchain =
  tc_channel :: string
  tc_implicit_std :: bool

record lib_target =
  lib_path :: string

record bin_target =
  bin_name :: string
  bin_path :: string

record test_target =
  test_name :: string
  test_path :: string

record workspace_config =
  ws_members :: "string list"
  ws_exclude :: "string list"
  ws_resolver :: string

record package_config =
  pkg_name :: string
  pkg_version :: string
  pkg_edition :: string
  pkg_publish :: bool
  pkg_toolchain :: toolchain
  pkg_lib :: "lib_target option"
  pkg_bins :: "bin_target list"
  pkg_tests :: "test_target list"
  pkg_dependencies :: "dependency list"
  pkg_dev_dependencies :: "dependency list"

record manifest_document =
  doc_package :: "package_config option"
  doc_workspace :: "workspace_config option"

subsection \<open>Access to a TOML table\<close>

definition RequireTable :: "toml_table \<Rightarrow> string \<Rightarrow> string \<Rightarrow> toml_table result" where
  "RequireTable parent key context =
     (case as_table (map_of parent key) of
        Some t \<Rightarrow> Inr t
      | None \<Rightarrow> Inl (ValidationError (''missing or invalid ['' @ key @ ''] table in '' @ context)))"

definition OptionalString :: "toml_api \<Rightarrow> toml_table \<Rightarrow> string \<Rightarrow> string option" where
  "OptionalString api table key = Option.bind (map_of table key) (toml_string api)"

definition OptionalBool :: "toml_api \<Rightarrow> toml_table \<Rightarrow> string \<Rightarrow> bool option" where
  "OptionalBool api table key = Option.bind (map_of table key) (toml_bool api)"

text \<open>\<open>RequireValue<std::string>\<close>\<close>

definition RequireString :: "toml_api \<Rightarrow> toml_table \<Rightarrow> string \<Rightarrow> string \<Rightarrow> string result" where
  "RequireString api table key context =
     (case OptionalString api table key of
        Some v \<Rightarrow> Inr v
      | None \<Rightarrow> Inl (ValidationError (''missing or invalid '' @ squote key @ '' in '' @ context)))"

definition RequireStringArray :: "toml_api \<Rightarrow> toml_table \<Rightarrow> string \<Rightarrow> string \<Rightarrow> bool \<Rightarrow> string list result" where
  "RequireStringArray api table key context require_non_empty =
     (case as_array (map_of table key) of
        None \<Rightarrow> Inl (ValidationError (''missing or invalid '' @ squote key @ '' array in '' @ context))
      | Some array \<Rightarrow>
          rbind (rmap (\<lambda>node. case toml_string api node of
              Some v \<Rightarrow> Inr v
            | None \<Rightarrow> Inl (ValidationError
                (''array '' @ squote key @ '' in '' @ context @ '' must contain only strings''))) array)
          (\<lambda>values. if require_non_empty \<and> values = []
             then Inl (ValidationError (''array '' @ squote key @ '' in '' @ context @ '' must not be empty''))
             else Inr values))"

subsection \<open>Validation\<close>

definition IsNonEmptyRelativePath :: "string \<Rightarrow> bool" where
  "IsNonEmptyRelativePath value \<longleftrightarrow> (if value = [] then False else \<not> is_absolute value)"

definition IsRegistryRootUrl :: "string \<Rightarrow> bool" where
  "IsRegistryRootUrl value \<longleftrightarrow> starts_with value ''file://'' \<or> starts_with value ''http://'' \<or>
     starts_with value ''https://''"

definition ValidatePackageName :: "string \<Rightarrow> string \<Rightarrow> unit result" where
  "ValidatePackageName name context =
     guard (rx_match NameRegex name) (ValidationError (context @ '' must match namespace/name''))"

definition ValidateSemver :: "string \<Rightarrow> string \<Rightarrow> unit result" where
  "ValidateSemver version context =
     guard (rx_match SemverRegex version) (ValidationError (context @ '' must be strict semver x.y.z''))"

definition ValidateRelativePath :: "string \<Rightarrow> string \<Rightarrow> unit result" where
  "ValidateRelativePath path_value context =
     guard (IsNonEmptyRelativePath path_value)
       (ValidationError (context @ '' must be an explicit relative path''))"

definition ValidateRegistryRoot :: "string \<Rightarrow> string \<Rightarrow> unit result" where
  "ValidateRegistryRoot registry_root context =
     guard (IsRegistryRootUrl registry_root)
       (ValidationError (context @ '' must use file://, http://, or https://''))"

lemmas validate_defs = ValidatePackageName_def ValidateSemver_def ValidateRelativePath_def
  ValidateRegistryRoot_def

subsection \<open>Parsing\<close>

definition ParseDependency :: "toml_api \<Rightarrow> string \<Rightarrow> string \<times> toml \<Rightarrow> dependency result" where
  "ParseDependency api table_name entry =
     (let alias = fst entry; who = ''dependency '' @ squote alias in
      case as_table (Some (snd entry)) of
        None \<Rightarrow> Inl (ValidationError (who @ '' in ['' @ table_name @ ''] must be an inline table''))
      | Some dep \<Rightarrow>
        let has_path = table_contains dep ''path'';
            has_git = table_contains dep ''git'';
            has_registry_source = table_contains dep ''version'' \<or> table_contains dep ''registry'';
            source_kind_count = of_bool has_path + of_bool has_git + (of_bool has_registry_source :: nat)
        in if source_kind_count \<noteq> 1
           then Inl (ValidationError (who @ '' in ['' @ table_name @ ''] must declare exactly one source kind''))
           else
        let package = OptionalString api dep ''package'' in
        rbind (case package of None \<Rightarrow> Inr () | Some p \<Rightarrow> ValidatePackageName p (who @ '' package''))
        (\<lambda>_. if has_path then
            rbind (RequireString api dep ''path'' who) (\<lambda>source.
            rbind (ValidateRelativePath source (who @ '' path'')) (\<lambda>_.
            Inr \<lparr>dep_alias = alias, dep_package = package, dep_source_kind = kPath,
                 dep_source = source, dep_rev = None, dep_version = None\<rparr>))
          else if has_git then
            rbind (RequireString api dep ''git'' who) (\<lambda>source.
            rbind (guard (source \<noteq> []) (ValidationError (who @ '' git must be a non-empty string''))) (\<lambda>_.
            rbind (RequireString api dep ''rev'' who) (\<lambda>rev.
            rbind (guard (rev \<noteq> []) (ValidationError (who @ '' rev must be a non-empty string''))) (\<lambda>_.
            Inr \<lparr>dep_alias = alias, dep_package = package, dep_source_kind = kGit,
                 dep_source = source, dep_rev = Some rev, dep_version = None\<rparr>))))
          else
            rbind (guard (package \<noteq> None) (ValidationError
              (who @ '' must declare package = \"namespace/name\" for registry sources''))) (\<lambda>_.
            rbind (RequireString api dep ''version'' who) (\<lambda>version.
            rbind (ValidateSemver version (who @ '' version'')) (\<lambda>_.
            rbind (RequireString api dep ''registry'' who) (\<lambda>source.
            rbind (ValidateRegistryRoot source (who @ '' registry'')) (\<lambda>_.
            Inr \<lparr>dep_alias = alias, dep_package = package, dep_source_kind = kRegistry,
                 dep_source = source, dep_rev = None, dep_version = Some version\<rparr>)))))))"

definition ParseDependencies :: "toml_api \<Rightarrow> toml_table \<Rightarrow> string \<Rightarrow> dependency list result" where
  "ParseDependencies api doc table_name =
     (case as_table (map_of doc table_name) of
        None \<Rightarrow> Inr []
      | Some dependencies \<Rightarrow> rmap (ParseDependency api table_name) dependencies)"

definition ParseToolchain :: "toml_api \<Rightarrow> toml_table \<Rightarrow> toolchain result" where
  "ParseToolchain api doc =
     rbind (RequireTable doc ''toolchain'' ''package manifest'') (\<lambda>table.
     rbind (RequireString api table ''channel'' ''[toolchain]'') (\<lambda>channel.
     rbind (guard (channel \<noteq> []) (ValidationError ''[toolchain].channel must be a non-empty string'')) (\<lambda>_.
     case OptionalBool api table ''implicit-std'' of
       None \<Rightarrow> Inl (ValidationError ''[toolchain].implicit-std must be a boolean'')
     | Some b \<Rightarrow> Inr \<lparr>tc_channel = channel, tc_implicit_std = b\<rparr>)))"

definition ParseLib :: "toml_api \<Rightarrow> toml_table \<Rightarrow> lib_target option result" where
  "ParseLib api doc =
     (case as_table (map_of doc ''lib'') of
        None \<Rightarrow> Inr None
      | Some table \<Rightarrow>
          rbind (RequireString api table ''path'' ''[lib]'') (\<lambda>path.
          rbind (ValidateRelativePath path ''[lib].path'') (\<lambda>_.
          Inr (Some \<lparr>lib_path = path\<rparr>))))"

text \<open>The loop over \<open>[[bin]]\<close> (and \<open>[[test]]\<close>) with the set of names seen so far.\<close>

fun parse_bins :: "toml_api \<Rightarrow> string list \<Rightarrow> toml list \<Rightarrow> bin_target list result" where
  "parse_bins api seen [] = Inr []"
| "parse_bins api seen (node # nodes) =
     (case as_table (Some node) of
        None \<Rightarrow> Inl (ValidationError ''[[bin]] entries must be tables'')
      | Some bin \<Rightarrow>
          rbind (RequireString api bin ''name'' ''[[bin]]'') (\<lambda>name.
          rbind (RequireString api bin ''path'' ''[[bin]]'') (\<lambda>path.
          rbind (guard (name \<noteq> []) (ValidationError ''[[bin]].name must be a non-empty string'')) (\<lambda>_.
          rbind (ValidateRelativePath path ''[[bin]].path'') (\<lambda>_.
          rbind (guard (name \<notin> set seen)
                   (ValidationError (''duplicate [[bin]].name in package manifest: '' @ name))) (\<lambda>_.
          rbind (parse_bins api (name # seen) nodes) (\<lambda>bins.
          Inr (\<lparr>bin_name = name, bin_path = path\<rparr> # bins))))))))"

definition ParseBins :: "toml_api \<Rightarrow> toml_table \<Rightarrow> bin_target list result" where
  "ParseBins api doc =
     (case as_array (map_of doc ''bin'') of None \<Rightarrow> Inr [] | Some nodes \<Rightarrow> parse_bins api [] nodes)"

fun parse_tests :: "toml_api \<Rightarrow> string list \<Rightarrow> toml list \<Rightarrow> test_target list result" where
  "parse_tests api seen [] = Inr []"
| "parse_tests api seen (node # nodes) =
     (case as_table (Some node) of
        None \<Rightarrow> Inl (ValidationError ''[[test]] entries must be tables'')
      | Some test \<Rightarrow>
          rbind (RequireString api test ''name'' ''[[test]]'') (\<lambda>name.
          rbind (RequireString api test ''path'' ''[[test]]'') (\<lambda>path.
          rbind (guard (name \<noteq> []) (ValidationError ''[[test]].name must be a non-empty string'')) (\<lambda>_.
          rbind (ValidateRelativePath path ''[[test]].path'') (\<lambda>_.
          rbind (guard (name \<notin> set seen)
                   (ValidationError (''duplicate [[test]].name in package manifest: '' @ name))) (\<lambda>_.
          rbind (parse_tests api (name # seen) nodes) (\<lambda>tests.
          Inr (\<lparr>test_name = name, test_path = path\<rparr> # tests))))))))"

definition ParseTests :: "toml_api \<Rightarrow> toml_table \<Rightarrow> test_target list result" where
  "ParseTests api doc =
     (case as_array (map_of doc ''test'') of None \<Rightarrow> Inr [] | Some nodes \<Rightarrow> parse_tests api [] nodes)"

definition ParsePackage :: "toml_api \<Rightarrow> toml_table \<Rightarrow> package_config result" where
  "ParsePackage api doc =
     rbind (RequireTable doc ''package'' ''manifest'') (\<lambda>table.
     rbind (RequireString api table ''name'' ''[package]'') (\<lambda>name.
     rbind (RequireString api table ''version'' ''[package]'') (\<lambda>version.
     rbind (RequireString api table ''edition'' ''[package]'') (\<lambda>edition.
     rbind (ParseToolchain api doc) (\<lambda>tc.
     rbind (ParseLib api doc) (\<lambda>lib.
     rbind (ParseBins api doc) (\<lambda>bins.
     rbind (ParseTests api doc) (\<lambda>tests.
     rbind (ParseDependencies api doc ''dependencies'') (\<lambda>deps.
     rbind (ParseDependencies api doc ''dev-dependencies'') (\<lambda>dev_deps.
     rbind (ValidatePackageName name ''package.name'') (\<lambda>_.
     rbind (ValidateSemver version ''package.version'') (\<lambda>_.
     rbind (guard (edition \<noteq> []) (ValidationError ''package.edition must be an explicit string'')) (\<lambda>_.
     rbind (guard (\<not> (lib = None \<and> bins = [] \<and> tests = [])) (ValidationError
       ''package manifests must define at least one explicit [lib], [[bin]], or [[test]] target'')) (\<lambda>_.
     Inr \<lparr>pkg_name = name, pkg_version = version, pkg_edition = edition,
          pkg_publish = (case OptionalBool api table ''publish'' of None \<Rightarrow> False | Some b \<Rightarrow> b),
          pkg_toolchain = tc, pkg_lib = lib, pkg_bins = bins, pkg_tests = tests,
          pkg_dependencies = deps, pkg_dev_dependencies = dev_deps\<rparr>))))))))))))))"

definition ParseWorkspace :: "toml_api \<Rightarrow> toml_table \<Rightarrow> workspace_config result" where
  "ParseWorkspace api doc =
     rbind (RequireTable doc ''workspace'' ''manifest'') (\<lambda>table.
     rbind (RequireStringArray api table ''members'' ''[workspace]'' True) (\<lambda>members.
     rbind (if table_contains table ''exclude''
            then RequireStringArray api table ''exclude'' ''[workspace]'' False else Inr []) (\<lambda>exclude.
     rbind (RequireString api table ''resolver'' ''[workspace]'') (\<lambda>resolver.
     rbind (guard (resolver = ''1'') (ValidationError ''[workspace].resolver must be \"1\"'')) (\<lambda>_.
     rbind (rmap (\<lambda>m. ValidateRelativePath m ''[workspace].members entry'') members) (\<lambda>_.
     rbind (rmap (\<lambda>e. ValidateRelativePath e ''[workspace].exclude entry'') exclude) (\<lambda>_.
     Inr \<lparr>ws_members = members, ws_exclude = exclude, ws_resolver = resolver\<rparr>)))))))"

text \<open>\<open>LoadManifest\<close> after the parser has read the file, and from the file.\<close>

definition ParseManifest :: "toml_api \<Rightarrow> toml_table \<Rightarrow> manifest_document result" where
  "ParseManifest api doc =
     rbind (RequireTable doc ''pafio'' ''manifest'') (\<lambda>pafio_table.
     rbind (guard (Option.bind (map_of pafio_table ''manifest-version'') (toml_int64 api) = Some 1)
              (ValidationError ''pafio manifest-version must be 1'')) (\<lambda>_.
     let has_package = table_contains doc ''package''; has_workspace = table_contains doc ''workspace'' in
     rbind (guard (has_package \<or> has_workspace)
              (ValidationError ''manifest must contain [package], [workspace], or both'')) (\<lambda>_.
     rbind (if has_package then map_sum id Some (ParsePackage api doc) else Inr None) (\<lambda>package.
     rbind (if has_workspace then map_sum id Some (ParseWorkspace api doc) else Inr None) (\<lambda>workspace.
     Inr \<lparr>doc_package = package, doc_workspace = workspace\<rparr>)))))"

definition LoadManifest :: "env \<Rightarrow> fs \<Rightarrow> string \<Rightarrow> manifest_document result" where
  "LoadManifest env w manifest_path =
     (let failed = (\<lambda>what. Inl (ValidationError
            (''failed to parse manifest '' @ squote manifest_path @ '': '' @ what)))
      in case fs_read env w manifest_path of
           None \<Rightarrow> failed (toml_open_error (env_toml env))
         | Some content \<Rightarrow> (case toml_parse (env_toml env) content of
               Inl what \<Rightarrow> failed what
             | Inr doc \<Rightarrow> ParseManifest (env_toml env) doc))"

subsection \<open>Canonical serialization\<close>

text \<open>\<open>std::quoted\<close>: only the quote and the backslash are escaped.\<close>

fun escape_quoted :: "string \<Rightarrow> string" where
  "escape_quoted [] = []"
| "escape_quoted (c # cs) =
     (if c = CHR 0x22 \<or> c = CHR 0x5C then CHR 0x5C # c # escape_quoted cs else c # escape_quoted cs)"

definition QuoteTomlString :: "string \<Rightarrow> string" where
  "QuoteTomlString value = CHR 0x22 # escape_quoted value @ [CHR 0x22]"

definition QuoteTomlKey :: "string \<Rightarrow> string" where
  "QuoteTomlKey value = (if rx_match BareKeyRegex value then value else QuoteTomlString value)"

definition nl :: string where "nl = [CHR 0x0A]"

definition EmitStringArray :: "string \<Rightarrow> ('a \<Rightarrow> string) \<Rightarrow> 'a list \<Rightarrow> string" where
  "EmitStringArray key formatter values =
     key @ '' = ['' @ join '', '' (map formatter values) @ '']'' @ nl"

definition dependency_fields :: "dependency \<Rightarrow> (string \<times> string) list" where
  "dependency_fields d =
     (case dep_package d of Some p \<Rightarrow> [(''package'', p)] | None \<Rightarrow> []) @
     (case dep_source_kind d of
        kPath \<Rightarrow> [(''path'', dep_source d)]
      | kGit \<Rightarrow> [(''git'', dep_source d), (''rev'', case_option [] id (dep_rev d))]
      | kRegistry \<Rightarrow> [(''version'', case_option [] id (dep_version d)), (''registry'', dep_source d)])"

definition emit_dependency :: "dependency \<Rightarrow> string" where
  "emit_dependency d =
     QuoteTomlKey (dep_alias d) @ '' = { '' @
     join '', '' (map (\<lambda>(label, value). label @ '' = '' @ QuoteTomlString value) (dependency_fields d)) @
     '' }'' @ nl"

definition EmitDependencySection :: "string \<Rightarrow> dependency list \<Rightarrow> string" where
  "EmitDependencySection section_name dependencies =
     (if dependencies = [] then []
      else ''['' @ section_name @ '']'' @ nl @
           concat (map emit_dependency (sort_key dep_alias dependencies)))"

definition emit_field :: "string \<Rightarrow> string \<Rightarrow> string" where
  "emit_field label value = label @ '' = '' @ QuoteTomlString value @ nl"

definition bool_text :: "bool \<Rightarrow> string" where
  "bool_text b = (if b then ''true'' else ''false'')"

definition emit_package :: "package_config \<Rightarrow> string" where
  "emit_package p =
     nl @ ''[package]'' @ nl @ emit_field ''name'' (pkg_name p) @ emit_field ''version'' (pkg_version p) @
     emit_field ''edition'' (pkg_edition p) @ ''publish = '' @ bool_text (pkg_publish p) @ nl @
     nl @ ''[toolchain]'' @ nl @ emit_field ''channel'' (tc_channel (pkg_toolchain p)) @
     ''implicit-std = '' @ bool_text (tc_implicit_std (pkg_toolchain p)) @ nl @
     (case pkg_lib p of None \<Rightarrow> [] | Some l \<Rightarrow> nl @ ''[lib]'' @ nl @ emit_field ''path'' (lib_path l)) @
     concat (map (\<lambda>b. nl @ ''[[bin]]'' @ nl @ emit_field ''name'' (bin_name b) @ emit_field ''path'' (bin_path b))
       (sort_key bin_name (pkg_bins p))) @
     concat (map (\<lambda>t. nl @ ''[[test]]'' @ nl @ emit_field ''name'' (test_name t) @ emit_field ''path'' (test_path t))
       (sort_key test_name (pkg_tests p))) @
     (if pkg_dependencies p = [] then []
      else nl @ EmitDependencySection ''dependencies'' (pkg_dependencies p)) @
     (if pkg_dev_dependencies p = [] then []
      else nl @ EmitDependencySection ''dev-dependencies'' (pkg_dev_dependencies p))"

definition emit_workspace :: "workspace_config \<Rightarrow> string" where
  "emit_workspace ws =
     nl @ ''[workspace]'' @ nl @ EmitStringArray ''members'' QuoteTomlString (ws_members ws) @
     (if ws_exclude ws = [] then [] else EmitStringArray ''exclude'' QuoteTomlString (ws_exclude ws)) @
     emit_field ''resolver'' (ws_resolver ws)"

definition SerializeManifestCanonical :: "manifest_document \<Rightarrow> string" where
  "SerializeManifestCanonical m =
     ''[pafio]'' @ nl @ ''manifest-version = 1'' @ nl @
     (case doc_package m of None \<Rightarrow> [] | Some p \<Rightarrow> emit_package p) @
     (case doc_workspace m of None \<Rightarrow> [] | Some ws \<Rightarrow> emit_workspace ws)"

subsection \<open>Scaffolds\<close>

definition PackageShortName :: "string \<Rightarrow> string result" where
  "PackageShortName package_name =
     (case find_char slash package_name of
        None \<Rightarrow> Inl (ValidationError ''package.name must match namespace/name'')
      | Some i \<Rightarrow> if length package_name \<le> i + 1
          then Inl (ValidationError ''package.name must match namespace/name'')
          else Inr (drop (i + 1) package_name))"

definition BuildScaffoldManifest :: "string \<Rightarrow> string \<Rightarrow> manifest_document result" where
  "BuildScaffoldManifest package_name kind =
     rbind (ValidatePackageName package_name ''package.name'') (\<lambda>_.
     rbind (if kind = ''lib'' then Inr [] else
              rbind (PackageShortName package_name) (\<lambda>short.
              Inr [\<lparr>bin_name = short, bin_path = ''src/main.styio''\<rparr>])) (\<lambda>bins.
     Inr \<lparr>doc_package = Some \<lparr>pkg_name = package_name, pkg_version = ''0.1.0'', pkg_edition = ''2026'',
            pkg_publish = False, pkg_toolchain = \<lparr>tc_channel = ''nightly'', tc_implicit_std = True\<rparr>,
            pkg_lib = (if kind = ''lib'' then Some \<lparr>lib_path = ''src/lib.styio''\<rparr> else None),
            pkg_bins = bins, pkg_tests = [], pkg_dependencies = [], pkg_dev_dependencies = []\<rparr>,
          doc_workspace = None\<rparr>))"

definition RenderLibSource :: string where
  "RenderLibSource = ''# add := (a: i32, b: i32) => a + b'' @ nl"

definition RenderMainSource :: string where
  "RenderMainSource = ''>_(\"hello from native pafio bootstrap\")'' @ nl"

text \<open>The two output streams are not checked: a stream that does not open writes nothing.\<close>

definition write_unchecked :: "env \<Rightarrow> string \<Rightarrow> string \<Rightarrow> (fs, unit) io" where
  "write_unchecked env p content = (\<lambda>w.
     (Inr (), if fs_can_write env w p then fs_put env p (File content) w else w))"

definition InitializeProject :: "env \<Rightarrow> string \<Rightarrow> string \<Rightarrow> string \<Rightarrow> (fs, unit) io" where
  "InitializeProject env package_name root kind =
     (let manifest_path = path_append root ''pafio.toml''; src_dir = path_append root ''src'' in
      io_bind (fs_create_directories env root) (\<lambda>_.
      io_bind (fs_create_directories env src_dir) (\<lambda>_.
      io_bind (\<lambda>w. io_guard (\<not> fs_exists env w manifest_path)
                 (RuntimeError (''manifest already exists: '' @ manifest_path)) w) (\<lambda>_.
      io_bind (write_unchecked env manifest_path []) (\<lambda>_.
      io_bind (io_lift (BuildScaffoldManifest package_name kind)) (\<lambda>m.
      io_bind (write_unchecked env manifest_path (SerializeManifestCanonical m)) (\<lambda>_.
      write_unchecked env
        (path_append src_dir (if kind = ''lib'' then ''lib.styio'' else ''main.styio''))
        (if kind = ''lib'' then RenderLibSource else RenderMainSource))))))))"

definition InferLocalPackageName :: "string \<Rightarrow> string" where
  "InferLocalPackageName root = ''local/'' @ filename root"

end
