(* ===== verification/ManifestFacts.thy ===== *)
theory ManifestFacts
  imports Manifest
begin

section \<open>What an accepted manifest satisfies, and its canonical form\<close>

text \<open>
  The contract of \<open>LoadManifest\<close> (\<open>wf_manifest\<close>), the document the canonical text denotes
  (\<open>toml_of_manifest\<close>), the canonical form (\<open>canonical_manifest\<close>), and the lemmas behind the
  properties of the manifest: parsing gives well-formed manifests, parsing inverts the document of
  a well-formed manifest up to order, and serializing does not see the order.
\<close>

subsection \<open>Well-formed manifests\<close>

definition wf_dependency :: "dependency \<Rightarrow> bool" where
  "wf_dependency d \<longleftrightarrow>
     (\<forall>p. dep_package d = Some p \<longrightarrow> rx_match NameRegex p) \<and>
     (case dep_source_kind d of
        kPath \<Rightarrow> IsNonEmptyRelativePath (dep_source d) \<and> dep_rev d = None \<and> dep_version d = None
      | kGit \<Rightarrow> dep_source d \<noteq> [] \<and> (\<exists>r. dep_rev d = Some r \<and> r \<noteq> []) \<and> dep_version d = None
      | kRegistry \<Rightarrow> dep_package d \<noteq> None \<and> IsRegistryRootUrl (dep_source d) \<and> dep_rev d = None \<and>
          (\<exists>v. dep_version d = Some v \<and> rx_match SemverRegex v))"

definition wf_package :: "package_config \<Rightarrow> bool" where
  "wf_package p \<longleftrightarrow>
     rx_match NameRegex (pkg_name p) \<and> rx_match SemverRegex (pkg_version p) \<and> pkg_edition p \<noteq> [] \<and>
     tc_channel (pkg_toolchain p) \<noteq> [] \<and>
     (\<forall>l. pkg_lib p = Some l \<longrightarrow> IsNonEmptyRelativePath (lib_path l)) \<and>
     (\<forall>b \<in> set (pkg_bins p). bin_name b \<noteq> [] \<and> IsNonEmptyRelativePath (bin_path b)) \<and>
     distinct (map bin_name (pkg_bins p)) \<and>
     (\<forall>t \<in> set (pkg_tests p). test_name t \<noteq> [] \<and> IsNonEmptyRelativePath (test_path t)) \<and>
     distinct (map test_name (pkg_tests p)) \<and>
     (pkg_lib p \<noteq> None \<or> pkg_bins p \<noteq> [] \<or> pkg_tests p \<noteq> []) \<and>
     (\<forall>d \<in> set (pkg_dependencies p) \<union> set (pkg_dev_dependencies p). wf_dependency d)"

definition wf_workspace :: "workspace_config \<Rightarrow> bool" where
  "wf_workspace ws \<longleftrightarrow> ws_members ws \<noteq> [] \<and> ws_resolver ws = ''1'' \<and>
     (\<forall>m \<in> set (ws_members ws) \<union> set (ws_exclude ws). IsNonEmptyRelativePath m)"

definition wf_manifest :: "manifest_document \<Rightarrow> bool" where
  "wf_manifest m \<longleftrightarrow> (doc_package m \<noteq> None \<or> doc_workspace m \<noteq> None) \<and>
     (\<forall>p. doc_package m = Some p \<longrightarrow> wf_package p) \<and>
     (\<forall>ws. doc_workspace m = Some ws \<longrightarrow> wf_workspace ws)"

lemmas wf_manifest_codes [code] = wf_dependency_def [unfolded option_all option_ex]
  wf_package_def [unfolded option_all] wf_workspace_def wf_manifest_def [unfolded option_all]

text \<open>The keys of a TOML table are distinct, so the aliases of one section are.\<close>

definition distinct_aliases :: "package_config \<Rightarrow> bool" where
  "distinct_aliases p \<longleftrightarrow> distinct (map dep_alias (pkg_dependencies p)) \<and>
     distinct (map dep_alias (pkg_dev_dependencies p))"

subsection \<open>Parsing gives well-formed manifests\<close>

lemma ParseDependency_wf:
  assumes "ParseDependency api tn e = Inr d"
  shows "wf_dependency d" and "dep_alias d = fst e"
  using assms
  by (auto simp: ParseDependency_def Let_def wf_dependency_def result_simps validate_defs
      split: option.splits if_splits)

lemma ParseDependencies_wf:
  "ParseDependencies api doc tn = Inr ds \<Longrightarrow> d \<in> set ds \<Longrightarrow> wf_dependency d"
  by (auto simp: ParseDependencies_def split: option.splits
      dest!: rmap_Inr_in_set intro: ParseDependency_wf(1))

lemma ParseDependencies_aliases:
  assumes "ParseDependencies api doc tn = Inr ds"
  shows "ds = [] \<or> (\<exists>t. as_table (map_of doc tn) = Some t \<and> map dep_alias ds = map fst t)"
proof (cases "as_table (map_of doc tn)")
  case None
  with assms show ?thesis by (simp add: ParseDependencies_def)
next
  case (Some t)
  with assms have "list_all2 (\<lambda>e d. ParseDependency api tn e = Inr d) t ds"
    by (simp add: ParseDependencies_def rmap_eq_Inr_iff)
  then have "map dep_alias ds = map fst t"
    by (induction rule: list_all2_induct) (auto simp: ParseDependency_wf(2))
  with Some show ?thesis by blast
qed

lemma parse_bins_wf:
  "parse_bins api seen nodes = Inr bins \<Longrightarrow>
     (\<forall>b \<in> set bins. bin_name b \<noteq> [] \<and> IsNonEmptyRelativePath (bin_path b) \<and> bin_name b \<notin> set seen) \<and>
     distinct (map bin_name bins)"
proof (induction nodes arbitrary: seen bins)
  case Nil
  then show ?case by simp
next
  case (Cons n nodes)
  then obtain name path rest where b: "bins = \<lparr>bin_name = name, bin_path = path\<rparr> # rest"
    and ok: "name \<noteq> []" "IsNonEmptyRelativePath path" "name \<notin> set seen"
    and r: "parse_bins api (name # seen) nodes = Inr rest"
    by (auto simp: result_simps validate_defs split: option.splits)
  from Cons.IH [OF r] b ok show ?case by auto
qed

lemma parse_tests_wf:
  "parse_tests api seen nodes = Inr tests \<Longrightarrow>
     (\<forall>t \<in> set tests. test_name t \<noteq> [] \<and> IsNonEmptyRelativePath (test_path t) \<and> test_name t \<notin> set seen) \<and>
     distinct (map test_name tests)"
proof (induction nodes arbitrary: seen tests)
  case Nil
  then show ?case by simp
next
  case (Cons n nodes)
  then obtain name path rest where t: "tests = \<lparr>test_name = name, test_path = path\<rparr> # rest"
    and ok: "name \<noteq> []" "IsNonEmptyRelativePath path" "name \<notin> set seen"
    and r: "parse_tests api (name # seen) nodes = Inr rest"
    by (auto simp: result_simps validate_defs split: option.splits)
  from Cons.IH [OF r] t ok show ?case by auto
qed

lemma ParsePackage_wf:
  assumes "ParsePackage api doc = Inr p"
  shows "wf_package p"
proof -
  from assms obtain table tc lib bins tests deps devs where
    tc: "ParseToolchain api doc = Inr tc" and lib: "ParseLib api doc = Inr lib"
    and bins: "ParseBins api doc = Inr bins" and tests: "ParseTests api doc = Inr tests"
    and deps: "ParseDependencies api doc ''dependencies'' = Inr deps"
    and devs: "ParseDependencies api doc ''dev-dependencies'' = Inr devs"
    and name: "rx_match NameRegex (pkg_name p)" and version: "rx_match SemverRegex (pkg_version p)"
    and ed: "pkg_edition p \<noteq> []" and target: "lib \<noteq> None \<or> bins \<noteq> [] \<or> tests \<noteq> []"
    and p: "pkg_toolchain p = tc" "pkg_lib p = lib" "pkg_bins p = bins" "pkg_tests p = tests"
      "pkg_dependencies p = deps" "pkg_dev_dependencies p = devs"
    unfolding ParsePackage_def validate_defs by (auto simp: result_simps)
  have "tc_channel tc \<noteq> []"
    using tc by (auto simp: ParseToolchain_def result_simps split: option.splits if_splits)
  moreover have "\<forall>l. lib = Some l \<longrightarrow> IsNonEmptyRelativePath (lib_path l)"
    using lib by (auto simp: ParseLib_def result_simps validate_defs split: option.splits if_splits)
  moreover have "(\<forall>b \<in> set bins. bin_name b \<noteq> [] \<and> IsNonEmptyRelativePath (bin_path b)) \<and>
      distinct (map bin_name bins)"
    using bins parse_bins_wf [of api "[]"] by (auto simp: ParseBins_def split: option.splits)
  moreover have "(\<forall>t \<in> set tests. test_name t \<noteq> [] \<and> IsNonEmptyRelativePath (test_path t)) \<and>
      distinct (map test_name tests)"
    using tests parse_tests_wf [of api "[]"] by (auto simp: ParseTests_def split: option.splits)
  moreover have "\<forall>d \<in> set deps \<union> set devs. wf_dependency d"
    using ParseDependencies_wf [OF deps] ParseDependencies_wf [OF devs] by blast
  ultimately show ?thesis
    using name version ed target by (simp add: wf_package_def p)
qed

lemma relative_paths:
  "rmap (\<lambda>m. ValidateRelativePath m context) ms = Inr us \<Longrightarrow> m \<in> set ms \<Longrightarrow> IsNonEmptyRelativePath m"
  by (induction ms arbitrary: us) (auto simp: result_simps ValidateRelativePath_def)

lemma ParseWorkspace_wf:
  assumes "ParseWorkspace api doc = Inr ws"
  shows "wf_workspace ws"
proof -
  from assms obtain table members exclude u v where
    members: "RequireStringArray api table ''members'' ''[workspace]'' True = Inr members"
    and m: "rmap (\<lambda>m. ValidateRelativePath m ''[workspace].members entry'') members = Inr u"
    and e: "rmap (\<lambda>e. ValidateRelativePath e ''[workspace].exclude entry'') exclude = Inr v"
    and ws: "ws = \<lparr>ws_members = members, ws_exclude = exclude, ws_resolver = ''1''\<rparr>"
    unfolding ParseWorkspace_def by (auto simp: result_simps)
  have "members \<noteq> []"
    using members by (auto simp: RequireStringArray_def result_simps split: option.splits)
  with relative_paths [OF m] relative_paths [OF e] show ?thesis
    by (auto simp: wf_workspace_def ws)
qed

lemma map_sum_Inr_iff: "map_sum id Some r = Inr x \<longleftrightarrow> (\<exists>y. r = Inr y \<and> x = Some y)"
  by (cases r) auto

lemma ParseManifest_wf: "ParseManifest api doc = Inr m \<Longrightarrow> wf_manifest m"
  unfolding ParseManifest_def wf_manifest_def
  by (auto simp: result_simps map_sum_Inr_iff Let_def split: if_splits
      intro: ParsePackage_wf ParseWorkspace_wf)

lemma LoadManifest_wf: "LoadManifest env w path = Inr m \<Longrightarrow> wf_manifest m"
  by (auto simp: LoadManifest_def Let_def split: option.splits sum.splits intro: ParseManifest_wf)

subsection \<open>Serialization does not see the order\<close>

definition canonical_package :: "package_config \<Rightarrow> package_config" where
  "canonical_package p = p\<lparr>pkg_bins := sort_key bin_name (pkg_bins p),
     pkg_tests := sort_key test_name (pkg_tests p),
     pkg_dependencies := sort_key dep_alias (pkg_dependencies p),
     pkg_dev_dependencies := sort_key dep_alias (pkg_dev_dependencies p)\<rparr>"

definition canonical_manifest :: "manifest_document \<Rightarrow> manifest_document" where
  "canonical_manifest m = m\<lparr>doc_package := map_option canonical_package (doc_package m)\<rparr>"

text \<open>Two packages that differ only in the order of their targets and dependencies.\<close>

definition same_package :: "package_config \<Rightarrow> package_config \<Rightarrow> bool" where
  "same_package p q \<longleftrightarrow>
     mset (pkg_bins p) = mset (pkg_bins q) \<and> mset (pkg_tests p) = mset (pkg_tests q) \<and>
     mset (pkg_dependencies p) = mset (pkg_dependencies q) \<and>
     mset (pkg_dev_dependencies p) = mset (pkg_dev_dependencies q) \<and>
     pkg_name p = pkg_name q \<and> pkg_version p = pkg_version q \<and> pkg_edition p = pkg_edition q \<and>
     pkg_publish p = pkg_publish q \<and> pkg_toolchain p = pkg_toolchain q \<and> pkg_lib p = pkg_lib q"

lemma EmitDependencySection_perm:
  assumes "mset xs = mset ys" and "distinct (map dep_alias xs)"
  shows "EmitDependencySection s xs = EmitDependencySection s ys"
proof -
  have "xs = [] \<longleftrightarrow> ys = []" using assms(1) by (metis mset_zero_iff)
  then show ?thesis
    using std_sort.srt_canonical [OF assms] by (simp add: EmitDependencySection_def)
qed

lemma emit_package_perm:
  assumes "same_package p q" and "wf_package p" and "distinct_aliases p"
  shows "emit_package p = emit_package q"
proof -
  from assms(1) have eqs: "pkg_name q = pkg_name p" "pkg_version q = pkg_version p"
    "pkg_edition q = pkg_edition p" "pkg_publish q = pkg_publish p"
    "pkg_toolchain q = pkg_toolchain p" "pkg_lib q = pkg_lib p"
    by (simp_all add: same_package_def)
  have m: "mset (pkg_bins p) = mset (pkg_bins q)" "mset (pkg_tests p) = mset (pkg_tests q)"
    "mset (pkg_dependencies p) = mset (pkg_dependencies q)"
    "mset (pkg_dev_dependencies p) = mset (pkg_dev_dependencies q)"
    using assms(1) by (simp_all add: same_package_def)
  have "sort_key bin_name (pkg_bins p) = sort_key bin_name (pkg_bins q)"
    "sort_key test_name (pkg_tests p) = sort_key test_name (pkg_tests q)"
    using assms(2) by (simp_all add: wf_package_def m std_sort.srt_canonical)
  moreover have "EmitDependencySection s (pkg_dependencies p) = EmitDependencySection s (pkg_dependencies q)"
    "EmitDependencySection s (pkg_dev_dependencies p) = EmitDependencySection s (pkg_dev_dependencies q)" for s
    using assms(3) m(3,4) by (auto simp: distinct_aliases_def intro: EmitDependencySection_perm)
  moreover have "pkg_dependencies p = [] \<longleftrightarrow> pkg_dependencies q = []"
    "pkg_dev_dependencies p = [] \<longleftrightarrow> pkg_dev_dependencies q = []"
    using m(3,4) by (metis mset_zero_iff)+
  ultimately show ?thesis by (simp add: emit_package_def eqs)
qed

lemma same_package_canonical: "same_package p (canonical_package p)"
  by (simp add: same_package_def canonical_package_def)


lemma canonical_package_wf: "wf_package p \<Longrightarrow> wf_package (canonical_package p)"
  by (simp add: wf_package_def canonical_package_def std_sort.srt_distinct_map
      flip: set_empty)

lemma canonical_package_idem:
  assumes "wf_package p" and "distinct_aliases p"
  shows "canonical_package (canonical_package p) = canonical_package p"
  using assms by (simp add: canonical_package_def wf_package_def distinct_aliases_def std_sort.srt_idem)

subsection \<open>The document the canonical text denotes\<close>

text \<open>
  The TOML document that the text of \<open>SerializeManifestCanonical\<close> writes down, section by section.
\<close>

definition toml_of_dependency :: "dependency \<Rightarrow> string \<times> toml" where
  "toml_of_dependency d =
     (dep_alias d, TTable (map (\<lambda>(l, v). (l, TString v)) (dependency_fields d)))"

definition toml_of_package :: "package_config \<Rightarrow> toml_table" where
  "toml_of_package p =
     [(''package'', TTable [(''name'', TString (pkg_name p)), (''version'', TString (pkg_version p)),
        (''edition'', TString (pkg_edition p)), (''publish'', TBoolean (pkg_publish p))]),
      (''toolchain'', TTable [(''channel'', TString (tc_channel (pkg_toolchain p))),
        (''implicit-std'', TBoolean (tc_implicit_std (pkg_toolchain p)))])] @
     (case pkg_lib p of None \<Rightarrow> [] | Some l \<Rightarrow> [(''lib'', TTable [(''path'', TString (lib_path l))])]) @
     (if pkg_bins p = [] then [] else [(''bin'', TArray (map (\<lambda>b.
        TTable [(''name'', TString (bin_name b)), (''path'', TString (bin_path b))])
        (sort_key bin_name (pkg_bins p))))]) @
     (if pkg_tests p = [] then [] else [(''test'', TArray (map (\<lambda>t.
        TTable [(''name'', TString (test_name t)), (''path'', TString (test_path t))])
        (sort_key test_name (pkg_tests p))))]) @
     (if pkg_dependencies p = [] then [] else [(''dependencies'',
        TTable (map toml_of_dependency (sort_key dep_alias (pkg_dependencies p))))]) @
     (if pkg_dev_dependencies p = [] then [] else [(''dev-dependencies'',
        TTable (map toml_of_dependency (sort_key dep_alias (pkg_dev_dependencies p))))])"

definition toml_of_workspace :: "workspace_config \<Rightarrow> toml_table" where
  "toml_of_workspace ws = [(''workspace'', TTable ([(''members'', TArray (map TString (ws_members ws)))] @
     (if ws_exclude ws = [] then [] else [(''exclude'', TArray (map TString (ws_exclude ws)))]) @
     [(''resolver'', TString (ws_resolver ws))]))]"

definition toml_of_manifest :: "manifest_document \<Rightarrow> toml_table" where
  "toml_of_manifest m = [(''pafio'', TTable [(''manifest-version'', TInteger 1)])] @
     (case doc_package m of None \<Rightarrow> [] | Some p \<Rightarrow> toml_of_package p) @
     (case doc_workspace m of None \<Rightarrow> [] | Some ws \<Rightarrow> toml_of_workspace ws)"

lemmas toml_access = RequireString_def RequireTable_def OptionalString_def OptionalBool_def
  RequireStringArray_def as_table_def as_array_def table_contains_def

lemma ParseDependency_toml:
  assumes "toml_values_ok api" and "wf_dependency d"
  shows "ParseDependency api tn (toml_of_dependency d) = Inr d"
proof -
  have api: "toml_string api (TString s) = Some s" for s
    using assms(1) by (simp add: toml_values_ok_def)
  show ?thesis
    using assms(2)
    by (cases "dep_source_kind d"; cases "dep_package d")
       (auto simp: ParseDependency_def toml_of_dependency_def dependency_fields_def wf_dependency_def
         toml_access api validate_defs)
qed

lemma ParseDependencies_toml:
  assumes "toml_values_ok api" and "\<forall>d \<in> set ds. wf_dependency d"
    and "map_of doc tn = (if ds = [] then None else Some (TTable (map toml_of_dependency ds)))"
  shows "ParseDependencies api doc tn = Inr ds"
proof -
  have "rmap (ParseDependency api tn) (map toml_of_dependency ds) = Inr ds"
    using assms(1,2) by (induction ds) (simp_all add: ParseDependency_toml)
  then show ?thesis using assms(3) by (simp add: ParseDependencies_def as_table_def)
qed

lemma parse_bins_toml:
  assumes "toml_values_ok api" and "distinct (map bin_name bins)" and "set seen \<inter> bin_name ` set bins = {}"
    and "\<forall>b \<in> set bins. bin_name b \<noteq> [] \<and> IsNonEmptyRelativePath (bin_path b)"
  shows "parse_bins api seen (map (\<lambda>b. TTable [(''name'', TString (bin_name b)), (''path'', TString (bin_path b))]) bins)
    = Inr bins"
proof -
  have api: "toml_string api (TString s) = Some s" for s
    using assms(1) by (simp add: toml_values_ok_def)
  show ?thesis
    using assms(2-4) by (induction bins arbitrary: seen) (auto simp: toml_access api validate_defs)
qed

lemma parse_tests_toml:
  assumes "toml_values_ok api" and "distinct (map test_name tests)" and "set seen \<inter> test_name ` set tests = {}"
    and "\<forall>t \<in> set tests. test_name t \<noteq> [] \<and> IsNonEmptyRelativePath (test_path t)"
  shows "parse_tests api seen (map (\<lambda>t. TTable [(''name'', TString (test_name t)), (''path'', TString (test_path t))]) tests)
    = Inr tests"
proof -
  have api: "toml_string api (TString s) = Some s" for s
    using assms(1) by (simp add: toml_values_ok_def)
  show ?thesis
    using assms(2-4) by (induction tests arbitrary: seen) (auto simp: toml_access api validate_defs)
qed

text \<open>What the sections of the document hold, whatever else is in it.\<close>

lemma map_of_package:
  assumes "map_of rest ''package'' = None" "map_of rest ''toolchain'' = None" "map_of rest ''lib'' = None"
    "map_of rest ''bin'' = None" "map_of rest ''test'' = None" "map_of rest ''dependencies'' = None"
    "map_of rest ''dev-dependencies'' = None"
  shows
    "map_of (toml_of_package p @ rest) ''lib'' =
       map_option (\<lambda>l. TTable [(''path'', TString (lib_path l))]) (pkg_lib p)"
    "map_of (toml_of_package p @ rest) ''bin'' = (if pkg_bins p = [] then None else Some (TArray (map (\<lambda>b.
        TTable [(''name'', TString (bin_name b)), (''path'', TString (bin_path b))])
        (sort_key bin_name (pkg_bins p)))))"
    "map_of (toml_of_package p @ rest) ''test'' = (if pkg_tests p = [] then None else Some (TArray (map (\<lambda>t.
        TTable [(''name'', TString (test_name t)), (''path'', TString (test_path t))])
        (sort_key test_name (pkg_tests p)))))"
    "map_of (toml_of_package p @ rest) ''dependencies'' = (if pkg_dependencies p = [] then None
       else Some (TTable (map toml_of_dependency (sort_key dep_alias (pkg_dependencies p)))))"
    "map_of (toml_of_package p @ rest) ''dev-dependencies'' = (if pkg_dev_dependencies p = [] then None
       else Some (TTable (map toml_of_dependency (sort_key dep_alias (pkg_dev_dependencies p)))))"
    "map_of (toml_of_package p @ rest) ''workspace'' = map_of rest ''workspace''"
  using assms by (simp_all add: toml_of_package_def split: option.split)

lemma sort_key_Nil_iff [simp]: "sort_key f xs = [] \<longleftrightarrow> xs = []"
  by (metis length_0_conv length_sort)

lemma ParsePackage_toml:
  assumes api: "toml_values_ok api" and wf: "wf_package p"
    and rest: "map_of rest ''package'' = None" "map_of rest ''toolchain'' = None" "map_of rest ''lib'' = None"
      "map_of rest ''bin'' = None" "map_of rest ''test'' = None" "map_of rest ''dependencies'' = None"
      "map_of rest ''dev-dependencies'' = None"
  shows "ParsePackage api (toml_of_package p @ rest) = Inr (canonical_package p)"
proof -
  let ?doc = "toml_of_package p @ rest"
  note look = map_of_package [OF rest, of p]
  have v: "toml_string api (TString s) = Some s" "toml_bool api (TBoolean b) = Some b" for s b
    using api by (simp_all add: toml_values_ok_def)
  have pk: "RequireTable ?doc ''package'' ''manifest'' = Inr
      [(''name'', TString (pkg_name p)), (''version'', TString (pkg_version p)),
       (''edition'', TString (pkg_edition p)), (''publish'', TBoolean (pkg_publish p))]"
    by (simp add: toml_of_package_def RequireTable_def as_table_def)
  have tc: "ParseToolchain api ?doc = Inr (pkg_toolchain p)"
    using wf by (simp add: toml_of_package_def ParseToolchain_def toml_access v wf_package_def)
  have lib: "ParseLib api ?doc = Inr (pkg_lib p)"
    using wf unfolding ParseLib_def look(1)
    by (cases "pkg_lib p") (auto simp: toml_access v validate_defs wf_package_def)
  have bins: "ParseBins api ?doc = Inr (sort_key bin_name (pkg_bins p))"
    using wf parse_bins_toml [OF api, of "sort_key bin_name (pkg_bins p)" "[]"]
    unfolding ParseBins_def look(2) by (auto simp: as_array_def wf_package_def std_sort.srt_distinct_map)
  have tests: "ParseTests api ?doc = Inr (sort_key test_name (pkg_tests p))"
    using wf parse_tests_toml [OF api, of "sort_key test_name (pkg_tests p)" "[]"]
    unfolding ParseTests_def look(3) by (auto simp: as_array_def wf_package_def std_sort.srt_distinct_map)
  have deps: "ParseDependencies api ?doc ''dependencies'' = Inr (sort_key dep_alias (pkg_dependencies p))"
    by (rule ParseDependencies_toml [OF api]) (use wf in \<open>simp_all only: look(4), auto simp: wf_package_def\<close>)
  have devs: "ParseDependencies api ?doc ''dev-dependencies'' = Inr (sort_key dep_alias (pkg_dev_dependencies p))"
    by (rule ParseDependencies_toml [OF api]) (use wf in \<open>simp_all only: look(5), auto simp: wf_package_def\<close>)
  have targets: "\<not> (pkg_lib p = None \<and> sort_key bin_name (pkg_bins p) = [] \<and> sort_key test_name (pkg_tests p) = [])"
    using wf by (auto simp: wf_package_def)
  show ?thesis
    unfolding ParsePackage_def pk
    using wf targets
    by (simp add: tc lib bins tests deps devs toml_access v validate_defs wf_package_def
        canonical_package_def)
qed

lemma rmap_strings:
  "(\<And>s. toml_string api (TString s) = Some s) \<Longrightarrow>
   rmap (\<lambda>node. case toml_string api node of Some v \<Rightarrow> Inr v | None \<Rightarrow> Inl e) (map TString ss) = Inr ss"
  by (induction ss) simp_all

lemma relative_paths_ok:
  "\<forall>m \<in> set ms. IsNonEmptyRelativePath m \<Longrightarrow>
     \<exists>us. rmap (\<lambda>m. ValidateRelativePath m context) ms = Inr us"
  by (induction ms) (auto simp: ValidateRelativePath_def)

lemma ParseWorkspace_toml:
  assumes api: "toml_values_ok api" and wf: "wf_workspace ws"
    and doc: "map_of doc ''workspace'' = map_of (toml_of_workspace ws) ''workspace''"
  shows "ParseWorkspace api doc = Inr ws"
proof -
  have v: "toml_string api (TString s) = Some s" for s
    using api by (simp add: toml_values_ok_def)
  note arrays = rmap_strings [of api, OF v]
  obtain u where u: "rmap (\<lambda>m. ValidateRelativePath m ''[workspace].members entry'') (ws_members ws) = Inr u"
    using wf relative_paths_ok [of "ws_members ws"] by (auto simp: wf_workspace_def)
  obtain u' where u': "rmap (\<lambda>e. ValidateRelativePath e ''[workspace].exclude entry'') (ws_exclude ws) = Inr u'"
    using wf relative_paths_ok [of "ws_exclude ws"] by (auto simp: wf_workspace_def)
  show ?thesis
    unfolding ParseWorkspace_def
    using wf u u' by (auto simp: doc toml_of_workspace_def toml_access v arrays wf_workspace_def)
qed

lemma ParseManifest_toml:
  assumes api: "toml_values_ok api" and wf: "wf_manifest m"
  shows "ParseManifest api (toml_of_manifest m) = Inr (canonical_manifest m)"
proof -
  have v: "toml_int64 api (TInteger i) = Some i" for i
    using api by (simp add: toml_values_ok_def)
  let ?head = "(''pafio'', TTable [(''manifest-version'', TInteger 1)])"
  have drop_head: "ParsePackage api (?head # doc) = ParsePackage api doc" for doc
    by (simp add: ParsePackage_def ParseToolchain_def ParseLib_def ParseBins_def ParseTests_def
        ParseDependencies_def RequireTable_def)
  have pkg: "ParsePackage api (toml_of_manifest m) = Inr (canonical_package p)" if "doc_package m = Some p" for p
    using that wf ParsePackage_toml [OF api, of p]
    by (cases "doc_workspace m")
       (simp_all add: toml_of_manifest_def drop_head wf_manifest_def toml_of_workspace_def, metis append_Nil2 map_of.simps(1))
  have ws: "ParseWorkspace api (toml_of_manifest m) = Inr ws" if "doc_workspace m = Some ws" for ws
    using that wf map_of_package(6) [of "toml_of_workspace ws"]
    by (intro ParseWorkspace_toml [OF api])
       (auto simp: wf_manifest_def toml_of_manifest_def toml_of_workspace_def split: option.split)
  have has: "table_contains (toml_of_manifest m) ''package'' \<longleftrightarrow> doc_package m \<noteq> None"
    "table_contains (toml_of_manifest m) ''workspace'' \<longleftrightarrow> doc_workspace m \<noteq> None"
    by (cases "doc_package m"; cases "doc_workspace m"; simp add: table_contains_def toml_of_manifest_def
          toml_of_package_def toml_of_workspace_def)
       (cases "doc_package m"; cases "doc_workspace m"; simp add: table_contains_def toml_of_manifest_def
          toml_of_package_def toml_of_workspace_def split: option.split)
  have ver: "RequireTable (toml_of_manifest m) ''pafio'' ''manifest'' = Inr [(''manifest-version'', TInteger 1)]"
    by (simp add: RequireTable_def toml_of_manifest_def as_table_def)
  show ?thesis
    unfolding ParseManifest_def ver
    using wf pkg ws by (auto simp: has v wf_manifest_def canonical_manifest_def Let_def
        split: option.splits)
qed

lemma emit_canonical:
  assumes "wf_package p" and "distinct_aliases p"
  shows "emit_package (canonical_package p) = emit_package p"
  using emit_package_perm [OF same_package_canonical assms] by simp

subsection \<open>Quoting\<close>

lemma escape_quoted_inj:
  "escape_quoted s @ CHR 0x22 # r = escape_quoted t @ CHR 0x22 # r' \<Longrightarrow> s = t \<and> r = r'"
proof (induction s arbitrary: t)
  case Nil
  then show ?case by (cases t) (auto split: if_splits)
next
  case (Cons c s)
  then show ?case by (cases t) (auto split: if_splits)
qed

lemma QuoteTomlString_inj: "QuoteTomlString s @ r = QuoteTomlString t @ r' \<longleftrightarrow> s = t \<and> r = r'"
  by (auto simp: QuoteTomlString_def dest: escape_quoted_inj)

subsection \<open>The parser does not run on fuel\<close>

lemma no_fuel_access [no_fuel_intros]:
  "no_fuel (RequireTable t k c)" "no_fuel (RequireString api t k c)" "no_fuel (RequireStringArray api t k c ne)"
  "no_fuel (ValidatePackageName n c)" "no_fuel (ValidateSemver v c)" "no_fuel (ValidateRelativePath p c)"
  "no_fuel (ValidateRegistryRoot r c)"
  unfolding RequireTable_def RequireString_def RequireStringArray_def validate_defs
  by (intro no_fuel_intros error.simps)+

lemma no_fuel_ParseDependency [no_fuel_intros]: "no_fuel (ParseDependency api tn e)"
  unfolding ParseDependency_def Let_def by (intro no_fuel_intros error.simps)

lemma no_fuel_parse_targets [no_fuel_intros]:
  "no_fuel (parse_bins api seen nodes)" "no_fuel (parse_tests api seen nodes)"
proof -
  show "no_fuel (parse_bins api seen nodes)"
    by (induction nodes arbitrary: seen) (auto intro!: no_fuel_intros)
  show "no_fuel (parse_tests api seen nodes)"
    by (induction nodes arbitrary: seen) (auto intro!: no_fuel_intros)
qed

lemma no_fuel_parse_sections [no_fuel_intros]:
  "no_fuel (ParseDependencies api doc tn)" "no_fuel (ParseToolchain api doc)" "no_fuel (ParseLib api doc)"
  "no_fuel (ParseBins api doc)" "no_fuel (ParseTests api doc)"
  unfolding ParseDependencies_def ParseToolchain_def ParseLib_def ParseBins_def ParseTests_def
  by (intro no_fuel_intros error.simps)+

lemma no_fuel_ParsePackage [no_fuel_intros]: "no_fuel (ParsePackage api doc)"
  unfolding ParsePackage_def by (intro no_fuel_intros error.simps)

lemma no_fuel_ParseWorkspace [no_fuel_intros]: "no_fuel (ParseWorkspace api doc)"
  unfolding ParseWorkspace_def by (intro no_fuel_intros error.simps)

lemma no_fuel_LoadManifest [no_fuel_intros]: "no_fuel (LoadManifest env w path)"
proof -
  have "no_fuel (ParseManifest api doc)" for api doc
    unfolding ParseManifest_def Let_def by (intro no_fuel_intros error.simps)
  then show ?thesis
    by (auto simp: LoadManifest_def Let_def intro!: no_fuel_intros split: sum.split)
qed

end
