(* ===== verification/Lockfile.thy ===== *)
theory Lockfile
  imports ManifestFacts
begin

section \<open>Lockfiles\<close>

text \<open>
  \<open>src/PafioManifest/Lockfile.hpp\<close> and \<open>Lockfile.cpp\<close>: the lockfile data, its parser and validator, and
  the canonical serializer.  \<open>wf_lockfile\<close> is what an accepted lockfile satisfies,
  \<open>canonical_lockfile\<close> the order the serializer imposes, \<open>toml_of_lockfile\<close> the document its text
  denotes.
\<close>

subsection \<open>Data\<close>

record lock_package =
  lk_id :: string
  lk_name :: string
  lk_version :: string
  lk_source_kind :: string
  lk_git :: "string option"
  lk_rev :: "string option"
  lk_registry :: "string option"
  lk_sha256 :: "string option"
  lk_dependencies :: "string list"

record lockfile_document =
  lf_generated_by :: string
  lf_resolver :: string
  lf_packages :: "lock_package list"

subsection \<open>Parsing\<close>

definition ParseStringArray :: "toml_api \<Rightarrow> toml_table \<Rightarrow> string \<Rightarrow> string \<Rightarrow> string list result" where
  "ParseStringArray api table key context =
     (case as_array (map_of table key) of
        None \<Rightarrow> Inl (ValidationError (''missing or invalid '' @ squote key @ '' array in '' @ context))
      | Some array \<Rightarrow> rmap (\<lambda>node. case toml_string api node of
            Some v \<Rightarrow> Inr v
          | None \<Rightarrow> Inl (ValidationError
              (''array '' @ squote key @ '' in '' @ context @ '' must contain only strings''))) array)"

definition ValidateSourceKind :: "string \<Rightarrow> unit result" where
  "ValidateSourceKind source_kind =
     guard (source_kind \<in> {''workspace'', ''path'', ''git'', ''registry''})
       (ValidationError ''lockfile package source-kind must be one of workspace, path, git, or registry'')"

definition ValidateSha256 :: "string \<Rightarrow> string \<Rightarrow> unit result" where
  "ValidateSha256 sha256 context =
     guard (rx_match Sha256Regex sha256) (ValidationError (context @ '' must be a lowercase sha256 hex digest''))"

text \<open>The rules on the source fields of one package.\<close>

definition ValidateLockSource ::
    "string \<Rightarrow> string option \<Rightarrow> string option \<Rightarrow> string option \<Rightarrow> string option \<Rightarrow> unit result" where
  "ValidateLockSource kind git rv registry sha256 =
     (if kind = ''git'' then
        (if git = None \<or> git = Some [] then
           Inl (ValidationError ''[[package]].git must be a non-empty string when source-kind = \"git\"'')
         else if rv = None \<or> rv = Some [] then
           Inl (ValidationError ''[[package]].rev must be a non-empty string when source-kind = \"git\"'')
         else if registry \<noteq> None \<or> sha256 \<noteq> None then
           Inl (ValidationError ''[[package]].registry and [[package]].sha256 are only valid when source-kind = \"registry\"'')
         else Inr ())
      else if kind = ''registry'' then
        (if registry = None \<or> registry = Some [] then
           Inl (ValidationError ''[[package]].registry must be a non-empty string when source-kind = \"registry\"'')
         else case sha256 of
           None \<Rightarrow> Inl (ValidationError ''[[package]].sha256 must be present when source-kind = \"registry\"'')
         | Some s \<Rightarrow> rbind (ValidateSha256 s ''[[package]].sha256'') (\<lambda>_.
             if git \<noteq> None \<or> rv \<noteq> None then
               Inl (ValidationError ''[[package]].git and [[package]].rev are only valid when source-kind = \"git\"'')
             else Inr ()))
      else if git \<noteq> None \<or> rv \<noteq> None \<or> registry \<noteq> None \<or> sha256 \<noteq> None then
        Inl (ValidationError ''[[package]].git/rev are only valid for git packages and [[package]].registry/sha256 are only valid for registry packages'')
      else Inr ())"

definition ParseLockPackage :: "toml_api \<Rightarrow> toml \<Rightarrow> lock_package result" where
  "ParseLockPackage api node =
     (case as_table (Some node) of
        None \<Rightarrow> Inl (ValidationError ''lockfile package entry must be a table'')
      | Some t \<Rightarrow>
     rbind (RequireString api t ''id'' ''[[package]]'') (\<lambda>ident.
     rbind (RequireString api t ''name'' ''[[package]]'') (\<lambda>name.
     rbind (RequireString api t ''version'' ''[[package]]'') (\<lambda>version.
     rbind (RequireString api t ''source-kind'' ''[[package]]'') (\<lambda>kind.
     let git = OptionalString api t ''git''; rv = OptionalString api t ''rev'';
         registry = OptionalString api t ''registry''; sha = OptionalString api t ''sha256'' in
     rbind (ParseStringArray api t ''dependencies'' ''[[package]]'') (\<lambda>deps.
     rbind (guard (ident \<noteq> []) (ValidationError ''[[package]].id must be a non-empty string'')) (\<lambda>_.
     rbind (ValidatePackageName name ''lockfile package name'') (\<lambda>_.
     rbind (ValidateSemver version ''lockfile package version'') (\<lambda>_.
     rbind (ValidateSourceKind kind) (\<lambda>_.
     rbind (ValidateLockSource kind git rv registry sha) (\<lambda>_.
     Inr \<lparr>lk_id = ident, lk_name = name, lk_version = version, lk_source_kind = kind, lk_git = git,
          lk_rev = rv, lk_registry = registry, lk_sha256 = sha, lk_dependencies = deps\<rparr>)))))))))))"

definition ParseLockfile :: "toml_api \<Rightarrow> toml_table \<Rightarrow> lockfile_document result" where
  "ParseLockfile api doc =
     rbind (guard (Option.bind (map_of doc ''lock-version'') (toml_int64 api) = Some 1)
       (ValidationError ''lock-version must be 1'')) (\<lambda>_.
     case as_table (map_of doc ''metadata'') of
       None \<Rightarrow> Inl (ValidationError ''missing or invalid [metadata] table'')
     | Some metadata \<Rightarrow>
     rbind (RequireString api metadata ''generated-by'' ''[metadata]'') (\<lambda>generated_by.
     rbind (RequireString api metadata ''resolver'' ''[metadata]'') (\<lambda>resolver.
     rbind (guard (generated_by \<noteq> [])
       (ValidationError ''[metadata].generated-by must be a non-empty string'')) (\<lambda>_.
     rbind (guard (resolver = ''single-version-v1'')
       (ValidationError ''[metadata].resolver must be single-version-v1'')) (\<lambda>_.
     rbind (case as_array (map_of doc ''package'') of
              None \<Rightarrow> Inr [] | Some nodes \<Rightarrow> rmap (ParseLockPackage api) nodes) (\<lambda>packages.
     Inr \<lparr>lf_generated_by = generated_by, lf_resolver = resolver, lf_packages = packages\<rparr>))))))"

definition LoadLockfile :: "env \<Rightarrow> fs \<Rightarrow> string \<Rightarrow> lockfile_document result" where
  "LoadLockfile env w lockfile_path =
     (let failed = (\<lambda>what. Inl (ValidationError
            (''failed to parse lockfile '' @ squote lockfile_path @ '': '' @ what)))
      in case fs_read env w lockfile_path of
           None \<Rightarrow> failed (toml_open_error (env_toml env))
         | Some content \<Rightarrow> (case toml_parse (env_toml env) content of
               Inl what \<Rightarrow> failed what
             | Inr doc \<Rightarrow> ParseLockfile (env_toml env) doc))"

subsection \<open>Canonical serialization\<close>

definition emit_lock_package :: "lock_package \<Rightarrow> string" where
  "emit_lock_package p =
     nl @ ''[[package]]'' @ nl @ emit_field ''id'' (lk_id p) @ emit_field ''name'' (lk_name p) @
     emit_field ''version'' (lk_version p) @ emit_field ''source-kind'' (lk_source_kind p) @
     (if lk_source_kind p = ''git'' then
        emit_field ''git'' (case_option [] id (lk_git p)) @ emit_field ''rev'' (case_option [] id (lk_rev p))
      else if lk_source_kind p = ''registry'' then
        emit_field ''registry'' (case_option [] id (lk_registry p)) @
        emit_field ''sha256'' (case_option [] id (lk_sha256 p))
      else []) @
     ''dependencies = ['' @ join '', '' (map QuoteTomlString (sort (lk_dependencies p))) @ '']'' @ nl"

definition SerializeLockfileCanonical :: "lockfile_document \<Rightarrow> string" where
  "SerializeLockfileCanonical l =
     ''lock-version = 1'' @ nl @ nl @ ''[metadata]'' @ nl @
     emit_field ''generated-by'' (lf_generated_by l) @ emit_field ''resolver'' (lf_resolver l) @
     concat (map emit_lock_package (sort_key lk_id (lf_packages l)))"

subsection \<open>Accepted lockfiles\<close>

definition wf_lock_package :: "lock_package \<Rightarrow> bool" where
  "wf_lock_package p \<longleftrightarrow>
     lk_id p \<noteq> [] \<and> rx_match NameRegex (lk_name p) \<and> rx_match SemverRegex (lk_version p) \<and>
     (lk_source_kind p = ''git'' \<and> (\<exists>g. lk_git p = Some g \<and> g \<noteq> []) \<and> (\<exists>r. lk_rev p = Some r \<and> r \<noteq> []) \<and>
        lk_registry p = None \<and> lk_sha256 p = None
    \<or> lk_source_kind p = ''registry'' \<and>
        (\<exists>u. lk_registry p = Some u \<and> u \<noteq> []) \<and> (\<exists>s. lk_sha256 p = Some s \<and> rx_match Sha256Regex s) \<and>
        lk_git p = None \<and> lk_rev p = None
    \<or> lk_source_kind p \<in> {''workspace'', ''path''} \<and>
        lk_git p = None \<and> lk_rev p = None \<and> lk_registry p = None \<and> lk_sha256 p = None)"

definition wf_lockfile :: "lockfile_document \<Rightarrow> bool" where
  "wf_lockfile l \<longleftrightarrow> lf_generated_by l \<noteq> [] \<and> lf_resolver l = ''single-version-v1'' \<and>
     (\<forall>p \<in> set (lf_packages l). wf_lock_package p)"

lemmas wf_lock_codes [code] = wf_lock_package_def [unfolded option_ex]

lemma ValidateLockSource_iff:
  "ValidateLockSource kind git rv registry sha256 = Inr u \<longleftrightarrow>
     (if kind = ''git'' then git \<noteq> None \<and> git \<noteq> Some [] \<and> rv \<noteq> None \<and> rv \<noteq> Some [] \<and>
        registry = None \<and> sha256 = None
      else if kind = ''registry'' then registry \<noteq> None \<and> registry \<noteq> Some [] \<and> git = None \<and> rv = None \<and>
        (\<exists>s. sha256 = Some s \<and> rx_match Sha256Regex s)
      else git = None \<and> rv = None \<and> registry = None \<and> sha256 = None)"
  by (auto simp: ValidateLockSource_def ValidateSha256_def result_simps split: option.splits if_splits)

lemma ParseLockPackage_wf: "ParseLockPackage api node = Inr p \<Longrightarrow> wf_lock_package p"
proof -
  assume parse: "ParseLockPackage api node = Inr p"
  then obtain t where t: "as_table (Some node) = Some t"
    by (auto simp: ParseLockPackage_def split: option.splits)
  from parse have ok: "lk_id p \<noteq> []" "rx_match NameRegex (lk_name p)" "rx_match SemverRegex (lk_version p)"
    "lk_source_kind p \<in> {''workspace'', ''path'', ''git'', ''registry''}"
    "\<exists>u. ValidateLockSource (lk_source_kind p) (lk_git p) (lk_rev p) (lk_registry p) (lk_sha256 p) = Inr u"
    by (auto simp: ParseLockPackage_def t result_simps Let_def validate_defs ValidateSourceKind_def)
  show ?thesis
    using ok unfolding wf_lock_package_def ValidateLockSource_iff by (auto split: if_splits)
qed

lemma ParseLockfile_wf: "ParseLockfile api doc = Inr l \<Longrightarrow> wf_lockfile l"
  by (auto simp: ParseLockfile_def wf_lockfile_def result_simps split: option.splits
      dest: rmap_Inr_in_set intro: ParseLockPackage_wf)

lemma LoadLockfile_wf_lockfile: "LoadLockfile env w path = Inr l \<Longrightarrow> wf_lockfile l"
  by (auto simp: LoadLockfile_def Let_def split: option.splits sum.splits intro: ParseLockfile_wf)

subsection \<open>The canonical order\<close>

definition canonical_lock_package :: "lock_package \<Rightarrow> lock_package" where
  "canonical_lock_package p = p\<lparr>lk_dependencies := sort (lk_dependencies p)\<rparr>"

definition canonical_lockfile :: "lockfile_document \<Rightarrow> lockfile_document" where
  "canonical_lockfile l = l\<lparr>lf_packages := map canonical_lock_package (sort_key lk_id (lf_packages l))\<rparr>"

definition distinct_ids :: "lockfile_document \<Rightarrow> bool" where
  "distinct_ids l \<longleftrightarrow> distinct (map lk_id (lf_packages l))"

lemma canonical_lock_package_id [simp]: "lk_id (canonical_lock_package p) = lk_id p"
  by (simp add: canonical_lock_package_def)

lemma lk_id_canonical [simp]: "lk_id \<circ> canonical_lock_package = lk_id"
  by (simp add: fun_eq_iff)

lemma emit_canonical_lock_package [simp]: "emit_lock_package (canonical_lock_package p) = emit_lock_package p"
  by (simp add: emit_lock_package_def canonical_lock_package_def sort_key_id_if_sorted)

lemma emit_canonical_lock_package_o [simp]: "emit_lock_package \<circ> canonical_lock_package = emit_lock_package"
  by (simp add: fun_eq_iff)

lemma sorted_canonical_ids: "sorted (map lk_id (map canonical_lock_package (sort_key lk_id ps)))"
  by simp

lemma SerializeLockfile_canonical: "SerializeLockfileCanonical (canonical_lockfile l) = SerializeLockfileCanonical l"
proof -
  have "sort_key lk_id (map canonical_lock_package (sort_key lk_id ps)) =
      map canonical_lock_package (sort_key lk_id ps)" for ps
    by (rule sort_key_id_if_sorted) (rule sorted_canonical_ids)
  then show ?thesis by (simp add: SerializeLockfileCanonical_def canonical_lockfile_def)
qed

subsection \<open>The document the canonical text denotes\<close>

definition toml_of_lock_package :: "lock_package \<Rightarrow> toml" where
  "toml_of_lock_package p = TTable (
     [(''id'', TString (lk_id p)), (''name'', TString (lk_name p)), (''version'', TString (lk_version p)),
      (''source-kind'', TString (lk_source_kind p))] @
     (if lk_source_kind p = ''git'' then
        [(''git'', TString (case_option [] id (lk_git p))), (''rev'', TString (case_option [] id (lk_rev p)))]
      else if lk_source_kind p = ''registry'' then
        [(''registry'', TString (case_option [] id (lk_registry p))),
         (''sha256'', TString (case_option [] id (lk_sha256 p)))]
      else []) @
     [(''dependencies'', TArray (map TString (sort (lk_dependencies p))))])"

definition toml_of_lockfile :: "lockfile_document \<Rightarrow> toml_table" where
  "toml_of_lockfile l =
     [(''lock-version'', TInteger 1),
      (''metadata'', TTable [(''generated-by'', TString (lf_generated_by l)),
                             (''resolver'', TString (lf_resolver l))])] @
     (if lf_packages l = [] then []
      else [(''package'', TArray (map toml_of_lock_package (sort_key lk_id (lf_packages l))))])"

lemma ParseLockPackage_toml:
  assumes "toml_values_ok api" and "wf_lock_package p"
  shows "ParseLockPackage api (toml_of_lock_package p) = Inr (canonical_lock_package p)"
proof -
  have v: "toml_string api (TString s) = Some s" for s
    using assms(1) by (simp add: toml_values_ok_def)
  note arr = rmap_strings [of api, OF v]
  have fields: "lk_id p \<noteq> []" "rx_match NameRegex (lk_name p)" "rx_match SemverRegex (lk_version p)"
    using assms(2) by (auto simp: wf_lock_package_def)
  consider (git) g r where "lk_source_kind p = ''git''" "lk_git p = Some g" "lk_rev p = Some r"
      "g \<noteq> []" "r \<noteq> []" "lk_registry p = None" "lk_sha256 p = None"
    | (registry) u s where "lk_source_kind p = ''registry''" "lk_registry p = Some u" "lk_sha256 p = Some s"
      "u \<noteq> []" "rx_match Sha256Regex s" "lk_git p = None" "lk_rev p = None"
    | (ws) "lk_source_kind p = ''workspace''" "lk_git p = None" "lk_rev p = None"
        "lk_registry p = None" "lk_sha256 p = None"
    | (path) "lk_source_kind p = ''path''" "lk_git p = None" "lk_rev p = None"
        "lk_registry p = None" "lk_sha256 p = None"
    using assms(2) by (auto simp: wf_lock_package_def)
  then show ?thesis
    by cases (simp_all add: ParseLockPackage_def toml_of_lock_package_def as_table_def as_array_def
        RequireString_def OptionalString_def v ParseStringArray_def arr fields validate_defs
        ValidateSourceKind_def ValidateLockSource_def ValidateSha256_def canonical_lock_package_def)
qed

lemma ParseLockfile_toml:
  assumes "toml_values_ok api" and "wf_lockfile l"
  shows "ParseLockfile api (toml_of_lockfile l) = Inr (canonical_lockfile l)"
proof -
  have v: "toml_string api (TString s) = Some s" "toml_int64 api (TInteger i) = Some i" for s i
    using assms(1) by (simp_all add: toml_values_ok_def)
  have "rmap (ParseLockPackage api) (map toml_of_lock_package (sort_key lk_id (lf_packages l))) =
      Inr (map canonical_lock_package (sort_key lk_id (lf_packages l)))"
    using assms(2) ParseLockPackage_toml [OF assms(1)]
    by (auto simp: rmap_eq_Inr_iff list_all2_conv_all_nth wf_lockfile_def)
      (metis nth_mem set_sort length_sort)
  then show ?thesis
    using assms(2) by (simp add: ParseLockfile_def toml_of_lockfile_def as_table_def as_array_def
        RequireString_def OptionalString_def v canonical_lockfile_def wf_lockfile_def)
qed

subsection \<open>The canonical text determines the canonical lockfile\<close>

lemma emit_field_inj [simp]: "emit_field l v @ r = emit_field l v' @ r' \<longleftrightarrow> v = v' \<and> r = r'"
  by (simp add: emit_field_def QuoteTomlString_inj)

lemma join_Cons: "join sep (p # ps) = p @ concat (map (\<lambda>q. sep @ q) ps)"
  by (induction ps arbitrary: p) auto

lemma quoted_tail_inj:
  "concat (map (\<lambda>q. '', '' @ QuoteTomlString q) xs) @ CHR '']'' # r =
   concat (map (\<lambda>q. '', '' @ QuoteTomlString q) ys) @ CHR '']'' # r' \<Longrightarrow> xs = ys \<and> r = r'"
proof (induction xs arbitrary: ys)
  case Nil
  then show ?case by (cases ys) auto
next
  case (Cons x xs)
  then show ?case by (cases ys) (auto simp: QuoteTomlString_inj)
qed

lemma quoted_list_inj:
  "join '', '' (map QuoteTomlString xs) @ CHR '']'' # r = join '', '' (map QuoteTomlString ys) @ CHR '']'' # r'
     \<Longrightarrow> xs = ys \<and> r = r'"
proof (cases xs)
  case Nil
  moreover assume "join '', '' (map QuoteTomlString xs) @ CHR '']'' # r =
    join '', '' (map QuoteTomlString ys) @ CHR '']'' # r'"
  ultimately show ?thesis
    by (cases ys) (auto simp: join_Cons QuoteTomlString_def)
next
  case (Cons x xs')
  moreover assume "join '', '' (map QuoteTomlString xs) @ CHR '']'' # r =
    join '', '' (map QuoteTomlString ys) @ CHR '']'' # r'"
  ultimately show ?thesis
    using quoted_tail_inj [of xs' r "tl ys" r']
    by (cases ys) (auto simp: join_Cons QuoteTomlString_inj comp_def, simp_all add: QuoteTomlString_def)
qed

lemma emit_lock_package_inj:
  assumes "emit_lock_package p @ r = emit_lock_package q @ r'"
    and "wf_lock_package p" and "wf_lock_package q"
  shows "canonical_lock_package p = canonical_lock_package q \<and> r = r'"
proof -
  from assms(1) have same: "lk_id p = lk_id q" "lk_name p = lk_name q" "lk_version p = lk_version q"
    "lk_source_kind p = lk_source_kind q"
    by (simp_all add: emit_lock_package_def)
  from assms(1) have opts: "(if lk_source_kind q = ''git'' then case_option [] id (lk_git p) = case_option [] id (lk_git q) \<and>
      case_option [] id (lk_rev p) = case_option [] id (lk_rev q)
    else lk_source_kind q = ''registry'' \<longrightarrow> case_option [] id (lk_registry p) = case_option [] id (lk_registry q) \<and>
      case_option [] id (lk_sha256 p) = case_option [] id (lk_sha256 q))"
    and deps: "join '', '' (map QuoteTomlString (sort (lk_dependencies p))) @ CHR '']'' # nl @ r =
      join '', '' (map QuoteTomlString (sort (lk_dependencies q))) @ CHR '']'' # nl @ r'"
    by (auto simp: emit_lock_package_def split: if_splits)
  from quoted_list_inj [OF deps] have "sort (lk_dependencies p) = sort (lk_dependencies q)" "r = r'"
    by simp_all
  moreover have "lk_git p = lk_git q \<and> lk_rev p = lk_rev q \<and> lk_registry p = lk_registry q \<and> lk_sha256 p = lk_sha256 q"
    using opts assms(2,3) same(4) by (auto simp: wf_lock_package_def split: if_splits)
  ultimately show ?thesis using same by (simp add: canonical_lock_package_def)
qed

lemma emit_lock_packages_inj:
  "concat (map emit_lock_package ps) = concat (map emit_lock_package qs) \<Longrightarrow>
   (\<forall>p \<in> set ps. wf_lock_package p) \<Longrightarrow> (\<forall>q \<in> set qs. wf_lock_package q) \<Longrightarrow>
   map canonical_lock_package ps = map canonical_lock_package qs"
proof (induction ps arbitrary: qs)
  case Nil
  then show ?case by (cases qs) (auto simp: emit_lock_package_def nl_def)
next
  case (Cons p ps)
  then obtain q qs' where qs: "qs = q # qs'"
    by (cases qs) (auto simp: emit_lock_package_def nl_def)
  with Cons.prems have "canonical_lock_package p = canonical_lock_package q \<and>
      concat (map emit_lock_package ps) = concat (map emit_lock_package qs')"
    by (intro emit_lock_package_inj) auto
  with Cons.IH [of qs'] Cons.prems qs show ?case by simp
qed

lemma SerializeLockfile_inj:
  assumes "SerializeLockfileCanonical a = SerializeLockfileCanonical b"
    and "wf_lockfile a" and "wf_lockfile b"
  shows "canonical_lockfile a = canonical_lockfile b"
proof -
  from assms(1) have "lf_generated_by a = lf_generated_by b" "lf_resolver a = lf_resolver b"
    and "concat (map emit_lock_package (sort_key lk_id (lf_packages a))) =
      concat (map emit_lock_package (sort_key lk_id (lf_packages b)))"
    by (simp_all add: SerializeLockfileCanonical_def)
  with emit_lock_packages_inj [OF this(3)] assms(2,3) show ?thesis
    by (simp add: canonical_lockfile_def wf_lockfile_def)
qed

lemma SerializeLockfile_perm:
  assumes "mset (lf_packages a) = mset (lf_packages b)" and "distinct_ids a"
    and "lf_generated_by a = lf_generated_by b" and "lf_resolver a = lf_resolver b"
  shows "SerializeLockfileCanonical a = SerializeLockfileCanonical b"
  using assms std_sort.srt_canonical [OF assms(1), of lk_id]
  by (simp add: SerializeLockfileCanonical_def distinct_ids_def)

end
