(* ===== verification/CoreProperties.thy ===== *)
theory CoreProperties
  imports Digest Lockfile
begin

section \<open>Properties of digests, paths, manifests and lockfiles\<close>

text \<open>
  The properties of the low-level components, each with a concrete instance where it has
  hypotheses.  \<open>sample_env\<close> is the environment of the instances: every path is writable, no
  variable is set, no child process starts, and the TOML library converts values of matching type.
\<close>

definition sample_api :: toml_api where
  "sample_api = \<lparr>toml_parse = (\<lambda>_. Inl ''syntax error''), toml_open_error = ''cannot open'',
     toml_string = (\<lambda>t. case t of TString s \<Rightarrow> Some s | _ \<Rightarrow> None),
     toml_bool = (\<lambda>t. case t of TBoolean b \<Rightarrow> Some b | _ \<Rightarrow> None),
     toml_int64 = (\<lambda>t. case t of TInteger i \<Rightarrow> Some i | _ \<Rightarrow> None)\<rparr>"

definition sample_json :: json_api where
  "sample_json = \<lparr>json_dump = (\<lambda>_ _. Inr ''{}''), json_parse = (\<lambda>_. Inl ''syntax error''),
     json_trunc = (\<lambda>_. 0), json_stream = (\<lambda>_. Inl ''syntax error'')\<rparr>"

definition sample_env :: env where
  "sample_env = \<lparr>env_cwd = ''/w'', env_getenv = (\<lambda>_. None), env_writable = (\<lambda>_. True),
     env_spawn = (\<lambda>_ w. (Inl ''no such program'', w)), env_toml = sample_api, env_json = sample_json,
     env_project_root = ''/pafio''\<rparr>"

text \<open>The sample environment with a TOML parser that gives one document.\<close>

definition sample_env_reading :: "toml_table \<Rightarrow> env" where
  "sample_env_reading doc = sample_env\<lparr>env_toml := sample_api\<lparr>toml_parse := (\<lambda>_. Inr doc)\<rparr>\<rparr>"

lemma sample_values_ok: "toml_values_ok (env_toml (sample_env_reading doc))"
  by (simp add: toml_values_ok_def sample_env_reading_def sample_env_def sample_api_def)

text \<open>Writing a file of the working directory succeeds there.\<close>

lemma fs_write_sample:
  "fs_write (sample_env_reading doc) ''pafio.toml'' c e [([''w''], Dir)] =
     (Inr (), fs_put (sample_env_reading doc) ''pafio.toml'' (File c) [([''w''], Dir)])"
  "fs_write (sample_env_reading doc) ''pafio.lock'' c e [([''w''], Dir)] =
     (Inr (), fs_put (sample_env_reading doc) ''pafio.lock'' (File c) [([''w''], Dir)])"
proof -
  have "comps (CanonicalAbsolutePath ''/w'' ''pafio.toml'') = [''w'', ''pafio.toml'']"
    "comps (CanonicalAbsolutePath ''/w'' ''pafio.lock'') = [''w'', ''pafio.lock'']"
    by code_simp+
  then show "fs_write (sample_env_reading doc) ''pafio.toml'' c e [([''w''], Dir)] =
     (Inr (), fs_put (sample_env_reading doc) ''pafio.toml'' (File c) [([''w''], Dir)])"
  "fs_write (sample_env_reading doc) ''pafio.lock'' c e [([''w''], Dir)] =
     (Inr (), fs_put (sample_env_reading doc) ''pafio.lock'' (File c) [([''w''], Dir)])"
    by (simp_all add: fs_write_def fs_can_write_def path_key_def sample_env_reading_def sample_env_def)
qed

subsection \<open>Digests\<close>


text \<open>Every digest the program computes passes its own lockfile validation (64 lowercase
  hexadecimal digits), so a lockfile written with computed digests is never rejected for them.\<close>

theorem sha256_digest_validates:
  "\<exists>d. Sha256File content = Some d \<and> ValidateSha256 d context = Inr ()"
  by (simp add: Sha256File_eq ValidateSha256_def sha_hex_format)

text \<open>The FNV-1a cache keys of two strings of the same length that differ in one byte differ,
  and so do their printed forms.\<close>

theorem fnv_one_byte_change:
  assumes "c \<noteq> d"
  shows "Hex64 (Fnv1a64 (a @ c # b)) \<noteq> Hex64 (Fnv1a64 (a @ d # b))"
  using assms by (auto simp: Hex64_inj Fnv1a64_def dest: foldl_fnv_inj fnv_step_inj_char)

theorem fnv_one_byte_change_witness:
  "Hex64 (Fnv1a64 ''git-a'') \<noteq> Hex64 (Fnv1a64 ''git-b'')"
  using fnv_one_byte_change [of "CHR ''a''" "CHR ''b''" "''git-''" "[]"] by simp

subsection \<open>Paths\<close>

text \<open>A canonical path is absolute, has no empty, dot or dot-dot component, and canonicalizing
  it again changes nothing.\<close>

theorem CanonicalAbsolutePath_normal:
  assumes "is_absolute cwd"
  shows "is_absolute (CanonicalAbsolutePath cwd p) \<and>
    (\<forall>c \<in> set (comps (CanonicalAbsolutePath cwd p)). c \<noteq> [] \<and> c \<noteq> ''.'' \<and> c \<noteq> ''..'') \<and>
    CanonicalAbsolutePath cwd (CanonicalAbsolutePath cwd p) = CanonicalAbsolutePath cwd p"
  using canonical_normal [OF assms, of p] canonical_idem [OF assms, of p]
  by (auto dest!: normal_abs_comps simp: proper_name_def)

theorem CanonicalAbsolutePath_normal_witness:
  "CanonicalAbsolutePath ''/w'' (CanonicalAbsolutePath ''/w'' ''../a/./b'') = CanonicalAbsolutePath ''/w'' ''../a/./b''"
  using CanonicalAbsolutePath_normal [of "''/w''" "''../a/./b''"] by (simp add: is_absolute_def)

text \<open>The textual test on the relative path decides containment: a candidate is accepted exactly
  when the components of the canonical root are a prefix of the candidate's.\<close>

theorem PathIsWithin_component_prefix:
  assumes "is_absolute cwd"
  shows "PathIsWithin cwd candidate root \<longleftrightarrow>
    prefix (comps (CanonicalAbsolutePath cwd root)) (comps (CanonicalAbsolutePath cwd candidate))"
  by (rule PathIsWithin_iff [OF assms])

theorem PathIsWithin_component_prefix_witness:
  "PathIsWithin ''/w'' ''/s/a'' ''/s'' = prefix (comps (CanonicalAbsolutePath ''/w'' ''/s''))
     (comps (CanonicalAbsolutePath ''/w'' ''/s/a''))"
  using PathIsWithin_component_prefix [of "''/w''" "''/s/a''" "''/s''"] by (simp add: is_absolute_def)

text \<open>The search for the project toolchain pin returns the file of the nearest ancestor directory
  that has one, and nothing exactly when no ancestor has one.\<close>

theorem toolchain_pin_nearest:
  "(FindProjectToolchainPinPath env w manifest_path = Some p \<longleftrightarrow>
     (\<exists>n. p = ancestor_file env ''pafio-toolchain.toml'' (parent_path (canonical env manifest_path)) n \<and>
          fs_exists env w p \<and>
          (\<forall>m<n. \<not> fs_exists env w
             (ancestor_file env ''pafio-toolchain.toml'' (parent_path (canonical env manifest_path)) m))))"
  unfolding FindProjectToolchainPinPath_def by (rule find_up_nearest)

theorem toolchain_pin_nearest_witness:
  "FindProjectToolchainPinPath sample_env [([''w''], Dir), ([''w'', ''pafio-toolchain.toml''], File [])]
     ''a/pafio.toml'' = Some ''/w/pafio-toolchain.toml''"
proof -
  let ?w = "[([''w''], Dir), ([''w'', ''pafio-toolchain.toml''], File [])]"
  let ?start = "parent_path (canonical sample_env ''a/pafio.toml'')"
  have "ancestor_file sample_env ''pafio-toolchain.toml'' ?start 1 = ''/w/pafio-toolchain.toml''"
    "\<not> fs_exists sample_env ?w (ancestor_file sample_env ''pafio-toolchain.toml'' ?start 0)"
    "fs_exists sample_env ?w ''/w/pafio-toolchain.toml''"
    by code_simp+
  then show ?thesis
    by (intro toolchain_pin_nearest [THEN iffD2] exI [of _ 1]) simp
qed

text \<open>The output kept from a child process is the first bytes up to the limit, and the flag tells
  whether there were more, however the pipe delivered them.\<close>

theorem output_capture_prefix:
  "foldl (\<lambda>tt chunk. AppendOutputChunk tt chunk limit) ([], False) pieces =
     (take limit (concat pieces), limit < length (concat pieces))"
  by (rule AppendOutputChunk_fold)

subsection \<open>Manifests\<close>

definition sample_package :: package_config where
  "sample_package = \<lparr>pkg_name = ''acme/tool'', pkg_version = ''0.1.0'', pkg_edition = ''2026'',
     pkg_publish = False, pkg_toolchain = \<lparr>tc_channel = ''nightly'', tc_implicit_std = True\<rparr>,
     pkg_lib = Some \<lparr>lib_path = ''src/lib.styio''\<rparr>,
     pkg_bins = [\<lparr>bin_name = ''tool'', bin_path = ''src/main.styio''\<rparr>, \<lparr>bin_name = ''aux'', bin_path = ''src/aux.styio''\<rparr>],
     pkg_tests = [],
     pkg_dependencies =
       [\<lparr>dep_alias = ''util'', dep_package = None, dep_source_kind = kPath, dep_source = ''../util'',
          dep_rev = None, dep_version = None\<rparr>,
        \<lparr>dep_alias = ''base'', dep_package = Some ''acme/base'', dep_source_kind = kRegistry,
          dep_source = ''https://r.example'', dep_rev = None, dep_version = Some ''1.2.3''\<rparr>],
     pkg_dev_dependencies = []\<rparr>"

definition sample_manifest :: manifest_document where
  "sample_manifest = \<lparr>doc_package = Some sample_package, doc_workspace = None\<rparr>"

lemma sample_manifest_wf: "wf_manifest sample_manifest"
  by code_simp

lemma sample_distinct_aliases: "distinct_aliases sample_package"
  by code_simp

lemma sample_loaded:
  "LoadManifest (sample_env_reading (toml_of_manifest sample_manifest))
     [([''w''], Dir), ([''w'', ''pafio.toml''], File [])] ''pafio.toml'' = Inr (canonical_manifest sample_manifest)"
proof -
  have "comps (CanonicalAbsolutePath ''/w'' ''pafio.toml'') = [''w'', ''pafio.toml'']" by code_simp
  then show ?thesis
    using ParseManifest_toml [OF sample_values_ok sample_manifest_wf, of "toml_of_manifest sample_manifest"]
    by (simp add: LoadManifest_def fs_read_def node_at_def path_key_def sample_env_reading_def sample_env_def)
qed

text \<open>C32: every manifest the loader accepts is well formed: names, versions and the edition are valid,
  every path is relative, target names are distinct, there is a target, every dependency has exactly
  the fields of its source kind, a workspace has members and resolver 1.\<close>

theorem LoadManifest_accepts_wf:
  assumes "LoadManifest env w path = Inr m"
  shows "wf_manifest m"
  by (rule LoadManifest_wf [OF assms])

theorem LoadManifest_accepts_wf_witness: "wf_manifest (canonical_manifest sample_manifest)"
  by (rule LoadManifest_accepts_wf [OF sample_loaded])



text \<open>The canonical text of a well-formed manifest does not depend on the order in which targets and
  dependencies are listed, and serializing the canonical form changes nothing.\<close>

theorem manifest_text_order_invariant:
  assumes "wf_package p" and "distinct_aliases p" and "same_package p q"
  shows "SerializeManifestCanonical \<lparr>doc_package = Some p, doc_workspace = ws\<rparr> =
           SerializeManifestCanonical \<lparr>doc_package = Some q, doc_workspace = ws\<rparr> \<and>
         SerializeManifestCanonical (canonical_manifest \<lparr>doc_package = Some p, doc_workspace = ws\<rparr>) =
           SerializeManifestCanonical \<lparr>doc_package = Some p, doc_workspace = ws\<rparr>"
  using emit_package_perm [OF assms(3,1,2)] emit_canonical [OF assms(1,2)]
  by (simp add: SerializeManifestCanonical_def canonical_manifest_def)

theorem manifest_text_order_invariant_witness:
  "SerializeManifestCanonical (canonical_manifest sample_manifest) = SerializeManifestCanonical sample_manifest"
  using manifest_text_order_invariant [of sample_package sample_package None] sample_manifest_wf sample_distinct_aliases
  by (simp add: sample_manifest_def wf_manifest_def same_package_def)

subsection \<open>Lockfiles\<close>

definition sample_lockfile :: lockfile_document where
  "sample_lockfile = \<lparr>lf_generated_by = ''pafio 0.1.0'', lf_resolver = ''single-version-v1'', lf_packages =
     [\<lparr>lk_id = ''workspace:acme/tool@0.1.0'', lk_name = ''acme/tool'', lk_version = ''0.1.0'',
        lk_source_kind = ''workspace'', lk_git = None, lk_rev = None, lk_registry = None, lk_sha256 = None,
        lk_dependencies = [''git:acme/util@1.0.0'', ''a'']\<rparr>,
      \<lparr>lk_id = ''git:acme/util@1.0.0'', lk_name = ''acme/util'', lk_version = ''1.0.0'',
        lk_source_kind = ''git'', lk_git = Some ''u'', lk_rev = Some ''r'', lk_registry = None,
        lk_sha256 = None, lk_dependencies = []\<rparr>]\<rparr>"

lemma sample_lockfile_wf: "wf_lockfile sample_lockfile"
  by code_simp

lemma sample_lock_loaded:
  "LoadLockfile (sample_env_reading (toml_of_lockfile sample_lockfile))
     [([''w''], Dir), ([''w'', ''pafio.lock''], File [])] ''pafio.lock'' = Inr (canonical_lockfile sample_lockfile)"
proof -
  have "comps (CanonicalAbsolutePath ''/w'' ''pafio.lock'') = [''w'', ''pafio.lock'']" by code_simp
  then show ?thesis
    using ParseLockfile_toml [OF sample_values_ok sample_lockfile_wf, of "toml_of_lockfile sample_lockfile"]
    by (simp add: LoadLockfile_def fs_read_def node_at_def path_key_def sample_env_reading_def sample_env_def)
qed

text \<open>Every lockfile the loader accepts is well formed: resolver single-version-v1, non-empty ids, valid
  names and versions, and exactly the source fields its source kind allows, the digest well formed.\<close>

theorem LoadLockfile_accepts_wf:
  assumes "LoadLockfile env w path = Inr l"
  shows "wf_lockfile l"
  by (rule LoadLockfile_wf_lockfile [OF assms])

theorem LoadLockfile_accepts_wf_witness: "wf_lockfile (canonical_lockfile sample_lockfile)"
  by (rule LoadLockfile_accepts_wf [OF sample_lock_loaded])

text \<open>Writing a well-formed lockfile and loading it gives the lockfile with packages ordered by id and
  dependency lists sorted, provided the TOML library parses the text to the document it spells.\<close>

theorem lockfile_write_load:
  assumes "wf_lockfile l" and "toml_values_ok (env_toml env)"
    and "toml_parse (env_toml env) (SerializeLockfileCanonical l) = Inr (toml_of_lockfile l)"
    and "fs_write env path (SerializeLockfileCanonical l) err w = (Inr (), w')"
  shows "LoadLockfile env w' path = Inr (canonical_lockfile l)"
  using assms by (simp add: LoadLockfile_def fs_write_read ParseLockfile_toml)

theorem lockfile_write_load_witness:
  "LoadLockfile (sample_env_reading (toml_of_lockfile sample_lockfile))
     (snd (fs_write (sample_env_reading (toml_of_lockfile sample_lockfile)) ''pafio.lock''
        (SerializeLockfileCanonical sample_lockfile) OutOfFuel [([''w''], Dir)])) ''pafio.lock''
     = Inr (canonical_lockfile sample_lockfile)"
proof (rule lockfile_write_load [OF sample_lockfile_wf sample_values_ok])
  show "toml_parse (env_toml (sample_env_reading (toml_of_lockfile sample_lockfile)))
      (SerializeLockfileCanonical sample_lockfile) = Inr (toml_of_lockfile sample_lockfile)"
    by (simp add: sample_env_reading_def sample_env_def)
  show "fs_write (sample_env_reading (toml_of_lockfile sample_lockfile)) ''pafio.lock''
      (SerializeLockfileCanonical sample_lockfile) OutOfFuel [([''w''], Dir)] =
    (Inr (), snd (fs_write (sample_env_reading (toml_of_lockfile sample_lockfile)) ''pafio.lock''
      (SerializeLockfileCanonical sample_lockfile) OutOfFuel [([''w''], Dir)]))"
    by (simp add: fs_write_sample)
qed

text \<open>The canonical lockfile text is unambiguous: two well-formed lockfiles with the same text have the
  same canonical form, so comparing texts, as the locked mode does, compares lockfiles.\<close>

theorem lockfile_text_unambiguous:
  assumes "wf_lockfile a" and "wf_lockfile b"
  shows "SerializeLockfileCanonical a = SerializeLockfileCanonical b \<longleftrightarrow>
    SerializeLockfileCanonical (canonical_lockfile a) = SerializeLockfileCanonical b \<and>
    canonical_lockfile a = canonical_lockfile b"
  using SerializeLockfile_inj [OF _ assms] by (auto simp: SerializeLockfile_canonical)

theorem lockfile_text_unambiguous_witness:
  "SerializeLockfileCanonical (canonical_lockfile sample_lockfile) = SerializeLockfileCanonical sample_lockfile"
  using lockfile_text_unambiguous [OF sample_lockfile_wf sample_lockfile_wf] by simp

end
