(* ===== verification/Resolver.thy ===== *)
theory Resolver
  imports Digest Lockfile
begin

section \<open>The single-version resolver\<close>

text \<open>
  \<open>src/PafioResolve/Resolver.cpp\<close>: the git source cache, the selection of a manifest under a
  dependency root, and the recursion that resolves every dependency of the root packages to one node
  per package.  The class instance is split into what never changes after construction
  (\<open>resolver\<close>) and the node tables the recursion fills (\<open>rstate\<close>); the world is the file system
  together with these tables.  The registry client is an argument \<open>mat\<close>.  The recursion carries
  fuel; \<open>OutOfFuel\<close> marks a run that was cut off.
\<close>

subsection \<open>Origins\<close>

datatype source_kind = SkWorkspace | SkPath | SkGit | SkRegistry

record source_origin =
  so_kind :: source_kind
  so_git_source :: "string option"
  so_git_rev :: "string option"
  so_registry_root :: "string option"
  so_registry_version :: "string option"
  so_registry_sha256 :: "string option"
  so_repo_hash :: "string option"
  so_snapshot_root :: "string option"

record manifest_selection =
  sel_manifest_path :: string
  sel_origin :: source_origin

definition plain_origin :: "source_kind \<Rightarrow> source_origin" where
  "plain_origin k = \<lparr>so_kind = k, so_git_source = None, so_git_rev = None, so_registry_root = None,
     so_registry_version = None, so_registry_sha256 = None, so_repo_hash = None, so_snapshot_root = None\<rparr>"

text \<open>\<open>std::optional::value\<close> and \<open>std::vector::at\<close>.\<close>

definition opt_value :: "'a option \<Rightarrow> 'a result" where
  "opt_value m = (case m of None \<Rightarrow> Inl (LogicError ''bad_optional_access'') | Some x \<Rightarrow> Inr x)"

definition list_at :: "'a list \<Rightarrow> nat \<Rightarrow> 'a result" where
  "list_at xs i = (if i < length xs then Inr (xs ! i) else Inl (LogicError ''out_of_range''))"

definition PathKey :: "env \<Rightarrow> string \<Rightarrow> string" where
  "PathKey env path = canonical env path"

definition LooksLikeRemoteGitSource :: "string \<Rightarrow> bool" where
  "LooksLikeRemoteGitSource source \<longleftrightarrow> sublist ''://'' source \<or> starts_with source ''git@''"

definition NormalizeGitSource :: "env \<Rightarrow> string \<Rightarrow> string \<Rightarrow> string" where
  "NormalizeGitSource env source package_dir =
     (if LooksLikeRemoteGitSource source then source
      else if is_absolute source then canonical env source
      else canonical env (path_append package_dir source))"

fun SourceKindString :: "source_kind \<Rightarrow> string" where
  "SourceKindString SkWorkspace = ''workspace''"
| "SourceKindString SkPath = ''path''"
| "SourceKindString SkGit = ''git''"
| "SourceKindString SkRegistry = ''registry''"

definition SnapshotRelativeKey :: "env \<Rightarrow> source_origin \<Rightarrow> string \<Rightarrow> string result" where
  "SnapshotRelativeKey env origin package_dir =
     rbind (opt_value (so_snapshot_root origin)) (\<lambda>root.
     let key = lexically_relative (canonical env package_dir) (canonical env root)
     in Inr (if key = [] then ''.'' else key))"

definition BuildSourceFingerprint :: "env \<Rightarrow> source_origin \<Rightarrow> string \<Rightarrow> string result" where
  "BuildSourceFingerprint env origin package_dir =
     (case so_kind origin of
        SkGit \<Rightarrow> rbind (opt_value (so_git_source origin)) (\<lambda>source.
          rbind (opt_value (so_git_rev origin)) (\<lambda>rv.
          rbind (SnapshotRelativeKey env origin package_dir) (\<lambda>key.
          Inr (''git:'' @ source @ ''#'' @ rv @ '':'' @ key))))
      | SkRegistry \<Rightarrow> rbind (opt_value (so_registry_root origin)) (\<lambda>root.
          rbind (opt_value (so_registry_sha256 origin)) (\<lambda>sha.
          rbind (SnapshotRelativeKey env origin package_dir) (\<lambda>key.
          Inr (''registry:'' @ root @ ''#'' @ sha @ '':'' @ key))))
      | k \<Rightarrow> Inr (SourceKindString k @ '':'' @ PathKey env package_dir))"

definition BuildLockId :: "source_origin \<Rightarrow> package_config \<Rightarrow> string result" where
  "BuildLockId origin package =
     (let ident = SourceKindString (so_kind origin) @ '':'' @ pkg_name package @ ''@'' @ pkg_version package in
      case so_kind origin of
        SkGit \<Rightarrow> rbind (opt_value (so_git_rev origin)) (\<lambda>rv. Inr (ident @ ''#'' @ rv))
      | SkRegistry \<Rightarrow> rbind (opt_value (so_registry_sha256 origin)) (\<lambda>sha. Inr (ident @ ''#'' @ sha))
      | _ \<Rightarrow> Inr ident)"

definition CollectDependencies :: "package_config \<Rightarrow> dependency list" where
  "CollectDependencies package = sort_key dep_alias (pkg_dependencies package @ pkg_dev_dependencies package)"

subsection \<open>The git source cache\<close>

record git_cache =
  gc_home :: string
  gc_offline :: bool
  gc_vendor_root :: "string option"

definition git_request :: "string \<Rightarrow> string list \<Rightarrow> int \<Rightarrow> process_request" where
  "git_request program args timeout = \<lparr>pr_program = program, pr_args = args, pr_workdir = None,
     pr_search_path = True, pr_timeout_ms = timeout, pr_context = ''resolver process''\<rparr>"

text \<open>The constructor.\<close>

definition GitSourceCache :: "env \<Rightarrow> string \<Rightarrow> bool \<Rightarrow> string option \<Rightarrow> (fs, git_cache) io" where
  "GitSourceCache env pafio_home offline vendor_root =
     (let home = canonical env pafio_home; git = path_append home ''git'' in
      io_bind (fs_create_directories env (path_append git ''repos'')) (\<lambda>_.
      io_bind (fs_create_directories env (path_append git ''checkouts'')) (\<lambda>_.
      io_return \<lparr>gc_home = home, gc_offline = offline,
        gc_vendor_root = map_option (canonical env) vendor_root\<rparr>)))"

definition ready_marker :: "string \<Rightarrow> string" where
  "ready_marker snapshot_root = path_append snapshot_root ''.pafio-snapshot-ready''"

definition FindVendoredSnapshot :: "env \<Rightarrow> git_cache \<Rightarrow> fs \<Rightarrow> string \<Rightarrow> string \<Rightarrow> string option" where
  "FindVendoredSnapshot env gc w repo_hash rv =
     (case gc_vendor_root gc of
        None \<Rightarrow> None
      | Some vendor \<Rightarrow>
        let snapshot_root = path_append (path_append (path_append vendor ''git'') repo_hash) rv in
        if \<not> fs_exists env w snapshot_root then None
        else if fs_exists env w (ready_marker snapshot_root) \<or>
                fs_exists env w (path_append snapshot_root ''pafio.toml'')
        then Some (canonical env snapshot_root) else None)"

definition EnsureMirror :: "env \<Rightarrow> string \<Rightarrow> string \<Rightarrow> (fs, unit) io" where
  "EnsureMirror env normalized_source repo_dir = (\<lambda>w.
     if fs_exists env w repo_dir then (Inr (), w) else
     io_bind (fs_create_directories env (parent_path repo_dir)) (\<lambda>_.
     io_bind (RunProcess env CacheError (git_request ''git''
         [''clone'', ''--mirror'', normalized_source, repo_dir] kExternalProcessStepTimeout)) (\<lambda>r.
     io_guard (exit_code r = 0) (FetchError (''failed to clone git source '' @ squote normalized_source @
       '': '' @ DescribeProcessFailure r)))) w)"

definition HasRevision :: "env \<Rightarrow> string \<Rightarrow> string \<Rightarrow> (fs, bool) io" where
  "HasRevision env repo_dir rv =
     io_bind (RunProcess env CacheError (git_request ''git''
         [''--git-dir'', repo_dir, ''cat-file'', ''-e'', rv @ ''^{commit}''] kExternalProcessProbeTimeout)) (\<lambda>r.
     io_bind (io_guard (\<not> timed_out r) (FetchError (''failed to check git rev '' @ squote rv @ '': '' @
       DescribeProcessFailure r))) (\<lambda>_.
     io_return (exit_code r = 0)))"

definition FetchOrigin :: "env \<Rightarrow> string \<Rightarrow> (fs, unit) io" where
  "FetchOrigin env repo_dir =
     io_bind (RunProcess env CacheError (git_request ''git''
         [''--git-dir'', repo_dir, ''fetch'', ''--prune'', ''origin''] kExternalProcessStepTimeout)) (\<lambda>r.
     io_guard (exit_code r = 0) (FetchError (''failed to fetch git source cache '' @ squote repo_dir @ '': '' @
       DescribeProcessFailure r)))"

definition EnsureSnapshot :: "env \<Rightarrow> string \<Rightarrow> string \<Rightarrow> string \<Rightarrow> (fs, unit) io" where
  "EnsureSnapshot env repo_dir snapshot_root rv = (\<lambda>w.
     if fs_exists env w (ready_marker snapshot_root) then (Inr (), w) else
     let archive_path = path_append (parent_path snapshot_root) (Hex64 (Fnv1a64 rv) @ ''.tar'') in
     (io_bind (fs_create_directories env snapshot_root) (\<lambda>_.
      io_bind (RunProcess env CacheError (git_request ''git''
        [''--git-dir'', repo_dir, ''archive'', ''--format=tar'', ''--output'', archive_path, rv]
        kExternalProcessStepTimeout)) (\<lambda>archive.
      if exit_code archive \<noteq> 0 then (\<lambda>w. (Inl (FetchError (''failed to archive git rev '' @ squote rv @ '': '' @
          DescribeProcessFailure archive)), fs_remove env archive_path w)) else
      io_bind (RunProcess env CacheError (git_request ''tar''
        [''-xf'', archive_path, ''-C'', snapshot_root] kExternalProcessStepTimeout)) (\<lambda>extract.
      io_bind (\<lambda>w. (Inr (), fs_remove env archive_path w)) (\<lambda>_.
      io_bind (io_guard (exit_code extract = 0) (CacheError (''failed to extract git snapshot '' @
        squote snapshot_root @ '': '' @ DescribeProcessFailure extract))) (\<lambda>_.
      write_unchecked env (ready_marker snapshot_root) (''ready'' @ nl)))))))
     (fs_remove_all env snapshot_root w))"

definition git_origin :: "string \<Rightarrow> string \<Rightarrow> string \<Rightarrow> string \<Rightarrow> source_origin" where
  "git_origin source rv repo_hash snapshot_root = (plain_origin SkGit)\<lparr>so_git_source := Some source,
     so_git_rev := Some rv, so_repo_hash := Some repo_hash, so_snapshot_root := Some snapshot_root\<rparr>"

text \<open>Bringing the mirror up to date with the requested revision.\<close>

definition EnsureRevision :: "env \<Rightarrow> git_cache \<Rightarrow> string \<Rightarrow> string \<Rightarrow> string \<Rightarrow> (fs, unit) io" where
  "EnsureRevision env gc normalized_source rv repo_dir =
     io_bind (HasRevision env repo_dir rv) (\<lambda>found.
     if found then io_return ()
     else if gc_offline gc then io_throw (FetchError (''offline mode is missing git rev '' @ squote rv @
       '' in the local cache for '' @ squote normalized_source))
     else io_bind (FetchOrigin env repo_dir) (\<lambda>_.
       io_bind (HasRevision env repo_dir rv) (\<lambda>found.
       io_guard found (FetchError (''git source does not contain requested rev '' @ squote rv @ '': '' @
         normalized_source)))))"

definition Materialize :: "env \<Rightarrow> git_cache \<Rightarrow> string \<Rightarrow> string \<Rightarrow> (fs, source_origin) io" where
  "Materialize env gc normalized_source rv = (\<lambda>w.
     let repo_hash = Hex64 (Fnv1a64 normalized_source); git = path_append (gc_home gc) ''git'' in
     case FindVendoredSnapshot env gc w repo_hash rv of
       Some snapshot \<Rightarrow> (Inr (git_origin normalized_source rv repo_hash snapshot), w)
     | None \<Rightarrow>
       let repo_dir = path_append (path_append git ''repos'') (repo_hash @ ''.git'');
           snapshot_root = path_append (path_append (path_append git ''checkouts'') repo_hash) rv in
       io_bind (if fs_exists env w repo_dir then io_return ()
                else if gc_offline gc then io_throw (FetchError
                  (''offline mode requires a vendored snapshot or cached git mirror for '' @ squote normalized_source))
                else EnsureMirror env normalized_source repo_dir) (\<lambda>_.
       io_bind (EnsureRevision env gc normalized_source rv repo_dir) (\<lambda>_.
       io_bind (EnsureSnapshot env repo_dir snapshot_root rv) (\<lambda>_.
       io_return (git_origin normalized_source rv repo_hash snapshot_root)))) w)"

subsection \<open>The resolver instance\<close>

record resolver =
  rs_root_manifest_path :: string
  rs_root_manifest :: manifest_document
  rs_offline :: bool
  rs_cache :: git_cache
  rs_seeds :: "manifest_selection list"
  rs_top_dirs :: "string list"

record registry_materialization =
  rm_registry_root :: string
  rm_package_name :: string
  rm_version :: string
  rm_sha256 :: string
  rm_snapshot_root :: string

text \<open>\<open>MaterializeRegistryPackage(registry_root, package, version, offline)\<close>\<close>

type_synonym registry_client =
  "string \<Rightarrow> string \<Rightarrow> string \<Rightarrow> bool \<Rightarrow> (fs, registry_materialization) io"

text \<open>\<open>operator==\<close> and \<open>operator<\<close> of \<open>fs::path\<close> compare the elements.\<close>

definition path_eq :: "string \<Rightarrow> string \<Rightarrow> bool" where
  "path_eq p q \<longleftrightarrow> elements p = elements q"

fun unique_by :: "('a \<Rightarrow> 'k) \<Rightarrow> 'a list \<Rightarrow> 'a list" where
  "unique_by f [] = []"
| "unique_by f [x] = [x]"
| "unique_by f (x # y # xs) = (if f x = f y then unique_by f (x # xs) else x # unique_by f (y # xs))"

text \<open>The workspace members as seeds, in the order of their names.\<close>

fun member_seeds :: "env \<Rightarrow> fs \<Rightarrow> string \<Rightarrow> string list \<Rightarrow> string list \<Rightarrow> manifest_selection list result" where
  "member_seeds env w root_manifest_path excluded [] = Inr []"
| "member_seeds env w root_manifest_path excluded (member # members) =
     (if member \<in> set excluded
      then Inl (WorkspaceError (''workspace member is also excluded: '' @ member))
      else let manifest = canonical env (path_append (path_append (parent_path root_manifest_path) member) ''pafio.toml'')
      in if \<not> fs_exists env w manifest
         then Inl (WorkspaceError (''workspace member manifest not found: '' @ manifest))
         else rbind (LoadManifest env w manifest) (\<lambda>doc.
           case doc_package doc of
             None \<Rightarrow> Inl (WorkspaceError (''workspace member manifest must define [package]: '' @ manifest))
           | Some _ \<Rightarrow> rbind (member_seeds env w root_manifest_path excluded members) (\<lambda>seeds.
               Inr (\<lparr>sel_manifest_path = manifest, sel_origin = plain_origin SkWorkspace\<rparr> # seeds))))"

text \<open>The seeds and the keys of the top-level workspace directories.\<close>

definition BuildRootSeeds ::
    "env \<Rightarrow> fs \<Rightarrow> string \<Rightarrow> manifest_document \<Rightarrow> (manifest_selection list \<times> string list) result" where
  "BuildRootSeeds env w root_manifest_path doc =
     (let own = (if doc_package doc = None then []
                 else [\<lparr>sel_manifest_path = root_manifest_path, sel_origin = plain_origin SkWorkspace\<rparr>]);
          dir_of = (\<lambda>sel. PathKey env (parent_path (sel_manifest_path sel)))
      in case doc_workspace doc of
           None \<Rightarrow> Inr (own, map dir_of own)
         | Some ws \<Rightarrow> rbind (member_seeds env w root_manifest_path (ws_exclude ws) (sort (ws_members ws))) (\<lambda>members.
             let seeds = own @ members
             in Inr (unique_by (elements \<circ> sel_manifest_path) (sort_key (elements \<circ> sel_manifest_path) seeds),
                     map dir_of seeds)))"

definition NormalizeOptions :: "env \<Rightarrow> fs \<Rightarrow> string \<Rightarrow> string option \<Rightarrow> string option" where
  "NormalizeOptions env w manifest_path vendor_root =
     (case vendor_root of
        Some v \<Rightarrow> Some (canonical env v)
      | None \<Rightarrow> (let default = ProjectVendorRootForManifest env manifest_path
          in if fs_exists env w default then Some default else None))"

text \<open>The constructor of \<open>SingleVersionResolver\<close>.\<close>

definition SingleVersionResolver :: "env \<Rightarrow> string \<Rightarrow> bool \<Rightarrow> string option \<Rightarrow> (fs, resolver) io" where
  "SingleVersionResolver env manifest_path offline vendor_root =
     (let root_path = canonical env manifest_path in
      io_bind (\<lambda>w. (LoadManifest env w root_path, w)) (\<lambda>doc.
      io_bind (\<lambda>w. (Inr (NormalizeOptions env w root_path vendor_root), w)) (\<lambda>vendor.
      io_bind (io_lift (ResolvePafioHome env)) (\<lambda>home.
      io_bind (GitSourceCache env home offline vendor) (\<lambda>gc.
      io_bind (\<lambda>w. (BuildRootSeeds env w root_path doc, w)) (\<lambda>(seeds, dirs).
      io_return \<lparr>rs_root_manifest_path = root_path, rs_root_manifest = doc, rs_offline = offline,
        rs_cache = gc, rs_seeds = seeds, rs_top_dirs = dirs\<rparr>))))))"

subsection \<open>Selecting the manifest of a dependency\<close>

fun member_matches :: "env \<Rightarrow> fs \<Rightarrow> string \<Rightarrow> string list \<Rightarrow> string \<Rightarrow> string list \<Rightarrow> string list result" where
  "member_matches env w root_manifest_path excluded expected [] = Inr []"
| "member_matches env w root_manifest_path excluded expected (member # members) =
     (if member \<in> set excluded then member_matches env w root_manifest_path excluded expected members
      else let manifest = canonical env (path_append (path_append (parent_path root_manifest_path) member) ''pafio.toml'')
      in if \<not> fs_exists env w manifest
         then Inl (ResolutionError (''dependency workspace member manifest not found: '' @ manifest))
         else rbind (LoadManifest env w manifest) (\<lambda>doc.
           case doc_package doc of
             None \<Rightarrow> Inl (ResolutionError (''dependency workspace member manifest must define [package]: '' @ manifest))
           | Some p \<Rightarrow> rbind (member_matches env w root_manifest_path excluded expected members) (\<lambda>ms.
               Inr (if pkg_name p = expected then manifest # ms else ms))))"

definition load_manifest_of :: "env \<Rightarrow> resolver \<Rightarrow> fs \<Rightarrow> string \<Rightarrow> manifest_document result" where
  "load_manifest_of env R w path =
     (if path_eq path (rs_root_manifest_path R) then Inr (rs_root_manifest R) else LoadManifest env w path)"

definition SelectPackageManifestFromRoot ::
    "env \<Rightarrow> resolver \<Rightarrow> fs \<Rightarrow> string \<Rightarrow> source_origin \<Rightarrow> string option \<Rightarrow> manifest_selection result" where
  "SelectPackageManifestFromRoot env R w root_manifest_path origin_hint expected =
     rbind (load_manifest_of env R w root_manifest_path) (\<lambda>root_doc.
     let own = (case doc_package root_doc of
           None \<Rightarrow> []
         | Some p \<Rightarrow> if expected = None \<or> expected = Some (pkg_name p) then [root_manifest_path] else []) in
     rbind (case doc_workspace root_doc of
         None \<Rightarrow> Inr own
       | Some ws \<Rightarrow>
         (case expected of
            None \<Rightarrow> if doc_package root_doc = None
              then Inl (ResolutionError (''dependency target is a workspace root and requires an explicit package: '' @
                root_manifest_path))
              else Inr own
          | Some e \<Rightarrow> rbind (member_matches env w root_manifest_path (ws_exclude ws) e (sort (ws_members ws)))
              (\<lambda>ms. Inr (own @ ms)))) (\<lambda>matches.
     case matches of
       [] \<Rightarrow> Inl (ResolutionError (case expected of
           Some e \<Rightarrow> ''dependency target package '' @ squote e @ '' was not found under '' @ root_manifest_path
         | None \<Rightarrow> ''dependency target manifest does not define [package]: '' @ root_manifest_path))
     | [m] \<Rightarrow> Inr \<lparr>sel_manifest_path = m, sel_origin =
         (if so_kind origin_hint = SkWorkspace \<or> so_kind origin_hint = SkPath
          then origin_hint\<lparr>so_kind := (if PathKey env (parent_path m) \<in> set (rs_top_dirs R)
                                       then SkWorkspace else SkPath)\<rparr>
          else origin_hint)\<rparr>
     | _ \<Rightarrow> Inl (ResolutionError (''dependency target package is ambiguous under '' @ root_manifest_path))))"

subsection \<open>Nodes\<close>

record dependency_alias =
  da_alias :: string
  da_package_id :: string

record resolver_node =
  n_manifest_path :: string
  n_package_dir :: string
  n_package :: package_config
  n_origin :: source_origin
  n_fingerprint :: string
  n_id :: string
  n_dependencies :: "string list"
  n_aliases :: "dependency_alias list"

record rstate =
  st_nodes :: "resolver_node list"
  st_by_fingerprint :: "string \<Rightarrow> nat option"
  st_by_name :: "string \<Rightarrow> nat option"

type_synonym rworld = "fs \<times> rstate"

definition on_fs :: "(fs, 'a) io \<Rightarrow> (rworld, 'a) io" where
  "on_fs m = (\<lambda>(w, s). case m w of (r, w') \<Rightarrow> (r, (w', s)))"

definition reading :: "(fs \<Rightarrow> 'a result) \<Rightarrow> (rworld, 'a) io" where
  "reading f = (\<lambda>(w, s). (f w, (w, s)))"

definition ResolvePathDependency ::
    "env \<Rightarrow> resolver \<Rightarrow> fs \<Rightarrow> resolver_node \<Rightarrow> dependency \<Rightarrow> manifest_selection result" where
  "ResolvePathDependency env R w parent dep =
     (let root = canonical env (path_append (path_append (n_package_dir parent) (dep_source dep)) ''pafio.toml'') in
      if \<not> fs_exists env w root then Inl (ResolutionError (''path dependency manifest not found: '' @ root))
      else if so_kind (n_origin parent) = SkGit then
        rbind (opt_value (so_snapshot_root (n_origin parent))) (\<lambda>snapshot.
        if \<not> PathIsWithin (env_cwd env) (parent_path root) snapshot \<and>
           canonical env (parent_path root) \<noteq> canonical env snapshot
        then Inl (ResolutionError (''git-sourced path dependency escapes its pinned snapshot: '' @ root))
        else SelectPackageManifestFromRoot env R w root (n_origin parent) (dep_package dep))
      else SelectPackageManifestFromRoot env R w root (plain_origin SkPath) (dep_package dep))"

text \<open>The manifest of a materialized snapshot.\<close>

definition select_in_snapshot ::
    "env \<Rightarrow> resolver \<Rightarrow> string \<Rightarrow> source_origin \<Rightarrow> string \<Rightarrow> string option \<Rightarrow> fs \<Rightarrow> manifest_selection result" where
  "select_in_snapshot env R what origin snapshot expected w =
     (let root_manifest = path_append snapshot ''pafio.toml'' in
      if \<not> fs_exists env w root_manifest
      then Inl (ResolutionError (what @ '' dependency snapshot does not contain pafio.toml: '' @ root_manifest))
      else SelectPackageManifestFromRoot env R w root_manifest origin expected)"

definition ResolveGitDependency ::
    "env \<Rightarrow> resolver \<Rightarrow> resolver_node \<Rightarrow> dependency \<Rightarrow> (fs, manifest_selection) io" where
  "ResolveGitDependency env R parent dep =
     io_bind (io_lift (opt_value (dep_rev dep))) (\<lambda>rv.
     io_bind (Materialize env (rs_cache R) (NormalizeGitSource env (dep_source dep) (n_package_dir parent)) rv) (\<lambda>origin.
     io_bind (io_lift (opt_value (so_snapshot_root origin))) (\<lambda>snapshot.
     (\<lambda>w. (select_in_snapshot env R ''git'' origin snapshot (dep_package dep) w, w)))))"

definition ResolveRegistryDependency ::
    "env \<Rightarrow> registry_client \<Rightarrow> resolver \<Rightarrow> dependency \<Rightarrow> (fs, manifest_selection) io" where
  "ResolveRegistryDependency env mat R dep =
     (case dep_package dep of
        None \<Rightarrow> io_throw (ResolutionError (''registry dependency '' @ squote (dep_alias dep) @
          '' must declare package = \"namespace/name\"''))
      | Some package \<Rightarrow> (case dep_version dep of
          None \<Rightarrow> io_throw (ResolutionError (''registry dependency '' @ squote (dep_alias dep) @
            '' must declare version = \"x.y.z\"''))
        | Some version \<Rightarrow>
          io_bind (mat (dep_source dep) package version (rs_offline R)) (\<lambda>m.
          let origin = (plain_origin SkRegistry)\<lparr>so_registry_root := Some (rm_registry_root m),
            so_registry_version := Some (rm_version m), so_registry_sha256 := Some (rm_sha256 m),
            so_snapshot_root := Some (rm_snapshot_root m)\<rparr>
          in (\<lambda>w. (select_in_snapshot env R ''registry'' origin (rm_snapshot_root m) (dep_package dep) w, w)))))"

definition select_dependency ::
    "env \<Rightarrow> registry_client \<Rightarrow> resolver \<Rightarrow> resolver_node \<Rightarrow> dependency \<Rightarrow> (fs, manifest_selection) io" where
  "select_dependency env mat R parent dep =
     (case dep_source_kind dep of
        kPath \<Rightarrow> (\<lambda>w. (ResolvePathDependency env R w parent dep, w))
      | kGit \<Rightarrow> ResolveGitDependency env R parent dep
      | kRegistry \<Rightarrow> ResolveRegistryDependency env mat R dep)"

subsection \<open>Resolving a node\<close>

text \<open>
  The node for a manifest the fingerprint table does not know: the node of the same package, a
  conflict, or a new node entered in the tables.
\<close>

definition claim_node :: "resolver_node \<Rightarrow> (rworld, nat \<times> bool) io" where
  "claim_node node = (\<lambda>(w, s). case st_by_name s (pkg_name (n_package node)) of
      Some i \<Rightarrow>
        (case list_at (st_nodes s) i of
           Inl e \<Rightarrow> (Inl e, (w, s))
         | Inr other \<Rightarrow>
           if pkg_version (n_package other) \<noteq> pkg_version (n_package node)
           then (Inl (ResolutionError (''single-version-v1 conflict for package '' @ squote (pkg_name (n_package node)) @
             '': versions '' @ squote (pkg_version (n_package other)) @ '' and '' @ squote (pkg_version (n_package node)))), (w, s))
           else if n_fingerprint other \<noteq> n_fingerprint node
           then (Inl (ResolutionError (''single-version-v1 source conflict for package '' @
             squote (pkg_name (n_package node)))), (w, s))
           else (Inr (i, False), (w, s)))
    | None \<Rightarrow>
        let i = length (st_nodes s) in
        (Inr (i, True), (w, s\<lparr>st_nodes := st_nodes s @ [node],
           st_by_fingerprint := (st_by_fingerprint s)(n_fingerprint node \<mapsto> i),
           st_by_name := (st_by_name s)(pkg_name (n_package node) \<mapsto> i)\<rparr>)))"

text \<open>The resolved dependency of one entry, after the recursive call gave its index.\<close>

definition link_dependency :: "resolver_node \<Rightarrow> dependency \<Rightarrow> nat \<Rightarrow> (rworld, dependency_alias) io" where
  "link_dependency node dep j = (\<lambda>(w, s). (rbind (list_at (st_nodes s) j) (\<lambda>target.
     if dep_package dep \<noteq> None \<and> dep_package dep \<noteq> Some (pkg_name (n_package target))
     then Inl (ResolutionError (''dependency '' @ squote (dep_alias dep) @ '' expected package '' @
       squote (case_option [] id (dep_package dep)) @ '' but found '' @ squote (pkg_name (n_package target))))
     else if n_fingerprint target = n_fingerprint node
     then Inl (ResolutionError (''package '' @ squote (pkg_name (n_package node)) @ '' cannot depend on itself''))
     else Inr \<lparr>da_alias = dep_alias dep, da_package_id = n_id target\<rparr>), (w, s)))"

definition finish_node :: "nat \<Rightarrow> dependency_alias list \<Rightarrow> (rworld, nat) io" where
  "finish_node i aliases = (\<lambda>(w, s). (Inr i, (w, s\<lparr>st_nodes := (st_nodes s)[i := (st_nodes s ! i)\<lparr>
     n_dependencies := sort_unique (map da_package_id aliases),
     n_aliases := sort_key da_alias aliases\<rparr>]\<rparr>)))"

definition build_node ::
    "env \<Rightarrow> string \<Rightarrow> source_origin \<Rightarrow> string \<Rightarrow> manifest_document \<Rightarrow> resolver_node result" where
  "build_node env path origin fingerprint doc =
     (case doc_package doc of
        None \<Rightarrow> Inl ((if so_kind origin = SkWorkspace
          then WorkspaceError (''workspace package manifest must define [package]: '' @ path)
          else ResolutionError (''resolved manifest must define [package]: '' @ path)))
      | Some package \<Rightarrow> rbind (BuildLockId origin package) (\<lambda>ident.
          Inr \<lparr>n_manifest_path = path, n_package_dir = parent_path path, n_package = package, n_origin = origin,
            n_fingerprint = fingerprint, n_id = ident, n_dependencies = [], n_aliases = []\<rparr>))"

primrec ResolveNode ::
    "nat \<Rightarrow> env \<Rightarrow> registry_client \<Rightarrow> resolver \<Rightarrow> string \<Rightarrow> source_origin \<Rightarrow> (rworld, nat) io" where
  "ResolveNode 0 env mat R manifest_path origin = io_throw OutOfFuel"
| "ResolveNode (Suc fuel) env mat R manifest_path origin =
     (let path = canonical env manifest_path in
      io_bind (io_lift (BuildSourceFingerprint env origin (parent_path path))) (\<lambda>fingerprint.
      io_bind (\<lambda>(w, s). (Inr (st_by_fingerprint s fingerprint), (w, s))) (\<lambda>existing.
      case existing of
        Some i \<Rightarrow> io_return i
      | None \<Rightarrow>
        io_bind (reading (\<lambda>w. load_manifest_of env R w path)) (\<lambda>doc.
        io_bind (io_lift (build_node env path origin fingerprint doc)) (\<lambda>node.
        io_bind (claim_node node) (\<lambda>(i, fresh).
        if \<not> fresh then io_return i else
        io_bind (io_fold (\<lambda>dep aliases.
            io_bind (on_fs (select_dependency env mat R node dep)) (\<lambda>sel.
            io_bind (ResolveNode fuel env mat R (sel_manifest_path sel) (sel_origin sel)) (\<lambda>j.
            io_bind (link_dependency node dep j) (\<lambda>a.
            io_return (aliases @ [a])))))
          (CollectDependencies (n_package node)) []) (\<lambda>aliases.
        finish_node i aliases)))))))"

text \<open>\<open>ResolveGraph\<close>\<close>

record resolved_package =
  rp_manifest_path :: string
  rp_root_dir :: string
  rp_package :: package_config
  rp_id :: string
  rp_source_kind :: string
  rp_git :: "string option"
  rp_rev :: "string option"
  rp_registry :: "string option"
  rp_sha256 :: "string option"
  rp_repo_hash :: "string option"
  rp_snapshot_root :: "string option"
  rp_dependencies :: "string list"
  rp_aliases :: "dependency_alias list"

record resolved_graph =
  rg_manifest_path :: string
  rg_lockfile_path :: string
  rg_root_ids :: "string list"
  rg_packages :: "resolved_package list"
  rg_lockfile :: lockfile_document

definition package_of_node :: "resolver_node \<Rightarrow> resolved_package" where
  "package_of_node n = (let o' = n_origin n in \<lparr>rp_manifest_path = n_manifest_path n, rp_root_dir = n_package_dir n,
     rp_package = n_package n, rp_id = n_id n, rp_source_kind = SourceKindString (so_kind o'),
     rp_git = so_git_source o', rp_rev = so_git_rev o', rp_registry = so_registry_root o',
     rp_sha256 = so_registry_sha256 o', rp_repo_hash = so_repo_hash o', rp_snapshot_root = so_snapshot_root o',
     rp_dependencies = n_dependencies n, rp_aliases = n_aliases n\<rparr>)"

definition lock_package_of :: "resolved_package \<Rightarrow> lock_package" where
  "lock_package_of p = \<lparr>lk_id = rp_id p, lk_name = pkg_name (rp_package p), lk_version = pkg_version (rp_package p),
     lk_source_kind = rp_source_kind p, lk_git = rp_git p, lk_rev = rp_rev p, lk_registry = rp_registry p,
     lk_sha256 = rp_sha256 p, lk_dependencies = rp_dependencies p\<rparr>"

definition resolve_seeds ::
    "nat \<Rightarrow> env \<Rightarrow> registry_client \<Rightarrow> resolver \<Rightarrow> (rworld, string list) io" where
  "resolve_seeds fuel env mat R = io_fold (\<lambda>seed ids.
     io_bind (ResolveNode fuel env mat R (sel_manifest_path seed) (sel_origin seed)) (\<lambda>i.
     (\<lambda>(w, s). (rbind (list_at (st_nodes s) i) (\<lambda>n. Inr (ids @ [n_id n])), (w, s))))) (rs_seeds R) []"

definition empty_rstate :: rstate where
  "empty_rstate = \<lparr>st_nodes = [], st_by_fingerprint = (\<lambda>_. None), st_by_name = (\<lambda>_. None)\<rparr>"

definition graph_of_state :: "resolver \<Rightarrow> string list \<Rightarrow> rstate \<Rightarrow> resolved_graph" where
  "graph_of_state R ids s =
     (let packages = sort_key rp_id (map package_of_node (st_nodes s))
      in \<lparr>rg_manifest_path = rs_root_manifest_path R,
          rg_lockfile_path = path_append (parent_path (rs_root_manifest_path R)) ''pafio.lock'',
          rg_root_ids = sort_unique ids, rg_packages = packages,
          rg_lockfile = \<lparr>lf_generated_by = ''pafio '' @ kVersion, lf_resolver = ''single-version-v1'',
            lf_packages = map lock_package_of packages\<rparr>\<rparr>)"

definition ResolveGraph :: "nat \<Rightarrow> env \<Rightarrow> registry_client \<Rightarrow> resolver \<Rightarrow> (fs, resolved_graph) io" where
  "ResolveGraph fuel env mat R = (\<lambda>w. case resolve_seeds fuel env mat R (w, empty_rstate) of
      (Inl e, (w', s)) \<Rightarrow> (Inl e, w')
    | (Inr ids, (w', s)) \<Rightarrow> (Inr (graph_of_state R ids s), w'))"

definition ResolveSingleVersionGraph ::
    "nat \<Rightarrow> env \<Rightarrow> registry_client \<Rightarrow> string \<Rightarrow> bool \<Rightarrow> string option \<Rightarrow> (fs, resolved_graph) io" where
  "ResolveSingleVersionGraph fuel env mat manifest_path offline vendor_root =
     io_bind (SingleVersionResolver env manifest_path offline vendor_root) (ResolveGraph fuel env mat)"

end
