(* ===== verification/ResolverFacts.thy ===== *)
theory ResolverFacts
  imports Resolver
begin

section \<open>What a resolved graph satisfies\<close>

text \<open>
  The invariant of the node tables (\<open>rinv\<close>), kept by every call of \<open>ResolveNode\<close>, and what follows
  for the finished graph.  A node stays as it was entered apart from its dependency lists
  (\<open>core\<close>); the calls in progress are the indices in \<open>P\<close>.
\<close>

subsection \<open>Origins and registry answers\<close>

definition wf_origin :: "source_origin \<Rightarrow> bool" where
  "wf_origin o' \<longleftrightarrow> (case so_kind o' of
      SkGit \<Rightarrow> (\<exists>g. so_git_source o' = Some g \<and> g \<noteq> []) \<and> (\<exists>r. so_git_rev o' = Some r \<and> r \<noteq> []) \<and>
        so_registry_root o' = None \<and> so_registry_sha256 o' = None \<and> so_snapshot_root o' \<noteq> None
    | SkRegistry \<Rightarrow> (\<exists>u. so_registry_root o' = Some u \<and> u \<noteq> []) \<and>
        (\<exists>h. so_registry_sha256 o' = Some h \<and> rx_match Sha256Regex h) \<and>
        so_git_source o' = None \<and> so_git_rev o' = None \<and> so_snapshot_root o' \<noteq> None
    | _ \<Rightarrow> so_git_source o' = None \<and> so_git_rev o' = None \<and> so_registry_root o' = None \<and>
        so_registry_sha256 o' = None)"

text \<open>The registry client answers with a root and a lowercase SHA-256 digest.\<close>

definition registry_ok :: "registry_client \<Rightarrow> bool" where
  "registry_ok mat \<longleftrightarrow> (\<forall>root package version offline w m w'.
     mat root package version offline w = (Inr m, w') \<longrightarrow>
       rm_registry_root m \<noteq> [] \<and> rx_match Sha256Regex (rm_sha256 m))"

lemma wf_plain_origin [simp]: "wf_origin (plain_origin SkWorkspace)" "wf_origin (plain_origin SkPath)"
  by (simp_all add: wf_origin_def plain_origin_def)

lemma Materialize_origin:
  assumes "Materialize env gc source rv w = (Inr o', w')"
  shows "\<exists>h sn. o' = git_origin source rv h sn"
  using assms by (auto simp: Materialize_def Let_def result_simps split: option.splits)

lemma wf_git_origin: "source \<noteq> [] \<Longrightarrow> rv \<noteq> [] \<Longrightarrow> wf_origin (git_origin source rv h sn)"
  by (simp add: wf_origin_def git_origin_def plain_origin_def)

lemma lexically_normal_not_Nil [simp]: "lexically_normal p = [] \<longleftrightarrow> p = []"
  by (simp add: lexically_normal_def Let_def)

lemma path_append_not_Nil: "b \<noteq> [] \<Longrightarrow> path_append a b \<noteq> []"
  by (simp add: path_append_def)

lemma canonical_not_Nil: "p \<noteq> [] \<Longrightarrow> CanonicalAbsolutePath cwd p \<noteq> []"
  by (simp add: CanonicalAbsolutePath_def absolute_def path_append_not_Nil)

lemma NormalizeGitSource_not_Nil:
  "source \<noteq> [] \<Longrightarrow> NormalizeGitSource env source dir \<noteq> []"
  by (simp add: NormalizeGitSource_def canonical_not_Nil path_append_not_Nil)

lemma SelectPackageManifest_hint:
  assumes "SelectPackageManifestFromRoot env R w root hint expected = Inr sel"
  shows "\<exists>k \<in> {SkWorkspace, SkPath}. sel_origin sel =
    (if so_kind hint = SkWorkspace \<or> so_kind hint = SkPath then hint\<lparr>so_kind := k\<rparr> else hint)"
proof -
  from assms obtain matches where "(case matches of
       [] \<Rightarrow> Inl (ResolutionError (case expected of
           Some e \<Rightarrow> ''dependency target package '' @ squote e @ '' was not found under '' @ root
         | None \<Rightarrow> ''dependency target manifest does not define [package]: '' @ root))
     | [m] \<Rightarrow> Inr \<lparr>sel_manifest_path = m, sel_origin =
         (if so_kind hint = SkWorkspace \<or> so_kind hint = SkPath
          then hint\<lparr>so_kind := (if PathKey env (parent_path m) \<in> set (rs_top_dirs R)
                                       then SkWorkspace else SkPath)\<rparr>
          else hint)\<rparr>
     | _ \<Rightarrow> Inl (ResolutionError (''dependency target package is ambiguous under '' @ root))) = Inr sel"
    unfolding SelectPackageManifestFromRoot_def by (auto simp only: rbind_eq_Inr Let_def)
  then obtain m where "sel_origin sel = (if so_kind hint = SkWorkspace \<or> so_kind hint = SkPath
          then hint\<lparr>so_kind := (if PathKey env (parent_path m) \<in> set (rs_top_dirs R)
                                       then SkWorkspace else SkPath)\<rparr>
          else hint)"
    by (cases matches; cases "tl matches") auto
  then show ?thesis by (auto split: if_splits)
qed

lemma SelectPackageManifest_origin:
  assumes "SelectPackageManifestFromRoot env R w root hint expected = Inr sel" and "wf_origin hint"
  shows "wf_origin (sel_origin sel)"
  using SelectPackageManifest_hint [OF assms(1)] assms(2) by (auto simp: wf_origin_def split: if_splits)

lemma ResolvePathDependency_origin:
  assumes "ResolvePathDependency env R w parent dep = Inr sel" and "wf_origin (n_origin parent)"
  shows "wf_origin (sel_origin sel)"
  using assms
  by (auto simp: ResolvePathDependency_def Let_def result_simps intro: SelectPackageManifest_origin
      split: if_splits)

lemma select_in_snapshot_origin:
  assumes "select_in_snapshot env R what origin snapshot expected w = Inr sel" and "wf_origin origin"
  shows "wf_origin (sel_origin sel)"
  using assms
  by (auto simp: select_in_snapshot_def Let_def intro: SelectPackageManifest_origin split: if_splits)

lemma ResolveGitDependency_origin:
  assumes "ResolveGitDependency env R parent dep w = (Inr sel, w')"
    and "dep_source dep \<noteq> []" and "\<And>r. dep_rev dep = Some r \<Longrightarrow> r \<noteq> []"
  shows "wf_origin (sel_origin sel)"
proof -
  from assms(1) obtain rv o' w1 sn where "dep_rev dep = Some rv"
    and mat: "Materialize env (rs_cache R) (NormalizeGitSource env (dep_source dep) (n_package_dir parent)) rv w = (Inr o', w1)"
    and sel: "select_in_snapshot env R ''git'' o' sn (dep_package dep) w1 = Inr sel"
    by (auto simp: ResolveGitDependency_def result_simps opt_value_def split: option.splits)
  then have "wf_origin o'"
    using Materialize_origin [OF mat] assms(2,3) NormalizeGitSource_not_Nil wf_git_origin by blast
  with sel show ?thesis by (rule select_in_snapshot_origin)
qed

lemma ResolveRegistryDependency_origin:
  assumes "ResolveRegistryDependency env mat R dep w = (Inr sel, w')" and "registry_ok mat"
  shows "wf_origin (sel_origin sel)"
proof -
  from assms(1) obtain package version m w1 where
    m: "mat (dep_source dep) package version (rs_offline R) w = (Inr m, w1)"
    and sel: "select_in_snapshot env R ''registry'' ((plain_origin SkRegistry)\<lparr>so_registry_root := Some (rm_registry_root m),
            so_registry_version := Some (rm_version m), so_registry_sha256 := Some (rm_sha256 m),
            so_snapshot_root := Some (rm_snapshot_root m)\<rparr>) (rm_snapshot_root m) (dep_package dep) w1 = Inr sel"
    by (auto simp: ResolveRegistryDependency_def result_simps Let_def split: option.splits)
  from m assms(2) have "rm_registry_root m \<noteq> []" "rx_match Sha256Regex (rm_sha256 m)"
    unfolding registry_ok_def by blast+
  then show ?thesis
    by (intro select_in_snapshot_origin [OF sel]) (simp add: wf_origin_def plain_origin_def)
qed

lemma select_dependency_origin:
  assumes "select_dependency env mat R parent dep w = (Inr sel, w')"
    and "registry_ok mat" and "wf_origin (n_origin parent)" and "wf_dependency dep"
  shows "wf_origin (sel_origin sel)"
proof (cases "dep_source_kind dep")
  case kPath
  with assms(1,3) show ?thesis
    by (auto simp: select_dependency_def intro: ResolvePathDependency_origin)
next
  case kGit
  with assms(1,4) show ?thesis
    by (auto simp: select_dependency_def wf_dependency_def intro: ResolveGitDependency_origin)
next
  case kRegistry
  with assms(1,2) show ?thesis
    by (auto simp: select_dependency_def intro: ResolveRegistryDependency_origin)
qed

subsection \<open>Lock ids\<close>

lemma split_at_sep:
  "a @ d # r = a' @ d # r' \<Longrightarrow> d \<notin> set a \<Longrightarrow> d \<notin> set a' \<Longrightarrow> a = a' \<and> r = r'"
proof (induction a arbitrary: a')
  case Nil
  then show ?case by (cases a') auto
next
  case (Cons c a)
  then show ?case by (cases a') auto
qed

lemma name_no_at: "rx_match NameRegex s \<Longrightarrow> CHR ''@'' \<notin> set s"
  by (auto simp: NameRegex_iff name_segment_def list_all_iff) (use at_not_name_char in blast)+

lemma SourceKindString_no_colon [simp]: "CHR '':'' \<notin> set (SourceKindString k)"
  by (cases k) simp_all

lemma SourceKindString_inj: "SourceKindString k = SourceKindString k' \<Longrightarrow> k = k'"
  by (cases k; cases k') simp_all

lemma BuildLockId_shape:
  assumes "BuildLockId o' p = Inr i"
  shows "\<exists>rest. i = SourceKindString (so_kind o') @ CHR '':'' # pkg_name p @ CHR ''@'' # rest"
  using assms by (auto simp: BuildLockId_def Let_def result_simps split: source_kind.splits)

text \<open>The id of a node determines its package name.\<close>

lemma BuildLockId_name:
  assumes "BuildLockId o' p = Inr i" and "BuildLockId o'' q = Inr i"
    and "rx_match NameRegex (pkg_name p)" and "rx_match NameRegex (pkg_name q)"
  shows "pkg_name p = pkg_name q"
proof -
  obtain r r' where "i = SourceKindString (so_kind o') @ CHR '':'' # pkg_name p @ CHR ''@'' # r"
    "i = SourceKindString (so_kind o'') @ CHR '':'' # pkg_name q @ CHR ''@'' # r'"
    using BuildLockId_shape [OF assms(1)] BuildLockId_shape [OF assms(2)] by blast
  then have e: "SourceKindString (so_kind o') @ CHR '':'' # pkg_name p @ CHR ''@'' # r =
      SourceKindString (so_kind o'') @ CHR '':'' # pkg_name q @ CHR ''@'' # r'"
    by simp
  have e': "pkg_name p @ CHR ''@'' # r = pkg_name q @ CHR ''@'' # r'"
    using split_at_sep [OF e] by simp
  show ?thesis
    by (rule split_at_sep [OF e' name_no_at name_no_at, THEN conjunct1]) (fact assms)+
qed

subsection \<open>The invariant of the tables\<close>

definition core :: "resolver_node \<Rightarrow> resolver_node" where
  "core n = n\<lparr>n_dependencies := [], n_aliases := []\<rparr>"

abbreviation cores :: "rstate \<Rightarrow> resolver_node list" where
  "cores s \<equiv> map core (st_nodes s)"

abbreviation node_name :: "resolver_node \<Rightarrow> string" where
  "node_name n \<equiv> pkg_name (n_package n)"

lemma core_simps [simp]:
  "n_manifest_path (core n) = n_manifest_path n" "n_package_dir (core n) = n_package_dir n"
  "n_package (core n) = n_package n" "n_origin (core n) = n_origin n"
  "n_fingerprint (core n) = n_fingerprint n" "n_id (core n) = n_id n"
  "core (n\<lparr>n_dependencies := ds, n_aliases := as\<rparr>) = core n"
  by (simp_all add: core_def)

definition node_ok :: "resolver_node \<Rightarrow> bool" where
  "node_ok n \<longleftrightarrow> wf_package (n_package n) \<and> wf_origin (n_origin n) \<and>
     BuildLockId (n_origin n) (n_package n) = Inr (n_id n)"

text \<open>The entry an alias of \<open>n\<close> must point to, among the nodes \<open>cs\<close>.\<close>

definition linked :: "resolver_node list \<Rightarrow> resolver_node \<Rightarrow> dependency \<Rightarrow> dependency_alias \<Rightarrow> bool" where
  "linked cs n d a \<longleftrightarrow> da_alias a = dep_alias d \<and>
     (\<exists>m \<in> set cs. n_id m = da_package_id a \<and> n_fingerprint m \<noteq> n_fingerprint n \<and>
        (\<forall>e. dep_package d = Some e \<longrightarrow> node_name m = e))"

definition node_done :: "resolver_node list \<Rightarrow> resolver_node \<Rightarrow> bool" where
  "node_done cs n \<longleftrightarrow> (\<exists>A. list_all2 (linked cs n) (CollectDependencies (n_package n)) A \<and>
     n_dependencies n = sort_unique (map da_package_id A) \<and> n_aliases n = sort_key da_alias A)"

definition rinv :: "nat set \<Rightarrow> rstate \<Rightarrow> bool" where
  "rinv P s \<longleftrightarrow>
     (\<forall>i < length (st_nodes s). st_by_name s (node_name (st_nodes s ! i)) = Some i \<and>
        st_by_fingerprint s (n_fingerprint (st_nodes s ! i)) = Some i \<and> node_ok (st_nodes s ! i)) \<and>
     (\<forall>k i. st_by_name s k = Some i \<longrightarrow> i < length (st_nodes s)) \<and>
     (\<forall>k i. st_by_fingerprint s k = Some i \<longrightarrow> i < length (st_nodes s)) \<and>
     (\<forall>i < length (st_nodes s). i \<notin> P \<longrightarrow> node_done (cores s) (st_nodes s ! i))"

lemma rinv_empty: "rinv {} empty_rstate"
  by (simp add: rinv_def empty_rstate_def)

lemma linked_mono: "linked cs n d a \<Longrightarrow> set cs \<subseteq> set cs' \<Longrightarrow> linked cs' n d a"
  by (auto simp: linked_def)

lemma linked_core: "core n = core m \<Longrightarrow> linked cs n = linked cs m"
  by (simp add: fun_eq_iff linked_def) (metis core_simps(5))

lemma node_done_mono: "node_done cs n \<Longrightarrow> set cs \<subseteq> set cs' \<Longrightarrow> node_done cs' n"
  unfolding node_done_def by (meson linked_mono list_all2_mono)

lemma node_ok_core: "core n = core m \<Longrightarrow> node_ok n = node_ok m"
  by (simp add: node_ok_def) (metis core_simps(3,4,6))

subsection \<open>Steps of the recursion\<close>

lemma claim_node_existing:
  assumes "claim_node node (w, s) = (Inr (i, False), ws)" and "rinv P s"
  shows "ws = (w, s) \<and> i < length (st_nodes s)"
  using assms
  by (auto simp: claim_node_def list_at_def rinv_def Let_def split: option.splits sum.splits if_splits)

lemma claim_node_new:
  assumes "claim_node node (w, s) = (Inr (i, True), ws)"
  shows "i = length (st_nodes s) \<and> st_by_name s (node_name node) = None \<and>
    ws = (w, s\<lparr>st_nodes := st_nodes s @ [node],
           st_by_fingerprint := (st_by_fingerprint s)(n_fingerprint node \<mapsto> i),
           st_by_name := (st_by_name s)(node_name node \<mapsto> i)\<rparr>)"
  using assms by (auto simp: claim_node_def Let_def split: option.splits sum.splits if_splits)

lemma rinv_claim:
  assumes "rinv P s" and "st_by_name s (node_name node) = None"
    and "st_by_fingerprint s (n_fingerprint node) = None" and "node_ok node"
  shows "rinv (insert (length (st_nodes s)) P) (s\<lparr>st_nodes := st_nodes s @ [node],
           st_by_fingerprint := (st_by_fingerprint s)(n_fingerprint node \<mapsto> length (st_nodes s)),
           st_by_name := (st_by_name s)(node_name node \<mapsto> length (st_nodes s))\<rparr>)"
proof -
  have done': "node_done (cores s @ [core node]) n" if "node_done (cores s) n" for n
    using that by (rule node_done_mono) auto
  have old: "node_name (st_nodes s ! i) \<noteq> node_name node" "n_fingerprint (st_nodes s ! i) \<noteq> n_fingerprint node"
    if "i < length (st_nodes s)" for i
    using that assms by (auto simp: rinv_def)
  show ?thesis
    using assms(1,4) old done' by (auto simp: rinv_def nth_append less_Suc_eq dest: less_SucI)
qed

lemma link_dependency_linked:
  assumes "link_dependency node dep j (w, s) = (Inr a, ws)"
  shows "ws = (w, s) \<and> linked (cores s) node dep a"
proof -
  from assms have j: "j < length (st_nodes s)" and ws: "ws = (w, s)"
    and pkg: "dep_package dep = None \<or> dep_package dep = Some (node_name (st_nodes s ! j))"
    and fp: "n_fingerprint (st_nodes s ! j) \<noteq> n_fingerprint node"
    and a: "a = \<lparr>da_alias = dep_alias dep, da_package_id = n_id (st_nodes s ! j)\<rparr>"
    by (auto simp: link_dependency_def list_at_def split: if_splits)
  have "core (st_nodes s ! j) \<in> set (cores s)" using j by simp
  with pkg fp a have "linked (cores s) node dep a"
    unfolding linked_def by (intro conjI bexI [of _ "core (st_nodes s ! j)"]) auto
  with ws show ?thesis by simp
qed

lemma rinv_finish:
  assumes "rinv (insert i P) s" and "i < length (st_nodes s)"
    and "finish_node i A (w, s) = (Inr i', (w', s'))"
    and "list_all2 (linked (cores s) (st_nodes s ! i)) (CollectDependencies (n_package (st_nodes s ! i))) A"
  shows "i' = i \<and> w' = w \<and> cores s' = cores s \<and> rinv P s'"
proof -
  let ?n = "(st_nodes s ! i)\<lparr>n_dependencies := sort_unique (map da_package_id A), n_aliases := sort_key da_alias A\<rparr>"
  from assms(3) have eq: "i' = i" "w' = w" and s': "s' = s\<lparr>st_nodes := (st_nodes s)[i := ?n]\<rparr>"
    by (auto simp: finish_node_def)
  have cs: "cores s' = cores s"
    using assms(2) by (intro nth_equalityI) (auto simp: s' nth_list_update)
  have nth: "st_nodes s' ! k = (if k = i then ?n else st_nodes s ! k)" if "k < length (st_nodes s)" for k
    using that by (simp add: s')
  have "linked (cores s) ?n = linked (cores s) (st_nodes s ! i)" by (rule linked_core) simp
  then have "node_done (cores s') ?n"
    unfolding node_done_def cs using assms(4) by (intro exI [of _ A]) simp
  moreover have "node_ok ?n = node_ok (st_nodes s ! i)" by (rule node_ok_core) simp
  moreover have "length (st_nodes s') = length (st_nodes s)" "st_by_name s' = st_by_name s"
    "st_by_fingerprint s' = st_by_fingerprint s"
    by (simp_all add: s')
  ultimately have "rinv P s'"
    using assms(1,2) unfolding rinv_def by (auto simp: nth cs)
  with eq cs show ?thesis by simp
qed

subsection \<open>The recursion keeps the invariant\<close>

abbreviation resolve_dependency where
  "resolve_dependency fuel env mat R node \<equiv> \<lambda>dep aliases.
     io_bind (on_fs (select_dependency env mat R node dep)) (\<lambda>sel.
     io_bind (ResolveNode fuel env mat R (sel_manifest_path sel) (sel_origin sel)) (\<lambda>j.
     io_bind (link_dependency node dep j) (\<lambda>a.
     io_return (aliases @ [a]))))"

definition resolves_well :: "nat \<Rightarrow> env \<Rightarrow> registry_client \<Rightarrow> resolver \<Rightarrow> bool" where
  "resolves_well fuel env mat R \<longleftrightarrow> (\<forall>P p o' w s i w' s'.
     ResolveNode fuel env mat R p o' (w, s) = (Inr i, (w', s')) \<longrightarrow> rinv P s \<longrightarrow> wf_origin o' \<longrightarrow>
     rinv P s' \<and> prefix (cores s) (cores s') \<and> i < length (st_nodes s'))"

lemma resolve_dependencies_inv:
  assumes "resolves_well fuel env mat R" and "registry_ok mat" and "node_ok node"
    and "io_fold (resolve_dependency fuel env mat R node) ds A (w, s) = (Inr B, (w', s'))"
    and "rinv P s" and "\<forall>d \<in> set ds. wf_dependency d" and "list_all2 (linked (cores s) node) ps A"
  shows "rinv P s' \<and> prefix (cores s) (cores s') \<and> list_all2 (linked (cores s') node) (ps @ ds) B"
  using assms(4-7)
proof (induction ds arbitrary: A w s ps)
  case Nil
  then show ?case by (simp add: result_simps)
next
  case (Cons d ds)
  from Cons.prems(1) obtain sel w1 s1 j w2 s2 a w3 s3 where
    sel: "on_fs (select_dependency env mat R node d) (w, s) = (Inr sel, (w1, s1))"
    and rec: "ResolveNode fuel env mat R (sel_manifest_path sel) (sel_origin sel) (w1, s1) = (Inr j, (w2, s2))"
    and lnk: "link_dependency node d j (w2, s2) = (Inr a, (w3, s3))"
    and rest: "io_fold (resolve_dependency fuel env mat R node) ds (A @ [a]) (w3, s3) = (Inr B, (w', s'))"
    by (auto simp: io_bind_Inr io_return_eq)
  from sel have s1: "s1 = s" and sel': "select_dependency env mat R node d w = (Inr sel, w1)"
    by (auto simp: on_fs_def split: prod.splits)
  have "wf_origin (sel_origin sel)"
    using select_dependency_origin [OF sel' assms(2)] assms(3) Cons.prems(3) by (simp add: node_ok_def)
  with rec assms(1) Cons.prems(2) s1 have 2: "rinv P s2" "prefix (cores s) (cores s2)"
    unfolding resolves_well_def by blast+
  from link_dependency_linked [OF lnk] have 3: "w3 = w2" "s3 = s2" "linked (cores s2) node d a" by auto
  have "list_all2 (linked (cores s2) node) ps A"
    using Cons.prems(4) by (rule list_all2_mono) (use 2(2) in \<open>auto elim: linked_mono dest: set_mono_prefix\<close>)
  with 3 have "list_all2 (linked (cores s3) node) (ps @ [d]) (A @ [a])" by (simp add: list_all2_appendI)
  with Cons.IH [OF rest, of "ps @ [d]"] 2 3 Cons.prems(3) have
    "rinv P s' \<and> prefix (cores s2) (cores s') \<and> list_all2 (linked (cores s') node) ((ps @ [d]) @ ds) B"
    by auto
  with 2(2) show ?case by (auto intro: prefix_order.trans)
qed

lemma load_manifest_of_wf:
  "load_manifest_of env R w p = Inr m \<Longrightarrow> wf_manifest (rs_root_manifest R) \<Longrightarrow> wf_manifest m"
  by (auto simp: load_manifest_of_def split: if_splits intro: LoadManifest_wf)

lemma build_node_ok:
  assumes "build_node env path o' fp doc = Inr node" and "wf_manifest doc" and "wf_origin o'"
  shows "node_ok node \<and> n_fingerprint node = fp \<and> core node = node"
  using assms
  by (auto simp: build_node_def node_ok_def wf_manifest_def core_def result_simps split: option.splits)

lemma CollectDependencies_wf: "wf_package p \<Longrightarrow> d \<in> set (CollectDependencies p) \<Longrightarrow> wf_dependency d"
  by (auto simp: CollectDependencies_def wf_package_def)

lemma ResolveNode_cases:
  assumes "ResolveNode (Suc fuel) env mat R p o' (w, s) = (Inr i, ws)"
  obtains (known) fp where "st_by_fingerprint s fp = Some i" "ws = (w, s)"
  | (named) doc fp node where "build_node env (canonical env p) o' fp doc = Inr node"
      "claim_node node (w, s) = (Inr (i, False), ws)"
  | (fresh) doc fp node w1 s1 j A w2 s2 where "st_by_fingerprint s fp = None"
      "load_manifest_of env R w (canonical env p) = Inr doc"
      "build_node env (canonical env p) o' fp doc = Inr node"
      "claim_node node (w, s) = (Inr (j, True), (w1, s1))"
      "io_fold (resolve_dependency fuel env mat R node) (CollectDependencies (n_package node)) [] (w1, s1) =
         (Inr A, (w2, s2))"
      "finish_node j A (w2, s2) = (Inr i, ws)"
proof -
  from assms obtain fp where fp: "BuildSourceFingerprint env o' (parent_path (canonical env p)) = Inr fp"
    by (simp add: io_bind_Inr io_lift_eq Let_def) metis
  show thesis
  proof (cases "st_by_fingerprint s fp")
    case (Some k)
    with assms fp show thesis by (auto simp: io_bind_Inr io_lift_eq io_return_eq Let_def intro: known)
  next
    case None
    with assms fp obtain doc node k fr w1 s1 where
      doc: "load_manifest_of env R w (canonical env p) = Inr doc"
      and node: "build_node env (canonical env p) o' fp doc = Inr node"
      and cl: "claim_node node (w, s) = (Inr (k, fr), (w1, s1))"
      and rest: "(if \<not> fr then io_return k else
        io_bind (io_fold (resolve_dependency fuel env mat R node) (CollectDependencies (n_package node)) [])
          (finish_node k)) (w1, s1) = (Inr i, ws)"
      by (auto simp: io_bind_Inr io_lift_eq reading_def Let_def simp del: if_not_P)
    show thesis
    proof (cases fr)
      case False
      with rest cl node show thesis by (auto simp: io_return_eq intro: named)
    next
      case True
      with rest obtain A w2 s2 where "io_fold (resolve_dependency fuel env mat R node)
          (CollectDependencies (n_package node)) [] (w1, s1) = (Inr A, (w2, s2))" "finish_node k A (w2, s2) = (Inr i, ws)"
        by (auto simp: io_bind_Inr)
      with True None doc node cl show thesis by (intro fresh) auto
    qed
  qed
qed

lemma ResolveNode_inv:
  assumes "registry_ok mat" and "wf_manifest (rs_root_manifest R)"
  shows "resolves_well fuel env mat R"
proof (induction fuel)
  case 0
  show ?case by (simp add: resolves_well_def io_throw_eq)
next
  case (Suc fuel)
  show ?case
    unfolding resolves_well_def
  proof (intro allI impI)
    fix P p o' w s i w' s'
    assume run: "ResolveNode (Suc fuel) env mat R p o' (w, s) = (Inr i, (w', s'))"
      and inv: "rinv P s" and org: "wf_origin o'"
    from run show "rinv P s' \<and> prefix (cores s) (cores s') \<and> i < length (st_nodes s')"
    proof (cases rule: ResolveNode_cases)
      case (known fp)
      with inv show ?thesis by (auto simp: rinv_def)
    next
      case (named doc fp node)
      with claim_node_existing [OF named(2) inv] inv show ?thesis by auto
    next
      case (fresh doc fp node w1 s1 j A w2 s2)
      let ?j = "length (st_nodes s)"
      have ok: "node_ok node" "n_fingerprint node = fp" "core node = node"
        using build_node_ok [OF fresh(3) load_manifest_of_wf [OF fresh(2) assms(2)] org] by auto
      note cl = claim_node_new [OF fresh(4)]
      then have inv1: "rinv (insert ?j P) s1" and c1: "cores s1 = cores s @ [node]"
        and n1: "st_nodes s1 ! ?j = node" and j: "j = ?j"
        using rinv_claim [OF inv] fresh(1) ok by auto
      have "\<forall>d \<in> set (CollectDependencies (n_package node)). wf_dependency d"
        using ok(1) CollectDependencies_wf by (auto simp: node_ok_def)
      from resolve_dependencies_inv [OF Suc.IH assms(1) ok(1) fresh(5) inv1 this, of "[]"]
      have inv2: "rinv (insert ?j P) s2" and pre: "prefix (cores s1) (cores s2)"
        and lnk: "list_all2 (linked (cores s2) node) (CollectDependencies (n_package node)) A"
        by auto
      obtain zs where zs: "cores s2 = cores s @ node # zs"
        using pre c1 by (auto simp: prefix_def)
      from arg_cong [OF zs, of length] have len: "?j < length (st_nodes s2)" by simp
      then have "core (st_nodes s2 ! ?j) = cores s2 ! ?j" by simp
      also have "\<dots> = node" unfolding zs by (simp add: nth_append)
      finally have at: "core (st_nodes s2 ! ?j) = node" .
      have "linked (cores s2) (st_nodes s2 ! ?j) = linked (cores s2) node"
        by (rule linked_core) (simp add: at ok)
      moreover have "n_package (st_nodes s2 ! ?j) = n_package node"
        using at by (metis core_simps(3))
      ultimately have "j = i \<and> w' = w2 \<and> cores s' = cores s2 \<and> rinv P s'"
        using rinv_finish [OF inv2 len, of A w2 i w' s'] fresh(6) lnk j by simp
      then have fin: "j = i" "cores s' = cores s2" "rinv P s'" by auto
      then have "length (st_nodes s') = length (st_nodes s2)" by (metis length_map)
      with fin j len show ?thesis by (simp add: zs)
    qed
  qed
qed

subsection \<open>The finished tables\<close>

lemma rinv_nth:
  assumes "rinv P s" and "i < length (st_nodes s)"
  shows "st_by_name s (node_name (st_nodes s ! i)) = Some i" and "node_ok (st_nodes s ! i)"
  using assms by (simp_all add: rinv_def)

lemma rinv_distinct_names: "rinv P s \<Longrightarrow> distinct (map node_name (st_nodes s))"
  unfolding distinct_conv_nth by (auto dest: rinv_nth(1)) (metis option.inject rinv_nth(1))

lemma node_ok_id_name:
  assumes "node_ok m" and "node_ok n" and "n_id m = n_id n"
  shows "node_name m = node_name n"
  using assms BuildLockId_name [of "n_origin m" "n_package m" "n_id m" "n_origin n" "n_package n"]
  by (auto simp: node_ok_def wf_package_def)

lemma rinv_inj_id:
  assumes "rinv P s" and "m \<in> set (st_nodes s)" and "n \<in> set (st_nodes s)" and "n_id m = n_id n"
  shows "m = n"
proof -
  obtain i j where "m = st_nodes s ! i" "i < length (st_nodes s)" "n = st_nodes s ! j" "j < length (st_nodes s)"
    using assms(2,3) by (auto simp: in_set_conv_nth)
  moreover then have "node_name m = node_name n"
    using rinv_nth(2) [OF assms(1)] node_ok_id_name assms(4) by blast
  ultimately show ?thesis
    using rinv_nth(1) [OF assms(1)] by (metis option.inject)
qed

lemma rinv_distinct_ids:
  assumes "rinv P s"
  shows "distinct (map n_id (st_nodes s))"
proof -
  have "inj_on n_id (set (st_nodes s))"
    using rinv_inj_id [OF assms] by (auto intro: inj_onI)
  then show ?thesis
    using rinv_distinct_names [OF assms] by (simp add: distinct_map)
qed

lemma rinv_node_done: "rinv {} s \<Longrightarrow> n \<in> set (st_nodes s) \<Longrightarrow> node_done (cores s) n"
  by (auto simp: rinv_def in_set_conv_nth)

lemma rinv_node_ok: "rinv P s \<Longrightarrow> n \<in> set (st_nodes s) \<Longrightarrow> node_ok n"
  by (auto simp: rinv_def in_set_conv_nth)

lemma linked_target:
  assumes "linked (cores s) n d a"
  obtains m where "m \<in> set (st_nodes s)" "n_id m = da_package_id a" "n_fingerprint m \<noteq> n_fingerprint n"
    "da_alias a = dep_alias d" "\<And>e. dep_package d = Some e \<Longrightarrow> node_name m = e"
  using assms by (auto simp: linked_def)

lemma node_done_alias:
  assumes "rinv {} s" and "n \<in> set (st_nodes s)" and "d \<in> set (CollectDependencies (n_package n))"
  shows "\<exists>a \<in> set (n_aliases n). \<exists>m \<in> set (st_nodes s). da_alias a = dep_alias d \<and> da_package_id a = n_id m \<and>
     n_id m \<in> set (n_dependencies n) \<and> (\<forall>e. dep_package d = Some e \<longrightarrow> node_name m = e)"
proof -
  from rinv_node_done [OF assms(1,2)] obtain A where
    A: "list_all2 (linked (cores s) n) (CollectDependencies (n_package n)) A"
    and eq: "n_dependencies n = sort_unique (map da_package_id A)" "n_aliases n = sort_key da_alias A"
    by (auto simp: node_done_def)
  from list_all2_ex_right [OF A assms(3)] obtain a where a: "a \<in> set A" "linked (cores s) n d a" by blast
  from a(2) obtain m where "m \<in> set (st_nodes s)" "n_id m = da_package_id a"
    "da_alias a = dep_alias d" "\<And>e. dep_package d = Some e \<Longrightarrow> node_name m = e"
    by (rule linked_target) blast
  with a(1) eq show ?thesis by (intro bexI [of _ a] bexI [of _ m]) auto
qed

lemma node_done_dependency:
  assumes "rinv {} s" and "n \<in> set (st_nodes s)" and "x \<in> set (n_dependencies n)"
  shows "\<exists>m \<in> set (st_nodes s). n_id m = x \<and> x \<noteq> n_id n"
proof -
  from rinv_node_done [OF assms(1,2)] obtain A where
    A: "list_all2 (linked (cores s) n) (CollectDependencies (n_package n)) A"
    and eq: "n_dependencies n = sort_unique (map da_package_id A)"
    by (auto simp: node_done_def)
  from assms(3) eq obtain a where a: "a \<in> set A" "x = da_package_id a" by auto
  from list_all2_ex_left [OF A a(1)] obtain d where "linked (cores s) n d a" by blast
  then obtain m where m: "m \<in> set (st_nodes s)" "n_id m = x" "n_fingerprint m \<noteq> n_fingerprint n"
    using a(2) by (auto elim!: linked_target)
  moreover have "x \<noteq> n_id n" using rinv_inj_id [OF assms(1) m(1) assms(2)] m by auto
  ultimately show ?thesis by blast
qed

subsection \<open>The whole resolution\<close>

definition seeds_ok :: "resolver \<Rightarrow> bool" where
  "seeds_ok R \<longleftrightarrow> wf_manifest (rs_root_manifest R) \<and> (\<forall>x \<in> set (rs_seeds R). wf_origin (sel_origin x))"

lemma resolve_seeds_inv:
  assumes "registry_ok mat" and "seeds_ok R"
    and "resolve_seeds fuel env mat R (w, empty_rstate) = (Inr ids, (w', s))"
  shows "rinv {} s \<and> set ids \<subseteq> n_id ` set (st_nodes s)"
proof -
  let ?P = "\<lambda>ids (w, s). rinv {} s \<and> set ids \<subseteq> set (map n_id (cores s))"
  have ids: "set (map n_id (cores s)) = n_id ` set (st_nodes s)" for s by force
  have "?P ids (w', s)"
    using assms(3) unfolding resolve_seeds_def
  proof (rule io_fold_invariant)
    show "?P [] (w, empty_rstate)" by (simp add: rinv_empty)
  next
    fix seed ids1 w1 ids2 w2
    assume seed: "seed \<in> set (rs_seeds R)" and inv: "?P ids1 w1"
      and step: "io_bind (ResolveNode fuel env mat R (sel_manifest_path seed) (sel_origin seed))
        (\<lambda>i. \<lambda>(w, s). (rbind (list_at (st_nodes s) i) (\<lambda>n. Inr (ids1 @ [n_id n])), (w, s))) w1 = (Inr ids2, w2)"
    obtain wa sa wb sb where w1: "w1 = (wa, sa)" and w2: "w2 = (wb, sb)" by (cases w1; cases w2) auto
    from step obtain i where run: "ResolveNode fuel env mat R (sel_manifest_path seed) (sel_origin seed) (wa, sa) = (Inr i, (wb, sb))"
      and add: "rbind (list_at (st_nodes sb) i) (\<lambda>n. Inr (ids1 @ [n_id n])) = Inr ids2"
      by (auto simp: io_bind_Inr w1 w2)
    have "rinv {} sb" "prefix (cores sa) (cores sb)" "i < length (st_nodes sb)"
      using ResolveNode_inv [OF assms(1), of R fuel env] run inv seed assms(2)
      by (auto simp: resolves_well_def seeds_ok_def w1)
    moreover from this(3) add have "ids2 = ids1 @ [n_id (st_nodes sb ! i)]" by (simp add: list_at_def)
    moreover have "set (map n_id (cores sa)) \<subseteq> set (map n_id (cores sb))"
      using set_mono_prefix [OF \<open>prefix (cores sa) (cores sb)\<close>] by (simp only: set_map) (rule image_mono)
    moreover have "n_id (st_nodes sb ! i) \<in> set (map n_id (cores sb))"
      using \<open>i < length (st_nodes sb)\<close> by (simp only: ids) simp
    ultimately show "?P ids2 w2"
      using inv by (auto simp: w1 w2 simp del: set_map map_map)
  qed
  then show ?thesis by (simp add: ids)
qed

lemma member_seeds_origin:
  "member_seeds env w root excl members = Inr seeds \<Longrightarrow> x \<in> set seeds \<Longrightarrow> sel_origin x = plain_origin SkWorkspace"
  by (induction members arbitrary: seeds) (auto simp: result_simps Let_def split: if_splits option.splits)

lemma set_unique_by: "set (unique_by f xs) \<subseteq> set xs"
  by (induction f xs rule: unique_by.induct) auto

lemma BuildRootSeeds_origin:
  assumes "BuildRootSeeds env w root doc = Inr (seeds, dirs)" and "x \<in> set seeds"
  shows "sel_origin x = plain_origin SkWorkspace"
proof -
  let ?own = "if doc_package doc = None then [] else [\<lparr>sel_manifest_path = root, sel_origin = plain_origin SkWorkspace\<rparr>]"
  show ?thesis
  proof (cases "doc_workspace doc")
    case None
    with assms show ?thesis by (auto simp: BuildRootSeeds_def Let_def split: if_splits)
  next
    case (Some ws)
    with assms(1) obtain members where
      m: "member_seeds env w root (ws_exclude ws) (sort (ws_members ws)) = Inr members"
      and s: "seeds = unique_by (elements \<circ> sel_manifest_path) (sort_key (elements \<circ> sel_manifest_path) (?own @ members))"
      by (auto simp: BuildRootSeeds_def Let_def result_simps simp del: if_split)
    have "x \<in> set (?own @ members)"
      using assms(2) set_unique_by unfolding s by (metis set_sort subsetD)
    then show ?thesis using member_seeds_origin [OF m] by (auto split: if_splits)
  qed
qed

lemma SingleVersionResolver_ok:
  assumes "SingleVersionResolver env mp off vr w = (Inr R, w')"
  shows "seeds_ok R"
proof -
  from assms obtain doc seeds dirs w1 where "LoadManifest env w (canonical env mp) = Inr doc"
    and "rs_root_manifest R = doc" and "rs_seeds R = seeds"
    and "BuildRootSeeds env w1 (canonical env mp) doc = Inr (seeds, dirs)"
    by (auto simp: SingleVersionResolver_def result_simps Let_def)
  then show ?thesis
    by (auto simp: seeds_ok_def dest: LoadManifest_wf BuildRootSeeds_origin)
qed

lemma resolved_graph_state:
  assumes "ResolveSingleVersionGraph fuel env mat mp off vr w = (Inr g, w')" and "registry_ok mat"
  obtains R ids s where "g = graph_of_state R ids s" "rinv {} s" "set ids \<subseteq> n_id ` set (st_nodes s)"
proof -
  from assms(1) obtain R w1 where R: "SingleVersionResolver env mp off vr w = (Inr R, w1)"
    and run: "ResolveGraph fuel env mat R w1 = (Inr g, w')"
    by (auto simp: ResolveSingleVersionGraph_def result_simps)
  from run obtain ids s where "resolve_seeds fuel env mat R (w1, empty_rstate) = (Inr ids, (w', s))"
    and "g = graph_of_state R ids s"
    by (auto simp: ResolveGraph_def split: prod.splits sum.splits)
  with resolve_seeds_inv [OF assms(2) SingleVersionResolver_ok [OF R]] that show thesis by blast
qed

lemma graph_packages:
  "set (rg_packages (graph_of_state R ids s)) = package_of_node ` set (st_nodes s)"
  by (simp add: graph_of_state_def Let_def)

lemma package_of_node_simps [simp]:
  "rp_id (package_of_node n) = n_id n" "rp_package (package_of_node n) = n_package n"
  "rp_dependencies (package_of_node n) = n_dependencies n" "rp_aliases (package_of_node n) = n_aliases n"
  by (simp_all add: package_of_node_def Let_def)

lemma node_ok_wf_lock_package:
  assumes "node_ok n"
  shows "wf_lock_package (lock_package_of (package_of_node n))"
proof -
  have "n_id n \<noteq> []" using assms BuildLockId_shape by (fastforce simp: node_ok_def)
  with assms show ?thesis
    by (cases "so_kind (n_origin n)")
       (auto simp: node_ok_def wf_lock_package_def lock_package_of_def package_of_node_def wf_origin_def
          wf_package_def Let_def)
qed

text \<open>The lockfile of a resolved graph is in canonical order already.\<close>

lemma graph_lockfile_canonical:
  assumes "rinv {} s"
  shows "canonical_lockfile (rg_lockfile (graph_of_state R ids s)) = rg_lockfile (graph_of_state R ids s)"
proof -
  let ?ps = "sort_key rp_id (map package_of_node (st_nodes s))"
  have "sorted (rp_dependencies p)" if p: "p \<in> set ?ps" for p
  proof -
    obtain n where "n \<in> set (st_nodes s)" "p = package_of_node n" using p by auto
    with rinv_node_done [OF assms, of n] show ?thesis by (auto simp: node_done_def)
  qed
  then have deps: "canonical_lock_package (lock_package_of p) = lock_package_of p" if "p \<in> set ?ps" for p
    using that by (simp add: canonical_lock_package_def lock_package_of_def sort_key_id_if_sorted)
  have "lk_id \<circ> lock_package_of = rp_id" by (simp add: fun_eq_iff lock_package_of_def)
  then have "sort_key lk_id (map lock_package_of ?ps) = map lock_package_of ?ps"
    by (intro sort_key_id_if_sorted) (simp flip: map_map add: map_map)
  with deps show ?thesis
    by (simp add: canonical_lockfile_def graph_of_state_def Let_def)
qed

lemma graph_lockfile_wf:
  assumes "rinv {} s"
  shows "wf_lockfile (rg_lockfile (graph_of_state R ids s))"
  using rinv_node_ok [OF assms] node_ok_wf_lock_package
  by (auto simp: wf_lockfile_def graph_of_state_def Let_def)

end
