(* ===== verification/ResolverRuns.thy ===== *)
theory ResolverRuns
  imports ResolverFacts
begin

section \<open>Termination and offline runs of the resolver\<close>

text \<open>
  The recursion enters a new package name in its tables before it descends, so over a finite universe
  of package names it needs at most one level of fuel more than there are names
  (\<open>ResolveGraph_fuel\<close>).  In offline mode no clone or fetch is ever run: the result does not depend on
  what these requests would do (\<open>Resolve_offline\<close>).
\<close>

subsection \<open>A finite universe of package names\<close>

text \<open>Effects that never report exhausted fuel.\<close>

definition no_fuel_io :: "('w, 'a) io \<Rightarrow> bool" where
  "no_fuel_io m \<longleftrightarrow> (\<forall>w. no_fuel (fst (m w)))"

lemma no_fuel_io_basic [no_fuel_intros]:
  "no_fuel_io (io_return x)"
  "e \<noteq> OutOfFuel \<Longrightarrow> no_fuel_io (io_throw e)"
  "no_fuel r \<Longrightarrow> no_fuel_io (io_lift r)"
  "e \<noteq> OutOfFuel \<Longrightarrow> no_fuel_io (io_guard b e)"
  "(\<And>w. no_fuel (f w)) \<Longrightarrow> no_fuel_io (\<lambda>w. (f w, g w))"
  "(\<And>what. exn what \<noteq> OutOfFuel) \<Longrightarrow> no_fuel_io (RunProcess env exn req)"
  "(b \<Longrightarrow> no_fuel_io m) \<Longrightarrow> (\<not> b \<Longrightarrow> no_fuel_io m') \<Longrightarrow> no_fuel_io (if b then m else m')"
  by (auto simp: no_fuel_io_def no_fuel_def io_return_def io_throw_def io_lift_def io_guard_def guard_def
      RunProcess_def split: sum.split prod.split)

lemma no_fuel_io_bind [no_fuel_intros]:
  assumes "no_fuel_io m" and "\<And>x. no_fuel_io (f x)"
  shows "no_fuel_io (io_bind m f)"
  using assms by (auto simp: no_fuel_io_def no_fuel_def io_bind_def split: prod.split sum.split) (metis fst_conv)

lemma no_fuel_fs [no_fuel_intros]:
  "no_fuel_io (fs_create_directories env p)" "no_fuel_io (write_unchecked env p c)"
  by (auto simp: no_fuel_io_def no_fuel_def fs_create_directories_def write_unchecked_def split: option.split)

lemma no_fuel_io_at: "no_fuel_io m \<Longrightarrow> no_fuel (fst (m w))"
  by (simp add: no_fuel_io_def)

text \<open>
  \<open>I\<close> holds of the worlds the run can reach: selecting a dependency leads from such a world to such a
  world, and in them every package has a name in \<open>N\<close>.
\<close>

definition closed_universe ::
    "env \<Rightarrow> registry_client \<Rightarrow> resolver \<Rightarrow> (fs \<Rightarrow> bool) \<Rightarrow> string set \<Rightarrow> bool" where
  "closed_universe env mat R I N \<longleftrightarrow> finite N \<and>
     (\<forall>w path m p. I w \<longrightarrow> load_manifest_of env R w path = Inr m \<longrightarrow> doc_package m = Some p \<longrightarrow> pkg_name p \<in> N) \<and>
     (\<forall>root package version offline. no_fuel_io (mat root package version offline)) \<and>
     (\<forall>w node dep sel w'. I w \<longrightarrow> select_dependency env mat R node dep w = (Inr sel, w') \<longrightarrow> I w')"

definition unused :: "string set \<Rightarrow> rstate \<Rightarrow> string set" where
  "unused N s = N - dom (st_by_name s)"

definition runs_out :: "nat \<Rightarrow> string set \<Rightarrow> rstate \<Rightarrow> bool" where
  "runs_out fuel N s \<longleftrightarrow> fuel \<le> card (unused N s)"

definition good_run :: "nat \<Rightarrow> env \<Rightarrow> registry_client \<Rightarrow> resolver \<Rightarrow> (fs \<Rightarrow> bool) \<Rightarrow> string set \<Rightarrow> bool" where
  "good_run fuel env mat R I N \<longleftrightarrow> (\<forall>p o' w s r w' s'.
     ResolveNode fuel env mat R p o' (w, s) = (r, (w', s')) \<longrightarrow> I w \<longrightarrow> card (unused N s) < fuel \<longrightarrow>
     r \<noteq> Inl OutOfFuel \<and> (\<forall>i. r = Inr i \<longrightarrow> I w' \<and> dom (st_by_name s) \<subseteq> dom (st_by_name s')))"

lemma unused_mono: "finite N \<Longrightarrow> dom (st_by_name s) \<subseteq> dom (st_by_name s') \<Longrightarrow> card (unused N s') \<le> card (unused N s)"
  by (rule card_mono) (auto simp: unused_def)

lemma no_fuel_node [no_fuel_intros]:
  "no_fuel (load_manifest_of env R w p)" "no_fuel (opt_value m)" "no_fuel (list_at xs i)"
  "no_fuel (SnapshotRelativeKey env o' d)" "no_fuel (BuildLockId o' pk)"
  "no_fuel (BuildSourceFingerprint env o' d)" "no_fuel (build_node env path o' fp doc)"
  unfolding load_manifest_of_def opt_value_def list_at_def SnapshotRelativeKey_def BuildLockId_def
    BuildSourceFingerprint_def build_node_def
  by (auto intro!: no_fuel_intros simp: opt_value_def Let_def split: source_kind.split)

lemma no_fuel_member_matches [no_fuel_intros]: "no_fuel (member_matches env w root excl e ms)"
  by (induction ms) (auto intro!: no_fuel_intros simp: Let_def)

lemma no_fuel_select [no_fuel_intros]: "no_fuel (SelectPackageManifestFromRoot env R w root hint expected)"
  unfolding SelectPackageManifestFromRoot_def Let_def
  by (auto intro!: no_fuel_intros split: option.split list.split)

lemma no_fuel_path [no_fuel_intros]:
  "no_fuel (ResolvePathDependency env R w parent dep)" "no_fuel (select_in_snapshot env R what o' sn e w)"
  unfolding ResolvePathDependency_def select_in_snapshot_def Let_def
  by (intro no_fuel_intros error.simps)+

lemma no_fuel_git [no_fuel_intros]:
  "no_fuel_io (HasRevision env d rv)" "no_fuel_io (FetchOrigin env d)" "no_fuel_io (EnsureRevision env gc s rv d)"
  unfolding HasRevision_def FetchOrigin_def EnsureRevision_def
  by (intro no_fuel_intros error.simps)+

lemma no_fuel_mirror [no_fuel_intros]: "no_fuel_io (EnsureMirror env s d)"
proof -
  have "no_fuel_io (io_bind (fs_create_directories env (parent_path d)) (\<lambda>_.
     io_bind (RunProcess env CacheError (git_request ''git''
         [''clone'', ''--mirror'', s, d] kExternalProcessStepTimeout)) (\<lambda>r.
     io_guard (exit_code r = 0) (FetchError (''failed to clone git source '' @ squote s @
       '': '' @ DescribeProcessFailure r)))))"
    by (intro no_fuel_intros error.simps)
  then show ?thesis by (simp add: EnsureMirror_def no_fuel_io_def no_fuel_basic)
qed

lemma no_fuel_snapshot [no_fuel_intros]: "no_fuel_io (EnsureSnapshot env d sn rv)"
  unfolding no_fuel_io_def EnsureSnapshot_def Let_def
  by (auto simp: no_fuel_basic intro!: no_fuel_io_at no_fuel_io_bind no_fuel_io_basic no_fuel_fs)

lemma no_fuel_Materialize [no_fuel_intros]: "no_fuel_io (Materialize env gc s rv)"
  unfolding no_fuel_io_def Materialize_def Let_def
  by (auto simp: no_fuel_basic intro!: no_fuel_io_at no_fuel_intros split: option.split)

lemma no_fuel_select_dependency:
  assumes "\<And>root package version offline. no_fuel_io (mat root package version offline)"
  shows "no_fuel_io (select_dependency env mat R node dep)"
  unfolding select_dependency_def ResolveGitDependency_def ResolveRegistryDependency_def Let_def
  by (auto intro!: no_fuel_intros assms split: dependency_source_kind.split option.split)

lemma claim_node_no_fuel: "claim_node node (w, s) = (r, ws) \<Longrightarrow> r \<noteq> Inl OutOfFuel"
  by (auto simp: claim_node_def list_at_def Let_def split: option.splits sum.splits if_splits)

lemma claim_node_dom:
  "claim_node node (w, s) = (Inr (i, fr), (w', s')) \<Longrightarrow> w' = w \<and>
     dom (st_by_name s') = (if fr then insert (node_name node) (dom (st_by_name s)) else dom (st_by_name s)) \<and>
     (fr \<longrightarrow> node_name node \<notin> dom (st_by_name s))"
  by (auto simp: claim_node_def Let_def split: option.splits sum.splits if_splits)

lemma link_dependency_no_fuel:
  "link_dependency node dep j (w, s) = (r, ws) \<Longrightarrow> r \<noteq> Inl OutOfFuel \<and> ws = (w, s)"
  using no_fuel_node(3) [of "st_nodes s" j]
  by (auto simp: link_dependency_def no_fuel_def rbind_def list_at_def split: sum.splits if_splits)

lemma resolve_dependency_good:
  assumes good: "good_run fuel env mat R I N" and closed: "closed_universe env mat R I N"
    and step: "resolve_dependency fuel env mat R node d A (w, s) = (r, (w', s'))"
    and inv: "I w" and card: "card (unused N s) < fuel"
  shows "r \<noteq> Inl OutOfFuel \<and> (\<forall>B. r = Inr B \<longrightarrow> I w' \<and> dom (st_by_name s) \<subseteq> dom (st_by_name s'))"
proof -
  obtain r1 w1 where sel: "select_dependency env mat R node d w = (r1, w1)" by fastforce
  with closed inv have r1: "r1 \<noteq> Inl OutOfFuel" "\<And>x. r1 = Inr x \<Longrightarrow> I w1"
    using no_fuel_io_at [OF no_fuel_select_dependency, of mat env R node d w]
    unfolding closed_universe_def no_fuel_def by auto
  show ?thesis
  proof (cases r1)
    case (Inl e)
    with step sel r1 show ?thesis by (auto simp: io_bind_def on_fs_def)
  next
    case (Inr x)
    obtain r2 w2 s2 where run: "ResolveNode fuel env mat R (sel_manifest_path x) (sel_origin x) (w1, s) = (r2, (w2, s2))"
      by (rule prod_cases3)
    with good r1(2) [OF Inr] card have r2: "r2 \<noteq> Inl OutOfFuel"
      "\<And>j. r2 = Inr j \<Longrightarrow> I w2 \<and> dom (st_by_name s) \<subseteq> dom (st_by_name s2)"
      unfolding good_run_def by blast+
    show ?thesis
    proof (cases r2)
      case (Inl e)
      with step sel Inr run r2 show ?thesis by (auto simp: io_bind_def on_fs_def)
    next
      case (Inr j)
      obtain r3 ws where lnk: "link_dependency node d j (w2, s2) = (r3, ws)" by (rule prod.exhaust)
      with link_dependency_no_fuel [OF lnk] step sel \<open>r1 = Inr x\<close> run Inr r2 show ?thesis
        by (cases r3) (auto simp: io_bind_def on_fs_def io_return_def)
    qed
  qed
qed

lemma ResolveNode_good:
  assumes closed: "closed_universe env mat R I N"
  shows "good_run fuel env mat R I N"
proof (induction fuel)
  case 0
  show ?case by (simp add: good_run_def)
next
  case (Suc fuel)
  have fin: "finite N" using closed by (simp add: closed_universe_def)
  show ?case
    unfolding good_run_def
  proof (intro allI impI)
    fix p o' w s r w' s'
    assume run: "ResolveNode (Suc fuel) env mat R p o' (w, s) = (r, (w', s'))"
      and inv: "I w" and card: "card (unused N s) < Suc fuel"
    let ?path = "canonical env p"
    let ?goal = "r \<noteq> Inl OutOfFuel \<and> (\<forall>i. r = Inr i \<longrightarrow> I w' \<and> dom (st_by_name s) \<subseteq> dom (st_by_name s'))"
    show ?goal
    proof (cases "BuildSourceFingerprint env o' (parent_path ?path)")
      case (Inl e)
      with run no_fuel_node(6) [of env o' "parent_path ?path"] show ?goal
        by (auto simp: io_bind_def io_lift_def Let_def no_fuel_def)
    next
      case fp: (Inr fp)
      show ?goal
      proof (cases "st_by_fingerprint s fp")
        case (Some i)
        with run fp inv show ?goal by (auto simp: io_bind_def io_lift_def Let_def io_return_def)
      next
        case new: None
        show ?goal
        proof (cases "load_manifest_of env R w ?path")
          case (Inl e)
          with run fp new no_fuel_node(1) [of env R w ?path] show ?goal
            by (auto simp: io_bind_def io_lift_def Let_def no_fuel_def reading_def)
        next
          case doc: (Inr doc)
          show ?goal
          proof (cases "build_node env ?path o' fp doc")
            case (Inl e)
            with run fp new doc no_fuel_node(7) [of env ?path o' fp doc] show ?goal
              by (auto simp: io_bind_def io_lift_def Let_def no_fuel_def reading_def)
          next
            case node: (Inr node)
            obtain rc w1 s1 where cl: "claim_node node (w, s) = (rc, (w1, s1))" by (rule prod_cases3)
            show ?goal
            proof (cases rc)
              case (Inl e)
              with run fp new doc node cl claim_node_no_fuel [OF cl] show ?goal
                by (auto simp: io_bind_def io_lift_def Let_def reading_def)
            next
              case (Inr ifr)
              obtain i fr where rc: "rc = Inr (i, fr)" using Inr by (cases ifr) auto
              note cl' = claim_node_dom [OF cl [unfolded rc]]
              have rest: "(if \<not> fr then io_return i else
                  io_bind (io_fold (resolve_dependency fuel env mat R node) (CollectDependencies (n_package node)) [])
                    (finish_node i)) (w1, s1) = (r, (w', s'))"
                using run fp new doc node cl rc
                by (simp add: io_bind_def io_lift_def Let_def reading_def)
              show ?goal
              proof (cases fr)
                case False
                with rest cl' inv show ?goal by (auto simp: io_return_def)
              next
                case True
                have "node_name node \<in> N"
                  using closed inv doc node unfolding closed_universe_def
                  by (auto simp: build_node_def result_simps split: option.splits)
                moreover have d: "dom (st_by_name s1) = insert (node_name node) (dom (st_by_name s))"
                  "node_name node \<notin> dom (st_by_name s)"
                  using cl' True by simp_all
                ultimately have "unused N s1 = unused N s - {node_name node}" "node_name node \<in> unused N s"
                  unfolding unused_def d(1) by blast+
                moreover have "finite (unused N s)" using fin by (simp add: unused_def)
                ultimately have "card (unused N s1) < card (unused N s)"
                  by (metis card_Diff1_less)
                then have card1: "card (unused N s1) < fuel" using card by simp
                obtain rl w2 s2 where loop: "io_fold (resolve_dependency fuel env mat R node)
                    (CollectDependencies (n_package node)) [] (w1, s1) = (rl, (w2, s2))" by (rule prod_cases3)
                let ?P = "\<lambda>(A :: dependency_alias list) (w, s). I w \<and> dom (st_by_name s1) \<subseteq> dom (st_by_name s)"
                have "rl \<noteq> Inl OutOfFuel \<and> (\<forall>A. rl = Inr A \<longrightarrow> ?P A (w2, s2))"
                proof (rule io_fold_no_error [OF loop])
                  show "?P [] (w1, s1)" using cl' inv by simp
                next
                  fix d A ws r ws'
                  assume P: "?P A ws" and st: "resolve_dependency fuel env mat R node d A ws = (r, ws')"
                  obtain wa sa wb sb where [simp]: "ws = (wa, sa)" "ws' = (wb, sb)" by (cases ws; cases ws') auto
                  have "card (unused N sa) < fuel"
                    using P unused_mono [OF fin, of s1 sa] card1 by simp
                  with resolve_dependency_good [OF Suc.IH closed, of node d A wa sa r wb sb] P st
                  show "r \<noteq> Inl OutOfFuel \<and> (\<forall>B. r = Inr B \<longrightarrow> ?P B ws')" by auto
                qed
                moreover have "(r, (w', s')) = (case rl of Inl e \<Rightarrow> (Inl e, (w2, s2)) | Inr A \<Rightarrow> finish_node i A (w2, s2))"
                  using rest True loop by (simp add: io_bind_def split: sum.splits)
                ultimately show ?goal
                  using cl' True by (cases rl) (auto simp: finish_node_def)
              qed
            qed
          qed
        qed
      qed
    qed
  qed
qed

lemma ResolveGraph_fuel:
  assumes closed: "closed_universe env mat R I N" and inv: "I w" and fuel: "card N < fuel"
  shows "fst (ResolveGraph fuel env mat R w) \<noteq> Inl OutOfFuel"
proof -
  have fin: "finite N" using closed by (simp add: closed_universe_def)
  have card: "card (unused N s) < fuel" for s
    using fuel card_mono [OF fin, of "unused N s"] by (auto simp: unused_def)
  obtain r w' s' where run: "resolve_seeds fuel env mat R (w, empty_rstate) = (r, (w', s'))" by (rule prod_cases3)
  have "r \<noteq> Inl OutOfFuel \<and> (\<forall>ids. r = Inr ids \<longrightarrow> (\<lambda>_ (w, _). I w) ids (w', s'))"
    using run unfolding resolve_seeds_def
  proof (rule io_fold_no_error)
    show "(\<lambda>_ (w, _). I w) [] (w, empty_rstate)" using inv by simp
  next
    fix seed ids ws r2 ws2
    assume P: "(\<lambda>_ (w, _). I w) (ids :: string list) (ws :: rworld)"
      and st: "io_bind (ResolveNode fuel env mat R (sel_manifest_path seed) (sel_origin seed))
        (\<lambda>i. \<lambda>(w, s). (rbind (list_at (st_nodes s) i) (\<lambda>n. Inr (ids @ [n_id n])), (w, s))) ws = (r2, ws2)"
    obtain wa sa where ws: "ws = (wa, sa)" by fastforce
    obtain rn wb sb where run: "ResolveNode fuel env mat R (sel_manifest_path seed) (sel_origin seed) (wa, sa) = (rn, (wb, sb))"
      by (rule prod_cases3)
    have good: "rn \<noteq> Inl OutOfFuel" "\<And>i. rn = Inr i \<Longrightarrow> I wb"
      using ResolveNode_good [OF closed, of fuel] run P card unfolding good_run_def ws by auto
    show "r2 \<noteq> Inl OutOfFuel \<and> (\<forall>ids. r2 = Inr ids \<longrightarrow> (\<lambda>_ (w, _). I w) ids ws2)"
      using st run good by (cases rn) (auto simp: io_bind_def ws list_at_def rbind_def split: if_splits)
  qed
  then show ?thesis by (auto simp: ResolveGraph_def run split: sum.split)
qed

subsection \<open>Offline runs\<close>

text \<open>The requests that reach a remote: cloning a mirror, fetching from its origin, and every \<open>curl\<close>.\<close>

definition remote_request :: "process_request \<Rightarrow> bool" where
  "remote_request req \<longleftrightarrow> pr_program req = ''curl'' \<or> pr_program req = ''git'' \<and>
     (take 1 (pr_args req) = [''clone''] \<or> take 1 (drop 2 (pr_args req)) = [''fetch''])"

abbreviation spawning :: "env \<Rightarrow> (process_request \<Rightarrow> fs \<Rightarrow> (string + process_result) \<times> fs) \<Rightarrow> env" where
  "spawning env sp \<equiv> env\<lparr>env_spawn := sp\<rparr>"

lemma spawn_frame_fields:
  "env_cwd (spawning env sp) = env_cwd env" "env_getenv (spawning env sp) = env_getenv env"
  "env_writable (spawning env sp) = env_writable env" "env_toml (spawning env sp) = env_toml env"
  "env_json (spawning env sp) = env_json env"
  by simp_all

lemma spawn_frame_fs: "path_key (spawning env sp) = path_key env"
  by (simp add: fun_eq_iff path_key_def)

lemma spawn_frame_node: "node_at (spawning env sp) = node_at env"
  by (simp add: fun_eq_iff node_at_def spawn_frame_fs)

lemma spawn_frame_ops:
  "fs_exists (spawning env sp) = fs_exists env" "fs_read (spawning env sp) = fs_read env"
  "fs_can_write (spawning env sp) = fs_can_write env" "fs_put (spawning env sp) = fs_put env"
  "fs_remove (spawning env sp) = fs_remove env" "fs_remove_all (spawning env sp) = fs_remove_all env"
  "fs_create_directories (spawning env sp) = fs_create_directories env"
  unfolding fun_eq_iff fs_exists_def fs_read_def fs_can_write_def fs_put_def fs_remove_def
      fs_remove_all_def fs_create_directories_def spawn_frame_fs spawn_frame_node spawn_frame_fields
  by simp_all

lemma spawn_frame_load:
  "write_unchecked (spawning env sp) = write_unchecked env" "LoadManifest (spawning env sp) = LoadManifest env"
  "PathKey (spawning env sp) = PathKey env"
  unfolding fun_eq_iff write_unchecked_def LoadManifest_def PathKey_def spawn_frame_ops spawn_frame_fields
  by simp_all

lemmas spawn_frame = spawn_frame_fields spawn_frame_fs spawn_frame_node spawn_frame_ops spawn_frame_load

lemma spawn_frame_members:
  "member_seeds (spawning env sp) w root excl ms = member_seeds env w root excl ms"
  "member_matches (spawning env sp) w root excl e ms = member_matches env w root excl e ms"
proof -
  show "member_seeds (spawning env sp) w root excl ms = member_seeds env w root excl ms"
    by (induction ms) (simp, simp only: member_seeds.simps spawn_frame)
  show "member_matches (spawning env sp) w root excl e ms = member_matches env w root excl e ms"
    by (induction ms) (simp, simp only: member_matches.simps spawn_frame)
qed

lemma spawn_frame_select:
  "load_manifest_of (spawning env sp) = load_manifest_of env"
  "SelectPackageManifestFromRoot (spawning env sp) = SelectPackageManifestFromRoot env"
proof -
  show load: "load_manifest_of (spawning env sp) = load_manifest_of env"
    by (simp add: fun_eq_iff load_manifest_of_def spawn_frame)
  show "SelectPackageManifestFromRoot (spawning env sp) = SelectPackageManifestFromRoot env"
    unfolding fun_eq_iff SelectPackageManifestFromRoot_def load spawn_frame spawn_frame_members by simp
qed

lemma spawn_frame_resolver:
  "ResolvePathDependency (spawning env sp) = ResolvePathDependency env"
  "select_in_snapshot (spawning env sp) = select_in_snapshot env"
  "FindVendoredSnapshot (spawning env sp) = FindVendoredSnapshot env"
  "GitSourceCache (spawning env sp) = GitSourceCache env"
  "BuildRootSeeds (spawning env sp) = BuildRootSeeds env"
  "NormalizeOptions (spawning env sp) = NormalizeOptions env"
  "ResolvePafioHome (spawning env sp) = ResolvePafioHome env"
  "NormalizeGitSource (spawning env sp) = NormalizeGitSource env"
  "BuildSourceFingerprint (spawning env sp) = BuildSourceFingerprint env"
  "build_node (spawning env sp) = build_node env"
  unfolding fun_eq_iff ResolvePathDependency_def select_in_snapshot_def FindVendoredSnapshot_def
      GitSourceCache_def BuildRootSeeds_def NormalizeOptions_def ResolvePafioHome_def
      ResolveOptionalPafioHome_def NormalizeGitSource_def BuildSourceFingerprint_def build_node_def
      SnapshotRelativeKey_def ProjectVendorRootForManifest_def ProjectStateRootForManifest_def
      spawn_frame spawn_frame_members spawn_frame_select
  by simp_all

definition same_locally where
  "same_locally env sp \<longleftrightarrow> (\<forall>req w. \<not> remote_request req \<longrightarrow> sp req w = env_spawn env req w)"

lemma RunProcess_local:
  "same_locally env sp \<Longrightarrow> \<not> remote_request req \<Longrightarrow> RunProcess (spawning env sp) exn req = RunProcess env exn req"
  by (simp add: RunProcess_def same_locally_def)

lemma HasRevision_local: "same_locally env sp \<Longrightarrow> HasRevision (spawning env sp) = HasRevision env"
  unfolding fun_eq_iff HasRevision_def
  by (simp add: RunProcess_local remote_request_def git_request_def)

lemma EnsureSnapshot_local: "same_locally env sp \<Longrightarrow> EnsureSnapshot (spawning env sp) = EnsureSnapshot env"
proof -
  assume same: "same_locally env sp"
  have runs: "RunProcess (spawning env sp) exn (git_request ''git'' [''--git-dir'', d, ''archive'', f, g, a, rv] t) =
      RunProcess env exn (git_request ''git'' [''--git-dir'', d, ''archive'', f, g, a, rv] t)"
    "RunProcess (spawning env sp) exn (git_request ''tar'' as t) = RunProcess env exn (git_request ''tar'' as t)"
    for exn d f g a rv t as
    by (simp_all add: RunProcess_local [OF same] remote_request_def git_request_def)
  show ?thesis
    unfolding fun_eq_iff EnsureSnapshot_def spawn_frame runs by simp
qed

lemma EnsureRevision_offline:
  assumes "same_locally env sp" and "gc_offline gc"
  shows "EnsureRevision (spawning env sp) gc = EnsureRevision env gc"
  using assms(2) by (simp add: fun_eq_iff EnsureRevision_def HasRevision_local [OF assms(1)])

lemma Materialize_offline:
  assumes "same_locally env sp" and "gc_offline gc"
  shows "Materialize (spawning env sp) gc = Materialize env gc"
  unfolding fun_eq_iff Materialize_def EnsureRevision_offline [OF assms] EnsureSnapshot_local [OF assms(1)]
    spawn_frame spawn_frame_resolver assms(2) [THEN eqTrueI] if_True
  by simp

lemma select_dependency_offline:
  assumes "same_locally env sp" and "gc_offline (rs_cache R)" and "rs_offline R"
    and "\<And>root package version. mat' root package version True = mat root package version True"
  shows "select_dependency (spawning env sp) mat' R = select_dependency env mat R"
proof -
  have git: "ResolveGitDependency (spawning env sp) R = ResolveGitDependency env R"
    unfolding fun_eq_iff ResolveGitDependency_def Materialize_offline [OF assms(1,2)] spawn_frame_resolver by simp
  have reg: "ResolveRegistryDependency (spawning env sp) mat' R = ResolveRegistryDependency env mat R"
    unfolding fun_eq_iff ResolveRegistryDependency_def spawn_frame_resolver assms(3) [THEN eqTrueI] assms(4) by simp
  show ?thesis
    unfolding fun_eq_iff select_dependency_def spawn_frame_resolver git reg by simp
qed

lemma ResolveNode_offline:
  assumes "same_locally env sp" and "gc_offline (rs_cache R)" and "rs_offline R"
    and "\<And>root package version. mat' root package version True = mat root package version True"
  shows "ResolveNode fuel (spawning env sp) mat' R p o' = ResolveNode fuel env mat R p o'"
proof (induction fuel arbitrary: p o')
  case 0
  show ?case by simp
next
  case (Suc fuel)
  show ?case
    unfolding ResolveNode.simps Suc.IH select_dependency_offline [of env sp R mat' mat, OF assms] spawn_frame_resolver
      spawn_frame_select spawn_frame_fields ..
qed

lemma Resolve_offline:
  assumes "same_locally env sp"
    and "\<And>root package version. mat' root package version True = mat root package version True"
  shows "ResolveSingleVersionGraph fuel (spawning env sp) mat' mp True vr w =
    ResolveSingleVersionGraph fuel env mat mp True vr w"
proof -
  have new: "SingleVersionResolver (spawning env sp) mp True vr = SingleVersionResolver env mp True vr"
    unfolding SingleVersionResolver_def spawn_frame spawn_frame_resolver ..
  have off: "gc_offline (rs_cache R) \<and> rs_offline R" if "SingleVersionResolver env mp True vr w = (Inr R, w')" for R w'
    using that by (auto simp: SingleVersionResolver_def GitSourceCache_def result_simps Let_def)
  have "ResolveGraph fuel (spawning env sp) mat' R = ResolveGraph fuel env mat R"
    if "gc_offline (rs_cache R) \<and> rs_offline R" for R
    unfolding fun_eq_iff ResolveGraph_def resolve_seeds_def
    using ResolveNode_offline [of env sp R mat' mat, OF assms(1) that [THEN conjunct1] that [THEN conjunct2] assms(2)] by simp
  with off show ?thesis
    unfolding ResolveSingleVersionGraph_def new io_bind_def by (auto split: prod.split sum.split)
qed

end
