(* ===== verification/ResolveProperties.thy ===== *)
theory ResolveProperties
  imports ResolverRuns CoreProperties
begin

section \<open>Properties of the resolver\<close>

text \<open>
  What holds of every graph the resolver returns, that it returns, what offline mode guarantees, and
  the containment of path dependencies in a git snapshot.  The instances run the resolver on a
  package with one path dependency.
\<close>

definition sample_toolchain :: toolchain where
  "sample_toolchain = \<lparr>tc_channel = ''nightly'', tc_implicit_std = True\<rparr>"

definition sample_library :: "string \<Rightarrow> dependency list \<Rightarrow> manifest_document" where
  "sample_library name deps = \<lparr>doc_package = Some \<lparr>pkg_name = name, pkg_version = ''1.0.0'', pkg_edition = ''2026'',
     pkg_publish = False, pkg_toolchain = sample_toolchain, pkg_lib = Some \<lparr>lib_path = ''l''\<rparr>,
     pkg_bins = [], pkg_tests = [], pkg_dependencies = deps, pkg_dev_dependencies = []\<rparr>, doc_workspace = None\<rparr>"

definition sample_path_dep :: "string \<Rightarrow> string \<Rightarrow> dependency" where
  "sample_path_dep alias path = \<lparr>dep_alias = alias, dep_package = None, dep_source_kind = kPath,
     dep_source = path, dep_rev = None, dep_version = None\<rparr>"

text \<open>A package \<open>/w\<close> with a path dependency on \<open>/u\<close>.\<close>

definition sample_app :: manifest_document where
  "sample_app = sample_library ''a/p'' [sample_path_dep ''u'' ''../u'']"

definition sample_util :: manifest_document where
  "sample_util = sample_library ''a/u'' []"

definition resolver_env :: env where
  "resolver_env = sample_env\<lparr>
     env_getenv := (\<lambda>v. if v = ''PAFIO_HOME'' then Some ''/h'' else None),
     env_toml := sample_api\<lparr>toml_parse := (\<lambda>c. if c = ''A'' then Inr (toml_of_manifest sample_app)
       else if c = ''B'' then Inr (toml_of_manifest sample_util) else Inl ''syntax error'')\<rparr>\<rparr>"

definition resolver_fs :: fs where
  "resolver_fs = [([''w''], Dir), ([''w'', ''pafio.toml''], File ''A''),
     ([''u''], Dir), ([''u'', ''pafio.toml''], File ''B'')]"

definition no_registry :: registry_client where
  "no_registry root package version offline = io_throw (FetchError ''no registry'')"

definition sample_graph :: resolved_graph where
  "sample_graph = projr (fst (ResolveSingleVersionGraph 3 resolver_env no_registry ''pafio.toml'' False None resolver_fs))"

definition sample_after :: fs where
  "sample_after = snd (ResolveSingleVersionGraph 3 resolver_env no_registry ''pafio.toml'' False None resolver_fs)"

lemma sample_resolves:
  "ResolveSingleVersionGraph 3 resolver_env no_registry ''pafio.toml'' False None resolver_fs =
     (Inr sample_graph, sample_after)"
proof -
  have "\<not> isl (fst (ResolveSingleVersionGraph 3 resolver_env no_registry ''pafio.toml'' False None resolver_fs))"
    by code_simp
  then show ?thesis by (simp add: sample_graph_def sample_after_def prod_eq_iff)
qed

lemma sample_registry_ok: "registry_ok no_registry"
  by (simp add: registry_ok_def no_registry_def io_throw_def)

text \<open>C1: in a resolved graph no two packages have the same name and no two the same id, the packages are
  ordered by id, the root ids are ids of the graph, and every recorded dependency is the id of another
  package of the graph, listed once and in order.\<close>

theorem resolved_graph_single_version:
  assumes "ResolveSingleVersionGraph fuel env mat manifest_path offline vendor_root w = (Inr g, w')"
    and "registry_ok mat"
  shows "distinct (map (pkg_name \<circ> rp_package) (rg_packages g)) \<and>
    distinct (map rp_id (rg_packages g)) \<and> sorted (map rp_id (rg_packages g)) \<and>
    set (rg_root_ids g) \<subseteq> rp_id ` set (rg_packages g) \<and>
    (\<forall>p \<in> set (rg_packages g). set (rp_dependencies p) \<subseteq> rp_id ` set (rg_packages g) - {rp_id p} \<and>
       sorted (rp_dependencies p) \<and> distinct (rp_dependencies p))"
proof -
  obtain R ids s where g: "g = graph_of_state R ids s" and inv: "rinv {} s" and ids: "set ids \<subseteq> n_id ` set (st_nodes s)"
    by (rule resolved_graph_state [OF assms])
  have pk: "rg_packages g = sort_key rp_id (map package_of_node (st_nodes s))"
    by (simp add: g graph_of_state_def Let_def)
  have d: "distinct (map f (rg_packages g)) = distinct (map (f \<circ> package_of_node) (st_nodes s))" for f :: "resolved_package \<Rightarrow> string"
    by (simp add: pk std_sort.srt_distinct_map)
  have names: "pkg_name \<circ> rp_package \<circ> package_of_node = node_name" "rp_id \<circ> package_of_node = n_id"
    by (simp_all add: fun_eq_iff)
  have dep: "set (n_dependencies n) \<subseteq> n_id ` set (st_nodes s) - {n_id n} \<and> sorted (n_dependencies n) \<and>
      distinct (n_dependencies n)" if "n \<in> set (st_nodes s)" for n
    using node_done_dependency [OF inv that] rinv_node_done [OF inv that] by (auto simp: node_done_def)
  have img: "rp_id ` set (rg_packages g) = n_id ` set (st_nodes s)" by (auto simp: pk image_image)
  have "distinct (map (pkg_name \<circ> rp_package) (rg_packages g))" "distinct (map rp_id (rg_packages g))"
    using rinv_distinct_names [OF inv] rinv_distinct_ids [OF inv] by (simp_all only: d names)
  moreover have "sorted (map rp_id (rg_packages g))" by (simp add: pk)
  moreover have "set (rg_root_ids g) \<subseteq> rp_id ` set (rg_packages g)"
    using ids by (simp add: img) (simp add: g graph_of_state_def Let_def)
  ultimately show ?thesis using dep by (simp add: img) (simp add: pk)
qed

theorem resolved_graph_single_version_witness:
  "distinct (map rp_id (rg_packages sample_graph))"
  using resolved_graph_single_version [OF sample_resolves sample_registry_ok] by blast

text \<open>C2: no declared dependency is lost: for every dependency and dev-dependency of a resolved package there is
  an alias entry with its alias that points to a package of the graph, which has the expected name when the
  manifest gives one, and the target is among the recorded dependencies.\<close>

theorem resolved_graph_complete:
  assumes "ResolveSingleVersionGraph fuel env mat manifest_path offline vendor_root w = (Inr g, w')"
    and "registry_ok mat" and "p \<in> set (rg_packages g)"
    and "d \<in> set (pkg_dependencies (rp_package p) @ pkg_dev_dependencies (rp_package p))"
  shows "\<exists>a \<in> set (rp_aliases p). \<exists>q \<in> set (rg_packages g).
    da_alias a = dep_alias d \<and> da_package_id a = rp_id q \<and> rp_id q \<in> set (rp_dependencies p) \<and>
    (\<forall>e. dep_package d = Some e \<longrightarrow> pkg_name (rp_package q) = e)"
proof -
  obtain R ids s where g: "g = graph_of_state R ids s" and inv: "rinv {} s"
    by (rule resolved_graph_state [OF assms(1,2)])
  obtain n where n: "n \<in> set (st_nodes s)" "p = package_of_node n"
    using assms(3) by (auto simp: g graph_packages)
  have "d \<in> set (CollectDependencies (n_package n))"
    using assms(4) by (simp add: CollectDependencies_def n)
  from node_done_alias [OF inv n(1) this] show ?thesis
    by (auto simp: g graph_packages n(2))
qed

theorem resolved_graph_complete_witness:
  "\<exists>p \<in> set (rg_packages sample_graph). \<exists>a \<in> set (rp_aliases p). da_alias a = ''u''"
proof -
  have "list_ex (\<lambda>p. sample_path_dep ''u'' ''../u'' \<in> set (pkg_dependencies (rp_package p))) (rg_packages sample_graph)"
    unfolding sample_graph_def by code_simp
  then obtain p where p: "p \<in> set (rg_packages sample_graph)"
    "sample_path_dep ''u'' ''../u'' \<in> set (pkg_dependencies (rp_package p) @ pkg_dev_dependencies (rp_package p))"
    by (auto simp: list_ex_iff)
  from resolved_graph_complete [OF sample_resolves sample_registry_ok p] p(1) show ?thesis
    by (auto simp: sample_path_dep_def)
qed




text \<open>C3: the resolver returns: when the packages reachable from the root have finitely many names, the
  recursion is cut off with no fuel that exceeds their number, whatever the git source cache and the registry
  client do in between.\<close>

theorem resolver_returns:
  assumes "closed_universe env mat R I N" and "I w" and "card N < fuel"
  shows "fst (ResolveGraph fuel env mat R w) \<noteq> Inl OutOfFuel"
  by (rule ResolveGraph_fuel [OF assms])

lemma resolver_env_names:
  assumes "LoadManifest resolver_env w path = Inr m" and "doc_package m = Some p"
  shows "pkg_name p \<in> {''a/p'', ''a/u''}"
proof -
  have wf: "wf_manifest sample_app" "wf_manifest sample_util" by code_simp+
  have api: "toml_values_ok (env_toml resolver_env)"
    by (simp add: toml_values_ok_def resolver_env_def sample_api_def)
  from assms(1) have "m = canonical_manifest sample_app \<or> m = canonical_manifest sample_util"
    using ParseManifest_toml [OF api wf(1)] ParseManifest_toml [OF api wf(2)]
    by (auto simp: LoadManifest_def Let_def resolver_env_def split: option.splits if_splits)
  with assms(2) show ?thesis
    by (auto simp: canonical_manifest_def canonical_package_def sample_app_def sample_util_def sample_library_def)
qed

theorem resolver_returns_witness:
  "\<exists>R. fst (SingleVersionResolver resolver_env ''pafio.toml'' False None resolver_fs) = Inr R \<and>
     fst (ResolveGraph 3 resolver_env no_registry R resolver_fs) \<noteq> Inl OutOfFuel"
proof -
  have "\<not> isl (fst (SingleVersionResolver resolver_env ''pafio.toml'' False None resolver_fs))"
    by code_simp
  then obtain R w' where R: "SingleVersionResolver resolver_env ''pafio.toml'' False None resolver_fs = (Inr R, w')"
    by (metis prod.collapse sum.collapse(2))
  then obtain doc where "LoadManifest resolver_env resolver_fs (canonical resolver_env ''pafio.toml'') = Inr doc"
    "rs_root_manifest R = doc"
    by (auto simp: SingleVersionResolver_def io_bind_Inr io_lift_eq io_return_eq Let_def)
  then have "pkg_name p \<in> {''a/p'', ''a/u''}"
    if "load_manifest_of resolver_env R w path = Inr m" "doc_package m = Some p" for w path m p
    using that resolver_env_names by (metis Inr_inject load_manifest_of_def)
  then have "closed_universe resolver_env no_registry R (\<lambda>_. True) {''a/p'', ''a/u''}"
    by (auto simp: closed_universe_def no_registry_def intro!: no_fuel_intros)
  from resolver_returns [OF this, where w = resolver_fs and fuel = 3] R show ?thesis by (auto simp: card_insert_if)
qed

text \<open>In offline mode the resolution never depends on a remote: replacing what the clone and fetch requests of
  git would do, and nothing else, changes neither the result nor the file system left behind.\<close>

theorem offline_never_contacts_remote:
  assumes "\<forall>req w. \<not> remote_request req \<longrightarrow> sp req w = env_spawn env req w"
  shows "ResolveSingleVersionGraph fuel (env\<lparr>env_spawn := sp\<rparr>) mat manifest_path True vendor_root w =
    ResolveSingleVersionGraph fuel env mat manifest_path True vendor_root w"
  by (rule Resolve_offline) (use assms in \<open>simp_all add: same_locally_def\<close>)

theorem offline_never_contacts_remote_witness:
  "ResolveSingleVersionGraph 3 (resolver_env\<lparr>env_spawn := (\<lambda>req w. if remote_request req then (Inl ''network'', [])
      else env_spawn resolver_env req w)\<rparr>) no_registry ''pafio.toml'' True None resolver_fs =
   ResolveSingleVersionGraph 3 resolver_env no_registry ''pafio.toml'' True None resolver_fs"
  by (rule offline_never_contacts_remote) simp


text \<open>A package \<open>/s/p\<close> in the git snapshot \<open>/s\<close>, with a path dependency on the snapshot's root.\<close>

definition snapshot_node :: resolver_node where
  "snapshot_node = \<lparr>n_manifest_path = ''/s/p/pafio.toml'', n_package_dir = ''/s/p'',
     n_package = the (doc_package sample_util), n_origin = git_origin ''u'' ''r'' ''h'' ''/s'', n_fingerprint = ''f'',
     n_id = ''i'', n_dependencies = [], n_aliases = []\<rparr>"

definition idle_resolver :: resolver where
  "idle_resolver = \<lparr>rs_root_manifest_path = ''/w/pafio.toml'', rs_root_manifest = sample_app, rs_offline = False,
     rs_cache = \<lparr>gc_home = ''/h'', gc_offline = False, gc_vendor_root = None\<rparr>, rs_seeds = [], rs_top_dirs = []\<rparr>"


definition escaping_workspace :: manifest_document where
  "escaping_workspace = \<lparr>doc_package = None,
     doc_workspace = Some \<lparr>ws_members = [''../x''], ws_exclude = [], ws_resolver = ''1''\<rparr>\<rparr>"

definition escaping_env :: env where
  "escaping_env = resolver_env\<lparr>env_toml := sample_api\<lparr>toml_parse := (\<lambda>c.
     if c = ''B'' then Inr (toml_of_manifest sample_util) else Inr (toml_of_manifest escaping_workspace))\<rparr>\<rparr>"

text \<open>The containment of the previous property stops at the workspace members: a git-sourced path dependency
  that names a package of a workspace in the snapshot is resolved to a member directory outside the snapshot
  when the workspace lists it, and still recorded with the git origin.\<close>

theorem git_workspace_member_escapes:
  "\<exists>sel. ResolvePathDependency escaping_env idle_resolver
      [([''s''], Dir), ([''s'', ''pafio.toml''], File ''W''), ([''x''], Dir), ([''x'', ''pafio.toml''], File ''B'')]
      snapshot_node ((sample_path_dep ''u'' ''..'')\<lparr>dep_package := Some ''a/u''\<rparr>) = Inr sel \<and>
    sel_manifest_path sel = ''/x/pafio.toml'' \<and> so_kind (sel_origin sel) = SkGit \<and>
    \<not> PathIsWithin (env_cwd escaping_env) (sel_manifest_path sel) ''/s''"
proof -
  let ?run = "ResolvePathDependency escaping_env idle_resolver
      [([''s''], Dir), ([''s'', ''pafio.toml''], File ''W''), ([''x''], Dir), ([''x'', ''pafio.toml''], File ''B'')]
      snapshot_node ((sample_path_dep ''u'' ''..'')\<lparr>dep_package := Some ''a/u''\<rparr>)"
  have "\<not> isl ?run \<and> sel_manifest_path (projr ?run) = ''/x/pafio.toml'' \<and> so_kind (sel_origin (projr ?run)) = SkGit \<and>
      \<not> PathIsWithin (env_cwd escaping_env) ''/x/pafio.toml'' ''/s''"
    by code_simp
  then show ?thesis by (intro exI [of _ "projr ?run"]) simp
qed

end
