(* ===== verification/Plan.thy ===== *)
theory Plan
  imports ResolverFacts
begin

section \<open>Compile plans\<close>

text \<open>
  \<open>src/PafioPlan/CompilePlan.cpp\<close>: selection of the entry package and target, the topological
  package order, the source hash, and the plan document with its cache key.  Errors of this
  component are \<open>PlanError\<close>.  The depth-first visit carries fuel; one more than the number of packages
  is given, and \<open>PlanFacts\<close> proves that it is enough.
\<close>

record plan_request =
  rq_manifest_path :: string
  rq_intent :: string
  rq_package_name :: "string option"
  rq_bin_name :: "string option"
  rq_test_name :: "string option"
  rq_select_lib :: bool
  rq_profile :: string
  rq_build_mode :: string
  rq_compiler_version :: "string option"
  rq_offline :: bool
  rq_vendor_root :: "string option"

record profile_config =
  pf_name :: string
  pf_opt_level :: int
  pf_debug :: bool
  pf_lto :: bool

record selected_target =
  tg_package :: resolved_package
  tg_kind :: string
  tg_name :: string
  tg_file :: string

record plan_result =
  pr_manifest_path :: string
  pr_workspace_root :: string
  pr_build_root :: string
  pr_artifact_dir :: string
  pr_diag_dir :: string
  pr_plan_path :: string
  pr_cache_key :: string
  pr_plan_json :: string
  pr_entry_package_id :: string
  pr_entry_package_name :: string
  pr_entry_target_kind :: string
  pr_entry_target_name :: string
  pr_profile_name :: string
  pr_build_mode :: string
  pr_package_count :: nat

definition ValidateIntent :: "string \<Rightarrow> unit result" where
  "ValidateIntent intent =
     guard (intent = ''check'' \<or> intent = ''build'' \<or> intent = ''run'' \<or> intent = ''test'')
       (PlanError (''unsupported compile-plan intent for the current native core: '' @ intent))"

definition ReadFile :: "env \<Rightarrow> fs \<Rightarrow> string \<Rightarrow> string result" where
  "ReadFile env w path =
     (case fs_read env w path of
        None \<Rightarrow> Inl (PlanError (''failed to read file required for compile-plan: '' @ path))
      | Some content \<Rightarrow> Inr content)"

definition AbsoluteTargetPath :: "env \<Rightarrow> resolved_package \<Rightarrow> string \<Rightarrow> string" where
  "AbsoluteTargetPath env p relative_path = canonical env (path_append (rp_root_dir p) relative_path)"

definition RequireExistingSourceFile :: "env \<Rightarrow> fs \<Rightarrow> string \<Rightarrow> string \<Rightarrow> unit result" where
  "RequireExistingSourceFile env w path context =
     (if \<not> fs_exists env w path then Inl (PlanError (context @ '' source file not found: '' @ path))
      else guard (fs_is_regular_file env w path) (PlanError (context @ '' source path is not a file: '' @ path)))"

subsection \<open>The entry package and target\<close>

definition RequirePackageById :: "resolved_graph \<Rightarrow> string \<Rightarrow> resolved_package result" where
  "RequirePackageById g package_id =
     (case find (\<lambda>p. rp_id p = package_id) (rg_packages g) of
        None \<Rightarrow> Inl (PlanError (''resolver graph references unknown package id: '' @ package_id))
      | Some p \<Rightarrow> Inr p)"

definition CollectRootPackages :: "resolved_graph \<Rightarrow> resolved_package list result" where
  "CollectRootPackages g =
     rbind (rmap (RequirePackageById g) (rg_root_ids g)) (\<lambda>roots. Inr (sort_key rp_id roots))"

definition ResolveEntryPackage :: "plan_request \<Rightarrow> resolved_graph \<Rightarrow> resolved_package result" where
  "ResolveEntryPackage rq g =
     rbind (CollectRootPackages g) (\<lambda>roots.
     if roots = [] then Inl (PlanError ''compile-plan generation requires at least one root package'')
     else case rq_package_name rq of
       Some name \<Rightarrow> (case filter (\<lambda>p. pkg_name (rp_package p) = name) roots of
           [] \<Rightarrow> Inl (PlanError (''selected package is not a root package of the active manifest: '' @ name))
         | m # _ \<Rightarrow> Inr m)
     | None \<Rightarrow> (case find (\<lambda>p. path_eq (rp_manifest_path p) (rg_manifest_path g)) roots of
           Some p \<Rightarrow> Inr p
         | None \<Rightarrow> (case roots of
             [p] \<Rightarrow> Inr p
           | _ \<Rightarrow> Inl (PlanError ''workspace build is ambiguous; select a root package with --package <namespace/name>''))))"

definition target_at :: "env \<Rightarrow> fs \<Rightarrow> resolved_package \<Rightarrow> string \<Rightarrow> string \<Rightarrow> string \<Rightarrow> string \<Rightarrow> selected_target result" where
  "target_at env w p kind name path context =
     (let file = AbsoluteTargetPath env p path in
      rbind (RequireExistingSourceFile env w file context) (\<lambda>_.
      Inr \<lparr>tg_package = p, tg_kind = kind, tg_name = name, tg_file = file\<rparr>))"

definition lib_target_of :: "env \<Rightarrow> fs \<Rightarrow> resolved_package \<Rightarrow> lib_target \<Rightarrow> selected_target result" where
  "lib_target_of env w p l = target_at env w p ''lib'' (pkg_name (rp_package p)) (lib_path l) ''library''"

definition bin_target_of :: "env \<Rightarrow> fs \<Rightarrow> resolved_package \<Rightarrow> bin_target \<Rightarrow> selected_target result" where
  "bin_target_of env w p b = target_at env w p ''bin'' (bin_name b) (bin_path b) ''binary''"

definition test_target_of :: "env \<Rightarrow> fs \<Rightarrow> resolved_package \<Rightarrow> test_target \<Rightarrow> selected_target result" where
  "test_target_of env w p t = target_at env w p ''test'' (test_name t) (test_path t) ''test''"

text \<open>The target the request names.\<close>

definition explicit_target :: "env \<Rightarrow> fs \<Rightarrow> plan_request \<Rightarrow> resolved_package \<Rightarrow> selected_target result option" where
  "explicit_target env w rq p =
     (let pkg = rp_package p in
      if rq_select_lib rq then Some
        (if rq_intent rq = ''run'' then Inl (PlanError ''run requires a binary target and does not accept --lib'')
         else if rq_intent rq = ''test'' then
           Inl (PlanError ''test requires an explicit [[test]] target and does not accept --lib'')
         else case pkg_lib pkg of
           None \<Rightarrow> Inl (PlanError (''selected package does not define [lib]: '' @ pkg_name pkg))
         | Some l \<Rightarrow> lib_target_of env w p l)
      else case rq_bin_name rq of
        Some name \<Rightarrow> Some (case find (\<lambda>b. bin_name b = name) (pkg_bins pkg) of
            None \<Rightarrow> Inl (PlanError (''selected package does not define [[bin]].name = \"'' @ name @ ''\"''))
          | Some b \<Rightarrow> bin_target_of env w p b)
      | None \<Rightarrow> (case rq_test_name rq of
          Some name \<Rightarrow> Some (case find (\<lambda>t. test_name t = name) (pkg_tests pkg) of
              None \<Rightarrow> Inl (PlanError (''selected package does not define [[test]].name = \"'' @ name @ ''\"''))
            | Some t \<Rightarrow> test_target_of env w p t)
        | None \<Rightarrow> None))"

text \<open>The target of a package when the request names none.\<close>

definition default_target :: "env \<Rightarrow> fs \<Rightarrow> string \<Rightarrow> resolved_package \<Rightarrow> selected_target result" where
  "default_target env w intent p =
     (let pkg = rp_package p; who = '' target is ambiguous for package '' @ squote (pkg_name pkg) @ ''; select '' in
      if intent = ''test'' then
        (case pkg_tests pkg of
           [t] \<Rightarrow> test_target_of env w p t
         | [] \<Rightarrow> Inl (PlanError (''selected package does not define any [[test]] target: '' @ pkg_name pkg))
         | _ \<Rightarrow> Inl (PlanError (''test'' @ who @ ''--test <name>'')))
      else if intent = ''run'' then
        (case pkg_bins pkg of
           [b] \<Rightarrow> bin_target_of env w p b
         | [] \<Rightarrow> Inl (PlanError (''selected package does not define any [[bin]] target: '' @ pkg_name pkg))
         | _ \<Rightarrow> Inl (PlanError (''run'' @ who @ ''--bin <name>'')))
      else case (pkg_lib pkg, pkg_bins pkg, pkg_tests pkg) of
          (Some l, [], _) \<Rightarrow> lib_target_of env w p l
        | (None, [b], _) \<Rightarrow> bin_target_of env w p b
        | (None, [], [t]) \<Rightarrow> if intent = ''check'' then test_target_of env w p t
            else Inl (PlanError (intent @ who @ ''--lib or --bin <name>''))
        | _ \<Rightarrow> Inl (PlanError (intent @ who @
            (if intent = ''check'' then ''--lib, --bin <name>, or --test <name>'' else ''--lib or --bin <name>''))))"

definition ResolveEntryTarget :: "env \<Rightarrow> fs \<Rightarrow> plan_request \<Rightarrow> resolved_package \<Rightarrow> selected_target result" where
  "ResolveEntryTarget env w rq p =
     (let combined = '' target selection cannot combine '' in
      if rq_select_lib rq \<and> rq_bin_name rq \<noteq> None then Inl (PlanError (rq_intent rq @ combined @ ''--lib and --bin''))
      else if rq_select_lib rq \<and> rq_test_name rq \<noteq> None then Inl (PlanError (rq_intent rq @ combined @ ''--lib and --test''))
      else if rq_bin_name rq \<noteq> None \<and> rq_test_name rq \<noteq> None
        then Inl (PlanError (rq_intent rq @ combined @ ''--bin and --test''))
      else case explicit_target env w rq p of
        Some r \<Rightarrow> r
      | None \<Rightarrow> default_target env w (rq_intent rq) p)"

definition ResolveProfile :: "string \<Rightarrow> profile_config result" where
  "ResolveProfile profile_name =
     (if profile_name = ''dev'' then Inr \<lparr>pf_name = ''dev'', pf_opt_level = 0, pf_debug = True, pf_lto = False\<rparr>
      else if profile_name = ''release''
        then Inr \<lparr>pf_name = ''release'', pf_opt_level = 3, pf_debug = False, pf_lto = True\<rparr>
      else Inl (PlanError (''unsupported build profile: '' @ profile_name)))"

definition ValidateUniformToolchain :: "resolved_graph \<Rightarrow> unit result" where
  "ValidateUniformToolchain g =
     (case rg_packages g of
        [] \<Rightarrow> Inl (PlanError ''compile-plan generation requires at least one resolved package'')
      | base # _ \<Rightarrow> rbind (rmap (\<lambda>p.
          if pkg_edition (rp_package p) \<noteq> pkg_edition (rp_package base)
          then Inl (PlanError ''compile-plan v1 requires a uniform package.edition across the resolved graph'')
          else if tc_channel (pkg_toolchain (rp_package p)) \<noteq> tc_channel (pkg_toolchain (rp_package base))
          then Inl (PlanError ''compile-plan v1 requires a uniform [toolchain].channel across the resolved graph'')
          else if tc_implicit_std (pkg_toolchain (rp_package p)) \<noteq> tc_implicit_std (pkg_toolchain (rp_package base))
          then Inl (PlanError ''compile-plan v1 requires a uniform [toolchain].implicit-std across the resolved graph'')
          else Inr ()) (rg_packages g)) (\<lambda>_. Inr ()))"

definition BuildStdPackageId :: "resolved_package \<Rightarrow> string" where
  "BuildStdPackageId p = (let tc = pkg_toolchain (rp_package p) in
     (if tc_implicit_std tc then ''builtin:std@'' else ''builtin:std-disabled@'') @
     tc_channel tc @ ''/'' @ pkg_edition (rp_package p))"

subsection \<open>The package order\<close>

datatype visit_state = kUnseen | kActive | kDone

record order_state =
  os_visit :: "string \<Rightarrow> visit_state"
  os_order :: "string list"
  os_stack :: "string list"

definition cycle_error :: "string list \<Rightarrow> string \<Rightarrow> error" where
  "cycle_error stack package_id = PlanError (''compile-plan requires an acyclic package graph: '' @
     join '' -> '' (dropWhile (\<lambda>x. x \<noteq> package_id) stack @ [package_id]))"

primrec visit :: "nat \<Rightarrow> resolved_graph \<Rightarrow> string \<Rightarrow> order_state \<Rightarrow> order_state result" where
  "visit 0 g package_id s = Inl OutOfFuel"
| "visit (Suc fuel) g package_id s =
     (case os_visit s package_id of
        kDone \<Rightarrow> Inr s
      | kActive \<Rightarrow> Inl (cycle_error (os_stack s) package_id)
      | kUnseen \<Rightarrow>
        rbind (RequirePackageById g package_id) (\<lambda>p.
        rbind (rfold (visit fuel g) (rp_dependencies p)
          (s\<lparr>os_visit := (os_visit s)(package_id := kActive), os_stack := os_stack s @ [package_id]\<rparr>)) (\<lambda>s'.
        Inr (s'\<lparr>os_visit := (os_visit s')(package_id := kDone), os_stack := butlast (os_stack s'),
             os_order := os_order s' @ [package_id]\<rparr>))))"

definition BuildPackageOrder :: "resolved_graph \<Rightarrow> string list result" where
  "BuildPackageOrder g =
     map_sum id os_order (rfold (visit (Suc (length (rg_packages g))) g) (sort (map rp_id (rg_packages g)))
       \<lparr>os_visit = (\<lambda>_. kUnseen), os_order = [], os_stack = []\<rparr>)"

subsection \<open>The source hash and the plan document\<close>

definition package_files :: "env \<Rightarrow> resolved_package \<Rightarrow> string list" where
  "package_files env p = (let pkg = rp_package p in
     [rp_manifest_path p] @
     (case pkg_lib pkg of None \<Rightarrow> [] | Some l \<Rightarrow> [AbsoluteTargetPath env p (lib_path l)]) @
     map (\<lambda>b. AbsoluteTargetPath env p (bin_path b)) (pkg_bins pkg) @
     map (\<lambda>t. AbsoluteTargetPath env p (test_path t)) (pkg_tests pkg))"

definition source_files :: "env \<Rightarrow> resolved_graph \<Rightarrow> string list" where
  "source_files env g = unique_by elements (sort_key elements (concat (map (package_files env) (rg_packages g))))"

definition nul :: string where "nul = [CHR 0x00]"

definition digest_input :: "env \<Rightarrow> fs \<Rightarrow> string list \<Rightarrow> string result" where
  "digest_input env w files =
     rfold (\<lambda>path acc. rbind (RequireExistingSourceFile env w path ''compile-plan'') (\<lambda>_.
        rbind (ReadFile env w path) (\<lambda>content. Inr (acc @ path @ nul @ content @ nul)))) files []"

definition BuildSourceHash :: "env \<Rightarrow> fs \<Rightarrow> resolved_graph \<Rightarrow> string result" where
  "BuildSourceHash env w g = rbind (digest_input env w (source_files env g)) (\<lambda>d. Inr (Hex64 (Fnv1a64 d)))"

definition named_file :: "env \<Rightarrow> fs \<Rightarrow> resolved_package \<Rightarrow> string \<Rightarrow> string \<Rightarrow> string \<Rightarrow> json result" where
  "named_file env w p context name path =
     (let file = AbsoluteTargetPath env p path in
      rbind (RequireExistingSourceFile env w file context) (\<lambda>_.
      Inr (jobject [(''name'', JString name), (''path'', JString file)])))"

definition BuildTargetsJson :: "env \<Rightarrow> fs \<Rightarrow> resolved_package \<Rightarrow> json result" where
  "BuildTargetsJson env w p = (let pkg = rp_package p in
     rbind (rmap (\<lambda>b. named_file env w p ''binary'' (bin_name b) (bin_path b)) (sort_key bin_name (pkg_bins pkg))) (\<lambda>bins.
     rbind (rmap (\<lambda>t. named_file env w p ''test'' (test_name t) (test_path t)) (sort_key test_name (pkg_tests pkg))) (\<lambda>tests.
     rbind (case pkg_lib pkg of
         None \<Rightarrow> Inr JNull
       | Some l \<Rightarrow> (let file = AbsoluteTargetPath env p (lib_path l) in
           rbind (RequireExistingSourceFile env w file ''library'') (\<lambda>_. Inr (JString file)))) (\<lambda>lib.
     Inr (jobject ([(''lib'', lib), (''bins'', JArray bins)] @
       (if tests = [] then [] else [(''tests'', JArray tests)])))))))"

definition BuildPackageJson :: "env \<Rightarrow> fs \<Rightarrow> resolved_package \<Rightarrow> json result" where
  "BuildPackageJson env w p =
     rbind (BuildTargetsJson env w p) (\<lambda>targets.
     Inr (jobject [(''id'', JString (rp_id p)), (''name'', JString (pkg_name (rp_package p))),
       (''version'', JString (pkg_version (rp_package p))), (''root_dir'', JString (rp_root_dir p)),
       (''manifest_path'', JString (rp_manifest_path p)), (''source_kind'', JString (rp_source_kind p)),
       (''targets'', targets),
       (''dependency_aliases'', JObject (foldl (\<lambda>obj a. jput (da_alias a) (JString (da_package_id a)) obj) [] (rp_aliases p)))]))"

definition cache_material :: "plan_request \<Rightarrow> resolved_package \<Rightarrow> selected_target \<Rightarrow> profile_config \<Rightarrow> string \<Rightarrow> string" where
  "cache_material rq p t profile source_hash =
     ''compiler='' @ case_option ''unbound'' id (rq_compiler_version rq) @ '';compile-plan=1'' @
     '';intent='' @ rq_intent rq @ '';edition='' @ pkg_edition (rp_package p) @
     '';build-mode='' @ rq_build_mode rq @ '';profile='' @ pf_name profile @
     '';target='' @ rp_id p @ '':'' @ tg_kind t @ '':'' @ tg_name t @ '';source='' @ source_hash"

definition plan_document ::
    "plan_request \<Rightarrow> resolved_package \<Rightarrow> selected_target \<Rightarrow> profile_config \<Rightarrow> json list \<Rightarrow> string list \<Rightarrow>
     string \<Rightarrow> string \<Rightarrow> json" where
  "plan_document rq p t profile packages order workspace_root build_root =
     (let tc = pkg_toolchain (rp_package p) in
      jobject [(''plan_version'', JInt 1),
        (''generated_by'', jobject [(''tool'', JString ''pafio''), (''version'', JString kVersion)]),
        (''intent'', JString (rq_intent rq)), (''workspace_root'', JString workspace_root),
        (''entry'', jobject [(''package_id'', JString (rp_id p)), (''target_kind'', JString (tg_kind t)),
           (''target_name'', JString (tg_name t)), (''file'', JString (tg_file t))]),
        (''toolchain'', jobject [(''channel'', JString (tc_channel tc)), (''edition'', JString (pkg_edition (rp_package p))),
           (''implicit_std'', JBool (tc_implicit_std tc)), (''std_package_id'', JString (BuildStdPackageId p))]),
        (''profile'', jobject [(''name'', JString (pf_name profile)), (''build_mode'', JString (rq_build_mode rq)),
           (''opt_level'', JInt (pf_opt_level profile)), (''debug'', JBool (pf_debug profile)), (''lto'', JBool (pf_lto profile))]),
        (''packages'', JArray packages),
        (''resolution'', jobject [(''resolver'', JString ''single-version-v1''),
           (''package_order'', JArray (map JString order))]),
        (''outputs'', jobject [(''build_root'', JString build_root),
           (''artifact_dir'', JString (path_append build_root ''artifacts'')),
           (''diag_dir'', JString (path_append build_root ''diag''))]),
        (''emit'', jobject [(''error_format'', JString ''jsonl''), (''ast'', JBool False),
           (''styio_ir'', JBool False), (''llvm_ir'', JBool False)])])"

definition dump_json :: "env \<Rightarrow> int \<Rightarrow> json \<Rightarrow> string result" where
  "dump_json env indent j = map_sum RuntimeError id (json_dump (env_json env) indent j)"

text \<open>
  \<open>WriteBuildCompilePlan\<close> after the graph is resolved: what it computes before it touches the disk
  (\<open>plan_inputs\<close>), the plan written from that, and the whole from the request.
\<close>

record plan_input =
  pi_package :: resolved_package
  pi_target :: selected_target
  pi_profile :: profile_config
  pi_order :: "string list"
  pi_cache_key :: string
  pi_packages :: "json list"

definition plan_inputs :: "env \<Rightarrow> fs \<Rightarrow> plan_request \<Rightarrow> resolved_graph \<Rightarrow> plan_input result" where
  "plan_inputs env w rq g =
     rbind (ValidateUniformToolchain g) (\<lambda>_.
     rbind (ResolveEntryPackage rq g) (\<lambda>p.
     rbind (ResolveEntryTarget env w rq p) (\<lambda>t.
     rbind (ResolveProfile (rq_profile rq)) (\<lambda>profile.
     rbind (BuildPackageOrder g) (\<lambda>order.
     rbind (BuildSourceHash env w g) (\<lambda>source_hash.
     rbind (rmap (BuildPackageJson env w) (rg_packages g)) (\<lambda>packages.
     Inr \<lparr>pi_package = p, pi_target = t, pi_profile = profile, pi_order = order,
       pi_cache_key = Hex64 (Fnv1a64 (cache_material rq p t profile source_hash)), pi_packages = packages\<rparr>)))))))"

definition commit_plan :: "env \<Rightarrow> plan_request \<Rightarrow> resolved_graph \<Rightarrow> plan_input \<Rightarrow> (fs, plan_result) io" where
  "commit_plan env rq g i =
     (let workspace_root = canonical env (parent_path (rg_manifest_path g));
          build_root = path_append (path_append (path_append workspace_root ''.pafio'') ''build'') (pi_cache_key i);
          artifact_dir = path_append build_root ''artifacts''; diag_dir = path_append build_root ''diag'';
          plan_path = path_append build_root ''plan.json''
      in
      io_bind (fs_create_directories env artifact_dir) (\<lambda>_.
      io_bind (fs_create_directories env diag_dir) (\<lambda>_.
      io_bind (io_lift (dump_json env 2 (plan_document rq (pi_package i) (pi_target i) (pi_profile i) (pi_packages i)
        (pi_order i) workspace_root build_root))) (\<lambda>text.
      io_bind (fs_write env plan_path (text @ nl)
        (PlanError (''failed to open compile-plan for write: '' @ plan_path))) (\<lambda>_.
      io_return \<lparr>pr_manifest_path = rg_manifest_path g, pr_workspace_root = workspace_root,
        pr_build_root = build_root, pr_artifact_dir = artifact_dir, pr_diag_dir = diag_dir,
        pr_plan_path = plan_path, pr_cache_key = pi_cache_key i, pr_plan_json = text @ nl,
        pr_entry_package_id = rp_id (pi_package i), pr_entry_package_name = pkg_name (rp_package (pi_package i)),
        pr_entry_target_kind = tg_kind (pi_target i), pr_entry_target_name = tg_name (pi_target i),
        pr_profile_name = pf_name (pi_profile i), pr_build_mode = rq_build_mode rq,
        pr_package_count = length (rg_packages g)\<rparr>)))))"

definition write_plan :: "env \<Rightarrow> plan_request \<Rightarrow> resolved_graph \<Rightarrow> (fs, plan_result) io" where
  "write_plan env rq g = (\<lambda>w. io_bind (io_lift (plan_inputs env w rq g)) (commit_plan env rq g) w)"

definition WriteBuildCompilePlan :: "nat \<Rightarrow> env \<Rightarrow> registry_client \<Rightarrow> plan_request \<Rightarrow> (fs, plan_result) io" where
  "WriteBuildCompilePlan fuel env mat rq = (\<lambda>w.
     (io_bind (io_guard (fs_exists env w (rq_manifest_path rq)) (PlanError (''manifest not found: '' @ rq_manifest_path rq))) (\<lambda>_.
      io_bind (io_lift (ValidateIntent (rq_intent rq))) (\<lambda>_.
      io_bind (ResolveSingleVersionGraph fuel env mat (rq_manifest_path rq) (rq_offline rq) (rq_vendor_root rq))
        (write_plan env rq)))) w)"

end
