(* ===== verification/PlanFacts.thy ===== *)
theory PlanFacts
  imports Plan
begin

section \<open>The package order is topological\<close>

text \<open>
  The dependency relation of a graph, the invariant of the depth-first visit, and its consequences:
  a returned order lists every package once and after its dependencies, a failure comes from a
  dependency cycle or an unknown id, and the fuel given is never exhausted.
\<close>

definition graph_edges :: "resolved_graph \<Rightarrow> (string \<times> string) set" where
  "graph_edges g = {(a, b). \<exists>p. RequirePackageById g a = Inr p \<and> b \<in> set (rp_dependencies p)}"

definition graph_ids :: "resolved_graph \<Rightarrow> string set" where
  "graph_ids g = rp_id ` set (rg_packages g)"

text \<open>Every recorded dependency is the id of a package.\<close>

definition closed_graph :: "resolved_graph \<Rightarrow> bool" where
  "closed_graph g \<longleftrightarrow> (\<forall>p \<in> set (rg_packages g). set (rp_dependencies p) \<subseteq> graph_ids g)"

definition topological :: "(string \<times> string) set \<Rightarrow> string list \<Rightarrow> bool" where
  "topological E xs \<longleftrightarrow> distinct xs \<and> (\<forall>i < length xs. \<forall>b. (xs ! i, b) \<in> E \<longrightarrow> b \<in> set (take i xs))"

lemma RequirePackageById_Inr: "RequirePackageById g a = Inr p \<Longrightarrow> p \<in> set (rg_packages g) \<and> rp_id p = a"
  by (auto simp: RequirePackageById_def find_Some_iff split: option.splits)

lemma RequirePackageById_known: "a \<in> graph_ids g \<Longrightarrow> \<exists>p. RequirePackageById g a = Inr p"
  by (auto simp: RequirePackageById_def graph_ids_def find_None_iff split: option.splits)

lemma RequirePackageById_ids: "RequirePackageById g a = Inr p \<Longrightarrow> a \<in> graph_ids g"
  by (auto dest: RequirePackageById_Inr simp: graph_ids_def)

lemma RequirePackageById_unique:
  "distinct (map rp_id (rg_packages g)) \<Longrightarrow> p \<in> set (rg_packages g) \<Longrightarrow> RequirePackageById g (rp_id p) = Inr p"
  using RequirePackageById_known [of "rp_id p" g] RequirePackageById_Inr [of g "rp_id p"]
  by (auto simp: graph_ids_def distinct_map inj_on_def)

lemma graph_edges_closed: "closed_graph g \<Longrightarrow> (a, b) \<in> graph_edges g \<Longrightarrow> b \<in> graph_ids g"
  by (auto simp: graph_edges_def closed_graph_def dest: RequirePackageById_Inr)

lemma topological_snoc:
  "topological E xs \<Longrightarrow> x \<notin> set xs \<Longrightarrow> (\<And>b. (x, b) \<in> E \<Longrightarrow> b \<in> set xs) \<Longrightarrow> topological E (xs @ [x])"
  by (auto simp: topological_def nth_append less_Suc_eq)

lemma topological_acyclic:
  assumes "topological E xs" and "Field E \<subseteq> set xs"
  shows "acyclic E"
proof -
  have index: "\<exists>j<i. b = xs ! j" if "i < length xs" "(xs ! i, b) \<in> E" for i b
  proof -
    have "b \<in> set (take i xs)" using that assms(1) by (simp add: topological_def)
    then show ?thesis using that(1) by (auto simp: in_set_conv_nth)
  qed
  define pos where "pos x = (LEAST i. i < length xs \<and> xs ! i = x)" for x
  have pos: "pos (xs ! i) = i" if i: "i < length xs" for i
    unfolding pos_def
  proof (rule Least_equality)
    show "i < length xs \<and> xs ! i = xs ! i" using i by simp
  next
    fix k
    assume "k < length xs \<and> xs ! k = xs ! i"
    moreover have "distinct xs" using assms(1) unfolding topological_def by (rule conjunct1)
    ultimately have "k = i" using i nth_eq_iff_index_eq [of xs k i] by blast
    then show "i \<le> k" by simp
  qed
  have "pos b < pos a" if e: "(a, b) \<in> E" for a b
  proof -
    have "a \<in> set xs" using e assms(2) by (auto simp: Field_def)
    then obtain i where i: "i < length xs" "a = xs ! i" unfolding in_set_conv_nth by blast
    obtain j where "j < i" "b = xs ! j" using index [OF i(1)] e unfolding i(2) by blast
    with i pos [OF i(1)] pos [of j] show ?thesis by simp
  qed
  then have "E\<inverse> \<subseteq> measure pos" by auto
  then have "acyclic (E\<inverse>)" by (rule acyclic_subset [OF wf_acyclic [OF wf_measure]])
  then show ?thesis by simp
qed

subsection \<open>The invariant of the visit\<close>

definition order_inv :: "resolved_graph \<Rightarrow> order_state \<Rightarrow> bool" where
  "order_inv g s \<longleftrightarrow>
     (\<forall>x. os_visit s x = kDone \<longleftrightarrow> x \<in> set (os_order s)) \<and>
     (\<forall>x. os_visit s x = kActive \<longleftrightarrow> x \<in> set (os_stack s)) \<and>
     distinct (os_stack s) \<and> set (os_stack s) \<subseteq> graph_ids g \<and> set (os_order s) \<subseteq> graph_ids g \<and>
     successively (\<lambda>a b. (a, b) \<in> graph_edges g) (os_stack s) \<and>
     topological (graph_edges g) (os_order s)"

text \<open>The caller of a visit is the last element of the stack.\<close>

definition called_from :: "resolved_graph \<Rightarrow> string \<Rightarrow> order_state \<Rightarrow> bool" where
  "called_from g x s \<longleftrightarrow> os_stack s = [] \<or> (last (os_stack s), x) \<in> graph_edges g"

definition cyclic_or_dangling :: "resolved_graph \<Rightarrow> bool" where
  "cyclic_or_dangling g \<longleftrightarrow> \<not> acyclic (graph_edges g) \<or> (\<exists>a b. (a, b) \<in> graph_edges g \<and> b \<notin> graph_ids g)"

definition visit_spec :: "resolved_graph \<Rightarrow> string list \<Rightarrow> order_state \<Rightarrow> order_state result \<Rightarrow> bool" where
  "visit_spec g xs s r \<longleftrightarrow> (case r of
      Inl e \<Rightarrow> e \<noteq> OutOfFuel \<and> cyclic_or_dangling g
    | Inr s' \<Rightarrow> order_inv g s' \<and> os_stack s' = os_stack s \<and> (\<exists>zs. os_order s' = os_order s @ zs) \<and>
        set xs \<subseteq> set (os_order s'))"

lemma successively_rtrancl:
  "successively (\<lambda>a b. (a, b) \<in> E) xs \<Longrightarrow> x \<in> set xs \<Longrightarrow> (x, last xs) \<in> E\<^sup>*"
proof (induction xs arbitrary: x)
  case Nil
  then show ?case by simp
next
  case (Cons y ys)
  show ?case
  proof (cases "x \<in> set ys")
    case True
    with Cons show ?thesis by (cases ys) (simp_all add: successively_Cons)
  next
    case False
    with Cons.prems have [simp]: "x = y" by simp
    show ?thesis
    proof (cases ys)
      case ys: (Cons z zs)
      have "successively (\<lambda>a b. (a, b) \<in> E) ys" using Cons.prems(1) ys by (simp add: successively_Cons)
      then have "(z, last ys) \<in> E\<^sup>*" "(y, z) \<in> E"
        using Cons.IH [of z] Cons.prems(1) ys by (simp_all add: successively_Cons)
      with ys show ?thesis by (simp add: converse_rtrancl_into_rtrancl)
    qed simp
  qed
qed

lemma active_cyclic:
  assumes "order_inv g s" and "called_from g x s" and "os_visit s x = kActive"
  shows "\<not> acyclic (graph_edges g)"
proof -
  have x: "x \<in> set (os_stack s)" using assms(1,3) unfolding order_inv_def by blast
  then have "(last (os_stack s), x) \<in> graph_edges g" using assms(2) by (auto simp: called_from_def)
  moreover have "(x, last (os_stack s)) \<in> (graph_edges g)\<^sup>*"
    using assms(1) x unfolding order_inv_def by (blast intro: successively_rtrancl)
  ultimately show ?thesis by (auto simp: acyclic_def intro: rtrancl_into_trancl1)
qed

lemma visit_list:
  assumes one: "\<And>x s. order_inv g s \<Longrightarrow> called_from g x s \<Longrightarrow> (os_stack s = [] \<Longrightarrow> x \<in> graph_ids g) \<Longrightarrow>
      length (os_stack s) = n \<Longrightarrow> visit_spec g [x] s (visit fuel g x s)"
    and "order_inv g s" and "\<forall>x \<in> set xs. called_from g x s" and "os_stack s = [] \<Longrightarrow> set xs \<subseteq> graph_ids g"
    and "length (os_stack s) = n"
  shows "visit_spec g xs s (rfold (visit fuel g) xs s)"
  using assms(2-5)
proof (induction xs arbitrary: s)
  case Nil
  then show ?case by (simp add: visit_spec_def)
next
  case (Cons x xs)
  have spec: "visit_spec g [x] s (visit fuel g x s)" using Cons.prems by (intro one) auto
  show ?case
  proof (cases "visit fuel g x s")
    case (Inl e)
    with spec show ?thesis by (simp add: visit_spec_def)
  next
    case (Inr s1)
    with spec have s1: "order_inv g s1" "os_stack s1 = os_stack s" "x \<in> set (os_order s1)"
      and zs: "\<exists>zs. os_order s1 = os_order s @ zs"
      by (auto simp: visit_spec_def)
    then have "visit_spec g xs s1 (rfold (visit fuel g) xs s1)"
      using Cons.prems by (intro Cons.IH) (auto simp: called_from_def)
    with Inr s1 zs show ?thesis by (auto simp: visit_spec_def split: sum.splits)
  qed
qed

lemma visit_correct:
  assumes "order_inv g s" and "called_from g x s" and "os_stack s = [] \<Longrightarrow> x \<in> graph_ids g"
    and "card (graph_ids g) < fuel + length (os_stack s)"
  shows "visit_spec g [x] s (visit fuel g x s)"
  using assms
proof (induction fuel arbitrary: x s)
  case 0
  have "length (os_stack s) \<le> card (graph_ids g)"
    using 0(1) card_mono [of "graph_ids g" "set (os_stack s)"]
    by (simp add: order_inv_def distinct_card graph_ids_def)
  with 0(4) show ?case by simp
next
  case (Suc fuel)
  note inv = Suc.prems(1)
  show ?case
  proof (cases "os_visit s x")
    case kDone
    then have "x \<in> set (os_order s)" using inv unfolding order_inv_def by blast
    with inv kDone show ?thesis by (simp add: visit_spec_def)
  next
    case kActive
    with active_cyclic [OF inv Suc.prems(2)] show ?thesis
      by (simp add: visit_spec_def cyclic_or_dangling_def cycle_error_def)
  next
    case kUnseen
    show ?thesis
    proof (cases "RequirePackageById g x")
      case (Inl e)
      then have "e \<noteq> OutOfFuel" "x \<notin> graph_ids g"
        using RequirePackageById_known [of x g] by (auto simp: RequirePackageById_def split: option.splits)
      with Suc.prems(2,3) have "cyclic_or_dangling g"
        unfolding called_from_def cyclic_or_dangling_def by blast
      with Inl kUnseen \<open>e \<noteq> OutOfFuel\<close> show ?thesis by (simp add: visit_spec_def)
    next
      case (Inr p)
      let ?s = "s\<lparr>os_visit := (os_visit s)(x := kActive), os_stack := os_stack s @ [x]\<rparr>"
      let ?r = "rfold (visit fuel g) (rp_dependencies p) ?s"
      have x: "x \<notin> set (os_order s)" "x \<notin> set (os_stack s)"
        using inv kUnseen unfolding order_inv_def by (metis visit_state.distinct)+
      have inv1: "order_inv g ?s"
        using inv x Suc.prems(2) RequirePackageById_ids [OF Inr]
        by (auto simp: order_inv_def called_from_def successively_append_iff)
      have edge: "(x, d) \<in> graph_edges g" if "d \<in> set (rp_dependencies p)" for d
        using that Inr by (auto simp: graph_edges_def)
      have "visit_spec g (rp_dependencies p) ?s ?r"
      proof (rule visit_list [OF _ inv1])
        show "visit_spec g [y] t (visit fuel g y t)"
          if "order_inv g t" "called_from g y t" "os_stack t = [] \<Longrightarrow> y \<in> graph_ids g"
            "length (os_stack t) = Suc (length (os_stack s))" for y t
          using that Suc.prems(4) by (intro Suc.IH) auto
      qed (use edge in \<open>auto simp: called_from_def\<close>)
      then show ?thesis
      proof (cases ?r)
        case (Inl e)
        with \<open>visit_spec g (rp_dependencies p) ?s ?r\<close> kUnseen \<open>RequirePackageById g x = Inr p\<close>
        show ?thesis by (simp add: visit_spec_def)
      next
        case r: (Inr s')
        let ?t = "s'\<lparr>os_visit := (os_visit s')(x := kDone), os_stack := butlast (os_stack s'),
             os_order := os_order s' @ [x]\<rparr>"
        from r \<open>visit_spec g (rp_dependencies p) ?s ?r\<close> have inv2: "order_inv g s'"
          and st: "os_stack s' = os_stack s @ [x]" and zs: "\<exists>zs. os_order s' = os_order s @ zs"
          and deps: "set (rp_dependencies p) \<subseteq> set (os_order s')"
          by (auto simp: visit_spec_def)
        have nx: "x \<notin> set (os_order s')"
          using inv2 st unfolding order_inv_def by (metis in_set_conv_decomp visit_state.distinct(5))
        have "topological (graph_edges g) (os_order s' @ [x])"
          using inv2 nx deps Inr by (intro topological_snoc) (auto simp: order_inv_def graph_edges_def)
        then have "order_inv g ?t"
          using inv2 st nx x RequirePackageById_ids [OF Inr]
          by (auto simp: order_inv_def successively_append_iff)
        moreover have "visit (Suc fuel) g x s = Inr ?t" using kUnseen Inr r by simp
        ultimately show ?thesis using st zs by (auto simp: visit_spec_def)
      qed
    qed
  qed
qed

subsection \<open>The order of a graph\<close>

lemma BuildPackageOrder_spec:
  "case BuildPackageOrder g of
     Inl e \<Rightarrow> e \<noteq> OutOfFuel \<and> cyclic_or_dangling g
   | Inr order \<Rightarrow> topological (graph_edges g) order \<and> set order = graph_ids g"
proof -
  let ?s = "\<lparr>os_visit = (\<lambda>_. kUnseen), os_order = [], os_stack = []\<rparr>"
  let ?ids = "sort (map rp_id (rg_packages g))"
  let ?r = "rfold (visit (Suc (length (rg_packages g))) g) ?ids ?s"
  have inv: "order_inv g ?s" by (simp add: order_inv_def topological_def)
  have "card (graph_ids g) \<le> length (rg_packages g)"
    unfolding graph_ids_def by (metis card_length list.set_map length_map)
  then have "visit_spec g ?ids ?s ?r"
    by (intro visit_list [OF visit_correct inv, where n = 0])
       (auto simp: called_from_def graph_ids_def)
  then show ?thesis
    by (cases ?r) (auto simp: BuildPackageOrder_def visit_spec_def order_inv_def graph_ids_def)
qed

lemma BuildPackageOrder_Inr:
  "BuildPackageOrder g = Inr order \<Longrightarrow> topological (graph_edges g) order \<and> set order = graph_ids g"
  using BuildPackageOrder_spec [of g] by simp

lemma BuildPackageOrder_Inl:
  "BuildPackageOrder g = Inl e \<Longrightarrow> e \<noteq> OutOfFuel \<and> cyclic_or_dangling g"
  using BuildPackageOrder_spec [of g] by simp

lemma graph_edges_Field: "closed_graph g \<Longrightarrow> Field (graph_edges g) \<subseteq> graph_ids g"
  by (auto simp: Field_def dest: graph_edges_closed) (auto simp: graph_edges_def dest: RequirePackageById_ids)

lemma BuildPackageOrder_iff:
  assumes "closed_graph g"
  shows "(\<exists>order. BuildPackageOrder g = Inr order) \<longleftrightarrow> acyclic (graph_edges g)"
proof
  assume "\<exists>order. BuildPackageOrder g = Inr order"
  then obtain order where "topological (graph_edges g) order" "set order = graph_ids g"
    using BuildPackageOrder_Inr by blast
  with graph_edges_Field [OF assms] show "acyclic (graph_edges g)"
    by (metis topological_acyclic)
next
  assume "acyclic (graph_edges g)"
  then have "\<not> cyclic_or_dangling g"
    using graph_edges_closed [OF assms] by (auto simp: cyclic_or_dangling_def)
  then show "\<exists>order. BuildPackageOrder g = Inr order"
    using BuildPackageOrder_Inl by (cases "BuildPackageOrder g") blast+
qed

end
