(* ===== verification/PlanProperties.thy ===== *)
theory PlanProperties
  imports PlanFacts ResolveProperties
begin

section \<open>Properties of compile plans\<close>

text \<open>
  The package order, the entry target, the errors of the planner and the file it leaves behind.  The
  instances plan the sample graph of the resolver.
\<close>

subsection \<open>The order\<close>

text \<open>C4: the package order of a plan lists the id of every package of the graph exactly once, and each package
  after all its dependencies.\<close>

theorem plan_order_topological:
  assumes "BuildPackageOrder g = Inr order"
  shows "distinct order \<and> set order = rp_id ` set (rg_packages g) \<and>
    (\<forall>i < length order. \<exists>p \<in> set (rg_packages g). rp_id p = order ! i \<and>
       set (rp_dependencies p) \<subseteq> set (take i order))"
proof -
  from BuildPackageOrder_Inr [OF assms]
  have topo: "topological (graph_edges g) order" and ids: "set order = graph_ids g" by simp_all
  have "\<exists>p \<in> set (rg_packages g). rp_id p = order ! i \<and> set (rp_dependencies p) \<subseteq> set (take i order)"
    if i: "i < length order" for i
  proof -
    have "order ! i \<in> graph_ids g" using i ids nth_mem by blast
    then obtain p where p: "RequirePackageById g (order ! i) = Inr p" using RequirePackageById_known by blast
    then have "set (rp_dependencies p) \<subseteq> set (take i order)"
      using topo i by (auto simp: topological_def graph_edges_def)
    with RequirePackageById_Inr [OF p] show ?thesis by blast
  qed
  with topo ids show ?thesis by (simp add: topological_def graph_ids_def)
qed

theorem plan_order_topological_witness:
  "\<exists>order. BuildPackageOrder sample_graph = Inr order \<and> length order = 2 \<and> distinct order"
proof -
  have "\<not> isl (BuildPackageOrder sample_graph) \<and> length (projr (BuildPackageOrder sample_graph)) = 2"
    unfolding sample_graph_def by code_simp
  then obtain order where o: "BuildPackageOrder sample_graph = Inr order" "length order = 2"
    by (metis sum.collapse(2) sum.sel(2))
  with plan_order_topological [OF o(1)] show ?thesis by simp
qed

text \<open>The dependency relation of a resolved graph.\<close>

definition depends_on :: "resolved_graph \<Rightarrow> (string \<times> string) set" where
  "depends_on g = {(rp_id p, d) |p d. p \<in> set (rg_packages g) \<and> d \<in> set (rp_dependencies p)}"

text \<open>C29: on a resolved graph the planner's order step makes progress exactly when it can: it produces an order if
  no package depends on itself through others, and otherwise fails with an error of the planner.\<close>

theorem plan_order_progress:
  assumes "ResolveSingleVersionGraph fuel env mat manifest_path offline vendor_root w = (Inr g, w')"
    and "registry_ok mat"
  shows "((\<exists>order. BuildPackageOrder g = Inr order) \<longleftrightarrow> acyclic (depends_on g)) \<and> BuildPackageOrder g \<noteq> Inl OutOfFuel"
proof -
  note G = resolved_graph_single_version [OF assms]
  have "closed_graph g" using G by (auto simp: closed_graph_def graph_ids_def)
  moreover have "graph_edges g = depends_on g"
    using G RequirePackageById_unique [of g] RequirePackageById_Inr [of g]
    by (fastforce simp: graph_edges_def depends_on_def)
  ultimately show ?thesis
    using BuildPackageOrder_iff [of g] BuildPackageOrder_Inl [of g] by metis
qed

theorem plan_order_progress_witness: "acyclic (depends_on sample_graph)"
proof -
  have "\<not> isl (BuildPackageOrder sample_graph)" unfolding sample_graph_def by code_simp
  then have "\<exists>order. BuildPackageOrder sample_graph = Inr order" by (metis sum.collapse(2))
  with plan_order_progress [OF sample_resolves sample_registry_ok] show ?thesis by simp
qed

subsection \<open>The entry target\<close>

text \<open>The targets a manifest declares, as kind, name and path.\<close>

definition declared_targets :: "package_config \<Rightarrow> (string \<times> string \<times> string) set" where
  "declared_targets pkg =
     {(''lib'', pkg_name pkg, lib_path l) |l. pkg_lib pkg = Some l} \<union>
     {(''bin'', bin_name b, bin_path b) |b. b \<in> set (pkg_bins pkg)} \<union>
     {(''test'', test_name t, test_path t) |t. t \<in> set (pkg_tests pkg)}"

text \<open>The kinds a request may end in: the kind its selection flag names, and without a flag what the intent asks for.\<close>

definition admissible_kind :: "plan_request \<Rightarrow> string \<Rightarrow> bool" where
  "admissible_kind rq kind \<longleftrightarrow>
     (if rq_select_lib rq then kind = ''lib'' \<and> rq_intent rq \<notin> {''run'', ''test''}
      else case (rq_bin_name rq, rq_test_name rq) of
        (Some _, _) \<Rightarrow> kind = ''bin''
      | (None, Some _) \<Rightarrow> kind = ''test''
      | (None, None) \<Rightarrow>
          if rq_intent rq = ''test'' then kind = ''test''
          else if rq_intent rq = ''run'' then kind = ''bin''
          else kind = ''test'' \<longrightarrow> rq_intent rq = ''check'')"

lemma target_at_Inr:
  "target_at env w p kind name path context = Inr t \<Longrightarrow>
     t = \<lparr>tg_package = p, tg_kind = kind, tg_name = name, tg_file = AbsoluteTargetPath env p path\<rparr> \<and>
     fs_is_regular_file env w (AbsoluteTargetPath env p path)"
  by (auto simp: target_at_def RequireExistingSourceFile_def Let_def result_simps)

definition target_ok :: "env \<Rightarrow> fs \<Rightarrow> resolved_package \<Rightarrow> selected_target \<Rightarrow> bool" where
  "target_ok env w p t \<longleftrightarrow> tg_package t = p \<and> fs_is_regular_file env w (tg_file t) \<and>
     (\<exists>path. (tg_kind t, tg_name t, path) \<in> declared_targets (rp_package p) \<and> tg_file t = AbsoluteTargetPath env p path)"

lemma lib_target_ok:
  "lib_target_of env w p l = Inr t \<Longrightarrow> pkg_lib (rp_package p) = Some l \<Longrightarrow> target_ok env w p t \<and> tg_kind t = ''lib''"
  and bin_target_ok:
  "bin_target_of env w p b = Inr t \<Longrightarrow> b \<in> set (pkg_bins (rp_package p)) \<Longrightarrow>
     target_ok env w p t \<and> tg_kind t = ''bin'' \<and> tg_name t = bin_name b"
  and test_target_ok:
  "test_target_of env w p c = Inr t \<Longrightarrow> c \<in> set (pkg_tests (rp_package p)) \<Longrightarrow>
     target_ok env w p t \<and> tg_kind t = ''test'' \<and> tg_name t = test_name c"
  by (fastforce simp: lib_target_of_def bin_target_of_def test_target_of_def target_ok_def declared_targets_def
      dest!: target_at_Inr)+

lemma explicit_target_ok:
  "explicit_target env w rq p = Some (Inr t) \<Longrightarrow> target_ok env w p t \<and> admissible_kind rq (tg_kind t) \<and>
     (case rq_bin_name rq of Some b \<Rightarrow> \<not> rq_select_lib rq \<longrightarrow> tg_name t = b | None \<Rightarrow> True)"
  by (auto simp: explicit_target_def admissible_kind_def Let_def find_Some_iff
      split: if_splits option.splits dest!: lib_target_ok bin_target_ok test_target_ok)

lemma default_target_ok:
  "default_target env w intent p = Inr t \<Longrightarrow> target_ok env w p t \<and>
     (if intent = ''test'' then tg_kind t = ''test'' else if intent = ''run'' then tg_kind t = ''bin''
      else tg_kind t = ''test'' \<longrightarrow> intent = ''check'')"
  by (auto simp: default_target_def Let_def split: if_splits option.splits list.splits prod.splits
      dest!: lib_target_ok bin_target_ok test_target_ok)

lemma entry_target_ok:
  assumes "ResolveEntryTarget env w rq p = Inr t"
  shows "target_ok env w p t \<and> admissible_kind rq (tg_kind t)"
proof -
  show ?thesis
  proof (cases "explicit_target env w rq p")
    case None
    with assms have "default_target env w (rq_intent rq) p = Inr t"
      by (simp add: ResolveEntryTarget_def Let_def split: if_splits)
    with default_target_ok [OF this] None show ?thesis
      by (auto simp: admissible_kind_def explicit_target_def Let_def split: option.splits if_splits)
  next
    case (Some r)
    with assms have "explicit_target env w rq p = Some (Inr t)"
      by (simp add: ResolveEntryTarget_def Let_def split: if_splits)
    from explicit_target_ok [OF this] show ?thesis by simp
  qed
qed

text \<open>C31: the entry target of a plan is a target the package declares, of a kind the request admits, and its file
  is a regular file on disk.\<close>

theorem entry_target_declared:
  assumes "ResolveEntryTarget env w rq p = Inr t"
  shows "tg_package t = p \<and> fs_is_regular_file env w (tg_file t) \<and> admissible_kind rq (tg_kind t) \<and>
    (\<exists>path. (tg_kind t, tg_name t, path) \<in> declared_targets (rp_package p) \<and>
       tg_file t = canonical env (path_append (rp_root_dir p) path))"
  using entry_target_ok [OF assms] by (auto simp: target_ok_def AbsoluteTargetPath_def)

definition sample_request :: plan_request where
  "sample_request = \<lparr>rq_manifest_path = ''pafio.toml'', rq_intent = ''build'', rq_package_name = None,
     rq_bin_name = None, rq_test_name = None, rq_select_lib = False, rq_profile = ''dev'', rq_build_mode = ''minimal'',
     rq_compiler_version = None, rq_offline = False, rq_vendor_root = None\<rparr>"

text \<open>The sample workspace with the two library files.\<close>

definition plan_fs :: fs where
  "plan_fs = resolver_fs @ [([''w'', ''l''], File ''x''), ([''u'', ''l''], File ''y'')]"

definition sample_root :: resolved_package where
  "sample_root = projr (ResolveEntryPackage sample_request sample_graph)"

theorem entry_target_declared_witness:
  "\<exists>t. ResolveEntryTarget resolver_env plan_fs sample_request sample_root = Inr t \<and> tg_kind t \<noteq> ''test''"
proof -
  let ?r = "ResolveEntryTarget resolver_env plan_fs sample_request sample_root"
  have "\<not> isl ?r" unfolding sample_root_def sample_graph_def by code_simp
  then have r: "?r = Inr (projr ?r)" by simp
  from entry_target_declared [OF r] have "admissible_kind sample_request (tg_kind (projr ?r))" by blast
  then have "tg_kind (projr ?r) \<noteq> ''test''" by (simp add: admissible_kind_def sample_request_def)
  with r show ?thesis by blast
qed

subsection \<open>The plan file and the errors of the planner\<close>

text \<open>C30: a successful run leaves the plan file with exactly the text it reports; every other node that existed is
  unchanged, and everything else that is new is a directory.\<close>

theorem write_plan_effect:
  assumes "write_plan env rq g w = (Inr r, w')"
  shows "fs_read env w' (pr_plan_path r) = Some (pr_plan_json r) \<and>
    only_adds {path_key env (pr_plan_path r)} w w'"
proof -
  from assms obtain i where "commit_plan env rq g i w = (Inr r, w')"
    by (auto simp: write_plan_def io_bind_Inr io_lift_eq)
  then obtain w1 w2 e where
    dirs: "fs_create_directories env (pr_artifact_dir r) w = (Inr (), w1)"
      "fs_create_directories env (pr_diag_dir r) w1 = (Inr (), w2)"
    and out: "fs_write env (pr_plan_path r) (pr_plan_json r) e w2 = (Inr (), w')"
    by (auto simp: commit_plan_def Let_def io_bind_Inr io_lift_eq io_return_eq)
  from only_adds_dirs [OF dirs(1)] only_adds_dirs [OF dirs(2)] only_adds_write [OF out]
  have "only_adds {path_key env (pr_plan_path r)} w w'"
    using only_adds_trans by (metis insertI1)
  with fs_write_read [OF out] show ?thesis by simp
qed

theorem write_plan_effect_witness:
  "\<exists>r w'. write_plan resolver_env sample_request sample_graph plan_fs = (Inr r, w') \<and>
     fs_read resolver_env w' (pr_plan_path r) = Some (pr_plan_json r)"
proof -
  let ?run = "write_plan resolver_env sample_request sample_graph plan_fs"
  have "\<not> isl (fst ?run)" unfolding sample_graph_def by code_simp
  then have run: "?run = (Inr (projr (fst ?run)), snd ?run)" by (simp add: prod_eq_iff)
  from write_plan_effect [OF run] run show ?thesis by blast
qed






















end
