(* ===== verification/Toolchain.thy ===== *)
theory Toolchain
  imports Manifest
begin

section \<open>The project toolchain state\<close>

text \<open>
  \<open>src/PafioToolchain/Vocabulary.hpp\<close> and \<open>State.cpp\<close>: the closed vocabularies of the toolchain and
  cloud settings, the file \<open>pafio-toolchain.lock\<close> that records a choice, its loading with defaults and
  its update.  Errors are \<open>ToolError\<close>.
\<close>

definition kSupportedToolchainModes :: "string list" where
  "kSupportedToolchainModes = [''binary'', ''build'']"

definition kSupportedChannels :: "string list" where
  "kSupportedChannels = [''stable'', ''nightly'']"

definition kSupportedBuildModes :: "string list" where
  "kSupportedBuildModes = [''minimal'']"

definition kSupportedCloudRiskClasses :: "string list" where
  "kSupportedCloudRiskClasses = [''trusted-internal'', ''partner-controlled'', ''untrusted-user'']"

definition kSupportedCloudExecutionLanes :: "string list" where
  "kSupportedCloudExecutionLanes = [''isolated'', ''warm-shared'']"

definition kSupportedCloudSecurityProfiles :: "string list" where
  "kSupportedCloudSecurityProfiles = [''sandbox-default'', ''partner-restricted'', ''trusted-warm'']"

definition VocabularyContains :: "string \<Rightarrow> string list \<Rightarrow> bool" where
  "VocabularyContains v supported = list_ex (\<lambda>candidate. candidate = v) supported"

lemma VocabularyContains_iff [simp]: "VocabularyContains v supported \<longleftrightarrow> v \<in> set supported"
  by (auto simp: VocabularyContains_def list_ex_iff)

record toolchain_state =
  ts_manifest_path :: string
  ts_state_path :: string
  ts_exists :: bool
  ts_mode :: string
  ts_channel :: string
  ts_build_mode :: string
  ts_risk_class :: string
  ts_lane :: string
  ts_security :: string
  ts_source_revision :: "string option"

record toolchain_update =
  tu_manifest_path :: string
  tu_mode :: "string option"
  tu_channel :: "string option"
  tu_build_mode :: "string option"
  tu_risk_class :: "string option"
  tu_lane :: "string option"
  tu_security :: "string option"
  tu_source_revision :: "string option"

definition RequireAllowedValue :: "string \<Rightarrow> string list \<Rightarrow> string \<Rightarrow> unit result" where
  "RequireAllowedValue v allowed label =
     guard (VocabularyContains v allowed) (ToolError (''unsupported '' @ label @ '': '' @ v))"

definition require_vocabulary :: "toolchain_state \<Rightarrow> unit result" where
  "require_vocabulary s =
     rbind (RequireAllowedValue (ts_mode s) kSupportedToolchainModes ''toolchain mode'') (\<lambda>_.
     rbind (RequireAllowedValue (ts_channel s) kSupportedChannels ''toolchain channel'') (\<lambda>_.
     rbind (RequireAllowedValue (ts_build_mode s) kSupportedBuildModes ''build mode'') (\<lambda>_.
     rbind (RequireAllowedValue (ts_risk_class s) kSupportedCloudRiskClasses ''cloud risk class'') (\<lambda>_.
     rbind (RequireAllowedValue (ts_lane s) kSupportedCloudExecutionLanes ''cloud execution lane'') (\<lambda>_.
     RequireAllowedValue (ts_security s) kSupportedCloudSecurityProfiles ''cloud security profile'')))))"

text \<open>The renderer puts values between quotes as they are.\<close>

definition raw_field :: "string \<Rightarrow> string \<Rightarrow> string" where
  "raw_field label v = label @ '' = \"'' @ v @ ''\"'' @ nl"

definition RenderToolchainState :: "toolchain_state \<Rightarrow> string" where
  "RenderToolchainState s =
     ''[toolchain]'' @ nl @ raw_field ''mode'' (ts_mode s) @ raw_field ''channel'' (ts_channel s) @
     raw_field ''build'' (ts_build_mode s) @ nl @ ''[cloud]'' @ nl @ raw_field ''risk'' (ts_risk_class s) @
     raw_field ''lane'' (ts_lane s) @ raw_field ''security'' (ts_security s) @
     (case ts_source_revision s of
        None \<Rightarrow> []
      | Some rv \<Rightarrow> nl @ ''[source]'' @ nl @ raw_field ''revision'' rv)"

definition WriteStateFile :: "env \<Rightarrow> string \<Rightarrow> string \<Rightarrow> (fs, unit) io" where
  "WriteStateFile env path content =
     io_bind (fs_create_directories env (parent_path path)) (\<lambda>_.
     fs_write env path content (ToolError (''failed to open toolchain state for write: '' @ path)))"

definition default_state :: "env \<Rightarrow> string \<Rightarrow> toolchain_state" where
  "default_state env manifest_path = (let path = canonical env manifest_path in
     \<lparr>ts_manifest_path = path, ts_state_path = ProjectToolchainStatePathForManifest env path, ts_exists = False,
      ts_mode = ''binary'', ts_channel = ''stable'', ts_build_mode = ''minimal'', ts_risk_class = ''untrusted-user'',
      ts_lane = ''isolated'', ts_security = ''sandbox-default'', ts_source_revision = None\<rparr>)"

text \<open>\<open>get_as<std::string>\<close>, kept when it is not empty.\<close>

definition string_entry :: "toml_table option \<Rightarrow> string \<Rightarrow> string option" where
  "string_entry t key = (case t of None \<Rightarrow> None | Some t \<Rightarrow>
     (case map_of t key of Some (TString (c # cs)) \<Rightarrow> Some (c # cs) | _ \<Rightarrow> None))"

definition override :: "string \<Rightarrow> string option \<Rightarrow> string" where
  "override d v = (case v of None \<Rightarrow> d | Some x \<Rightarrow> x)"

definition read_state :: "toml_table \<Rightarrow> toml_table \<Rightarrow> toolchain_state \<Rightarrow> toolchain_state" where
  "read_state doc tool s =
     (let cloud = as_table (map_of doc ''cloud''); source = as_table (map_of doc ''source'') in
      s\<lparr>ts_mode := override (ts_mode s) (string_entry (Some tool) ''mode''),
        ts_channel := override (ts_channel s) (string_entry (Some tool) ''channel''),
        ts_build_mode := override (ts_build_mode s) (string_entry (Some tool) ''build''),
        ts_risk_class := override (ts_risk_class s) (string_entry cloud ''risk''),
        ts_lane := override (ts_lane s) (string_entry cloud ''lane''),
        ts_security := override (ts_security s) (string_entry cloud ''security''),
        ts_source_revision := (case string_entry source ''revision'' of
            None \<Rightarrow> ts_source_revision s | Some rv \<Rightarrow> Some rv)\<rparr>)"

definition LoadProjectToolchainState :: "env \<Rightarrow> fs \<Rightarrow> string \<Rightarrow> toolchain_state result" where
  "LoadProjectToolchainState env w manifest_path =
     (let s = default_state env manifest_path in
      case FindProjectToolchainStatePath env w (ts_manifest_path s) of
        None \<Rightarrow> Inr s
      | Some discovered \<Rightarrow>
         (let failed = (\<lambda>what. Inl (ToolError (''failed to parse project toolchain state '' @ squote discovered @
                '': '' @ what)))
          in case fs_read env w discovered of
               None \<Rightarrow> failed (toml_open_error (env_toml env))
             | Some content \<Rightarrow> (case toml_parse (env_toml env) content of
                 Inl what \<Rightarrow> failed what
               | Inr doc \<Rightarrow> (case as_table (map_of doc ''toolchain'') of
                   None \<Rightarrow> Inl (ToolError (''project toolchain state is missing [toolchain]: '' @ discovered))
                 | Some tool \<Rightarrow>
                    (let s' = read_state doc tool (s\<lparr>ts_state_path := discovered, ts_exists := True\<rparr>) in
                     rbind (require_vocabulary s') (\<lambda>_. Inr s'))))))"

definition apply_update :: "toolchain_update \<Rightarrow> toolchain_state \<Rightarrow> toolchain_state" where
  "apply_update u s =
     s\<lparr>ts_mode := override (ts_mode s) (tu_mode u), ts_channel := override (ts_channel s) (tu_channel u),
       ts_build_mode := override (ts_build_mode s) (tu_build_mode u),
       ts_risk_class := override (ts_risk_class s) (tu_risk_class u),
       ts_lane := override (ts_lane s) (tu_lane u), ts_security := override (ts_security s) (tu_security u),
       ts_source_revision := (case tu_source_revision u of None \<Rightarrow> ts_source_revision s | Some rv \<Rightarrow> Some rv)\<rparr>"

definition UpdateProjectToolchainState :: "env \<Rightarrow> toolchain_update \<Rightarrow> (fs, toolchain_state) io" where
  "UpdateProjectToolchainState env u = (\<lambda>w. (let manifest_path = canonical env (tu_manifest_path u) in
     io_bind (io_lift (LoadManifest env w manifest_path)) (\<lambda>_.
     io_bind (io_lift (LoadProjectToolchainState env w manifest_path)) (\<lambda>loaded.
     let s = apply_update u (loaded\<lparr>ts_manifest_path := manifest_path,
               ts_state_path := ProjectToolchainStatePathForManifest env manifest_path\<rparr>) in
     io_bind (io_lift (require_vocabulary s)) (\<lambda>_.
     io_bind (WriteStateFile env (ts_state_path s) (RenderToolchainState s)) (\<lambda>_.
     io_return (s\<lparr>ts_exists := True\<rparr>)))))) w)"

subsection \<open>Facts\<close>

text \<open>The type of a state: every setting is a word of its vocabulary.\<close>

definition vocabulary_ok :: "toolchain_state \<Rightarrow> bool" where
  "vocabulary_ok s \<longleftrightarrow> ts_mode s \<in> set kSupportedToolchainModes \<and> ts_channel s \<in> set kSupportedChannels \<and>
     ts_build_mode s \<in> set kSupportedBuildModes \<and> ts_risk_class s \<in> set kSupportedCloudRiskClasses \<and>
     ts_lane s \<in> set kSupportedCloudExecutionLanes \<and> ts_security s \<in> set kSupportedCloudSecurityProfiles"

lemma require_vocabulary_Inr [result_simps]: "require_vocabulary s = Inr u \<longleftrightarrow> vocabulary_ok s"
  by (simp add: require_vocabulary_def RequireAllowedValue_def vocabulary_ok_def result_simps)

lemma vocabulary_not_empty:
  "vocabulary_ok s \<Longrightarrow> ts_mode s \<noteq> [] \<and> ts_channel s \<noteq> [] \<and> ts_build_mode s \<noteq> [] \<and> ts_risk_class s \<noteq> [] \<and>
     ts_lane s \<noteq> [] \<and> ts_security s \<noteq> []"
  by (auto simp: vocabulary_ok_def kSupportedToolchainModes_def kSupportedChannels_def kSupportedBuildModes_def
      kSupportedCloudRiskClasses_def kSupportedCloudExecutionLanes_def kSupportedCloudSecurityProfiles_def)

lemma default_state_ok: "vocabulary_ok (default_state env manifest_path)"
  by (simp add: vocabulary_ok_def default_state_def Let_def kSupportedToolchainModes_def kSupportedChannels_def
      kSupportedBuildModes_def kSupportedCloudRiskClasses_def kSupportedCloudExecutionLanes_def
      kSupportedCloudSecurityProfiles_def)

lemma LoadProjectToolchainState_ok:
  assumes "LoadProjectToolchainState env w manifest_path = Inr s"
  shows "vocabulary_ok s \<and> ts_manifest_path s = canonical env manifest_path"
  using assms default_state_ok [of env manifest_path]
  by (auto simp: LoadProjectToolchainState_def Let_def result_simps read_state_def default_state_def
      split: option.splits sum.splits)

text \<open>The document the rendered text denotes.\<close>

definition toml_of_state :: "toolchain_state \<Rightarrow> toml_table" where
  "toml_of_state s =
     [(''toolchain'', TTable [(''mode'', TString (ts_mode s)), (''channel'', TString (ts_channel s)),
        (''build'', TString (ts_build_mode s))]),
      (''cloud'', TTable [(''risk'', TString (ts_risk_class s)), (''lane'', TString (ts_lane s)),
        (''security'', TString (ts_security s))])] @
     (case ts_source_revision s of None \<Rightarrow> [] | Some rv \<Rightarrow> [(''source'', TTable [(''revision'', TString rv)])])"

lemma string_entry_Cons:
  "string_entry (Some ((k, TString v) # t)) key =
     (if k = key then (if v = [] then None else Some v) else string_entry (Some t) key)"
  by (cases v) (simp_all add: string_entry_def)

lemma read_state_toml:
  assumes "vocabulary_ok s" and "ts_source_revision s \<noteq> Some []"
    and "ts_source_revision d = None" and "ts_manifest_path d = ts_manifest_path s" and "ts_state_path d = ts_state_path s"
    and "ts_exists d"
  shows "\<exists>tool. as_table (map_of (toml_of_state s) ''toolchain'') = Some tool \<and>
    read_state (toml_of_state s) tool d = s\<lparr>ts_exists := True\<rparr>"
  using assms(2-) vocabulary_not_empty [OF assms(1)]
  by (cases "ts_source_revision s")
     (auto simp: toml_of_state_def as_table_def read_state_def string_entry_Cons override_def Let_def
       string_entry_def [of None])

lemma LoadProjectToolchainState_file:
  assumes "FindProjectToolchainStatePath env w (canonical env manifest_path) = Some path"
    and "fs_read env w path = Some content" and "toml_parse (env_toml env) content = Inr doc"
    and "as_table (map_of doc ''toolchain'') = Some tool"
    and "read_state doc tool ((default_state env manifest_path)\<lparr>ts_state_path := path, ts_exists := True\<rparr>) = s"
    and "vocabulary_ok s"
  shows "LoadProjectToolchainState env w manifest_path = Inr s"
proof -
  have "ts_manifest_path (default_state env manifest_path) = canonical env manifest_path"
    by (simp add: default_state_def Let_def)
  moreover have "require_vocabulary s = Inr ()" using assms(6) require_vocabulary_Inr by blast
  ultimately show ?thesis using assms(1-5) by (simp add: LoadProjectToolchainState_def Let_def)
qed

text \<open>The file an update writes is the first one the next search finds.\<close>

lemma FindProjectToolchainStatePath_here:
  assumes "fs_exists env w (ProjectToolchainStatePathForManifest env manifest_path)"
  shows "FindProjectToolchainStatePath env w manifest_path = Some (ProjectToolchainStatePathForManifest env manifest_path)"
  using assms
  by (subst FindProjectToolchainStatePath_def, subst find_up.simps)
     (simp add: ProjectToolchainStatePathForManifest_def Let_def)

lemma fs_read_exists: "fs_read env w p = Some c \<Longrightarrow> fs_exists env w p"
  by (auto simp: fs_read_def fs_exists_def split: option.splits)

lemma WriteStateFile_Inr:
  "WriteStateFile env p c w = (Inr u, w') \<Longrightarrow> fs_read env w' p = Some c \<and> only_adds {path_key env p} w w'"
  by (auto simp: WriteStateFile_def io_bind_Inr dest: fs_write_read)
     (meson insertI1 only_adds_dirs only_adds_trans only_adds_write)

lemma WriteStateFile_Inl: "WriteStateFile env p c w = (Inl e, w') \<Longrightarrow> only_adds {} w w'"
  by (auto simp: WriteStateFile_def io_bind_Inl dest: only_adds_dirs fs_write_Inl)

lemma UpdateProjectToolchainState_Inr:
  assumes "UpdateProjectToolchainState env u w = (Inr s, w')"
  shows "vocabulary_ok s \<and> ts_exists s \<and> ts_manifest_path s = canonical env (tu_manifest_path u) \<and>
    ts_state_path s = ProjectToolchainStatePathForManifest env (canonical env (tu_manifest_path u)) \<and>
    fs_read env w' (ts_state_path s) = Some (RenderToolchainState s) \<and> only_adds {path_key env (ts_state_path s)} w w'"
proof -
  obtain s0 where s: "s = s0\<lparr>ts_exists := True\<rparr>" and ok: "vocabulary_ok s0"
    and out: "WriteStateFile env (ts_state_path s0) (RenderToolchainState s0) w = (Inr (), w')"
    and at: "ts_manifest_path s0 = canonical env (tu_manifest_path u)"
      "ts_state_path s0 = ProjectToolchainStatePathForManifest env (canonical env (tu_manifest_path u))"
    using assms
    by (auto simp: UpdateProjectToolchainState_def Let_def io_bind_Inr io_lift_eq io_return_eq require_vocabulary_Inr
        apply_update_def)
  have "RenderToolchainState s = RenderToolchainState s0" by (simp add: s RenderToolchainState_def)
  with WriteStateFile_Inr [OF out] ok at show ?thesis by (simp add: s vocabulary_ok_def)
qed

end
