(* ===== verification/Cloud.thy ===== *)
theory Cloud
  imports Toolchain Plan
begin

section \<open>Cloud execution policy and build jobs\<close>

text \<open>
  \<open>src/PafioCloud\<close>: the routing of a project to an execution lane (\<open>Execution.cpp\<close>), the JSON documents
  of policy and state (\<open>Contract.cpp\<close>), and the validated build job (\<open>Job.cpp\<close>).  The platform macros
  the compiler defines are a record.
\<close>

subsection \<open>Execution policy\<close>

record platform_macros =
  def_linux :: bool
  def_WIN32 :: bool
  def_APPLE :: bool
  def_aarch64 :: bool
  def_x86_64 :: bool
  def_arm :: bool

record shared_cache_policy =
  shared_toolchain_read_only :: bool
  shared_source_read_only :: bool
  shared_registry_read_only :: bool
  worker_local_reuse :: bool
  shared_cache_promotion_eligible :: bool
  promotion_policy :: string

record worker_pool_key =
  wk_platform :: string
  wk_architecture :: string
  wk_execution_lane :: string
  wk_worker_trust_tier :: string
  wk_toolchain_mode :: string
  wk_channel :: string
  wk_build_mode :: string
  wk_compiler_fingerprint :: string
  wk_base_image_revision :: string

record cloud_policy =
  cp_risk_class :: string
  cp_requested_execution_lane :: string
  cp_execution_lane :: string
  cp_worker_trust_tier :: string
  cp_requested_security_profile :: string
  cp_security_profile :: string
  cp_fallback_applied :: bool
  cp_platform_protection_priority :: bool
  cp_tenant_isolation_priority :: bool
  cp_network_egress_default_deny :: bool
  cp_requires_container_sandbox :: bool
  cp_routing_reason :: string
  cp_cache_policy :: shared_cache_policy
  cp_worker_pool_key :: worker_pool_key

definition DefaultSecurityProfile :: "string \<Rightarrow> string \<Rightarrow> string" where
  "DefaultSecurityProfile risk_class execution_lane =
     (if execution_lane = ''warm-shared'' then ''trusted-warm''
      else if risk_class = ''partner-controlled'' then ''partner-restricted''
      else ''sandbox-default'')"

definition DefaultWorkerTrustTier :: "string \<Rightarrow> string \<Rightarrow> string" where
  "DefaultWorkerTrustTier risk_class execution_lane =
     (if execution_lane = ''warm-shared'' then ''internal-warm''
      else if risk_class = ''trusted-internal'' then ''trusted-isolated''
      else if risk_class = ''partner-controlled'' then ''partner-isolated''
      else ''untrusted-isolated'')"

definition CompilerFingerprintForState :: "toolchain_state \<Rightarrow> string" where
  "CompilerFingerprintForState s =
     (if ts_mode s = ''build'' then case_option ''source-revision-unset'' id (ts_source_revision s)
      else ''published-'' @ ts_channel s @ ''-'' @ ts_build_mode s)"

definition DetectCloudPlatform :: "platform_macros \<Rightarrow> string" where
  "DetectCloudPlatform m =
     (if def_linux m then ''linux'' else if def_WIN32 m then ''windows'' else if def_APPLE m then ''macos'' else ''unknown'')"

definition DetectCloudArchitecture :: "platform_macros \<Rightarrow> string" where
  "DetectCloudArchitecture m =
     (if def_aarch64 m then ''aarch64'' else if def_x86_64 m then ''x86_64'' else if def_arm m then ''arm'' else ''unknown'')"

definition DetectCloudBaseImageRevision :: "env \<Rightarrow> string" where
  "DetectCloudBaseImageRevision env =
     (case env_getenv env ''PAFIO_CLOUD_BASE_IMAGE_REVISION'' of Some (c # cs) \<Rightarrow> c # cs | _ \<Rightarrow> ''dev-unset'')"

text \<open>The fields the routing decides, in the order of the code: risk class, lane, fallback flag and reason.\<close>

definition route_risk :: "toolchain_state \<Rightarrow> string \<times> bool \<times> string" where
  "route_risk s =
     (if VocabularyContains (ts_risk_class s) kSupportedCloudRiskClasses then (ts_risk_class s, False, [])
      else (''untrusted-user'', True, ''unknown risk class fell back to untrusted-user''))"

definition route_lane :: "toolchain_state \<Rightarrow> string \<times> string \<times> bool \<times> string" where
  "route_lane s =
     (case route_risk s of (risk, fallback, reason) \<Rightarrow>
      if VocabularyContains (ts_lane s) kSupportedCloudExecutionLanes then (risk, ts_lane s, fallback, reason)
      else (risk, ''isolated'', True, ''unknown execution lane fell back to isolated''))"

definition route_isolation :: "toolchain_state \<Rightarrow> string \<times> string \<times> bool \<times> string" where
  "route_isolation s =
     (case route_lane s of (risk, lane, fallback, reason) \<Rightarrow>
      if risk = ''untrusted-user'' \<and> lane \<noteq> ''isolated''
        then (risk, ''isolated'', True, ''untrusted-user jobs require isolated execution'')
      else if risk = ''partner-controlled'' \<and> lane = ''warm-shared''
        then (risk, ''isolated'', True,
          ''partner-controlled jobs require explicit allowlist before warm-shared execution'')
      else if reason = []
        then (risk, lane, fallback,
          if lane = ''warm-shared'' then ''trusted internal workload is eligible for warm-shared execution''
          else ''default isolated execution protects the platform before enabling warm-shared reuse'')
      else (risk, lane, fallback, reason))"

definition ResolveCloudExecutionPolicy :: "env \<Rightarrow> platform_macros \<Rightarrow> toolchain_state \<Rightarrow> cloud_policy" where
  "ResolveCloudExecutionPolicy env m s =
     (case route_isolation s of (risk, lane, fallback, reason) \<Rightarrow>
      let expected = DefaultSecurityProfile risk lane; tier = DefaultWorkerTrustTier risk lane;
          replace = (\<not> VocabularyContains (ts_security s) kSupportedCloudSecurityProfiles \<or> ts_security s \<noteq> expected)
      in \<lparr>cp_risk_class = risk, cp_requested_execution_lane = ts_lane s, cp_execution_lane = lane,
          cp_worker_trust_tier = tier, cp_requested_security_profile = ts_security s,
          cp_security_profile = (if replace then expected else ts_security s),
          cp_fallback_applied = (if replace then True else fallback),
          cp_platform_protection_priority = True, cp_tenant_isolation_priority = True,
          cp_network_egress_default_deny = True, cp_requires_container_sandbox = True, cp_routing_reason = reason,
          cp_cache_policy = \<lparr>shared_toolchain_read_only = True, shared_source_read_only = True,
            shared_registry_read_only = True, worker_local_reuse = (lane = ''warm-shared''),
            shared_cache_promotion_eligible = (risk = ''trusted-internal''), promotion_policy = ''verified-only''\<rparr>,
          cp_worker_pool_key = \<lparr>wk_platform = DetectCloudPlatform m, wk_architecture = DetectCloudArchitecture m,
            wk_execution_lane = lane, wk_worker_trust_tier = tier, wk_toolchain_mode = ts_mode s,
            wk_channel = ts_channel s, wk_build_mode = ts_build_mode s,
            wk_compiler_fingerprint = CompilerFingerprintForState s,
            wk_base_image_revision = DetectCloudBaseImageRevision env\<rparr>\<rparr>)"

subsection \<open>JSON documents\<close>

definition SerializeSupportedValues :: "string list \<Rightarrow> json" where
  "SerializeSupportedValues vs = JArray (map JString vs)"

definition SerializeSharedCachePolicy :: "shared_cache_policy \<Rightarrow> json" where
  "SerializeSharedCachePolicy c = jobject
     [(''shared_toolchain_read_only'', JBool (shared_toolchain_read_only c)),
      (''shared_source_read_only'', JBool (shared_source_read_only c)),
      (''shared_registry_read_only'', JBool (shared_registry_read_only c)),
      (''worker_local_reuse'', JBool (worker_local_reuse c)),
      (''shared_cache_promotion_eligible'', JBool (shared_cache_promotion_eligible c)),
      (''promotion_policy'', JString (promotion_policy c))]"

definition SerializeWorkerPoolKey :: "worker_pool_key \<Rightarrow> json" where
  "SerializeWorkerPoolKey k = jobject
     [(''platform'', JString (wk_platform k)), (''architecture'', JString (wk_architecture k)),
      (''execution_lane'', JString (wk_execution_lane k)), (''worker_trust_tier'', JString (wk_worker_trust_tier k)),
      (''toolchain_mode'', JString (wk_toolchain_mode k)), (''channel'', JString (wk_channel k)),
      (''build_mode'', JString (wk_build_mode k)), (''compiler_fingerprint'', JString (wk_compiler_fingerprint k)),
      (''base_image_revision'', JString (wk_base_image_revision k))]"

definition SerializeCloudExecutionPolicy :: "cloud_policy \<Rightarrow> json" where
  "SerializeCloudExecutionPolicy p = jobject
     [(''contract_version'', JInt 1), (''risk_class'', JString (cp_risk_class p)),
      (''requested_execution_lane'', JString (cp_requested_execution_lane p)),
      (''execution_lane'', JString (cp_execution_lane p)), (''worker_trust_tier'', JString (cp_worker_trust_tier p)),
      (''requested_security_profile'', JString (cp_requested_security_profile p)),
      (''security_profile'', JString (cp_security_profile p)), (''fallback_applied'', JBool (cp_fallback_applied p)),
      (''platform_protection_priority'', JBool (cp_platform_protection_priority p)),
      (''tenant_isolation_priority'', JBool (cp_tenant_isolation_priority p)),
      (''network_egress_default_deny'', JBool (cp_network_egress_default_deny p)),
      (''requires_container_sandbox'', JBool (cp_requires_container_sandbox p)),
      (''routing_reason'', JString (cp_routing_reason p)),
      (''cache_policy'', SerializeSharedCachePolicy (cp_cache_policy p)),
      (''worker_pool_key'', SerializeWorkerPoolKey (cp_worker_pool_key p))]"

definition SerializeProjectToolchainState :: "toolchain_state \<Rightarrow> json" where
  "SerializeProjectToolchainState s = jobject
     ([(''path'', JString (ts_state_path s)), (''exists'', JBool (ts_exists s)), (''mode'', JString (ts_mode s)),
       (''channel'', JString (ts_channel s)), (''build_mode'', JString (ts_build_mode s)),
       (''risk_class'', JString (ts_risk_class s)), (''preferred_execution_lane'', JString (ts_lane s)),
       (''security_profile'', JString (ts_security s))] @
      (case ts_source_revision s of None \<Rightarrow> [] | Some rv \<Rightarrow> [(''source_revision'', JString rv)]))"

definition BuildCloudStatusPayload :: "toolchain_state \<Rightarrow> cloud_policy \<Rightarrow> json" where
  "BuildCloudStatusPayload s p = jobject
     [(''command'', JString ''cloud status''),
      (''message'', JString (''resolved cloud execution policy for '' @ ts_manifest_path s)),
      (''manifest_path'', JString (ts_manifest_path s)), (''toolchain_state_path'', JString (ts_state_path s)),
      (''toolchain_mode'', JString (ts_mode s)), (''channel'', JString (ts_channel s)),
      (''build_mode'', JString (ts_build_mode s)), (''risk_class'', JString (ts_risk_class s)),
      (''preferred_execution_lane'', JString (ts_lane s)), (''security_profile'', JString (ts_security s)),
      (''supported_execution_lanes'', SerializeSupportedValues kSupportedCloudExecutionLanes),
      (''supported_risk_classes'', SerializeSupportedValues kSupportedCloudRiskClasses),
      (''supported_security_profiles'', SerializeSupportedValues kSupportedCloudSecurityProfiles),
      (''cloud'', SerializeCloudExecutionPolicy p)]"

subsection \<open>Build jobs\<close>

record workflow_options =
  wo_locked :: bool
  wo_offline :: bool
  wo_styio_bin :: "string option"
  wo_allow_fetch :: bool
  wo_assume_yes :: bool
  wo_non_interactive :: bool
  wo_source_root :: "string option"
  wo_source_revision :: "string option"

record job_target =
  jt_package_name :: "string option"
  jt_bin_name :: "string option"
  jt_test_name :: "string option"
  jt_select_lib :: bool

record job_source =
  js_origin :: string
  js_explicit_source_root :: "string option"
  js_requested_revision :: "string option"
  js_resolved_revision :: "string option"
  js_allow_fetch :: bool
  js_assume_yes :: bool
  js_non_interactive :: bool
  js_offline :: bool

record build_job =
  bj_schema_version :: int
  bj_api_path :: string
  bj_action :: string
  bj_manifest_path :: string
  bj_toolchain_mode :: string
  bj_channel :: string
  bj_build_mode :: string
  bj_profile :: string
  bj_locked :: bool
  bj_offline :: bool
  bj_target :: job_target
  bj_source :: job_source
  bj_cloud_policy :: cloud_policy

definition effective_build_mode :: "plan_request \<Rightarrow> toolchain_state \<Rightarrow> string" where
  "effective_build_mode rq s = (if rq_build_mode rq = [] then ts_build_mode s else rq_build_mode rq)"

definition has_source_options :: "workflow_options \<Rightarrow> bool" where
  "has_source_options opts \<longleftrightarrow> wo_assume_yes opts \<or> \<not> wo_allow_fetch opts \<or> wo_non_interactive opts \<or>
     wo_source_root opts \<noteq> None \<or> wo_source_revision opts \<noteq> None"

definition ValidateWorkflowInvocation ::
    "string \<Rightarrow> plan_request \<Rightarrow> toolchain_state \<Rightarrow> workflow_options \<Rightarrow> string option" where
  "ValidateWorkflowInvocation action rq s opts =
     (let mode = effective_build_mode rq s in
      if action \<noteq> ''build'' \<and> action \<noteq> ''run'' \<and> action \<noteq> ''test''
        then Some ''workflow action must be one of: build, run, test''
      else if mode = [] \<or> \<not> VocabularyContains mode kSupportedBuildModes
        then Some (''build currently supports only the '' @ squote ''minimal'' @ '' mode'')
      else if ts_mode s = ''binary'' \<and> has_source_options opts
        then Some (''source-build options require '' @ squote ''pafio use build'')
      else if ts_mode s = ''build'' \<and> wo_styio_bin opts \<noteq> None
        then Some (''--styio-bin is only valid when the project toolchain mode is '' @ squote ''binary'')
      else if action = ''run'' \<and> rq_select_lib rq then Some ''run does not accept --lib''
      else if action = ''run'' \<and> rq_test_name rq \<noteq> None then Some ''run does not accept --test''
      else if action = ''test'' \<and> rq_select_lib rq then Some ''test does not accept --lib''
      else if action = ''test'' \<and> rq_bin_name rq \<noteq> None then Some ''test does not accept --bin''
      else if action = ''build'' \<and> rq_test_name rq \<noteq> None then Some ''build does not accept --test''
      else None)"

definition ResolveSourceOriginBaseline :: "env \<Rightarrow> string" where
  "ResolveSourceOriginBaseline env =
     (case env_getenv env ''PAFIO_STYIO_SOURCE_ORIGIN'' of
        Some (c # cs) \<Rightarrow> c # cs | _ \<Rightarrow> ''https://github.com/SymPolicy/Styio.git'')"

definition BuildCloudBuildJobRequest ::
    "env \<Rightarrow> string \<Rightarrow> plan_request \<Rightarrow> toolchain_state \<Rightarrow> workflow_options \<Rightarrow> cloud_policy \<Rightarrow> build_job result" where
  "BuildCloudBuildJobRequest env action rq s opts policy =
     (case ValidateWorkflowInvocation action rq s opts of
        Some message \<Rightarrow> Inl (ValidationError message)
      | None \<Rightarrow> (let mode = effective_build_mode rq s in
         Inr \<lparr>bj_schema_version = 1, bj_api_path = ''/api/pafio/v1/jobs'', bj_action = action,
           bj_manifest_path = rq_manifest_path rq, bj_toolchain_mode = ts_mode s, bj_channel = ts_channel s,
           bj_build_mode = (if mode = [] then ''minimal'' else mode), bj_profile = rq_profile rq,
           bj_locked = wo_locked opts, bj_offline = wo_offline opts,
           bj_target = \<lparr>jt_package_name = rq_package_name rq, jt_bin_name = rq_bin_name rq,
             jt_test_name = rq_test_name rq, jt_select_lib = rq_select_lib rq\<rparr>,
           bj_source = \<lparr>js_origin = ResolveSourceOriginBaseline env, js_explicit_source_root = wo_source_root opts,
             js_requested_revision = wo_source_revision opts, js_resolved_revision = ts_source_revision s,
             js_allow_fetch = wo_allow_fetch opts, js_assume_yes = wo_assume_yes opts,
             js_non_interactive = wo_non_interactive opts, js_offline = wo_offline opts\<rparr>,
           bj_cloud_policy = policy\<rparr>))"

definition json_option :: "string option \<Rightarrow> json" where
  "json_option v = case_option JNull JString v"

definition optional_entry :: "string \<Rightarrow> string option \<Rightarrow> (string \<times> json) list" where
  "optional_entry key v = (case v of None \<Rightarrow> [] | Some x \<Rightarrow> [(key, JString x)])"

definition BuildCloudBuildJobRequestPayload :: "env \<Rightarrow> build_job \<Rightarrow> json" where
  "BuildCloudBuildJobRequestPayload env j =
     (let t = bj_target j; src = bj_source j in jobject
      [(''schema_version'', JInt (bj_schema_version j)), (''api_path'', JString (bj_api_path j)),
       (''action'', JString (bj_action j)),
       (''manifest_path'', JString (absolute (env_cwd env) (bj_manifest_path j))),
       (''toolchain'', jobject [(''mode'', JString (bj_toolchain_mode j)), (''channel'', JString (bj_channel j)),
          (''build_mode'', JString (bj_build_mode j))]),
       (''profile'', JString (bj_profile j)),
       (''workflow'', jobject [(''locked'', JBool (bj_locked j)), (''offline'', JBool (bj_offline j))]),
       (''target'', jobject [(''package'', json_option (jt_package_name t)), (''bin'', json_option (jt_bin_name t)),
          (''test'', json_option (jt_test_name t)), (''lib'', JBool (jt_select_lib t))]),
       (''source'', jobject ([(''origin'', JString (js_origin src)), (''allow_fetch'', JBool (js_allow_fetch src)),
          (''assume_yes'', JBool (js_assume_yes src)), (''non_interactive'', JBool (js_non_interactive src)),
          (''offline'', JBool (js_offline src))] @
          optional_entry ''explicit_root'' (map_option (absolute (env_cwd env)) (js_explicit_source_root src)) @
          optional_entry ''requested_revision'' (js_requested_revision src) @
          optional_entry ''resolved_revision'' (js_resolved_revision src))),
       (''cloud'', SerializeCloudExecutionPolicy (bj_cloud_policy j))])"

end
