(* ===== verification/CloudProperties.thy ===== *)
theory CloudProperties
  imports Cloud PlanProperties
begin

section \<open>Properties of the toolchain state, the cloud policy and build jobs\<close>

text \<open>
  The type of a loaded state, the round trip of an update, the routing policy as a refinement of a
  three-line specification, the separation of worker pools, and the agreement of the job validation with
  the target selection of the planner.
\<close>

subsection \<open>The toolchain state\<close>

text \<open>C34: every loaded toolchain state is well typed: mode, channel, build mode, risk class, lane and security
  profile are words of their vocabularies, whatever the file holds, and an update yields such a state.\<close>

theorem toolchain_state_typed:
  shows "(\<forall>s. LoadProjectToolchainState env w manifest_path = Inr s \<longrightarrow> vocabulary_ok s) \<and>
    (\<forall>s w'. UpdateProjectToolchainState env u w = (Inr s, w') \<longrightarrow> vocabulary_ok s)"
  using LoadProjectToolchainState_ok UpdateProjectToolchainState_Inr by blast

text \<open>A workspace whose state file selects builds from source on the nightly channel, and an update of it.\<close>

definition build_state :: toolchain_state where
  "build_state = (default_state sample_env ''/w/pafio.toml'')\<lparr>ts_exists := True, ts_mode := ''build'',
     ts_channel := ''nightly'', ts_source_revision := Some ''r1''\<rparr>"

definition state_env :: env where
  "state_env = sample_env\<lparr>env_toml := sample_api\<lparr>toml_parse := (\<lambda>c.
     if c = ''A'' then Inr (toml_of_manifest sample_util) else Inr (toml_of_state build_state))\<rparr>\<rparr>"


definition state_fs :: fs where
  "state_fs = [([''w''], Dir), ([''w'', ''pafio.toml''], File ''A''), ([''w'', ''pafio-toolchain.lock''], File ''S'')]"

theorem toolchain_state_typed_witness:
  "\<exists>s. LoadProjectToolchainState state_env state_fs ''pafio.toml'' = Inr s \<and> ts_mode s = ''build'' \<and> vocabulary_ok s"
proof -
  let ?r = "LoadProjectToolchainState state_env state_fs ''pafio.toml''"
  have "\<not> isl ?r \<and> ts_mode (projr ?r) = ''build''" by code_simp
  then obtain s where s: "?r = Inr s" "ts_mode s = ''build''" by (metis sum.collapse(2) sum.sel(2))
  with toolchain_state_typed [of state_env state_fs "''pafio.toml''"] show ?thesis by blast
qed



subsection \<open>The cloud policy\<close>

text \<open>
  The routing the service promises: an unknown risk class counts as untrusted and an unknown lane as
  isolated, only a trusted project gets the lane it asks for, and the lane and the risk class determine the
  security profile and the trust tier.
\<close>

datatype risk = Trusted | Partner | Untrusted
datatype lane = Isolated | WarmShared
datatype security = SandboxDefault | PartnerRestricted | TrustedWarm

definition abs_risk :: "string \<Rightarrow> risk" where
  "abs_risk v = (if v = ''trusted-internal'' then Trusted else if v = ''partner-controlled'' then Partner else Untrusted)"

definition abs_lane :: "string \<Rightarrow> lane" where
  "abs_lane v = (if v = ''warm-shared'' then WarmShared else Isolated)"

definition abs_security :: "string \<Rightarrow> security option" where
  "abs_security v = (if v = ''sandbox-default'' then Some SandboxDefault
     else if v = ''partner-restricted'' then Some PartnerRestricted
     else if v = ''trusted-warm'' then Some TrustedWarm else None)"

fun granted_lane :: "risk \<Rightarrow> lane \<Rightarrow> lane" where
  "granted_lane Trusted l = l"
| "granted_lane _ l = Isolated"

fun required_security :: "risk \<Rightarrow> lane \<Rightarrow> security" where
  "required_security r WarmShared = TrustedWarm"
| "required_security Partner Isolated = PartnerRestricted"
| "required_security _ Isolated = SandboxDefault"

lemmas cloud_vocabularies = kSupportedCloudRiskClasses_def kSupportedCloudExecutionLanes_def
  kSupportedCloudSecurityProfiles_def

lemma route_risk_cases:
  assumes "route_risk s = (risk, fallback, reason)"
  shows "risk \<in> set kSupportedCloudRiskClasses \<and> abs_risk risk = abs_risk (ts_risk_class s) \<and>
    (\<not> fallback \<longleftrightarrow> risk = ts_risk_class s) \<and> (fallback \<longleftrightarrow> reason \<noteq> [])"
proof (cases "ts_risk_class s \<in> set kSupportedCloudRiskClasses")
  case True
  with assms show ?thesis by (auto simp: route_risk_def)
next
  case False
  have u: "''untrusted-user'' \<in> set kSupportedCloudRiskClasses" "abs_risk ''untrusted-user'' = Untrusted"
    by (simp_all add: cloud_vocabularies abs_risk_def)
  have "abs_risk (ts_risk_class s) = Untrusted"
    using False by (simp add: abs_risk_def cloud_vocabularies)
  moreover have "''untrusted-user'' \<noteq> ts_risk_class s" using u(1) False by metis
  ultimately show ?thesis using False assms u by (auto simp: route_risk_def)
qed

lemma route_lane_cases:
  assumes "route_lane s = (risk, lane, fallback, reason)"
  shows "risk \<in> set kSupportedCloudRiskClasses \<and> abs_risk risk = abs_risk (ts_risk_class s) \<and>
    lane \<in> set kSupportedCloudExecutionLanes \<and> abs_lane lane = abs_lane (ts_lane s) \<and>
    (\<not> fallback \<longleftrightarrow> risk = ts_risk_class s \<and> lane = ts_lane s) \<and> (fallback \<longleftrightarrow> reason \<noteq> [])"
proof -
  obtain f r where r: "route_risk s = (risk, f, r)"
    using assms by (cases "route_risk s") (auto simp: route_lane_def split: if_splits)
  show ?thesis
  proof (cases "ts_lane s \<in> set kSupportedCloudExecutionLanes")
    case True
    with assms r route_risk_cases [OF r] show ?thesis by (auto simp: route_lane_def)
  next
    case False
    then have "ts_lane s \<noteq> ''isolated''" "ts_lane s \<noteq> ''warm-shared''" by (auto simp: cloud_vocabularies)
    with False assms r route_risk_cases [OF r] show ?thesis
      by (auto simp: route_lane_def abs_lane_def kSupportedCloudExecutionLanes_def)
  qed
qed

lemma route_isolation_cases:
  assumes "route_isolation s = (risk, lane, fallback, reason)"
  shows "risk \<in> set kSupportedCloudRiskClasses \<and> lane \<in> set kSupportedCloudExecutionLanes \<and>
    abs_risk risk = abs_risk (ts_risk_class s) \<and> abs_lane lane = granted_lane (abs_risk risk) (abs_lane (ts_lane s)) \<and>
    (\<not> fallback \<longleftrightarrow> risk = ts_risk_class s \<and> lane = ts_lane s) \<and> reason \<noteq> []"
proof -
  obtain risk0 lane0 f r where l: "route_lane s = (risk0, lane0, f, r)" by (cases "route_lane s")
  note L = route_lane_cases [OF l]
  have lanes: "lane0 = ''isolated'' \<or> lane0 = ''warm-shared''" using L by (simp add: cloud_vocabularies)
  from L have "risk0 = ''trusted-internal'' \<or> risk0 = ''partner-controlled'' \<or> risk0 = ''untrusted-user''"
    by (simp add: cloud_vocabularies)
  then show ?thesis using lanes L assms l
    by (elim disjE; simp add: route_isolation_def abs_risk_def abs_lane_def cloud_vocabularies split: if_splits)
       (auto simp: abs_risk_def abs_lane_def)
qed

lemma policy_routing:
  obtains risk lane fallback reason where "route_isolation s = (risk, lane, fallback, reason)"
    "cp_risk_class (ResolveCloudExecutionPolicy env m s) = risk"
    "cp_execution_lane (ResolveCloudExecutionPolicy env m s) = lane"
    "cp_security_profile (ResolveCloudExecutionPolicy env m s) = DefaultSecurityProfile risk lane"
    "cp_worker_trust_tier (ResolveCloudExecutionPolicy env m s) = DefaultWorkerTrustTier risk lane"
    "cp_fallback_applied (ResolveCloudExecutionPolicy env m s) \<longleftrightarrow>
       fallback \<or> ts_security s \<noteq> DefaultSecurityProfile risk lane"
proof (cases "route_isolation s")
  case (fields risk lane fallback reason)
  have "DefaultSecurityProfile risk lane \<in> set kSupportedCloudSecurityProfiles"
    by (simp add: DefaultSecurityProfile_def cloud_vocabularies)
  then show ?thesis by (intro that [OF fields]) (auto simp: ResolveCloudExecutionPolicy_def Let_def fields)
qed

lemma abs_security_default:
  "risk \<in> set kSupportedCloudRiskClasses \<Longrightarrow> lane \<in> set kSupportedCloudExecutionLanes \<Longrightarrow>
     abs_security (DefaultSecurityProfile risk lane) = Some (required_security (abs_risk risk) (abs_lane lane))"
  by (auto simp: DefaultSecurityProfile_def abs_security_def abs_risk_def abs_lane_def cloud_vocabularies)

text \<open>C20: the policy the code computes refines that specification for every state, also one with unknown words:
  its risk class, lane and security profile are in the vocabularies and abstract to the specified values, and
  the fallback flag is set exactly when one of the three differs from what the state asks for.\<close>

theorem cloud_policy_refines:
  fixes env m s
  defines "p \<equiv> ResolveCloudExecutionPolicy env m s"
  shows "cp_risk_class p \<in> set kSupportedCloudRiskClasses \<and> cp_execution_lane p \<in> set kSupportedCloudExecutionLanes \<and>
    abs_risk (cp_risk_class p) = abs_risk (ts_risk_class s) \<and>
    abs_lane (cp_execution_lane p) = granted_lane (abs_risk (ts_risk_class s)) (abs_lane (ts_lane s)) \<and>
    abs_security (cp_security_profile p) =
      Some (required_security (abs_risk (ts_risk_class s)) (abs_lane (cp_execution_lane p))) \<and>
    (cp_fallback_applied p \<longleftrightarrow>
       (cp_risk_class p, cp_execution_lane p, cp_security_profile p) \<noteq> (ts_risk_class s, ts_lane s, ts_security s))"
proof -
  obtain risk lane fallback reason where r: "route_isolation s = (risk, lane, fallback, reason)"
    "cp_risk_class p = risk" "cp_execution_lane p = lane" "cp_security_profile p = DefaultSecurityProfile risk lane"
    "cp_fallback_applied p \<longleftrightarrow> fallback \<or> ts_security s \<noteq> DefaultSecurityProfile risk lane"
    unfolding p_def by (rule policy_routing)
  from route_isolation_cases [OF r(1)] abs_security_default [of risk lane] r show ?thesis by auto
qed

text \<open>Worker pools are separated by trust: two projects resolved to the same worker pool have the same risk
  class and the same cache policy, and only a trusted-internal project that asks for it runs warm-shared.\<close>

theorem worker_pools_separate_risk:
  assumes "cp_worker_pool_key (ResolveCloudExecutionPolicy env m s) = cp_worker_pool_key (ResolveCloudExecutionPolicy env' m' s')"
  shows "cp_risk_class (ResolveCloudExecutionPolicy env m s) = cp_risk_class (ResolveCloudExecutionPolicy env' m' s') \<and>
    cp_cache_policy (ResolveCloudExecutionPolicy env m s) = cp_cache_policy (ResolveCloudExecutionPolicy env' m' s') \<and>
    (wk_execution_lane (cp_worker_pool_key (ResolveCloudExecutionPolicy env m s)) = ''warm-shared'' \<longleftrightarrow>
       ts_risk_class s = ''trusted-internal'' \<and> ts_lane s = ''warm-shared'')"
proof -
  obtain risk lane f reason where r: "route_isolation s = (risk, lane, f, reason)"
    "cp_risk_class (ResolveCloudExecutionPolicy env m s) = risk" "cp_execution_lane (ResolveCloudExecutionPolicy env m s) = lane"
    by (rule policy_routing)
  obtain risk' lane' f' reason' where r': "route_isolation s' = (risk', lane', f', reason')"
    "cp_risk_class (ResolveCloudExecutionPolicy env' m' s') = risk'"
    "cp_execution_lane (ResolveCloudExecutionPolicy env' m' s') = lane'"
    by (rule policy_routing)
  have key: "lane = lane'" "DefaultWorkerTrustTier risk lane = DefaultWorkerTrustTier risk' lane'"
    using assms r(1) r'(1) by (auto simp: ResolveCloudExecutionPolicy_def Let_def)
  note R = route_isolation_cases [OF r(1)] and R' = route_isolation_cases [OF r'(1)]
  have warm: "lane = ''warm-shared'' \<longleftrightarrow> risk = ''trusted-internal'' \<and> ts_lane s = ''warm-shared''"
    if "route_isolation s = (risk, lane, f, reason)" for s risk lane f reason
    using route_isolation_cases [OF that]
    by (auto simp: abs_lane_def abs_risk_def cloud_vocabularies split: if_splits)
  have same: "risk = risk'"
    using R R' key warm [OF r(1)] warm [OF r'(1)] by (auto simp: DefaultWorkerTrustTier_def cloud_vocabularies split: if_splits)
  moreover have "risk = ''trusted-internal'' \<longleftrightarrow> ts_risk_class s = ''trusted-internal''"
    using R by (auto simp: abs_risk_def cloud_vocabularies split: if_splits)
  moreover have "wk_execution_lane (cp_worker_pool_key (ResolveCloudExecutionPolicy env m s)) = lane"
    using r(1) by (simp add: ResolveCloudExecutionPolicy_def Let_def)
  moreover have "cp_cache_policy (ResolveCloudExecutionPolicy env m s) = cp_cache_policy (ResolveCloudExecutionPolicy env' m' s')"
    using r(1) r'(1) same key(1) by (simp add: ResolveCloudExecutionPolicy_def Let_def)
  ultimately show ?thesis using r(2) r'(2) warm [OF r(1)] by simp
qed

text \<open>A project that asks for the warm lane without being trusted, and an untrusted one.\<close>

definition warm_request :: toolchain_state where
  "warm_request = build_state\<lparr>ts_lane := ''warm-shared''\<rparr>"

definition linux_macros :: platform_macros where
  "linux_macros = \<lparr>def_linux = True, def_WIN32 = False, def_APPLE = False, def_aarch64 = False, def_x86_64 = True,
     def_arm = False\<rparr>"

theorem worker_pools_separate_risk_witness:
  "cp_cache_policy (ResolveCloudExecutionPolicy sample_env linux_macros warm_request) =
   cp_cache_policy (ResolveCloudExecutionPolicy sample_env linux_macros build_state)"
proof -
  have "cp_worker_pool_key (ResolveCloudExecutionPolicy sample_env linux_macros warm_request) =
      cp_worker_pool_key (ResolveCloudExecutionPolicy sample_env linux_macros build_state)" by code_simp
  from worker_pools_separate_risk [OF this] show ?thesis by simp
qed

subsection \<open>Build jobs\<close>

lemma if_Some_None: "(if b then Some x else r) = None \<longleftrightarrow> \<not> b \<and> r = None"
  by simp

lemma ValidateWorkflowInvocation_None:
  "ValidateWorkflowInvocation action rq s opts = None \<longleftrightarrow>
     (action = ''build'' \<or> action = ''run'' \<or> action = ''test'') \<and>
     effective_build_mode rq s \<in> set kSupportedBuildModes \<and>
     \<not> (ts_mode s = ''binary'' \<and> has_source_options opts) \<and> \<not> (ts_mode s = ''build'' \<and> wo_styio_bin opts \<noteq> None) \<and>
     (action = ''run'' \<longrightarrow> \<not> rq_select_lib rq \<and> rq_test_name rq = None) \<and>
     (action = ''test'' \<longrightarrow> \<not> rq_select_lib rq \<and> rq_bin_name rq = None) \<and>
     (action = ''build'' \<longrightarrow> rq_test_name rq = None)"
proof -
  have "mode \<in> set kSupportedBuildModes \<Longrightarrow> mode \<noteq> []" for mode
    by (auto simp: kSupportedBuildModes_def)
  from this [of "effective_build_mode rq s"] show ?thesis
    unfolding ValidateWorkflowInvocation_def Let_def if_Some_None VocabularyContains_iff by argo
qed

lemma BuildCloudBuildJobRequest_Inr:
  assumes "BuildCloudBuildJobRequest env action rq s opts policy = Inr job"
  shows "ValidateWorkflowInvocation action rq s opts = None \<and> bj_build_mode job = effective_build_mode rq s"
proof (cases "ValidateWorkflowInvocation action rq s opts")
  case None
  then have "effective_build_mode rq s \<noteq> []"
    unfolding ValidateWorkflowInvocation_None by (auto simp: kSupportedBuildModes_def)
  with None assms show ?thesis by (auto simp: BuildCloudBuildJobRequest_def Let_def)
next
  case (Some message)
  with assms show ?thesis by (simp add: BuildCloudBuildJobRequest_def)
qed

text \<open>C36: the job validation and the planner agree: when a job is accepted and the planner, asked for the action as
  its intent, selects an entry target, then run gets a binary, test gets a test and build gets the library or a
  binary; the job's build mode is supported and, for a project in binary mode, no source option is set.\<close>

theorem accepted_job_target_kind:
  assumes "BuildCloudBuildJobRequest cenv action rq s opts policy = Inr job"
    and "ResolveEntryTarget env w (rq\<lparr>rq_intent := action\<rparr>) p = Inr t"
  shows "(action = ''run'' \<and> tg_kind t = ''bin'' \<or> action = ''test'' \<and> tg_kind t = ''test'' \<or>
      action = ''build'' \<and> tg_kind t \<in> {''lib'', ''bin''}) \<and>
    bj_build_mode job \<in> set kSupportedBuildModes \<and> (ts_mode s = ''binary'' \<longrightarrow> \<not> has_source_options opts)"
proof -
  from assms(1) have v: "ValidateWorkflowInvocation action rq s opts = None" "bj_build_mode job \<in> set kSupportedBuildModes"
    using BuildCloudBuildJobRequest_Inr ValidateWorkflowInvocation_None by metis+
  have "admissible_kind (rq\<lparr>rq_intent := action\<rparr>) (tg_kind t)" "tg_kind t \<in> {''lib'', ''bin'', ''test''}"
    using entry_target_ok [OF assms(2)] by (auto simp: target_ok_def declared_targets_def)
  moreover from v(1) have "action = ''run'' \<and> \<not> rq_select_lib rq \<and> rq_test_name rq = None \<or>
      action = ''test'' \<and> \<not> rq_select_lib rq \<and> rq_bin_name rq = None \<or> action = ''build'' \<and> rq_test_name rq = None"
    unfolding ValidateWorkflowInvocation_None by argo
  moreover have "ts_mode s = ''binary'' \<longrightarrow> \<not> has_source_options opts"
    using v(1) unfolding ValidateWorkflowInvocation_None by argo
  ultimately show ?thesis
    using v(2) by (elim disjE) (auto simp: admissible_kind_def split: option.splits if_splits)
qed

definition plain_options :: workflow_options where
  "plain_options = \<lparr>wo_locked = False, wo_offline = False, wo_styio_bin = None, wo_allow_fetch = True,
     wo_assume_yes = False, wo_non_interactive = False, wo_source_root = None, wo_source_revision = None\<rparr>"

theorem accepted_job_target_kind_witness:
  "\<exists>t. ResolveEntryTarget resolver_env plan_fs sample_request sample_root = Inr t \<and> tg_kind t \<in> {''lib'', ''bin''}"
proof -
  let ?j = "BuildCloudBuildJobRequest sample_env ''build'' sample_request build_state plain_options
      (ResolveCloudExecutionPolicy sample_env linux_macros build_state)"
  let ?t = "ResolveEntryTarget resolver_env plan_fs sample_request sample_root"
  have ok: "\<not> isl ?j \<and> sample_request\<lparr>rq_intent := ''build''\<rparr> = sample_request" by code_simp
  have "\<not> isl ?t" unfolding sample_root_def sample_graph_def by code_simp
  then have t: "ResolveEntryTarget resolver_env plan_fs (sample_request\<lparr>rq_intent := ''build''\<rparr>) sample_root = Inr (projr ?t)"
    using ok by simp
  have j: "?j = Inr (projr ?j)" using ok by simp
  from accepted_job_target_kind [OF j t] t ok show ?thesis by auto
qed

end
