(* ===== verification/Tree.thy ===== *)
theory Tree
  imports ResolverFacts
begin

section \<open>The dependency tree\<close>

text \<open>
  \<open>src/PafioTree/Render.cpp\<close>, and the lock generation it prints (\<open>ResolveSingleVersionLockfile\<close>).  The
  printer walks the lockfile with the ids of the current path in a mutable set; the reference below is the
  tree the lockfile unfolds to, cut at missing ids and at repetitions on a path, and printed by structural
  recursion.
\<close>

subsection \<open>The printer\<close>

record lock_generation =
  lg_manifest_path :: string
  lg_lockfile_path :: string
  lg_root_ids :: "string list"
  lg_lockfile :: lockfile_document

definition lock_generation_of :: "resolved_graph \<Rightarrow> lock_generation" where
  "lock_generation_of g = \<lparr>lg_manifest_path = rg_manifest_path g, lg_lockfile_path = rg_lockfile_path g,
     lg_root_ids = rg_root_ids g, lg_lockfile = rg_lockfile g\<rparr>"

definition ResolveSingleVersionLockfile ::
    "nat \<Rightarrow> env \<Rightarrow> registry_client \<Rightarrow> string \<Rightarrow> bool \<Rightarrow> string option \<Rightarrow> (fs, lock_generation) io" where
  "ResolveSingleVersionLockfile fuel env mat manifest_path offline vendor_root =
     io_bind (ResolveSingleVersionGraph fuel env mat manifest_path offline vendor_root) (\<lambda>g.
     io_return (lock_generation_of g))"

definition branch :: "bool \<Rightarrow> string" where
  "branch is_last = (if is_last then CHR 0x5C # ''- '' else ''+- '')"

definition branch_line :: "string \<Rightarrow> bool \<Rightarrow> bool \<Rightarrow> string" where
  "branch_line pre is_root is_last = (if is_root then [] else pre @ branch is_last)"

definition child_prefix :: "string \<Rightarrow> bool \<Rightarrow> bool \<Rightarrow> string" where
  "child_prefix pre is_root is_last = (if is_root then [] else pre @ (if is_last then ''   '' else ''|  ''))"

type_synonym render_state = "string set \<times> string"

text \<open>The elements of a list, each with a mark on the last one.\<close>

fun mark_last :: "'a list \<Rightarrow> ('a \<times> bool) list" where
  "mark_last [] = []"
| "mark_last (x # xs) = (x, xs = []) # mark_last xs"

primrec RenderNode ::
    "nat \<Rightarrow> lock_package list \<Rightarrow> string \<Rightarrow> string \<Rightarrow> bool \<Rightarrow> bool \<Rightarrow> render_state \<Rightarrow> render_state result" where
  "RenderNode 0 packages package_id pre is_root is_last s = Inl OutOfFuel"
| "RenderNode (Suc fuel) packages package_id pre is_root is_last s =
     (case s of (stack, out) \<Rightarrow>
      let out = out @ branch_line pre is_root is_last @ package_id in
      case find (\<lambda>p. lk_id p = package_id) packages of
        None \<Rightarrow> Inr (stack, out @ '' (missing)'' @ nl)
      | Some p \<Rightarrow>
         (if package_id \<in> stack then Inr (stack, out @ nl)
          else let cp = child_prefix pre is_root is_last in
           rbind (rfold (\<lambda>(dep, dep_last) s'.
               if dep \<in> fst s' then Inr (fst s', snd s' @ cp @ branch dep_last @ dep @ '' (cycle)'' @ nl)
               else RenderNode fuel packages dep cp False dep_last s')
             (mark_last (lk_dependencies p)) (insert package_id stack, out @ nl)) (\<lambda>s'.
           Inr (fst s' - {package_id}, snd s'))))"

definition render_fuel :: "lock_package list \<Rightarrow> nat" where
  "render_fuel packages = length packages + 2"

definition RenderDependencyTreeText :: "lock_generation \<Rightarrow> string result" where
  "RenderDependencyTreeText g =
     (let packages = lf_packages (lg_lockfile g) in
      map_sum id snd (rfold (\<lambda>(root, first) (stack, out).
        RenderNode (render_fuel packages) packages root [] True True (stack, if first then out else out @ nl))
        (zip (lg_root_ids g) (True # replicate (length (lg_root_ids g)) False)) ({}, [])))"

subsection \<open>The tree a lockfile unfolds to\<close>

datatype dep_tree = Missing string | Cycle string | Package string "dep_tree list"

definition lock_ids :: "lock_package list \<Rightarrow> string set" where
  "lock_ids packages = lk_id ` set packages"

lemma find_lock_id: "find (\<lambda>p. lk_id p = x) packages = Some p \<Longrightarrow> x \<in> lock_ids packages"
  by (auto simp: find_Some_iff lock_ids_def)

function unfold_tree :: "lock_package list \<Rightarrow> string set \<Rightarrow> string \<Rightarrow> dep_tree" where
  "unfold_tree packages path x =
     (if x \<in> path then Cycle x
      else case find (\<lambda>p. lk_id p = x) packages of
        None \<Rightarrow> Missing x
      | Some p \<Rightarrow> Package x (map (unfold_tree packages (insert x path)) (lk_dependencies p)))"
  by pat_completeness auto
termination
proof (relation "measure (\<lambda>(packages, path, x). card (lock_ids packages - path))")
  fix packages :: "lock_package list" and path :: "string set" and x z :: string and p :: lock_package
  assume a: "x \<notin> path" "find (\<lambda>p. lk_id p = x) packages = Some p"
  have "finite (lock_ids packages - path)" "x \<in> lock_ids packages - path"
    using a find_lock_id by (auto simp: lock_ids_def)
  then have "card (lock_ids packages - path - {x}) < card (lock_ids packages - path)"
    by (rule card_Diff1_less)
  then show "((packages, insert x path, z), (packages, path, x)) \<in> measure (\<lambda>(packages, path, x). card (lock_ids packages - path))"
    by (simp add: Diff_insert [of "lock_ids packages" x path])
qed simp

declare unfold_tree.simps [simp del]

fun show_tree :: "string \<Rightarrow> bool \<Rightarrow> bool \<Rightarrow> dep_tree \<Rightarrow> string"
  and show_trees :: "string \<Rightarrow> dep_tree list \<Rightarrow> string" where
  "show_tree pre is_root is_last (Missing x) = branch_line pre is_root is_last @ x @ '' (missing)'' @ nl"
| "show_tree pre is_root is_last (Cycle x) = branch_line pre is_root is_last @ x @ '' (cycle)'' @ nl"
| "show_tree pre is_root is_last (Package x ts) =
     branch_line pre is_root is_last @ x @ nl @ show_trees (child_prefix pre is_root is_last) ts"
| "show_trees pre [] = []"
| "show_trees pre (t # ts) = show_tree pre False (ts = []) t @ show_trees pre ts"

text \<open>The ids of a tree by what they are printed as.\<close>

fun missing_ids :: "dep_tree \<Rightarrow> string set" where
  "missing_ids (Missing x) = {x}"
| "missing_ids (Cycle x) = {}"
| "missing_ids (Package x ts) = (\<Union>t \<in> set ts. missing_ids t)"

fun cycle_ids :: "dep_tree \<Rightarrow> string set" where
  "cycle_ids (Missing x) = {}"
| "cycle_ids (Cycle x) = {x}"
| "cycle_ids (Package x ts) = (\<Union>t \<in> set ts. cycle_ids t)"

subsection \<open>The printer prints the tree\<close>

lemma RenderNode_correct:
  assumes "card (lock_ids packages - path) + 1 < fuel" and "x \<notin> path"
  shows "RenderNode fuel packages x pre is_root is_last (path, out) =
    Inr (path, out @ show_tree pre is_root is_last (unfold_tree packages path x))"
  using assms
proof (induction fuel arbitrary: path x pre is_root is_last out)
  case (Suc fuel)
  show ?case
  proof (cases "find (\<lambda>p. lk_id p = x) packages")
    case None
    with Suc.prems show ?thesis by (simp add: unfold_tree.simps [of packages path x])
  next
    case (Some p)
    define cp where "cp = child_prefix pre is_root is_last"
    have "finite (lock_ids packages - path)" "x \<in> lock_ids packages - path"
      using Suc.prems(2) find_lock_id [OF Some] by (auto simp: lock_ids_def)
    then have "card (lock_ids packages - path - {x}) < card (lock_ids packages - path)" by (rule card_Diff1_less)
    then have fuel: "card (lock_ids packages - insert x path) + 1 < fuel"
      using Suc.prems(1) by (simp add: Diff_insert [of "lock_ids packages" x path])
    have loop: "rfold (\<lambda>(dep, dep_last) s'.
          if dep \<in> fst s' then Inr (fst s', snd s' @ cp @ branch dep_last @ dep @ '' (cycle)'' @ nl)
          else RenderNode fuel packages dep cp False dep_last s') (mark_last deps) (insert x path, o') =
        Inr (insert x path, o' @ show_trees cp (map (unfold_tree packages (insert x path)) deps))" for deps o'
    proof (induction deps arbitrary: o')
      case (Cons d ds)
      have "RenderNode fuel packages d cp False (ds = []) (insert x path, o') =
          Inr (insert x path, o' @ show_tree cp False (ds = []) (unfold_tree packages (insert x path) d))"
        if "d \<notin> insert x path" by (rule Suc.IH [OF fuel that])
      moreover have "unfold_tree packages (insert x path) d = Cycle d" if "d \<in> insert x path"
        using that by (simp add: unfold_tree.simps)
      ultimately show ?case
        using Cons.IH by (cases "d \<in> insert x path") (auto simp: branch_line_def)
    qed simp
    have "unfold_tree packages path x =
        Package x (map (unfold_tree packages (insert x path)) (lk_dependencies p))"
      using Some Suc.prems(2) by (simp add: unfold_tree.simps [of packages path x])
    moreover have "insert x path - {x} = path" using Suc.prems(2) by blast
    ultimately show ?thesis
      using Suc.prems(2) Some
      by (simp add: Let_def loop [unfolded cp_def] del: mark_last.simps)
  qed
qed simp

definition tree_text :: "lock_package list \<Rightarrow> string list \<Rightarrow> string" where
  "tree_text packages roots = join nl (map (\<lambda>r. show_tree [] True True (unfold_tree packages {} r)) roots)"

lemma render_roots:
  "rfold (\<lambda>(root, first) (stack, out).
     RenderNode (render_fuel packages) packages root [] True True (stack, if first then out else out @ nl))
     (zip roots (replicate n False)) ({}, out) =
   Inr ({}, out @ concat (map (\<lambda>r. nl @ show_tree [] True True (unfold_tree packages {} r)) roots))"
  if "length roots \<le> n"
  using that
proof (induction roots arbitrary: out n)
  case (Cons r rs)
  have "card (lock_ids packages) \<le> length packages"
    unfolding lock_ids_def by (metis card_length list.set_map length_map)
  then have "card (lock_ids packages - {}) + 1 < render_fuel packages" by (simp add: render_fuel_def)
  from RenderNode_correct [OF this, of r] Cons show ?case
    by (cases n) simp_all
qed simp

lemma join_nl: "join nl (f x # map f xs) = f x @ concat (map (\<lambda>x. nl @ f x) xs)"
  by (induction xs arbitrary: x) auto

lemma RenderDependencyTreeText_eq:
  "RenderDependencyTreeText g = Inr (tree_text (lf_packages (lg_lockfile g)) (lg_root_ids g))"
proof (cases "lg_root_ids g")
  case Nil
  then show ?thesis by (simp add: RenderDependencyTreeText_def tree_text_def)
next
  case (Cons r rs)
  let ?pk = "lf_packages (lg_lockfile g)"
  let ?show = "\<lambda>r. show_tree [] True True (unfold_tree ?pk {} r)"
  have "card (lock_ids ?pk) \<le> length ?pk"
    unfolding lock_ids_def by (metis card_length list.set_map length_map)
  then have "card (lock_ids ?pk - {}) + 1 < render_fuel ?pk" by (simp add: render_fuel_def)
  note first = RenderNode_correct [OF this, of r "[]" True True "[]"]
  show ?thesis
    using first render_roots [of rs "length (lg_root_ids g)" ?pk] Cons
    by (simp add: RenderDependencyTreeText_def Let_def tree_text_def join_nl [of ?show r rs])
qed

subsection \<open>Missing and repeated ids\<close>

lemma missing_ids_unfold:
  assumes "\<forall>p \<in> set packages. set (lk_dependencies p) \<subseteq> lock_ids packages" and "x \<in> lock_ids packages"
  shows "missing_ids (unfold_tree packages path x) = {}"
  using assms
proof (induction packages path x rule: unfold_tree.induct)
  case (1 packages path x)
  obtain p where p: "find (\<lambda>p. lk_id p = x) packages = Some p"
    using "1.prems"(2) by (cases "find (\<lambda>p. lk_id p = x) packages") (auto simp: find_None_iff lock_ids_def)
  then have "p \<in> set packages" by (auto simp: find_Some_iff)
  then have deps: "set (lk_dependencies p) \<subseteq> lock_ids packages" using "1.prems"(1) by blast
  show ?case
  proof (cases "x \<in> path")
    case False
    have "missing_ids (unfold_tree packages (insert x path) d) = {}" if "d \<in> set (lk_dependencies p)" for d
      using "1.IH" [OF False p that "1.prems"(1)] deps that by blast
    with False p show ?thesis by (simp add: unfold_tree.simps [of packages path x])
  qed (simp add: unfold_tree.simps [of packages path x])
qed

text \<open>A repetition on a path is a cycle of the dependency relation.\<close>

definition lock_edges :: "lock_package list \<Rightarrow> (string \<times> string) set" where
  "lock_edges packages = {(a, b). \<exists>p. find (\<lambda>p. lk_id p = a) packages = Some p \<and> b \<in> set (lk_dependencies p)}"

lemma cycle_ids_unfold:
  assumes "\<forall>a \<in> path. (a, x) \<in> (lock_edges packages)\<^sup>+" and "acyclic (lock_edges packages)"
  shows "cycle_ids (unfold_tree packages path x) = {}"
  using assms
proof (induction packages path x rule: unfold_tree.induct)
  case (1 packages path x)
  have x: "x \<notin> path" using "1.prems" by (auto simp: acyclic_def)
  show ?case
  proof (cases "find (\<lambda>p. lk_id p = x) packages")
    case None
    with x show ?thesis by (simp add: unfold_tree.simps [of packages path x])
  next
    case (Some p)
    have "cycle_ids (unfold_tree packages (insert x path) d) = {}" if d: "d \<in> set (lk_dependencies p)" for d
    proof (rule "1.IH" [OF x Some d _ "1.prems"(2)])
      have "(x, d) \<in> lock_edges packages" using Some d by (auto simp: lock_edges_def)
      with "1.prems"(1) show "\<forall>a \<in> insert x path. (a, d) \<in> (lock_edges packages)\<^sup>+"
        by (auto intro: trancl_into_trancl)
    qed
    with x Some show ?thesis by (simp add: unfold_tree.simps [of packages path x])
  qed
qed

end
