(* ===== verification/TreeProperties.thy ===== *)
theory TreeProperties
  imports Tree PlanProperties
begin

section \<open>Properties of the dependency tree\<close>

text \<open>The printed tree is the unfolding of the lockfile, and what it shows for a resolved project.\<close>

text \<open>C37: printing the tree returns for every lockfile, cyclic or with unknown ids, and prints for each root the
  tree the lockfile unfolds to, cut at unknown ids and at ids that repeat on a path, the roots separated by
  empty lines; the mutable set of ids on the path is not visible in the output.\<close>

theorem tree_text_unfolds:
  "RenderDependencyTreeText g =
     Inr (join nl (map (\<lambda>r. show_tree [] True True (unfold_tree (lf_packages (lg_lockfile g)) {} r)) (lg_root_ids g)))"
  by (simp add: RenderDependencyTreeText_eq tree_text_def)

lemma resolved_lock_packages:
  assumes "ResolveSingleVersionGraph fuel env mat manifest_path offline vendor_root w = (Inr g, w')" and "registry_ok mat"
  shows "lf_packages (rg_lockfile g) = map lock_package_of (rg_packages g)"
  by (rule resolved_graph_state [OF assms]) (simp add: graph_of_state_def Let_def)

text \<open>C38: the tree of a resolved project names every dependency: no root's tree has a missing id, and it has no
  repetition if no package depends on itself through others.\<close>

theorem resolved_tree_complete:
  assumes "ResolveSingleVersionGraph fuel env mat manifest_path offline vendor_root w = (Inr g, w')"
    and "registry_ok mat" and "r \<in> set (rg_root_ids g)"
  shows "missing_ids (unfold_tree (lf_packages (lg_lockfile (lock_generation_of g))) {} r) = {} \<and>
    (acyclic (depends_on g) \<longrightarrow> cycle_ids (unfold_tree (lf_packages (lg_lockfile (lock_generation_of g))) {} r) = {})"
proof -
  let ?pk = "map lock_package_of (rg_packages g)"
  have pk: "lf_packages (lg_lockfile (lock_generation_of g)) = ?pk"
    using resolved_lock_packages [OF assms(1,2)] by (simp add: lock_generation_of_def)
  have ids: "lock_ids ?pk = rp_id ` set (rg_packages g)"
    by (auto simp: lock_ids_def lock_package_of_def image_image)
  obtain R rids s where g: "g = graph_of_state R rids s" and inv: "rinv {} s" and rids: "set rids \<subseteq> n_id ` set (st_nodes s)"
    by (rule resolved_graph_state [OF assms(1,2)])
  have "set (lk_dependencies p) \<subseteq> lock_ids ?pk" if pin: "p \<in> set ?pk" for p
  proof -
    obtain q where q: "q \<in> set (rg_packages g)" "p = lock_package_of q" using pin by auto
    obtain n where n: "n \<in> set (st_nodes s)" "lk_dependencies p = n_dependencies n"
      using q unfolding g graph_packages by (auto simp: lock_package_of_def package_of_node_def Let_def)
    from node_done_dependency [OF inv n(1)] show ?thesis
      unfolding ids by (auto simp: g graph_packages n(2) package_of_node_def image_image Let_def)
  qed
  moreover have "r \<in> lock_ids ?pk"
    using assms(3) rids unfolding ids
    by (auto simp: g graph_packages image_image package_of_node_def Let_def) (auto simp: graph_of_state_def Let_def)
  ultimately have "missing_ids (unfold_tree ?pk {} r) = {}" by (intro missing_ids_unfold) auto
  moreover have "lock_edges ?pk \<subseteq> depends_on g"
  proof (clarsimp simp: lock_edges_def)
    fix a b p
    assume "find (\<lambda>p. lk_id p = a) ?pk = Some p" "b \<in> set (lk_dependencies p)"
    then have "p \<in> set ?pk" "lk_id p = a" by (auto simp: find_Some_iff)
    then obtain q where "q \<in> set (rg_packages g)" "p = lock_package_of q" "lk_id p = a" by auto
    with \<open>b \<in> set (lk_dependencies p)\<close> show "(a, b) \<in> depends_on g"
      by (auto simp: depends_on_def lock_package_of_def)
  qed
  then have "acyclic (depends_on g) \<Longrightarrow> cycle_ids (unfold_tree ?pk {} r) = {}"
    by (intro cycle_ids_unfold) (auto intro: acyclic_subset)
  ultimately show ?thesis unfolding pk by simp
qed

theorem resolved_tree_complete_witness:
  "\<exists>r \<in> set (rg_root_ids sample_graph).
     missing_ids (unfold_tree (lf_packages (lg_lockfile (lock_generation_of sample_graph))) {} r) = {}"
proof -
  have "rg_root_ids sample_graph \<noteq> []" unfolding sample_graph_def by code_simp
  then have "hd (rg_root_ids sample_graph) \<in> set (rg_root_ids sample_graph)" by simp
  with resolved_tree_complete [OF sample_resolves sample_registry_ok this] show ?thesis by blast
qed

end
