(* ===== verification/Archive.thy ===== *)
theory Archive
  imports World
begin

section \<open>The archive format of packages\<close>

text \<open>
  The ustar writer of \<open>src/PafioPack/Pack.cpp\<close>: 512-byte headers with octal fields and a checksum, the
  split of a long path into prefix and name, zero padding and the two final blocks.  The reference reader
  below follows the format, not the writer.  Errors are \<open>PackError\<close>.
\<close>

subsection \<open>The writer\<close>

definition zeros :: "nat \<Rightarrow> string" where
  "zeros n = replicate n (CHR 0x00)"

text \<open>\<open>memcpy\<close> and \<open>fill\<close> into the header.\<close>

definition put_at :: "nat \<Rightarrow> string \<Rightarrow> string \<Rightarrow> string" where
  "put_at offset bytes header = take offset header @ bytes @ drop (offset + length bytes) header"

definition HexOctal :: "nat \<Rightarrow> string" where
  "HexOctal n = render 8 n"

definition WriteOctalField :: "nat \<Rightarrow> nat \<Rightarrow> nat \<Rightarrow> string \<Rightarrow> string result" where
  "WriteOctalField offset len n header =
     (let octal = HexOctal n in
      if len < length octal + 1 then Inl (PackError ''archive field exceeds ustar numeric limit'')
      else Inr (put_at (offset + len - 1) [CHR 0x00]
             (put_at (offset + (len - 1 - length octal)) octal
             (put_at offset (replicate len CHR ''0'') header))))"

definition WriteChecksumField :: "nat \<Rightarrow> string \<Rightarrow> string result" where
  "WriteChecksumField checksum header =
     (let octal = HexOctal checksum in
      if 6 < length octal then Inl (PackError ''archive checksum exceeds ustar limit'')
      else Inr (put_at 155 '' '' (put_at 154 [CHR 0x00]
             (put_at (148 + (6 - length octal)) octal
             (put_at 148 (replicate 8 CHR '' '') header)))))"

text \<open>The loop over the separators from the right, at the separator \<open>split\<close>.\<close>

function split_at_separator :: "string \<Rightarrow> nat \<Rightarrow> (string \<times> string) option" where
  "split_at_separator path split =
     (let candidate_prefix = take split path; candidate_name = drop (split + 1) path in
      if candidate_prefix \<noteq> [] \<and> length candidate_prefix \<le> 155 \<and> candidate_name \<noteq> [] \<and> length candidate_name \<le> 100
        then Some (candidate_name, candidate_prefix)
      else if split = 0 then None
      else case rfind_upto slash path (split - 1) of
          None \<Rightarrow> None
        | Some split' \<Rightarrow> split_at_separator path split')"
  by pat_completeness auto
termination
  by (relation "measure snd") (auto dest!: rfind_upto_Some)

declare split_at_separator.simps [simp del]

definition SplitArchivePathForUstar :: "string \<Rightarrow> (string \<times> string) result" where
  "SplitArchivePathForUstar path =
     (if path = [] then Inl (PackError ''archive entry path must not be empty'')
      else if length path \<le> 100 then Inr (path, [])
      else case Option.bind (rfind_char slash path) (split_at_separator path) of
          Some r \<Rightarrow> Inr r
        | None \<Rightarrow> Inl (PackError (''archive entry exceeds ustar path limits: '' @ path)))"

definition header_sum :: "string \<Rightarrow> nat" where
  "header_sum header = sum_list (map of_char header)"

definition tar_header :: "string \<Rightarrow> nat \<Rightarrow> string result" where
  "tar_header archive_path len =
     rbind (SplitArchivePathForUstar archive_path) (\<lambda>(name, pre).
     rbind (WriteOctalField 100 8 420 (put_at 345 pre (put_at 0 name (zeros 512)))) (\<lambda>h.
     rbind (WriteOctalField 108 8 0 h) (\<lambda>h.
     rbind (WriteOctalField 116 8 0 h) (\<lambda>h.
     rbind (WriteOctalField 124 12 len h) (\<lambda>h.
     rbind (WriteOctalField 136 12 0 h) (\<lambda>h.
     let h = put_at 263 ''00'' (put_at 262 [CHR 0x00] (put_at 257 ''ustar'' (put_at 156 ''0''
               (put_at 148 (replicate 8 CHR '' '') h))))
     in WriteChecksumField (header_sum h) h))))))"

definition padding :: "nat \<Rightarrow> string" where
  "padding len = (if len mod 512 = 0 then [] else zeros (512 - len mod 512))"

definition WriteTarEntry :: "string \<Rightarrow> string \<Rightarrow> string result" where
  "WriteTarEntry archive_path contents =
     rbind (tar_header archive_path (length contents)) (\<lambda>header. Inr (header @ contents @ padding (length contents)))"

text \<open>The bytes of an archive whose entries have been read.\<close>

fun tar_bytes :: "(string \<times> string) list \<Rightarrow> string result" where
  "tar_bytes [] = Inr (zeros 1024)"
| "tar_bytes ((path, contents) # es) =
     rbind (WriteTarEntry path contents) (\<lambda>e. rbind (tar_bytes es) (\<lambda>bytes. Inr (e @ bytes)))"

subsection \<open>A reader of the format\<close>

definition field :: "nat \<Rightarrow> nat \<Rightarrow> string \<Rightarrow> string" where
  "field offset len block = take len (drop offset block)"

text \<open>A text field ends at its first zero byte, a number at its first zero or blank; leading blanks are skipped.\<close>

definition text_field :: "nat \<Rightarrow> nat \<Rightarrow> string \<Rightarrow> string" where
  "text_field offset len block = takeWhile (\<lambda>c. c \<noteq> CHR 0x00) (field offset len block)"

definition number_field :: "nat \<Rightarrow> nat \<Rightarrow> string \<Rightarrow> nat" where
  "number_field offset len block =
     unrender 8 (takeWhile (\<lambda>c. c \<noteq> CHR 0x00 \<and> c \<noteq> CHR '' '')
       (dropWhile (\<lambda>c. c = CHR '' '') (field offset len block)))"

definition checksum_ok :: "string \<Rightarrow> bool" where
  "checksum_ok block \<longleftrightarrow> number_field 148 8 block = header_sum (put_at 148 (replicate 8 CHR '' '') block)"

definition member_path :: "string \<Rightarrow> string" where
  "member_path block = (let name = text_field 0 100 block; pre = text_field 345 155 block in
     if pre = [] then name else pre @ ''/'' @ name)"

definition read_header :: "string \<Rightarrow> (string \<times> nat) option" where
  "read_header block =
     (if length block = 512 \<and> field 257 8 block = ''ustar'' @ [CHR 0x00] @ ''00'' \<and> field 156 1 block = ''0'' \<and> checksum_ok block
      then Some (member_path block, number_field 124 12 block) else None)"

definition round_up :: "nat \<Rightarrow> nat" where
  "round_up n = (n + 511) div 512 * 512"

function read_tar :: "string \<Rightarrow> (string \<times> string) list option" where
  "read_tar bytes =
     (if take 1024 bytes = zeros 1024 then Some []
      else if length bytes < 512 then None
      else case read_header (take 512 bytes) of
          None \<Rightarrow> None
        | Some (path, len) \<Rightarrow>
           if length bytes < 512 + round_up len then None
           else map_option (Cons (path, take len (drop 512 bytes))) (read_tar (drop (512 + round_up len) bytes)))"
  by pat_completeness auto
termination by (relation "measure length") auto

declare read_tar.simps [simp del]

subsection \<open>Fields of a block\<close>

lemma length_put_at [simp]: "offset + length bytes \<le> length h \<Longrightarrow> length (put_at offset bytes h) = length h"
  by (simp add: put_at_def)

lemma length_zeros [simp]: "length (zeros n) = n"
  by (simp add: zeros_def)

lemma field_put_same: "offset + length bytes \<le> length h \<Longrightarrow> field offset (length bytes) (put_at offset bytes h) = bytes"
  by (simp add: field_def put_at_def)

lemma field_put_other:
  assumes "o' + length bytes \<le> length h" and "offset + len \<le> o' \<or> o' + length bytes \<le> offset"
  shows "field offset len (put_at o' bytes h) = field offset len h"
  using assms(2)
proof
  assume before: "offset + len \<le> o'"
  then have "min (o' - offset) len = len" by simp
  with before show ?thesis using assms(1)
    by (simp add: field_def put_at_def take_drop min_def)
next
  assume "o' + length bytes \<le> offset"
  then obtain k where "offset = o' + length bytes + k" by (metis le_Suc_ex)
  with assms(1) show ?thesis by (simp add: field_def put_at_def add_ac)
qed

lemma put_at_field: "offset + length bytes \<le> length h \<Longrightarrow> field offset (length bytes) h = bytes \<Longrightarrow> put_at offset bytes h = h"
  unfolding put_at_def field_def by (metis append_take_drop_id drop_drop add.commute)

lemma put_at_again:
  "length b = length c \<Longrightarrow> offset + length b \<le> length h \<Longrightarrow> put_at offset b (put_at offset c h) = put_at offset b h"
  by (simp add: put_at_def)

lemma put_at_inside:
  "i + length a \<le> length b \<Longrightarrow> offset + length b \<le> length h \<Longrightarrow>
     put_at (offset + i) a (put_at offset b h) = put_at offset (put_at i a b) h"
proof -
  assume le: "i + length a \<le> length b" "offset + length b \<le> length h"
  then obtain k where k: "length b = i + length a + k" using le_Suc_ex by blast
  have "length (take offset h) = offset" using le by simp
  then show ?thesis using k by (simp add: put_at_def add.assoc)
qed

text \<open>What the two numeric writers put into their field.\<close>

definition octal_field :: "nat \<Rightarrow> nat \<Rightarrow> string" where
  "octal_field len n = replicate (len - 1 - length (HexOctal n)) CHR ''0'' @ HexOctal n @ [CHR 0x00]"

definition checksum_field :: "nat \<Rightarrow> string" where
  "checksum_field n = replicate (6 - length (HexOctal n)) CHR '' '' @ HexOctal n @ [CHR 0x00, CHR '' '']"

lemma WriteOctalField_eq:
  assumes "offset + len \<le> length h"
  shows "WriteOctalField offset len n h =
    (if len < length (HexOctal n) + 1 then Inl (PackError ''archive field exceeds ustar numeric limit'')
     else Inr (put_at offset (octal_field len n) h))"
proof (cases "len < length (HexOctal n) + 1")
  case False
  then obtain k where len: "len = k + length (HexOctal n) + 1" by (metis add.assoc add.commute le_Suc_ex not_less)
  define d where "d = HexOctal n"
  let ?f = "replicate len (CHR ''0'')"
  have "put_at (offset + len - 1) [CHR 0x00] (put_at (offset + (len - 1 - length d)) d (put_at offset ?f h)) =
      put_at offset (put_at (len - 1) [CHR 0x00] (put_at (len - 1 - length d) d ?f)) h"
    using assms len put_at_inside [of "len - 1" "[CHR 0x00]" "put_at (len - 1 - length d) d ?f" offset h]
    by (simp add: put_at_inside d_def add.assoc)
  also have "put_at (len - 1) [CHR 0x00] (put_at (len - 1 - length d) d ?f) = octal_field len n"
  proof -
    have "?f = replicate k CHR ''0'' @ replicate (length d) CHR ''0'' @ replicate 1 CHR ''0''"
      unfolding len d_def by (simp only: replicate_add append_assoc)
    then show ?thesis by (simp add: put_at_def octal_field_def len d_def [symmetric])
  qed
  finally show ?thesis using False by (simp add: WriteOctalField_def d_def)
qed (simp add: WriteOctalField_def)

lemma WriteChecksumField_eq:
  assumes "length h = 512"
  shows "WriteChecksumField n h =
    (if 6 < length (HexOctal n) then Inl (PackError ''archive checksum exceeds ustar limit'')
     else Inr (put_at 148 (checksum_field n) h))"
proof (cases "6 < length (HexOctal n)")
  case False
  define d where "d = HexOctal n"
  obtain k where k: "6 = k + length d" using False by (metis add.commute le_Suc_ex not_less d_def)
  let ?f = "replicate 8 (CHR '' '')"
  have "put_at 155 '' '' (put_at 154 [CHR 0x00] (put_at (148 + (6 - length d)) d (put_at 148 ?f h))) =
      put_at 148 (put_at 7 '' '' (put_at 6 [CHR 0x00] (put_at (6 - length d) d ?f))) h"
    using assms False put_at_inside [of "6 - length d" d ?f 148 h]
      put_at_inside [of 6 "[CHR 0x00]" "put_at (6 - length d) d ?f" 148 h]
      put_at_inside [of 7 "'' ''" "put_at 6 [CHR 0x00] (put_at (6 - length d) d ?f)" 148 h]
    by (simp add: d_def)
  also have "put_at 7 '' '' (put_at 6 [CHR 0x00] (put_at (6 - length d) d ?f)) = checksum_field n"
  proof -
    have "8 = k + (length d + 2)" using k by simp
    then have "?f = replicate k (CHR '' '') @ replicate (length d) (CHR '' '') @ replicate 2 (CHR '' '')"
      by (simp only: replicate_add)
    also have "replicate 2 (CHR '' '') = '' '' @ '' ''" by (simp add: eval_nat_numeral)
    finally show ?thesis using k by (simp add: put_at_def checksum_field_def d_def [symmetric])
  qed
  finally show ?thesis using False by (simp add: WriteChecksumField_def d_def)
qed (simp add: WriteChecksumField_def)

subsection \<open>Numbers in fields\<close>

lemma octal_char: "c \<in> set (HexOctal n) \<Longrightarrow> c \<noteq> CHR 0x00 \<and> c \<noteq> CHR '' ''"
proof -
  assume "c \<in> set (HexOctal n)"
  then obtain d where "d < 8" "c = digit_char d"
    using render_chars [of 8 c n] unfolding HexOctal_def by auto
  then have "(of_char c :: nat) = 48 + d" by (simp add: digit_char_def of_char_of take_bit_eq_mod)
  then show ?thesis by auto
qed

lemma unrender_zeros: "unrender 8 (replicate k CHR ''0'' @ HexOctal n) = n"
proof -
  have "foldl (\<lambda>acc d. acc * 8 + d) 0 (replicate k (0::nat)) = 0" by (induction k) simp_all
  moreover have "char_digit CHR ''0'' = 0" by (simp add: char_digit_def)
  ultimately have "unrender 8 (replicate k CHR ''0'' @ HexOctal n) = unrender 8 (HexOctal n)"
    by (simp add: unrender_def horner_def)
  then show ?thesis by (simp add: HexOctal_def unrender_render)
qed

lemma digits_of_field:
  assumes "\<And>c. c \<in> set d \<Longrightarrow> c \<noteq> CHR 0x00 \<and> c \<noteq> CHR '' ''"
  shows "takeWhile (\<lambda>c. c \<noteq> CHR 0x00 \<and> c \<noteq> CHR '' '')
    (dropWhile (\<lambda>c. c = CHR '' '') (replicate k (CHR '' '') @ d @ CHR 0x00 # r)) = d"
proof -
  have "dropWhile (\<lambda>c. c = CHR '' '') (d @ CHR 0x00 # r) = d @ CHR 0x00 # r"
    using assms by (cases d) auto
  then have "dropWhile (\<lambda>c. c = CHR '' '') (replicate k (CHR '' '') @ d @ CHR 0x00 # r) = d @ CHR 0x00 # r"
    by (induction k) simp_all
  moreover have "takeWhile (\<lambda>c. c \<noteq> CHR 0x00 \<and> c \<noteq> CHR '' '') (d @ CHR 0x00 # r) = d"
    using assms by (induction d) auto
  ultimately show ?thesis by simp
qed

lemma number_field_octal:
  assumes "field offset len block = octal_field len n"
  shows "number_field offset len block = n"
proof -
  define k where "k = len - 1 - length (HexOctal n)"
  let ?d = "replicate k CHR ''0'' @ HexOctal n"
  have no: "c \<in> set ?d \<Longrightarrow> c \<noteq> CHR 0x00 \<and> c \<noteq> CHR '' ''" for c
    using octal_char by (auto split: if_splits)
  have "field offset len block = replicate 0 (CHR '' '') @ ?d @ CHR 0x00 # []"
    using assms by (simp add: octal_field_def k_def)
  then have "number_field offset len block = unrender 8 ?d"
    unfolding number_field_def using digits_of_field [OF no, where k = 0 and r = "[]"] by (simp only:)
  then show ?thesis by (simp add: unrender_zeros)
qed

lemma number_field_checksum:
  assumes "field 148 8 block = checksum_field n"
  shows "number_field 148 8 block = n"
  using assms unrender_zeros [of 0 n] digits_of_field [OF octal_char]
  by (simp add: number_field_def checksum_field_def)

text \<open>The checksum of a block fits its field.\<close>

lemma sum_list_bound: "(\<And>x. x \<in> set xs \<Longrightarrow> x \<le> b) \<Longrightarrow> sum_list xs \<le> length xs * (b::nat)"
  by (induction xs) (auto intro: add_mono)

lemma header_sum_octal: "length h = 512 \<Longrightarrow> length (HexOctal (header_sum h)) \<le> 6"
proof -
  assume h: "length h = 512"
  have "(of_char c :: nat) \<le> 255" for c 
    using nat_of_char_less_256 [of c] by linarith
  then have "header_sum h \<le> length (map (of_char :: char \<Rightarrow> nat) h) * 255"
    unfolding header_sum_def by (intro sum_list_bound) auto
  then have "header_sum h < 8 ^ 6" using h by simp
  then show ?thesis unfolding HexOctal_def length_render by (intro length_radix_le) auto
qed

subsection \<open>The split of a long path\<close>

definition split_fits :: "string \<Rightarrow> nat \<Rightarrow> bool" where
  "split_fits path i \<longleftrightarrow> i < length path \<and> path ! i = slash \<and>
     0 < i \<and> i \<le> 155 \<and> i + 1 < length path \<and> length path \<le> i + 101"

lemma split_at_separator_Some:
  assumes "split_at_separator path i = Some (name, pre)" and "i < length path" and "path ! i = slash"
  shows "path = pre @ slash # name \<and> pre \<noteq> [] \<and> length pre \<le> 155 \<and> name \<noteq> [] \<and> length name \<le> 100"
  using assms
proof (induction path i rule: split_at_separator.induct)
  case (1 path i)
  show ?case
  proof (cases "take i path \<noteq> [] \<and> length (take i path) \<le> 155 \<and> drop (i + 1) path \<noteq> [] \<and> length (drop (i + 1) path) \<le> 100")
    case True
    have "split_at_separator path i = Some (drop (i + 1) path, take i path)"
      unfolding split_at_separator.simps [of path i] Let_def using True by (rule if_P)
    then have "name = drop (i + 1) path" "pre = take i path" using "1.prems"(1) by simp_all
    moreover have "path = take i path @ slash # drop (Suc i) path"
      using "1.prems"(2,3) id_take_nth_drop by metis
    ultimately show ?thesis using True "1.prems"(2) by (auto simp: min_def split: if_splits)
  next
    case False
    with "1.prems"(1) obtain j where j: "i \<noteq> 0" "rfind_upto slash path (i - 1) = Some j" "split_at_separator path j = Some (name, pre)"
      unfolding split_at_separator.simps [of path i] Let_def by (auto split: if_splits option.splits)
    with "1.IH" [OF refl refl False j(1,2)] rfind_upto_Some [OF j(2)] show ?thesis by simp
  qed
qed

lemma split_at_separator_None:
  assumes "split_at_separator path i = None" and "j \<le> i" and "i < length path" and "path ! i = slash"
  shows "\<not> split_fits path j"
  using assms
proof (induction path i arbitrary: j rule: split_at_separator.induct)
  case (1 path i)
  have no: "\<not> (take i path \<noteq> [] \<and> length (take i path) \<le> 155 \<and> drop (i + 1) path \<noteq> [] \<and> length (drop (i + 1) path) \<le> 100)"
    using "1.prems"(1) unfolding split_at_separator.simps [of path i] Let_def by (auto split: if_splits)
  then have here: "\<not> split_fits path i" using "1.prems"(3) by (auto simp: split_fits_def)
  show ?case
  proof (cases "i = 0 \<or> j = i")
    case True
    with here "1.prems"(2) show ?thesis by auto
  next
    case False
    then have i: "i \<noteq> 0" and ji: "j \<le> i - 1" using "1.prems"(2) by auto
    show ?thesis
    proof (cases "rfind_upto slash path (i - 1)")
      case None
      with rfind_upto_None [OF None] ji show ?thesis by (auto simp: split_fits_def)
    next
      case (Some k)
      with "1.prems"(1) no i have "split_at_separator path k = None"
        unfolding split_at_separator.simps [of path i] Let_def by (auto split: if_splits)
      moreover note rfind_upto_Some [OF Some]
      ultimately have "j \<le> k \<Longrightarrow> \<not> split_fits path j" using "1.IH" [OF refl refl no i Some] by simp
      moreover have "k < j \<Longrightarrow> \<not> split_fits path j"
        using rfind_upto_last [OF Some _ ji] "1.prems"(3) by (auto simp: split_fits_def)
      ultimately show ?thesis by linarith
    qed
  qed
qed

lemma SplitArchivePathForUstar_Inr:
  assumes "SplitArchivePathForUstar path = Inr (name, pre)"
  shows "path = (if pre = [] then name else pre @ slash # name) \<and> name \<noteq> [] \<and> length name \<le> 100 \<and> length pre \<le> 155"
proof (cases "length path \<le> 100")
  case True
  with assms show ?thesis by (auto simp: SplitArchivePathForUstar_def split: if_splits)
next
  case False
  with assms obtain i where i: "rfind_char slash path = Some i" "split_at_separator path i = Some (name, pre)"
    by (auto simp: SplitArchivePathForUstar_def split: if_splits option.splits bind_splits)
  from split_at_separator_Some [OF i(2)] rfind_char_Some [OF i(1)] show ?thesis by auto
qed

subsection \<open>What the reader sees of a written header\<close>

lemma length_octal_field: "length (HexOctal n) < len \<Longrightarrow> length (octal_field len n) = len"
  by (simp add: octal_field_def)

lemma length_checksum_field: "length (HexOctal n) \<le> 6 \<Longrightarrow> length (checksum_field n) = 8"
  by (simp add: checksum_field_def)

lemma takeWhile_zeros: "CHR 0x00 \<notin> set xs \<Longrightarrow> takeWhile (\<lambda>c. c \<noteq> CHR 0x00) (xs @ zeros k) = xs"
  by (subst takeWhile_append2) (auto simp: zeros_def takeWhile_eq_Nil_iff)

lemma field_put_zeros:
  assumes "length bytes \<le> len" and "offset + len \<le> length h" and "field offset len h = zeros len"
  shows "field offset len (put_at offset bytes h) = bytes @ zeros (len - length bytes)"
proof -
  have "drop (length bytes) (field offset len h) = zeros (len - length bytes)"
    using assms(3) by (simp add: zeros_def)
  then have "take (len - length bytes) (drop (offset + length bytes) h) = zeros (len - length bytes)"
    by (simp add: field_def drop_take add.commute)
  then show ?thesis using assms(1,2) by (simp add: field_def put_at_def)
qed

text \<open>The block before the checksum is written.\<close>

definition unsigned_block :: "string \<Rightarrow> string \<Rightarrow> nat \<Rightarrow> string" where
  "unsigned_block name pre len =
     put_at 263 ''00'' (put_at 262 [CHR 0x00] (put_at 257 ''ustar'' (put_at 156 ''0''
       (put_at 148 (replicate 8 CHR '' '')
       (put_at 136 (octal_field 12 0) (put_at 124 (octal_field 12 len) (put_at 116 (octal_field 8 0)
       (put_at 108 (octal_field 8 0) (put_at 100 (octal_field 8 420)
       (put_at 345 pre (put_at 0 name (zeros 512))))))))))))"

lemma octal_small: "length (HexOctal 420) < 8" "length (HexOctal 0) < 8"
  by code_simp+

lemma tar_header_Inr:
  assumes "tar_header path len = Inr h"
  obtains name pre where "SplitArchivePathForUstar path = Inr (name, pre)" "length (HexOctal len) < 12"
    "h = put_at 148 (checksum_field (header_sum (unsigned_block name pre len))) (unsigned_block name pre len)"
    "length (unsigned_block name pre len) = 512"
proof -
  obtain name pre where split: "SplitArchivePathForUstar path = Inr (name, pre)"
    using assms by (auto simp: tar_header_def result_simps)
  have S: "length name \<le> 100" "length pre \<le> 155" using SplitArchivePathForUstar_Inr [OF split] by simp_all
  note lens = length_octal_field [OF octal_small(1)] length_octal_field [OF octal_small(2)] length_octal_field [of 0 12]
    octal_small
  have len: "length (HexOctal len) < 12"
    using assms S lens by (simp add: tar_header_def split WriteOctalField_eq Let_def split: if_splits)
  note lens = lens length_octal_field [OF len]
  have L: "length (unsigned_block name pre len) = 512"
    using S lens by (simp add: unsigned_block_def)
  have "tar_header path len = WriteChecksumField (header_sum (unsigned_block name pre len)) (unsigned_block name pre len)"
    using S lens len
    by (simp add: tar_header_def split WriteOctalField_eq Let_def unsigned_block_def)
  with assms have "h = put_at 148 (checksum_field (header_sum (unsigned_block name pre len))) (unsigned_block name pre len)"
    unfolding WriteChecksumField_eq [OF L] by (simp split: if_splits)
  with split len L that show thesis by blast
qed

lemma tar_header_succeeds:
  assumes "SplitArchivePathForUstar path = Inr (name, pre)" and "length (HexOctal len) < 12"
  shows "\<exists>h. tar_header path len = Inr h"
proof -
  have S: "length name \<le> 100" "length pre \<le> 155" using SplitArchivePathForUstar_Inr [OF assms(1)] by simp_all
  note lens = length_octal_field [OF octal_small(1)] length_octal_field [OF octal_small(2)] length_octal_field [of 0 12]
    octal_small length_octal_field [OF assms(2)] assms(2)
  have L: "length (unsigned_block name pre len) = 512"
    using S lens by (simp add: unsigned_block_def)
  have "tar_header path len = WriteChecksumField (header_sum (unsigned_block name pre len)) (unsigned_block name pre len)"
    using S lens by (simp add: tar_header_def assms(1) WriteOctalField_eq Let_def unsigned_block_def)
  with header_sum_octal [OF L] show ?thesis by (simp add: WriteChecksumField_eq [OF L])
qed

lemma WriteTarEntry_short:
  assumes "path \<noteq> []" and "length path \<le> 100" and "length contents < 8 ^ 11"
  shows "\<exists>b. WriteTarEntry path contents = Inr b"
proof -
  have "SplitArchivePathForUstar path = Inr (path, [])" using assms(1,2) by (simp add: SplitArchivePathForUstar_def)
  moreover have "length (HexOctal (length contents)) \<le> 11"
    unfolding HexOctal_def length_render by (rule length_radix_le) (use assms(3) in auto)
  ultimately obtain h where "tar_header path (length contents) = Inr h"
    using tar_header_succeeds [of path path "[]" "length contents"] by auto
  then show ?thesis by (simp add: WriteTarEntry_def)
qed

lemma unsigned_block_fields:
  assumes "length name \<le> 100" and "length pre \<le> 155" and "length (HexOctal len) < 12"
  shows "field 0 100 (unsigned_block name pre len) = name @ zeros (100 - length name)"
    and "field 345 155 (unsigned_block name pre len) = pre @ zeros (155 - length pre)"
    and "field 124 12 (unsigned_block name pre len) = octal_field 12 len"
    and "field 148 8 (unsigned_block name pre len) = replicate 8 CHR '' ''"
    and "field 156 1 (unsigned_block name pre len) = ''0''"
    and "field 257 8 (unsigned_block name pre len) = ''ustar'' @ [CHR 0x00] @ ''00''"
proof -
  note lens = length_octal_field [OF octal_small(1)] length_octal_field [OF octal_small(2)]
    length_octal_field [OF assms(3)] length_octal_field [of 0 12] octal_small assms
  have z: "field a n (zeros 512) = zeros n" if "a + n \<le> 512" for a n
    using that by (simp add: field_def zeros_def)
  show "field 0 100 (unsigned_block name pre len) = name @ zeros (100 - length name)"
    using lens by (simp add: unsigned_block_def field_put_other field_put_zeros z)
  show "field 345 155 (unsigned_block name pre len) = pre @ zeros (155 - length pre)"
    using lens by (simp add: unsigned_block_def field_put_other field_put_zeros z)
  show "field 124 12 (unsigned_block name pre len) = octal_field 12 len"
    using lens field_put_same [of 124 "octal_field 12 len"]
    by (simp add: unsigned_block_def field_put_other)
  show "field 148 8 (unsigned_block name pre len) = replicate 8 CHR '' ''"
    using lens field_put_same [of 148 "replicate 8 (CHR '' '')"]
    by (simp add: unsigned_block_def field_put_other)
  show "field 156 1 (unsigned_block name pre len) = ''0''"
    using lens field_put_same [of 156 "''0''"]
    by (simp add: unsigned_block_def field_put_other)
  show "field 257 8 (unsigned_block name pre len) = ''ustar'' @ [CHR 0x00] @ ''00''"
  proof -
    have "put_at 263 ''00'' (put_at 262 [CHR 0x00] (put_at 257 ''ustar'' h)) = put_at 257 (''ustar'' @ [CHR 0x00] @ ''00'') h"
      if "length h = 512" for h
      using that by (simp add: put_at_def min_def)
    moreover have "field 257 8 (put_at 257 (''ustar'' @ [CHR 0x00] @ ''00'') h) = ''ustar'' @ [CHR 0x00] @ ''00''"
      if "length h = 512" for h
      using that by (simp add: field_def put_at_def)
    ultimately show ?thesis using lens by (simp add: unsigned_block_def)
  qed
qed

lemma read_header_written:
  assumes "tar_header path len = Inr h" and "CHR 0x00 \<notin> set path"
  shows "read_header h = Some (path, len)" and "length h = 512"
proof -
  obtain name pre where split: "SplitArchivePathForUstar path = Inr (name, pre)" and len: "length (HexOctal len) < 12"
    and h: "h = put_at 148 (checksum_field (header_sum (unsigned_block name pre len))) (unsigned_block name pre len)"
    and L: "length (unsigned_block name pre len) = 512"
    by (rule tar_header_Inr [OF assms(1)])
  let ?b = "unsigned_block name pre len" and ?c = "checksum_field (header_sum (unsigned_block name pre len))"
  note S = SplitArchivePathForUstar_Inr [OF split]
  have c8: "length ?c = 8" by (rule length_checksum_field [OF header_sum_octal [OF L]])
  note F = unsigned_block_fields [of name pre len]
  have nul: "CHR 0x00 \<notin> set name" "CHR 0x00 \<notin> set pre"
    using assms(2) S by (auto split: if_splits)
  show H: "length h = 512" using c8 L by (simp add: h)
  have other: "field a n h = field a n ?b" if "a + n \<le> 148 \<or> 156 \<le> a" for a n
    unfolding h using that c8 L by (intro field_put_other) auto
  have "member_path h = path"
    using S len nul by (simp add: member_path_def text_field_def other F takeWhile_zeros Let_def)
  moreover have "number_field 124 12 h = len"
    using S len by (intro number_field_octal) (simp add: other F)
  moreover have "checksum_ok h"
  proof -
    have "field 148 8 h = ?c" unfolding h using c8 L field_put_same [of 148 ?c ?b] by simp
    then have "number_field 148 8 h = header_sum ?b" by (rule number_field_checksum)
    moreover have "put_at 148 (replicate 8 CHR '' '') h = put_at 148 (replicate 8 CHR '' '') ?b"
      unfolding h using c8 L by (intro put_at_again) auto
    moreover have "put_at 148 (replicate 8 CHR '' '') ?b = ?b"
      using S len L F(4) by (intro put_at_field) auto
    ultimately show ?thesis by (simp add: checksum_ok_def)
  qed
  ultimately show "read_header h = Some (path, len)"
    using H S len by (simp add: read_header_def other F F(5) [unfolded One_nat_def])
qed

subsection \<open>Round trip\<close>

lemma round_up_padding: "round_up n = n + length (padding n)"
proof -
  obtain q r where n: "n = 512 * q + r" "r < 512"
    using mult_div_mod_eq [of 512 n] mod_less_divisor [of 512 n] by (metis zero_less_numeral)
  show ?thesis
  proof (cases r)
    case 0
    then show ?thesis by (simp add: round_up_def padding_def n)
  next
    case (Suc k)
    have "(n + 511) div 512 = (k + 512 * (q + 1)) div 512" by (simp add: n Suc)
    also have "\<dots> = q + 1" using n(2) Suc by simp
    finally show ?thesis using n by (simp add: round_up_def padding_def Suc)
  qed
qed

lemma written_not_end:
  assumes "read_header h = Some r"
  shows "take 1024 (h @ rest) \<noteq> zeros 1024"
proof
  assume z: "take 1024 (h @ rest) = zeros 1024"
  have h: "length h = 512" "field 257 8 h = ''ustar'' @ [CHR 0x00] @ ''00''"
    using assms by (auto simp: read_header_def split: if_splits)
  have "field 257 8 h = field 257 8 (take 1024 (h @ rest))"
    using h(1) by (simp add: field_def)
  also have "\<dots> = zeros 8" unfolding z by (simp add: field_def zeros_def)
  finally show False using h(2) by (simp add: zeros_def eval_nat_numeral)
qed

lemma read_tar_bytes:
  assumes "tar_bytes es = Inr bytes" and "\<forall>(path, contents) \<in> set es. CHR 0x00 \<notin> set path"
  shows "read_tar bytes = Some es"
  using assms
proof (induction es arbitrary: bytes rule: tar_bytes.induct)
  case 1
  then show ?case by (subst read_tar.simps) (auto simp: zeros_def)
next
  case (2 path contents es)
  then obtain h rest where h: "tar_header path (length contents) = Inr h" and rest: "tar_bytes es = Inr rest"
    and bytes: "bytes = h @ contents @ padding (length contents) @ rest"
    by (auto simp: WriteTarEntry_def result_simps)
  have "CHR 0x00 \<notin> set path" using "2.prems"(2) by simp
  note H = read_header_written [OF h this]
  have "read_tar rest = Some es"
    using "2.IH" [OF rest] "2.prems"(2) by simp
  moreover have "drop (512 + round_up (length contents)) bytes = rest"
    using H(2) by (simp add: bytes round_up_padding)
  moreover have "take 512 bytes = h" "take (length contents) (drop 512 bytes) = contents"
    "512 + round_up (length contents) \<le> length bytes"
    using H(2) by (simp_all add: bytes round_up_padding)
  moreover have "take 1024 bytes \<noteq> zeros 1024"
    unfolding bytes by (rule written_not_end [OF H(1)])
  ultimately show ?case
    using H(1) by (subst read_tar.simps) simp
qed

end
