(* ===== verification/Pack.thy ===== *)
theory Pack
  imports Archive Resolver
begin

section \<open>Packing a source package\<close>

text \<open>
  \<open>src/PafioPack/Pack.cpp\<close> around the archive format: the choice of the package, the files that go in, and
  the writing of the archive through a temporary file.  The directory walk visits the nodes of the file
  system below the package root; the order in which a walk meets them is not specified, so which of several
  unsupported files an error names is not either.  Nodes below an excluded directory are excluded by the same
  test, so that the walk need not skip them.
\<close>

subsection \<open>Choosing the package\<close>

record pack_request =
  pq_manifest_path :: string
  pq_package_name :: "string option"
  pq_output_path :: "string option"

record pack_result =
  pk_manifest_path :: string
  pk_package_root :: string
  pk_archive_path :: string
  pk_package_name :: string
  pk_package_version :: string
  pk_archive_prefix :: string
  pk_file_count :: nat

record package_selection =
  ps_manifest_path :: string
  ps_package_root :: string
  ps_manifest :: manifest_document
  ps_package :: package_config

record pack_entry =
  pe_archive_path :: string
  pe_source_path :: "string option"
  pe_inline_contents :: "string option"

definition member_candidate :: "env \<Rightarrow> fs \<Rightarrow> string \<Rightarrow> string \<Rightarrow> package_selection result" where
  "member_candidate env w root_dir member =
     (let path = canonical env (path_append (path_append root_dir member) ''pafio.toml'') in
      rbind (LoadManifest env w path) (\<lambda>m.
      case doc_package m of
        None \<Rightarrow> Inl (WorkspaceError (''workspace member manifest must define [package]: '' @ path))
      | Some p \<Rightarrow> Inr \<lparr>ps_manifest_path = path, ps_package_root = parent_path path, ps_manifest = m, ps_package = p\<rparr>))"

definition CollectPackageCandidates :: "env \<Rightarrow> fs \<Rightarrow> string \<Rightarrow> package_selection list result" where
  "CollectPackageCandidates env w root_manifest_path =
     (let path = canonical env root_manifest_path; root_dir = parent_path path in
      rbind (LoadManifest env w path) (\<lambda>m.
      rbind (case doc_workspace m of
          None \<Rightarrow> Inr []
        | Some ws \<Rightarrow> rmap (member_candidate env w root_dir) (ws_members ws)) (\<lambda>members.
      Inr ((case doc_package m of
          None \<Rightarrow> []
        | Some p \<Rightarrow> [\<lparr>ps_manifest_path = path, ps_package_root = root_dir, ps_manifest = m, ps_package = p\<rparr>]) @ members))))"

definition SelectPackageForPack :: "env \<Rightarrow> fs \<Rightarrow> pack_request \<Rightarrow> package_selection result" where
  "SelectPackageForPack env w rq =
     (let root_manifest_path = canonical env (pq_manifest_path rq) in
      rbind (CollectPackageCandidates env w root_manifest_path) (\<lambda>candidates.
      if candidates = [] then Inl (PackError ''pack requires a manifest with a local [package] target'')
      else case pq_package_name rq of
        Some name \<Rightarrow> (case filter (\<lambda>c. pkg_name (ps_package c) = name) candidates of
            [] \<Rightarrow> Inl (PackError (''selected package was not found under the active manifest: '' @ name))
          | [c] \<Rightarrow> Inr c
          | _ \<Rightarrow> Inl (PackError (''selected package is ambiguous under the active manifest: '' @ name)))
      | None \<Rightarrow> (case find (\<lambda>c. path_eq (ps_manifest_path c) root_manifest_path) candidates of
            Some c \<Rightarrow> Inr c
          | None \<Rightarrow> (case candidates of
              [c] \<Rightarrow> Inr c
            | _ \<Rightarrow> Inl (PackError ''workspace pack is ambiguous; select a root package with --package <namespace/name>'')))))"

subsection \<open>Choosing the files\<close>

definition IsExcludedGeneratedTopLevel :: "string \<Rightarrow> bool" where
  "IsExcludedGeneratedTopLevel relative_path =
     (case elements relative_path of
        [] \<Rightarrow> False
      | first # _ \<Rightarrow> first = ''.git'' \<or> first = ''.pafio'' \<or> first = ''dist'' \<or> first = ''build'' \<or> starts_with first ''build-'')"

definition IsExcludedWorkspaceSubtree :: "string \<Rightarrow> string list \<Rightarrow> bool" where
  "IsExcludedWorkspaceSubtree relative_path excluded_roots =
     list_ex (IsRelativePathPrefix (lexically_normal relative_path)) excluded_roots"

definition CollectExcludedWorkspaceRoots :: "package_selection \<Rightarrow> string list" where
  "CollectExcludedWorkspaceRoots sel =
     (case doc_workspace (ps_manifest sel) of
        None \<Rightarrow> []
      | Some ws \<Rightarrow> sort_unique (filter (\<lambda>r. r \<noteq> [] \<and> \<not> path_eq r ''.'')
          (map lexically_normal (ws_members ws @ ws_exclude ws))))"

definition ReadBinaryFile :: "env \<Rightarrow> fs \<Rightarrow> string \<Rightarrow> string result" where
  "ReadBinaryFile env w path =
     (case fs_read env w path of
        None \<Rightarrow> Inl (PackError (''failed to read package source file: '' @ path))
      | Some content \<Rightarrow> Inr content)"

text \<open>What the walk does with one node.\<close>

definition visit_entry :: "env \<Rightarrow> string \<Rightarrow> string list \<Rightarrow> string list \<Rightarrow> string list \<times> node \<Rightarrow> pack_entry list result" where
  "visit_entry env package_root skipped excluded_roots e =
     (case e of (key, node) \<Rightarrow>
      let absolute_entry = canonical env (unparse_path True key False);
          relative_entry = lexically_relative absolute_entry package_root
      in
      if relative_entry = [] \<or> path_eq relative_entry ''.'' then Inr []
      else if list_ex (path_eq absolute_entry) skipped then Inr []
      else if IsExcludedGeneratedTopLevel relative_entry \<or> IsExcludedWorkspaceSubtree relative_entry excluded_roots then Inr []
      else case node of
        Symlink \<Rightarrow> Inl (PackError (''pack does not support symlinks inside the package tree: '' @ absolute_entry))
      | Dir \<Rightarrow> Inr []
      | Special \<Rightarrow> Inl (PackError (''pack only supports regular files inside the package tree: '' @ absolute_entry))
      | File _ \<Rightarrow> Inr [\<lparr>pe_archive_path = relative_entry, pe_source_path = Some absolute_entry, pe_inline_contents = None\<rparr>])"

definition nodes_below :: "env \<Rightarrow> fs \<Rightarrow> string \<Rightarrow> fs" where
  "nodes_below env w root = filter (\<lambda>(k, n). strict_prefix (path_key env root) k) w"

definition CollectPackEntries :: "env \<Rightarrow> fs \<Rightarrow> package_selection \<Rightarrow> string \<Rightarrow> pack_entry list result" where
  "CollectPackEntries env w sel archive_path =
     (let package_root = canonical env (ps_package_root sel); manifest_path = canonical env (ps_manifest_path sel);
          lockfile_path = path_append package_root ''pafio.lock''; archive = canonical env archive_path;
          relative_output = lexically_relative archive package_root
      in
      if IsUnderRoot (env_cwd env) archive package_root \<and> \<not> IsExcludedGeneratedTopLevel relative_output
        then Inl (PackError (''archive output inside the package root must live under an excluded generated directory such as dist/: '' @ archive))
      else if \<not> fs_is_directory env w package_root then Inl (FilesystemError ''recursive_directory_iterator'')
      else rbind (rmap (visit_entry env package_root [manifest_path, lockfile_path, archive] (CollectExcludedWorkspaceRoots sel))
             (nodes_below env w package_root)) (\<lambda>found.
           Inr (sort_key pe_archive_path
             (\<lparr>pe_archive_path = ''pafio.toml'', pe_source_path = None,
               pe_inline_contents = Some (SerializeManifestCanonical (ps_manifest sel))\<rparr> # concat found))))"

subsection \<open>Writing the archive\<close>

definition entry_contents :: "env \<Rightarrow> fs \<Rightarrow> pack_entry \<Rightarrow> string result" where
  "entry_contents env w e = (case pe_inline_contents e of
      Some c \<Rightarrow> Inr c
    | None \<Rightarrow> (case pe_source_path e of
        Some path \<Rightarrow> ReadBinaryFile env w path
      | None \<Rightarrow> Inl (LogicError ''bad optional access'')))"

definition archive_bytes :: "env \<Rightarrow> fs \<Rightarrow> string \<Rightarrow> pack_entry list \<Rightarrow> string result" where
  "archive_bytes env w archive_prefix entries =
     rbind (rmap (\<lambda>e. rbind (entry_contents env w e) (\<lambda>c.
         WriteTarEntry (archive_prefix @ ''/'' @ pe_archive_path e) c)) entries) (\<lambda>blocks.
     Inr (concat blocks @ zeros 1024))"

definition WriteTarArchive :: "env \<Rightarrow> pack_entry list \<Rightarrow> string \<Rightarrow> string \<Rightarrow> (fs, unit) io" where
  "WriteTarArchive env entries archive_path archive_prefix =
     (let temp_path = archive_path @ ''.tmp'' in
      io_bind (fs_create_directories env (parent_path archive_path)) (\<lambda>_.
      io_on_error
        (io_bind (fs_write env temp_path [] (PackError (''failed to create package archive: '' @ temp_path))) (\<lambda>_.
         io_bind (\<lambda>w. io_lift (archive_bytes env w archive_prefix entries) w) (\<lambda>bytes.
         io_bind (fs_write env temp_path bytes (PackError (''failed to finish package archive: '' @ temp_path))) (\<lambda>_.
         fs_rename env temp_path archive_path))))
        (\<lambda>w. (Inr (), fs_remove_quiet env temp_path w))))"

definition WriteSourcePackage :: "env \<Rightarrow> pack_request \<Rightarrow> (fs, pack_result) io" where
  "WriteSourcePackage env rq = (\<lambda>w.
     (io_bind (io_lift (SelectPackageForPack env w rq)) (\<lambda>sel.
      io_bind (io_lift (PackageShortName (pkg_name (ps_package sel)))) (\<lambda>short_name.
      let archive_prefix = short_name @ ''-'' @ pkg_version (ps_package sel);
          package_root = canonical env (ps_package_root sel);
          archive_path = (case pq_output_path rq of
              Some p \<Rightarrow> canonical env p
            | None \<Rightarrow> canonical env (path_append (path_append package_root ''dist'') (archive_prefix @ ''.tar'')))
      in
      io_bind (io_lift (CollectPackEntries env w sel archive_path)) (\<lambda>entries.
      io_bind (WriteTarArchive env entries archive_path archive_prefix) (\<lambda>_.
      io_return \<lparr>pk_manifest_path = canonical env (ps_manifest_path sel), pk_package_root = package_root,
        pk_archive_path = archive_path, pk_package_name = pkg_name (ps_package sel),
        pk_package_version = pkg_version (ps_package sel), pk_archive_prefix = archive_prefix,
        pk_file_count = length entries\<rparr>))))) w)"

subsection \<open>Facts\<close>

lemma archive_bytes_Inr:
  assumes "archive_bytes env w archive_prefix entries = Inr bytes"
  shows "\<exists>members. tar_bytes members = Inr bytes \<and>
    list_all2 (\<lambda>e m. fst m = archive_prefix @ ''/'' @ pe_archive_path e \<and> entry_contents env w e = Inr (snd m)) entries members"
proof -
  obtain blocks where blocks: "list_all2 (\<lambda>e b. rbind (entry_contents env w e) (\<lambda>c.
       WriteTarEntry (archive_prefix @ ''/'' @ pe_archive_path e) c) = Inr b) entries blocks"
    and bytes: "bytes = concat blocks @ zeros 1024"
    using assms by (auto simp: archive_bytes_def result_simps dest: rmap_eq_Inr)
  from blocks have "\<exists>members. tar_bytes members = Inr (concat blocks @ zeros 1024) \<and>
    list_all2 (\<lambda>e m. fst m = archive_prefix @ ''/'' @ pe_archive_path e \<and> entry_contents env w e = Inr (snd m)) entries members"
  proof (induction rule: list_all2_induct)
    case Nil
    show ?case by (intro exI [of _ "[]"]) simp
  next
    case (Cons e es b bs)
    then obtain c members where "entry_contents env w e = Inr c"
      "WriteTarEntry (archive_prefix @ ''/'' @ pe_archive_path e) c = Inr b"
      "tar_bytes members = Inr (concat bs @ zeros 1024)"
      "list_all2 (\<lambda>e m. fst m = archive_prefix @ ''/'' @ pe_archive_path e \<and> entry_contents env w e = Inr (snd m)) es members"
      by (auto simp: result_simps)
    then show ?case
      by (intro exI [of _ "(archive_prefix @ ''/'' @ pe_archive_path e, c) # members"]) simp
  qed
  with bytes show ?thesis by simp
qed

lemma visit_entry_Inr:
  assumes "visit_entry env package_root skipped excluded_roots (key, node) = Inr es" and "e \<in> set es"
  shows "\<exists>c. node = File c \<and> es = [e] \<and>
    (let p = canonical env (unparse_path True key False) in
     pe_source_path e = Some p \<and> pe_inline_contents e = None \<and> pe_archive_path e = lexically_relative p package_root \<and>
     \<not> list_ex (path_eq p) skipped)
    \<and> \<not> IsExcludedGeneratedTopLevel (pe_archive_path e) \<and> \<not> IsExcludedWorkspaceSubtree (pe_archive_path e) excluded_roots"
  using assms by (auto simp: visit_entry_def Let_def split: if_splits node.splits)

end
