(* ===== verification/PackProperties.thy ===== *)
theory PackProperties
  imports Pack ResolveProperties
begin

section \<open>Properties of the packer\<close>

text \<open>
  Which files a package holds, that the archive is read back by a reader of the format, and that a failed run
  damages nothing.
\<close>

text \<open>What may go into a package: a path below the root that is not the manifest, the lockfile or the archive
  itself and is in no excluded directory.\<close>

definition packable :: "env \<Rightarrow> package_selection \<Rightarrow> string \<Rightarrow> string \<Rightarrow> bool" where
  "packable env sel archive_path p \<longleftrightarrow>
     (let root = canonical env (ps_package_root sel); relative = lexically_relative p root in
      relative \<noteq> [] \<and> \<not> path_eq relative ''.'' \<and>
      \<not> path_eq p (canonical env (ps_manifest_path sel)) \<and> \<not> path_eq p (path_append root ''pafio.lock'') \<and>
      \<not> path_eq p (canonical env archive_path) \<and>
      \<not> IsExcludedGeneratedTopLevel relative \<and> \<not> IsExcludedWorkspaceSubtree relative (CollectExcludedWorkspaceRoots sel))"

definition manifest_entry :: "package_selection \<Rightarrow> pack_entry" where
  "manifest_entry sel = \<lparr>pe_archive_path = ''pafio.toml'', pe_source_path = None,
     pe_inline_contents = Some (SerializeManifestCanonical (ps_manifest sel))\<rparr>"

definition file_entry :: "env \<Rightarrow> package_selection \<Rightarrow> string list \<Rightarrow> pack_entry" where
  "file_entry env sel key = (let p = canonical env (unparse_path True key False) in
     \<lparr>pe_archive_path = lexically_relative p (canonical env (ps_package_root sel)), pe_source_path = Some p,
      pe_inline_contents = None\<rparr>)"

lemma visit_entry_eq:
  "visit_entry env (canonical env (ps_package_root sel)) [canonical env (ps_manifest_path sel),
      path_append (canonical env (ps_package_root sel)) ''pafio.lock'', canonical env archive_path]
      (CollectExcludedWorkspaceRoots sel) (key, node) =
    (if \<not> packable env sel archive_path (canonical env (unparse_path True key False)) then Inr []
     else case node of
        Symlink \<Rightarrow> Inl (PackError (''pack does not support symlinks inside the package tree: '' @
          canonical env (unparse_path True key False)))
      | Dir \<Rightarrow> Inr []
      | Special \<Rightarrow> Inl (PackError (''pack only supports regular files inside the package tree: '' @
          canonical env (unparse_path True key False)))
      | File _ \<Rightarrow> Inr [file_entry env sel key])"
  by (cases node) (simp_all add: visit_entry_def packable_def file_entry_def Let_def)

lemma visit_entry_cases:
  assumes "visit_entry env (canonical env (ps_package_root sel)) [canonical env (ps_manifest_path sel),
      path_append (canonical env (ps_package_root sel)) ''pafio.lock'', canonical env archive_path]
      (CollectExcludedWorkspaceRoots sel) (key, node) = Inr es"
  shows "set es = {file_entry env sel key |c. node = File c \<and> packable env sel archive_path (canonical env (unparse_path True key False))} \<and>
    (packable env sel archive_path (canonical env (unparse_path True key False)) \<longrightarrow> node = Dir \<or> (\<exists>c. node = File c))"
  using assms unfolding visit_entry_eq by (cases node) (auto split: if_splits)

text \<open>C39: a package holds its canonical manifest and exactly the packable regular files below its root, in the order
  of their archive paths, and packing is refused when a packable path is neither a file nor a directory.\<close>

theorem pack_entries_exact:
  assumes "CollectPackEntries env w sel archive_path = Inr entries"
  defines "below \<equiv> set (nodes_below env w (canonical env (ps_package_root sel)))"
  shows "sorted (map pe_archive_path entries) \<and>
    set entries = insert (manifest_entry sel) {file_entry env sel key |key c. (key, File c) \<in> below \<and>
       packable env sel archive_path (canonical env (unparse_path True key False))} \<and>
    (\<forall>(key, n) \<in> below. packable env sel archive_path (canonical env (unparse_path True key False)) \<longrightarrow>
       n = Dir \<or> (\<exists>c. n = File c))"
proof -
  let ?p = "\<lambda>key. canonical env (unparse_path True key False)"
  let ?visit = "visit_entry env (canonical env (ps_package_root sel)) [canonical env (ps_manifest_path sel),
      path_append (canonical env (ps_package_root sel)) ''pafio.lock'', canonical env archive_path]
      (CollectExcludedWorkspaceRoots sel)"
  obtain found where found: "list_all2 (\<lambda>n es. ?visit n = Inr es) (nodes_below env w (canonical env (ps_package_root sel))) found"
    and entries: "entries = sort_key pe_archive_path (manifest_entry sel # concat found)"
    using assms(1) unfolding CollectPackEntries_def Let_def manifest_entry_def [symmetric]
    by (auto simp: result_simps dest: rmap_eq_Inr)
  have one: "set es = {file_entry env sel key |c. n = File c \<and> packable env sel archive_path (?p key)} \<and>
      (packable env sel archive_path (?p key) \<longrightarrow> n = Dir \<or> (\<exists>c. n = File c))" if "?visit (key, n) = Inr es" for key n es
    by (rule visit_entry_cases [OF that])
  have "x \<in> set (concat found) \<longleftrightarrow>
      (\<exists>key c. x = file_entry env sel key \<and> (key, File c) \<in> below \<and> packable env sel archive_path (?p key))" for x
  proof
    assume "x \<in> set (concat found)"
    then obtain es where es: "es \<in> set found" "x \<in> set es" by auto
    obtain key n where "(key, n) \<in> below" "?visit (key, n) = Inr es"
      using list_all2_ex_left [OF found es(1)] unfolding below_def by force
    with one [OF this(2)] es(2)
    show "\<exists>key c. x = file_entry env sel key \<and> (key, File c) \<in> below \<and> packable env sel archive_path (?p key)" by auto
  next
    assume "\<exists>key c. x = file_entry env sel key \<and> (key, File c) \<in> below \<and> packable env sel archive_path (?p key)"
    then obtain key c where k: "x = file_entry env sel key" "(key, File c) \<in> below" "packable env sel archive_path (?p key)"
      by blast
    obtain es where "es \<in> set found" "?visit (key, File c) = Inr es"
      using list_all2_ex_right [OF found] k(2) unfolding below_def by blast
    with one [OF this(2)] k show "x \<in> set (concat found)" by auto
  qed
  moreover have "set entries = insert (manifest_entry sel) (set (concat found))"
    unfolding entries set_sort by simp
  ultimately have set_entries: "set entries = insert (manifest_entry sel) {file_entry env sel key |key c. (key, File c) \<in> below \<and>
       packable env sel archive_path (?p key)}"
    by blast
  moreover have "sorted (map pe_archive_path entries)" unfolding entries by (rule sorted_sort_key)
  moreover have "n = Dir \<or> (\<exists>c. n = File c)" if "(key, n) \<in> below" "packable env sel archive_path (?p key)" for key n
    using list_all2_ex_right [OF found] that one unfolding below_def by blast
  ultimately show ?thesis by auto
qed

text \<open>A package with a source file, a build product and a lockfile.\<close>

definition pack_fs :: fs where
  "pack_fs = resolver_fs @ [([''w'', ''l''], File ''x''), ([''w'', ''pafio.lock''], File ''L''),
     ([''w'', ''dist''], Dir), ([''w'', ''dist'', ''o''], File ''y'')]"

definition pack_selection :: package_selection where
  "pack_selection = \<lparr>ps_manifest_path = ''/w/pafio.toml'', ps_package_root = ''/w'', ps_manifest = sample_app,
     ps_package = the (doc_package sample_app)\<rparr>"

definition pack_entries :: "pack_entry list" where
  "pack_entries = projr (CollectPackEntries resolver_env pack_fs pack_selection ''/w/dist/p.tar'')"

theorem pack_entries_exact_witness:
  "file_entry resolver_env pack_selection [''w'', ''l''] \<in> set pack_entries"
proof -
  have run: "\<not> isl (CollectPackEntries resolver_env pack_fs pack_selection ''/w/dist/p.tar'') \<and>
      ([''w'', ''l''], File ''x'') \<in> set (nodes_below resolver_env pack_fs (canonical resolver_env (ps_package_root pack_selection))) \<and>
      packable resolver_env pack_selection ''/w/dist/p.tar'' (canonical resolver_env (unparse_path True [''w'', ''l''] False))"
    by code_simp
  then have "CollectPackEntries resolver_env pack_fs pack_selection ''/w/dist/p.tar'' = Inr pack_entries"
    by (simp add: pack_entries_def)
  from pack_entries_exact [OF this] run show ?thesis by blast
qed

subsection \<open>The archive\<close>

lemma fs_create_directories_files:
  assumes "fs_create_directories env p w = (r, w')" and "map_of w' k = Some (File c)"
  shows "map_of w k = Some (File c)"
proof (cases "map_of w k")
  case None
  from fs_create_directories_new [OF assms(1) this] assms(2) show ?thesis by simp
next
  case (Some n)
  from fs_create_directories_keeps [OF assms(1) this] assms(2) Some show ?thesis by simp
qed

lemma WriteTarArchive_steps:
  assumes "WriteTarArchive env entries archive_path archive_prefix w = (Inr u, w')"
  obtains w1 w2 bytes w3 e where
    "fs_create_directories env (parent_path archive_path) w = (Inr (), w1)"
    "fs_write env (archive_path @ ''.tmp'') [] e w1 = (Inr (), w2)"
    "archive_bytes env w2 archive_prefix entries = Inr bytes"
    "fs_read env w3 (archive_path @ ''.tmp'') = Some bytes" "fs_rename env (archive_path @ ''.tmp'') archive_path w3 = (Inr u, w')"
  using assms unfolding WriteTarArchive_def Let_def io_bind_Inr io_lift_eq io_on_error_Inr by (auto dest: fs_write_read)

text \<open>C11: a written package is readable: after a successful run the archive is a file from which a reader of the ustar
  format recovers exactly the entries, in order, under the package prefix, each with its inline text or with the
  bytes its source file had; neither the prefix nor a path may contain a zero byte.\<close>

theorem package_archive_readable:
  assumes "WriteTarArchive env entries archive_path archive_prefix w = (Inr u, w')"
    and "CHR 0x00 \<notin> set archive_prefix" and "\<forall>e \<in> set entries. CHR 0x00 \<notin> set (pe_archive_path e)"
    and "path_key env archive_path \<noteq> []"
  shows "\<exists>bytes members. fs_read env w' archive_path = Some bytes \<and> read_tar bytes = Some members \<and>
    list_all2 (\<lambda>e m. fst m = archive_prefix @ ''/'' @ pe_archive_path e \<and>
      (case pe_inline_contents e of
         Some c \<Rightarrow> snd m = c
       | None \<Rightarrow> \<forall>p. pe_source_path e = Some p \<longrightarrow> path_key env p \<noteq> path_key env (archive_path @ ''.tmp'') \<longrightarrow>
           fs_read env w p = Some (snd m))) entries members"
proof -
  obtain w1 w2 bytes w3 err where
    dirs: "fs_create_directories env (parent_path archive_path) w = (Inr (), w1)"
    and open': "fs_write env (archive_path @ ''.tmp'') [] err w1 = (Inr (), w2)"
    and bytes: "archive_bytes env w2 archive_prefix entries = Inr bytes"
    and tmp: "fs_read env w3 (archive_path @ ''.tmp'') = Some bytes"
    and mv: "fs_rename env (archive_path @ ''.tmp'') archive_path w3 = (Inr u, w')"
    using assms(1) by (rule WriteTarArchive_steps)
  obtain members where m: "tar_bytes members = Inr bytes"
    "list_all2 (\<lambda>e m. fst m = archive_prefix @ ''/'' @ pe_archive_path e \<and> entry_contents env w2 e = Inr (snd m)) entries members"
    using archive_bytes_Inr [OF bytes] by blast
  have "CHR 0x00 \<notin> set path" if "(path, c) \<in> set members" for path c
    using list_all2_ex_left [OF m(2) that] assms(2,3) by auto
  then have read: "read_tar bytes = Some members" by (intro read_tar_bytes [OF m(1)]) auto
  have "path_key env (archive_path @ ''.tmp'') \<noteq> []"
    using open' by (auto simp: fs_write_def fs_can_write_def split: if_splits)
  with tmp have "map_of w3 (path_key env (archive_path @ ''.tmp'')) = Some (File bytes)"
    by (auto simp: fs_read_def node_at_def split: option.splits node.splits if_splits)
  with fs_rename_Inr [OF mv] assms(4) have arch: "fs_read env w' archive_path = Some bytes"
    by (simp add: fs_read_def node_at_def)
  have same: "fs_read env w p = Some c"
    if "fs_read env w2 p = Some c" "path_key env p \<noteq> path_key env (archive_path @ ''.tmp'')" for p c
  proof -
    have "fs_read env w1 p = Some c"
      using that fs_write_map [OF open'] by (auto simp: fs_read_def node_at_def split: if_splits)
    then obtain k where "map_of w1 (path_key env p) = Some (File c)" "path_key env p \<noteq> []"
      by (auto simp: fs_read_def node_at_def split: option.splits node.splits if_splits)
    moreover from this(1) have "map_of w (path_key env p) = Some (File c)"
      by (rule fs_create_directories_files [OF dirs])
    ultimately show ?thesis by (simp add: fs_read_def node_at_def)
  qed
  have "list_all2 (\<lambda>e m. fst m = archive_prefix @ ''/'' @ pe_archive_path e \<and>
      (case pe_inline_contents e of
         Some c \<Rightarrow> snd m = c
       | None \<Rightarrow> \<forall>p. pe_source_path e = Some p \<longrightarrow> path_key env p \<noteq> path_key env (archive_path @ ''.tmp'') \<longrightarrow>
           fs_read env w p = Some (snd m))) entries members"
    using m(2)
  proof (rule list_all2_mono)
    fix e m
    assume "fst m = archive_prefix @ ''/'' @ pe_archive_path e \<and> entry_contents env w2 e = Inr (snd m)"
    then show "fst m = archive_prefix @ ''/'' @ pe_archive_path e \<and>
      (case pe_inline_contents e of
         Some c \<Rightarrow> snd m = c
       | None \<Rightarrow> \<forall>p. pe_source_path e = Some p \<longrightarrow> path_key env p \<noteq> path_key env (archive_path @ ''.tmp'') \<longrightarrow>
           fs_read env w p = Some (snd m))"
      by (auto simp: entry_contents_def ReadBinaryFile_def same split: option.splits)
  qed
  with arch read show ?thesis by blast
qed

text \<open>An archive with one inline entry.\<close>

definition one_entry :: pack_entry where
  "one_entry = \<lparr>pe_archive_path = ''pafio.toml'', pe_source_path = None, pe_inline_contents = Some ''hello''\<rparr>"

lemma pack_paths:
  "path_key resolver_env ''/w/dist/p.tar'' = [''w'', ''dist'', ''p.tar'']"
  "path_key resolver_env (''/w/dist/p.tar'' @ ''.tmp'') = [''w'', ''dist'', ''p.tar.tmp'']"
  "path_key resolver_env (parent_path ''/w/dist/p.tar'') = [''w'', ''dist'']"
  by code_simp+

lemma one_entry_packs:
  "\<exists>w'. WriteTarArchive resolver_env [one_entry] ''/w/dist/p.tar'' ''p-1.0.0'' pack_fs = (Inr (), w')"
proof -
  obtain b where "WriteTarEntry (''p-1.0.0/pafio.toml'') ''hello'' = Inr b"
    using WriteTarEntry_short [of "''p-1.0.0/pafio.toml''" "''hello''"] by auto
  then have "archive_bytes resolver_env w ''p-1.0.0'' [one_entry] = Inr (b @ zeros 1024)" for w
    by (simp add: archive_bytes_def one_entry_def entry_contents_def)
  moreover have "env_writable resolver_env k" for k by (simp add: resolver_env_def sample_env_def)
  ultimately show ?thesis
    unfolding WriteTarArchive_def Let_def io_bind_def io_on_error_def io_lift_def fs_create_directories_def
      fs_write_def fs_can_write_def fs_put_def fs_rename_def pack_paths
    by (simp add: pack_fs_def resolver_fs_def has_children_def)
qed

theorem package_archive_readable_witness:
  "\<exists>w' bytes m. WriteTarArchive resolver_env [one_entry] ''/w/dist/p.tar'' ''p-1.0.0'' pack_fs = (Inr (), w') \<and>
     fs_read resolver_env w' ''/w/dist/p.tar'' = Some bytes \<and> read_tar bytes = Some [(''p-1.0.0/pafio.toml'', m)]"
proof -
  obtain w' where run: "WriteTarArchive resolver_env [one_entry] ''/w/dist/p.tar'' ''p-1.0.0'' pack_fs = (Inr (), w')"
    using one_entry_packs by blast
  have "path_key resolver_env ''/w/dist/p.tar'' \<noteq> []" by (simp add: pack_paths)
  from package_archive_readable [OF run _ _ this] run show ?thesis
    by (auto simp: one_entry_def list_all2_Cons1)
qed

text \<open>A failed run damages nothing: whatever goes wrong while the archive is written, every node that existed is
  unchanged, an archive of the same name included, up to the temporary file, and only directories are new.\<close>

theorem failed_pack_keeps_archive:
  assumes "WriteTarArchive env entries archive_path archive_prefix w = (Inl e, w')"
  shows "only_adds {path_key env (archive_path @ ''.tmp'')} w w'"
proof -
  let ?tmp = "archive_path @ ''.tmp''"
  let ?K = "{path_key env ?tmp}"
  have K: "path_key env ?tmp \<in> ?K" by simp
  have body: "only_adds ?K w1 w2"
    if "io_bind (fs_write env ?tmp [] (PackError (''failed to create package archive: '' @ ?tmp))) (\<lambda>_.
         io_bind (\<lambda>w. io_lift (archive_bytes env w archive_prefix entries) w) (\<lambda>bytes.
         io_bind (fs_write env ?tmp bytes (PackError (''failed to finish package archive: '' @ ?tmp))) (\<lambda>_.
         fs_rename env ?tmp archive_path))) w1 = (Inl e, w2)" for w1 w2
    using that unfolding io_bind_Inl io_lift_eq
    by (auto dest!: only_adds_write [OF _ K] fs_rename_Inl intro: only_adds_trans)
  from assms consider "fs_create_directories env (parent_path archive_path) w = (Inl e, w')"
    | w1 w2 where "fs_create_directories env (parent_path archive_path) w = (Inr (), w1)" "only_adds ?K w1 w2"
        "w' = fs_remove_quiet env ?tmp w2"
    using body unfolding WriteTarArchive_def Let_def io_bind_Inl [of "fs_create_directories env (parent_path archive_path)"] io_on_error_Inl
    by fastforce
  then show ?thesis
  proof cases
    case 1
    then show ?thesis by (rule only_adds_dirs)
  next
    case 2
    from only_adds_dirs [OF 2(1)] 2(2) only_adds_remove_quiet [OF K, of w2] show ?thesis
      unfolding 2(3) using only_adds_trans by blast
  qed
qed

theorem failed_pack_keeps_archive_witness:
  "\<exists>e w'. WriteTarArchive resolver_env [one_entry] ''/w/l/p.tar'' ''p'' pack_fs = (Inl e, w') \<and>
     map_of w' [''w'', ''l''] = Some (File ''x'')"
proof -
  have "make_dirs [] (path_key resolver_env (parent_path ''/w/l/p.tar'')) pack_fs = None" by code_simp
  then have run: "WriteTarArchive resolver_env [one_entry] ''/w/l/p.tar'' ''p'' pack_fs =
      (Inl (FilesystemError ''create_directories''), pack_fs)"
    by (simp add: WriteTarArchive_def Let_def io_bind_def fs_create_directories_def)
  have l: "map_of pack_fs [''w'', ''l''] = Some (File ''x'')"
    "path_key resolver_env (''/w/l/p.tar'' @ ''.tmp'') \<noteq> [''w'', ''l'']" by code_simp+
  then have "map_of pack_fs [''w'', ''l''] = Some (File ''x'')"
    using failed_pack_keeps_archive [OF run] unfolding only_adds_def by blast
  with run show ?thesis by blast
qed

end
