(* ===== verification/Security.thy ===== *)
theory Security
  imports Digest World
begin

section \<open>Registry security and trust pins\<close>

text \<open>
  \<open>src/PafioSecurity\<close>: the chains of handlers that decide how a registry is read and written, with the
  slots a private module may fill, the validation of registry names, object paths and digests
  (\<open>RegistrySecurity.cpp\<close>), and the store of pinned registry roots (\<open>RegistryTrust.cpp\<close>).  A misuse of
  a JSON value throws the library's \<open>type_error\<close>, here a \<open>RuntimeError\<close>.
\<close>

subsection \<open>Access to JSON values\<close>

definition type_error :: error where
  "type_error = RuntimeError ''json type_error''"

definition jcontains :: "json \<Rightarrow> string \<Rightarrow> bool" where
  "jcontains j key \<longleftrightarrow> jget key j \<noteq> None"

definition is_object :: "json \<Rightarrow> bool" where
  "is_object j = (case j of JObject _ \<Rightarrow> True | _ \<Rightarrow> False)"

definition json_array :: "json option \<Rightarrow> json list option" where
  "json_array v = (case v of Some (JArray a) \<Rightarrow> Some a | _ \<Rightarrow> None)"

text \<open>\<open>payload.value(key, "...")\<close>\<close>

definition json_value_string :: "json \<Rightarrow> string \<Rightarrow> string \<Rightarrow> string result" where
  "json_value_string j key d =
     (if \<not> is_object j then Inl type_error
      else case jget key j of
        None \<Rightarrow> Inr d
      | Some (JString s) \<Rightarrow> Inr s
      | Some _ \<Rightarrow> Inl type_error)"

text \<open>\<open>get<int>()\<close>: numbers and booleans convert to a 32-bit integer.\<close>

definition int32 :: "int \<Rightarrow> int" where
  "int32 n = (n + 2 ^ 31) mod 2 ^ 32 - 2 ^ 31"

definition json_to_int :: "env \<Rightarrow> json \<Rightarrow> int result" where
  "json_to_int env v =
     (case v of
        JInt n \<Rightarrow> Inr (int32 n)
      | JBool b \<Rightarrow> Inr (if b then 1 else 0)
      | JFloat s \<Rightarrow> Inr (int32 (json_trunc (env_json env) s))
      | _ \<Rightarrow> Inl type_error)"

definition json_value_int :: "env \<Rightarrow> json \<Rightarrow> string \<Rightarrow> int \<Rightarrow> int result" where
  "json_value_int env j key d =
     (if \<not> is_object j then Inl type_error
      else case jget key j of None \<Rightarrow> Inr d | Some v \<Rightarrow> json_to_int env v)"

subsection \<open>Security chains\<close>

record read_request =
  rr_registry_root :: string
  rr_offline :: bool

record read_decision =
  rd_registry_root :: string
  rd_request_headers :: "string list"
  rd_provider_name :: string

record write_request =
  wr_registry_root :: string
  wr_profile_name :: "string option"
  wr_policy_file :: "string option"
  wr_explicit_request_headers :: "string list"

record write_decision =
  wd_registry_root :: string
  wd_request_headers :: "string list"
  wd_provider_name :: string
  wd_mode :: string
  wd_profile_name :: "string option"

datatype handler_result = kContinue | kResolved

definition NormalizeRegistryRoot :: "string \<Rightarrow> string" where
  "NormalizeRegistryRoot v = pop_back_while (\<lambda>c. c = slash) v"

definition IsHttpRegistryRoot :: "string \<Rightarrow> bool" where
  "IsHttpRegistryRoot v \<longleftrightarrow> starts_with v ''http://'' \<or> starts_with v ''https://''"

definition IsFileRegistryRoot :: "string \<Rightarrow> bool" where
  "IsFileRegistryRoot v \<longleftrightarrow> starts_with v ''file://''"

fun RunSecurityChain :: "'q \<Rightarrow> 'd \<Rightarrow> ('q \<Rightarrow> 'd \<Rightarrow> (handler_result \<times> 'd) result) list \<Rightarrow> string \<Rightarrow> 'd result" where
  "RunSecurityChain rq d [] chain_name =
     Inl (LogicError (chain_name @ '' registry security chain did not resolve''))"
| "RunSecurityChain rq d (h # hs) chain_name =
     rbind (h rq d) (\<lambda>(r, d'). if r = kResolved then Inr d' else RunSecurityChain rq d' hs chain_name)"

definition NormalizeReadRegistryRoot :: "read_request \<Rightarrow> read_decision \<Rightarrow> (handler_result \<times> read_decision) result" where
  "NormalizeReadRegistryRoot rq d =
     Inr (kContinue, d\<lparr>rd_registry_root := NormalizeRegistryRoot (rr_registry_root rq)\<rparr>)"

definition ValidateReadRegistryRootScheme :: "read_request \<Rightarrow> read_decision \<Rightarrow> (handler_result \<times> read_decision) result" where
  "ValidateReadRegistryRootScheme rq d =
     (if \<not> IsFileRegistryRoot (rd_registry_root d) \<and> \<not> IsHttpRegistryRoot (rd_registry_root d)
      then Inl (FetchError (''registry root must use file://, http://, or https://: '' @ rr_registry_root rq))
      else Inr (kContinue, d))"

definition ResolvePublicDefaultReadAccess :: "read_request \<Rightarrow> read_decision \<Rightarrow> (handler_result \<times> read_decision) result" where
  "ResolvePublicDefaultReadAccess rq d =
     Inr (kResolved, d\<lparr>rd_request_headers := [], rd_provider_name := ''public-default''\<rparr>)"

definition NormalizeWriteRegistryRoot :: "write_request \<Rightarrow> write_decision \<Rightarrow> (handler_result \<times> write_decision) result" where
  "NormalizeWriteRegistryRoot rq d =
     Inr (kContinue, d\<lparr>wd_registry_root := NormalizeRegistryRoot (wr_registry_root rq)\<rparr>)"

definition ValidateWriteRegistryRootScheme :: "write_request \<Rightarrow> write_decision \<Rightarrow> (handler_result \<times> write_decision) result" where
  "ValidateWriteRegistryRootScheme rq d =
     (if \<not> IsHttpRegistryRoot (wd_registry_root d)
      then Inl (PublishError (''remote registry publish requires an http:// or https:// registry root: '' @ wr_registry_root rq))
      else Inr (kContinue, d))"

definition RejectOpenSourceWriteSecurityHooks :: "write_request \<Rightarrow> write_decision \<Rightarrow> (handler_result \<times> write_decision) result" where
  "RejectOpenSourceWriteSecurityHooks rq d =
     (if wr_profile_name rq \<noteq> None \<or> wr_policy_file rq \<noteq> None \<or> wr_explicit_request_headers rq \<noteq> []
      then Inl (PublishError
        (''registry write security hooks require a private module under src-private/PafioSecurity and are not available '' @
         ''in the open-source core''))
      else Inr (kContinue, d))"

definition ResolvePublicDefaultWriteAccess :: "write_request \<Rightarrow> write_decision \<Rightarrow> (handler_result \<times> write_decision) result" where
  "ResolvePublicDefaultWriteAccess rq d =
     Inr (kResolved, d\<lparr>wd_request_headers := [], wd_provider_name := ''public-default'', wd_mode := ''anonymous'',
       wd_profile_name := None\<rparr>)"

definition ResolveDefaultRegistryReadSecurity :: "read_request \<Rightarrow> read_decision result" where
  "ResolveDefaultRegistryReadSecurity rq =
     RunSecurityChain rq \<lparr>rd_registry_root = [], rd_request_headers = [], rd_provider_name = ''public-default''\<rparr>
       [NormalizeReadRegistryRoot, ValidateReadRegistryRootScheme, ResolvePublicDefaultReadAccess] ''default read''"

definition ResolveDefaultRegistryWriteSecurity :: "write_request \<Rightarrow> write_decision result" where
  "ResolveDefaultRegistryWriteSecurity rq =
     RunSecurityChain rq \<lparr>wd_registry_root = [], wd_request_headers = [], wd_provider_name = ''public-default'',
         wd_mode = ''anonymous'', wd_profile_name = None\<rparr>
       [NormalizeWriteRegistryRoot, ValidateWriteRegistryRootScheme, RejectOpenSourceWriteSecurityHooks,
        ResolvePublicDefaultWriteAccess] ''default write''"

text \<open>The two static slots.\<close>

record security_slots =
  slot_read :: "read_request \<Rightarrow> read_decision result"
  slot_write :: "write_request \<Rightarrow> write_decision result"

definition initial_slots :: security_slots where
  "initial_slots = \<lparr>slot_read = ResolveDefaultRegistryReadSecurity, slot_write = ResolveDefaultRegistryWriteSecurity\<rparr>"

definition RegisterRegistryReadSecurityResolver ::
    "(read_request \<Rightarrow> read_decision result) option \<Rightarrow> security_slots \<Rightarrow> (read_request \<Rightarrow> read_decision result) \<times> security_slots" where
  "RegisterRegistryReadSecurityResolver resolver s =
     (slot_read s, s\<lparr>slot_read := case_option ResolveDefaultRegistryReadSecurity id resolver\<rparr>)"

definition RegisterRegistryWriteSecurityResolver ::
    "(write_request \<Rightarrow> write_decision result) option \<Rightarrow> security_slots \<Rightarrow> (write_request \<Rightarrow> write_decision result) \<times> security_slots" where
  "RegisterRegistryWriteSecurityResolver resolver s =
     (slot_write s, s\<lparr>slot_write := case_option ResolveDefaultRegistryWriteSecurity id resolver\<rparr>)"

definition ResolveRegistryReadSecurity :: "security_slots \<Rightarrow> read_request \<Rightarrow> read_decision result" where
  "ResolveRegistryReadSecurity s rq = slot_read s rq"

definition ResolveRegistryWriteSecurity :: "security_slots \<Rightarrow> write_request \<Rightarrow> write_decision result" where
  "ResolveRegistryWriteSecurity s rq = slot_write s rq"

subsection \<open>Names, object paths and digests\<close>

definition IsSafePackageSegment :: "string \<Rightarrow> bool" where
  "IsSafePackageSegment v =
     (if v = [] then False
      else if \<not> is_lower_or_digit (hd v) then False
      else list_all (\<lambda>c. is_lower_or_digit c \<or> c = CHR ''-'' \<or> c = CHR ''_'') v)"

definition SplitRegistryPackageName :: "string \<Rightarrow> string \<Rightarrow> (string \<times> string) result" where
  "SplitRegistryPackageName package_name context =
     (let failed = Inl (FetchError (context @ '' must match namespace/name: '' @ package_name)) in
      case find_char slash package_name of
        None \<Rightarrow> failed
      | Some i \<Rightarrow>
         (if rfind_char slash package_name \<noteq> Some i then failed
          else let namespace_name = take i package_name; short_name = drop (i + 1) package_name in
            if \<not> IsSafePackageSegment namespace_name \<or> \<not> IsSafePackageSegment short_name then failed
            else Inr (namespace_name, short_name)))"

definition ValidateRegistryPackageIdentity :: "string \<Rightarrow> unit result" where
  "ValidateRegistryPackageIdentity package_name =
     rbind (SplitRegistryPackageName package_name ''registry package name'') (\<lambda>_. Inr ())"

definition NormalizeRegistryObjectPath :: "string \<Rightarrow> string \<Rightarrow> string result" where
  "NormalizeRegistryObjectPath relative_path context =
     (if relative_path = [] \<or> ends_with relative_path ''/''
      then Inl (FetchError (context @ '' must be a non-empty POSIX-relative path: '' @ relative_path))
      else if CHR 0x5C \<in> set relative_path \<or> starts_with relative_path ''/''
      then Inl (FetchError (context @ '' must be a POSIX-relative path inside the registry root: '' @ relative_path))
      else if list_ex (\<lambda>c. (of_char c :: nat) < 32) relative_path
      then Inl (FetchError (context @ '' must not contain control characters: '' @ relative_path))
      else if is_absolute relative_path
      then Inl (FetchError (context @ '' must be relative: '' @ relative_path))
      else if list_ex (\<lambda>part. part = [] \<or> part = ''.'' \<or> part = ''..'') (getlines slash relative_path)
      then Inl (FetchError (context @ '' must be a canonical POSIX-relative path inside the registry root: '' @ relative_path))
      else let normalized = lexically_normal relative_path in
        if normalized = [] \<or> normalized = ''.'' \<or> normalized = ''..'' \<or> starts_with normalized ''../''
        then Inl (FetchError (context @ '' escapes the registry root: '' @ relative_path))
        else Inr normalized)"

definition NormalizeRegistryRelativePath :: "string \<Rightarrow> string \<Rightarrow> string result" where
  "NormalizeRegistryRelativePath relative_path context = NormalizeRegistryObjectPath relative_path context"

definition IsRegistrySha256Digest :: "string \<Rightarrow> bool" where
  "IsRegistrySha256Digest v \<longleftrightarrow> length v = 64 \<and> list_all (\<lambda>c. is_digit c \<or> \<not> (c < CHR ''a'' \<or> CHR ''f'' < c)) v"

subsection \<open>The trust store\<close>

record trust_pin =
  tp_registry_root :: string
  tp_registry_name :: string
  tp_root_sha256 :: string
  tp_descriptor_sha256 :: string
  tp_descriptor_source :: string
  tp_control_plane_base_url :: string
  tp_issued_at :: string
  tp_expires :: string

definition IsHttpSource :: "string \<Rightarrow> bool" where
  "IsHttpSource v \<longleftrightarrow> starts_with v ''http://'' \<or> starts_with v ''https://''"

definition IsFileUrl :: "string \<Rightarrow> bool" where
  "IsFileUrl v \<longleftrightarrow> starts_with v ''file://''"

definition ReadDescriptorFile :: "env \<Rightarrow> fs \<Rightarrow> string \<Rightarrow> string result" where
  "ReadDescriptorFile env w path =
     (case fs_read env w path of
        None \<Rightarrow> Inl (FetchError (''failed to open registry trust descriptor: '' @ path))
      | Some content \<Rightarrow> Inr content)"

definition LoadDescriptorText :: "env \<Rightarrow> string \<Rightarrow> (fs, string) io" where
  "LoadDescriptorText env source =
     (if IsHttpSource source then
        io_bind (RunProcess env FetchError \<lparr>pr_program = ''curl'',
            pr_args = [''-fsSL'', ''--connect-timeout'', ''10'', ''--max-time'', ''30'', source], pr_workdir = None,
            pr_search_path = True, pr_timeout_ms = kExternalProcessStepTimeout, pr_context = ''registry trust descriptor fetch''\<rparr>) (\<lambda>r.
        if exit_code r \<noteq> 0
        then io_throw (FetchError (''failed to fetch registry trust descriptor: '' @ DescribeProcessFailure r))
        else io_return (stdout_text r))
      else if IsFileUrl source then (\<lambda>w. (ReadDescriptorFile env w (drop 7 source), w))
      else (\<lambda>w. (ReadDescriptorFile env w source, w)))"

definition RequiredString :: "json \<Rightarrow> string \<Rightarrow> string result" where
  "RequiredString payload key =
     (case jget key payload of
        Some (JString (c # cs)) \<Rightarrow> Inr (c # cs)
      | _ \<Rightarrow> Inl (FetchError (''registry trust descriptor is missing field: '' @ key)))"

definition NormalizeRegistryTrustRoot :: "string \<Rightarrow> string" where
  "NormalizeRegistryTrustRoot v = pop_back_while (\<lambda>c. c = slash) v"

definition empty_store :: json where
  "empty_store = jobject [(''schema_version'', JInt 1), (''pins'', JArray [])]"

definition LoadTrustStore :: "env \<Rightarrow> fs \<Rightarrow> string \<Rightarrow> json result" where
  "LoadTrustStore env w pafio_home =
     (let store_path = RegistryTrustStorePath env pafio_home in
      if \<not> fs_exists env w store_path then Inr empty_store
      else rbind (ReadDescriptorFile env w store_path) (\<lambda>content.
        case json_parse (env_json env) content of
          Inl what \<Rightarrow> Inl (CacheError (''registry trust store is not valid JSON: '' @ store_path))
        | Inr j \<Rightarrow> Inr j))"

definition trust_temp_path :: "env \<Rightarrow> string \<Rightarrow> string" where
  "trust_temp_path env pafio_home = (let store_path = RegistryTrustStorePath env pafio_home in
     path_append (parent_path store_path) (filename store_path @ ''.tmp''))"

definition WriteTrustStore :: "env \<Rightarrow> string \<Rightarrow> json \<Rightarrow> (fs, unit) io" where
  "WriteTrustStore env pafio_home payload =
     (let store_path = RegistryTrustStorePath env pafio_home; temp_path = trust_temp_path env pafio_home in
      io_bind (fs_create_directories env (parent_path store_path)) (\<lambda>_.
      io_bind (fs_write env temp_path [] (CacheError (''failed to open temporary registry trust store: '' @ temp_path))) (\<lambda>_.
      io_bind (io_lift (map_sum (\<lambda>_. type_error) id (json_dump (env_json env) 2 payload))) (\<lambda>text.
      io_bind (fs_write env temp_path (text @ [CHR 0x0A])
        (CacheError (''failed to write temporary registry trust store: '' @ temp_path))) (\<lambda>_.
      (\<lambda>w. case fs_rename env temp_path store_path w of
          (Inr u, w') \<Rightarrow> (Inr (), w')
        | (Inl e, w') \<Rightarrow> (Inl (CacheError (''failed to finalize registry trust store: '' @ store_path)),
            fs_remove_quiet env temp_path w')))))))"

definition PinFromJson :: "json \<Rightarrow> trust_pin result" where
  "PinFromJson payload =
     rbind (RequiredString payload ''registry_root'') (\<lambda>root.
     rbind (json_value_string payload ''registry_name'' []) (\<lambda>name.
     rbind (RequiredString payload ''root_sha256'') (\<lambda>sha.
     rbind (json_value_string payload ''descriptor_sha256'' []) (\<lambda>dsha.
     rbind (json_value_string payload ''descriptor_source'' []) (\<lambda>source.
     rbind (json_value_string payload ''control_plane_base_url'' []) (\<lambda>url.
     rbind (json_value_string payload ''issued_at'' []) (\<lambda>issued.
     rbind (json_value_string payload ''expires'' []) (\<lambda>expires.
     Inr \<lparr>tp_registry_root = NormalizeRegistryTrustRoot root, tp_registry_name = name, tp_root_sha256 = sha,
       tp_descriptor_sha256 = dsha, tp_descriptor_source = source, tp_control_plane_base_url = url,
       tp_issued_at = issued, tp_expires = expires\<rparr>))))))))"

definition SerializeRegistryTrustPin :: "trust_pin \<Rightarrow> json" where
  "SerializeRegistryTrustPin p = jobject
     [(''registry_root'', JString (tp_registry_root p)), (''registry_name'', JString (tp_registry_name p)),
      (''root_sha256'', JString (tp_root_sha256 p)), (''descriptor_sha256'', JString (tp_descriptor_sha256 p)),
      (''descriptor_source'', JString (tp_descriptor_source p)),
      (''control_plane_base_url'', JString (tp_control_plane_base_url p)),
      (''issued_at'', JString (tp_issued_at p)), (''expires'', JString (tp_expires p))]"

definition load_pin :: "json \<Rightarrow> trust_pin result" where
  "load_pin entry =
     (if \<not> is_object entry then Inl (CacheError ''registry trust store pin must be an object'')
      else rbind (PinFromJson entry) (\<lambda>pin.
        if \<not> IsRegistrySha256Digest (tp_root_sha256 pin)
        then Inl (CacheError ''registry trust store root_sha256 is not a lowercase sha256 digest'') else Inr pin))"

definition LoadRegistryTrustPins :: "env \<Rightarrow> fs \<Rightarrow> string \<Rightarrow> trust_pin list result" where
  "LoadRegistryTrustPins env w pafio_home =
     rbind (LoadTrustStore env w pafio_home) (\<lambda>store.
     case json_array (jget ''pins'' store) of
       None \<Rightarrow> Inl (CacheError ''registry trust store pins must be an array'')
     | Some entries \<Rightarrow> rmap load_pin entries)"

definition ResolveRegistryTrustPin :: "env \<Rightarrow> fs \<Rightarrow> string \<Rightarrow> string \<Rightarrow> trust_pin option result" where
  "ResolveRegistryTrustPin env w pafio_home registry_root =
     rbind (LoadRegistryTrustPins env w pafio_home) (\<lambda>pins.
     Inr (find (\<lambda>p. tp_registry_root p = NormalizeRegistryTrustRoot registry_root) pins))"

text \<open>The loop over the stored pins: the first entry of the same root is replaced, else the pin is appended.\<close>

fun replace_pin :: "trust_pin \<Rightarrow> json list \<Rightarrow> json list result" where
  "replace_pin pin [] = Inr [SerializeRegistryTrustPin pin]"
| "replace_pin pin (entry # entries) =
     (if is_object entry
      then rbind (json_value_string entry ''registry_root'' []) (\<lambda>root.
        if NormalizeRegistryTrustRoot root = tp_registry_root pin then Inr (SerializeRegistryTrustPin pin # entries)
        else rbind (replace_pin pin entries) (\<lambda>es. Inr (entry # es)))
      else rbind (replace_pin pin entries) (\<lambda>es. Inr (entry # es)))"

text \<open>The assignments to the store: null becomes an object, any other value that is not an object throws.\<close>

definition store_with_pins :: "json \<Rightarrow> json list \<Rightarrow> json result" where
  "store_with_pins store pins =
     (let fields = (\<lambda>kvs. Inr (JObject (jput ''schema_version'' (JInt 1) (jput ''pins'' (JArray pins) kvs)))) in
      case store of JObject kvs \<Rightarrow> fields kvs | JNull \<Rightarrow> fields [] | _ \<Rightarrow> Inl type_error)"

definition descriptor_payload :: "env \<Rightarrow> json \<Rightarrow> json result" where
  "descriptor_payload env descriptor =
     (if \<not> jcontains descriptor ''returncode'' then Inr descriptor
      else rbind (json_value_int env descriptor ''returncode'' (-1)) (\<lambda>code.
        case jget ''payload'' descriptor of
          Some (JObject kvs) \<Rightarrow> Inr (if code = 0 then JObject kvs else descriptor)
        | _ \<Rightarrow> Inr descriptor))"

definition import_pin :: "env \<Rightarrow> string \<Rightarrow> string \<Rightarrow> json \<Rightarrow> trust_pin result" where
  "import_pin env descriptor_source descriptor_text descriptor =
     (if \<not> is_object descriptor then Inl (FetchError ''registry trust descriptor must be a JSON object'')
      else rbind (descriptor_payload env descriptor) (\<lambda>payload.
        rbind (PinFromJson payload) (\<lambda>pin.
        if \<not> IsRegistrySha256Digest (tp_root_sha256 pin)
        then Inl (FetchError ''registry trust descriptor root_sha256 must be a lowercase sha256 digest'')
        else case Sha256Text descriptor_text of
          None \<Rightarrow> Inl OutOfFuel
        | Some d \<Rightarrow> Inr (pin\<lparr>tp_descriptor_sha256 := d, tp_descriptor_source := descriptor_source\<rparr>))))"

definition ImportRegistryTrustDescriptor :: "env \<Rightarrow> string \<Rightarrow> string \<Rightarrow> (fs, trust_pin) io" where
  "ImportRegistryTrustDescriptor env pafio_home descriptor_source =
     io_bind (LoadDescriptorText env descriptor_source) (\<lambda>descriptor_text.
     io_bind (case json_parse (env_json env) descriptor_text of
         Inl what \<Rightarrow> io_throw (FetchError ''registry trust descriptor is not valid JSON'')
       | Inr descriptor \<Rightarrow> io_lift (import_pin env descriptor_source descriptor_text descriptor)) (\<lambda>pin.
     io_bind (\<lambda>w. (LoadTrustStore env w pafio_home, w)) (\<lambda>store.
     io_bind (io_lift (rbind (replace_pin pin (case json_array (jget ''pins'' store) of None \<Rightarrow> [] | Some es \<Rightarrow> es))
       (store_with_pins store))) (\<lambda>store'.
     io_bind (WriteTrustStore env pafio_home store') (\<lambda>_. io_return pin)))))"

subsection \<open>Facts\<close>

lemma IsSafePackageSegment_iff: "IsSafePackageSegment v \<longleftrightarrow> name_segment v"
  by (auto simp: IsSafePackageSegment_def name_segment_def is_name_char_def list_all_iff)

lemma SplitRegistryPackageName_Inr:
  "SplitRegistryPackageName package_name context = Inr (a, b) \<longleftrightarrow>
     package_name = a @ slash # b \<and> name_segment a \<and> name_segment b"
proof
  assume "SplitRegistryPackageName package_name context = Inr (a, b)"
  then obtain i where i: "find_char slash package_name = Some i" "a = take i package_name" "b = drop (i + 1) package_name"
    "name_segment a" "name_segment b"
    by (auto simp: SplitRegistryPackageName_def IsSafePackageSegment_iff Let_def split: option.splits if_splits)
  with find_char_split [OF i(1)] show "package_name = a @ slash # b \<and> name_segment a \<and> name_segment b" by simp
next
  assume r: "package_name = a @ slash # b \<and> name_segment a \<and> name_segment b"
  then have no: "slash \<notin> set a" "slash \<notin> set b" using name_segment_no_slash by blast+
  then have f: "find_char slash package_name = Some (length a)" using r by (simp add: find_char_append)
  have "rfind_char slash package_name = Some (length a)"
  proof (cases "rfind_char slash package_name")
    case None
    with r show ?thesis by (simp add: rfind_char_None)
  next
    case (Some j)
    then have j: "j < length package_name" "package_name ! j = slash" using rfind_char_Some by blast+
    have "j = length a"
    proof (rule ccontr)
      assume ne: "j \<noteq> length a"
      then consider "j < length a" | k where "j = length a + Suc k" by (metis less_imp_Suc_add linorder_neqE_nat add_Suc_right)
      then show False
      proof cases
        case 1
        with j r no(1) show False by (auto simp: nth_append dest: nth_mem)
      next
        case 2
        with j r no(2) show False by (auto simp: nth_append dest: nth_mem)
      qed
    qed
    with Some show ?thesis by simp
  qed
  with f r show "SplitRegistryPackageName package_name context = Inr (a, b)"
    by (simp add: SplitRegistryPackageName_def IsSafePackageSegment_iff Let_def)
qed

lemma IsRegistrySha256Digest_iff: "IsRegistrySha256Digest v \<longleftrightarrow> length v = 64 \<and> list_all is_lower_hex v"
  by (auto simp: IsRegistrySha256Digest_def is_lower_hex_def list_all_iff not_less)

end
