(* ===== verification/SecurityProperties.thy ===== *)
theory SecurityProperties
  imports Security CoreProperties
begin

section \<open>Properties of registry security and trust\<close>

text \<open>
  The registry's checks of names and digests against those of manifests and lockfiles, the containment of
  object paths, the default policies, and what an import does to the trust store.
\<close>

subsection \<open>Names, digests and object paths\<close>

text \<open>The registry and the project agree on what is well formed: the registry accepts a package name exactly
  when the manifest pattern does, splitting it at its slash, and a digest exactly when the lockfile pattern does.\<close>

theorem registry_checks_agree:
  "((\<exists>parts. SplitRegistryPackageName n context = Inr parts) \<longleftrightarrow> rx_match NameRegex n) \<and>
   (\<forall>a b. SplitRegistryPackageName n context = Inr (a, b) \<longrightarrow> n = a @ ''/'' @ b) \<and>
   (IsRegistrySha256Digest d \<longleftrightarrow> rx_match Sha256Regex d)"
proof -
  have "(\<exists>parts. SplitRegistryPackageName n context = Inr parts) \<longleftrightarrow> rx_match NameRegex n"
    by (simp add: NameRegex_iff SplitRegistryPackageName_Inr split_paired_Ex)
  moreover have "IsRegistrySha256Digest d \<longleftrightarrow> rx_match Sha256Regex d"
    unfolding IsRegistrySha256Digest_iff Sha256Regex_def rx_power_Cls list_all_iff by blast
  ultimately show ?thesis by (simp add: SplitRegistryPackageName_Inr)
qed

theorem registry_checks_agree_witness:
  "SplitRegistryPackageName ''acme/util'' ''name'' = Inr (''acme'', ''util'') \<and> rx_match NameRegex ''acme/util''"
proof -
  have "SplitRegistryPackageName ''acme/util'' ''name'' = Inr (''acme'', ''util'')" by code_simp
  with registry_checks_agree [of "''acme/util''" "''name''"] show ?thesis by blast
qed

lemma getlines_no_end: "s \<noteq> [] \<Longrightarrow> last s \<noteq> d \<Longrightarrow> getlines d s = split_on d s"
proof -
  have "s \<noteq> [] \<Longrightarrow> last s \<noteq> d \<Longrightarrow> last (split_on d s) \<noteq> []" for s
    by (induction d s rule: split_on.induct) (auto split: if_splits list.splits)
  then show "s \<noteq> [] \<Longrightarrow> last s \<noteq> d \<Longrightarrow> getlines d s = split_on d s" by (simp add: getlines_def Let_def)
qed

lemma NormalizeRegistryObjectPath_Inr:
  assumes "NormalizeRegistryObjectPath p context = Inr q"
  shows "q = p \<and> p \<noteq> [] \<and> \<not> is_absolute p \<and> (\<forall>c \<in> set (comps p). proper_name c) \<and> comps p \<noteq> []"
proof -
  have p: "p \<noteq> []" "\<not> ends_with p ''/''" "\<not> is_absolute p" and q: "q = lexically_normal p"
    and parts: "\<forall>c \<in> set (getlines slash p). c \<noteq> [] \<and> c \<noteq> ''.'' \<and> c \<noteq> ''..''"
    using assms by (auto simp: NormalizeRegistryObjectPath_def Let_def list_ex_iff split: if_splits)
  have "last p \<noteq> slash" using p(1,2) by (metis append_butlast_last_id ends_with_iff)
  then have lines: "getlines slash p = split_on slash p" using p(1) getlines_no_end by blast
  then have comps: "comps p = split_on slash p" using parts by (auto simp: comps_def filter_id_conv)
  have plain: "\<forall>c \<in> set (comps p). plain_name c" using comps_plain by blast
  then have proper: "\<forall>c \<in> set (comps p). proper_name c"
    using parts unfolding lines comps by (auto simp: proper_name_def plain_name_def)
  have ne: "comps p \<noteq> []" unfolding comps by (cases p) (auto split: list.splits)
  have "norm_comps p = comps p" unfolding norm_comps_def using norm_foldl_id [OF proper, of _ "[]"] by simp
  moreover have "\<not> ends_as_dir p"
    using \<open>last p \<noteq> slash\<close> ne proper last_in_set [OF ne] by (auto simp: ends_as_dir_def proper_name_def)
  ultimately have "lexically_normal p = join ''/'' (comps p)"
    using p ne by (auto simp: lexically_normal_def unparse_path_def Let_def) (metis comps_Nil comps_join(1) plain)
  also have "\<dots> = p" unfolding comps by (rule split_on_join)
  finally show ?thesis using p q proper ne by simp
qed

text \<open>An object path of a registry index never leads outside the registry root: when it is accepted it is
  returned unchanged, all its names are proper, and joined to any root it stays inside that root.\<close>

theorem registry_object_contained:
  assumes "NormalizeRegistryObjectPath p context = Inr q" and "is_absolute cwd"
  shows "q = p \<and> (\<forall>c \<in> set (comps q). c \<noteq> [] \<and> c \<noteq> ''.'' \<and> c \<noteq> ''..'') \<and> PathIsWithin cwd (path_append root q) root \<and>
    comps (CanonicalAbsolutePath cwd (path_append root q)) = comps (CanonicalAbsolutePath cwd root) @ comps p"
proof -
  from NormalizeRegistryObjectPath_Inr [OF assms(1)] have q: "q = p" "\<not> is_absolute q" "\<forall>c \<in> set (comps q). proper_name c"
    by simp_all
  note app = canonical_append [OF assms(2) q(2,3), of root]
  then have "PathIsWithin cwd (path_append root q) root"
    by (simp add: PathIsWithin_iff [OF assms(2)])
  with q app show ?thesis by (auto simp: proper_name_def)
qed

theorem registry_object_contained_witness:
  "PathIsWithin ''/w'' (path_append ''../registry'' ''blobs/ab/x.tar'') ''../registry''"
proof -
  have "NormalizeRegistryObjectPath ''blobs/ab/x.tar'' ''blob'' = Inr ''blobs/ab/x.tar''" by code_simp
  from registry_object_contained [OF this, of "''/w''"] show ?thesis by (simp add: is_absolute_def)
qed

subsection \<open>The trust store\<close>

lemma map_sum_Inr: "map_sum f id r = Inr y \<longleftrightarrow> r = Inr y"
  by (cases r) simp_all

lemma WriteTrustStore_Inr:
  assumes "WriteTrustStore env pafio_home payload w = (Inr u, w')"
  shows "\<exists>body. json_dump (env_json env) 2 payload = Inr body \<and>
    fs_read env w' (RegistryTrustStorePath env pafio_home) = Some (body @ [CHR 0x0A])"
proof -
  obtain body w1 w2 e where dump: "json_dump (env_json env) 2 payload = Inr body"
    and wr: "fs_write env (trust_temp_path env pafio_home) (body @ [CHR 0x0A]) e w1 = (Inr (), w2)"
    and mv: "fs_rename env (trust_temp_path env pafio_home) (RegistryTrustStorePath env pafio_home) w2 = (Inr (), w')"
    using assms unfolding WriteTrustStore_def Let_def io_bind_Inr io_lift_eq map_sum_Inr
    by (elim exE conjE) (auto split: sum.splits prod.splits)
  have "path_key env (trust_temp_path env pafio_home) \<noteq> []"
    using wr by (auto simp: fs_write_def fs_can_write_def split: if_splits)
  with fs_write_read [OF wr] have "map_of w2 (path_key env (trust_temp_path env pafio_home)) = Some (File (body @ [CHR 0x0A]))"
    by (auto simp: fs_read_def node_at_def split: option.splits node.splits if_splits)
  with fs_rename_Inr [OF mv] dump show ?thesis by (simp add: fs_read_def node_at_def)
qed

lemma RequiredString_Inr: "RequiredString p k = Inr v \<longleftrightarrow> jget k p = Some (JString v) \<and> v \<noteq> []"
  by (auto simp: RequiredString_def split: option.splits json.splits list.splits)

lemma PinFromJson_root:
  "PinFromJson payload = Inr q \<Longrightarrow> \<exists>r. jget ''registry_root'' payload = Some (JString r) \<and> r \<noteq> [] \<and>
     tp_registry_root q = NormalizeRegistryTrustRoot r"
  unfolding PinFromJson_def rbind_eq_Inr RequiredString_Inr
  by (elim exE conjE) (drule Inr_inject, rule exI, intro conjI, assumption, assumption, simp add: eq_commute [of _ q])







text \<open>The documented round trip of the JSON library: what \<open>dump\<close> prints, with a line end, parses to the same value.\<close>

definition json_roundtrip :: "json_api \<Rightarrow> bool" where
  "json_roundtrip api \<longleftrightarrow> (\<forall>j t. json_dump api 2 j = Inr t \<longrightarrow> json_parse api (t @ [CHR 0x0A]) = Inr j)"

lemma ImportRegistryTrustDescriptor_steps:
  assumes "ImportRegistryTrustDescriptor env pafio_home source w = (Inr pin, w')" and "json_roundtrip (env_json env)"
  obtains body w1 descriptor store entries' where
    "LoadDescriptorText env source w = (Inr body, w1)" "import_pin env source body descriptor = Inr pin"
    "LoadTrustStore env w1 pafio_home = Inr store"
    "replace_pin pin (case json_array (jget ''pins'' store) of None \<Rightarrow> [] | Some es \<Rightarrow> es) = Inr entries'"
    "LoadRegistryTrustPins env w' pafio_home = rmap load_pin entries'"
proof -
  obtain body w1 descriptor store entries' store' where
    s: "LoadDescriptorText env source w = (Inr body, w1)" "import_pin env source body descriptor = Inr pin"
    "LoadTrustStore env w1 pafio_home = Inr store"
    "replace_pin pin (case json_array (jget ''pins'' store) of None \<Rightarrow> [] | Some es \<Rightarrow> es) = Inr entries'"
    "store_with_pins store entries' = Inr store'" "WriteTrustStore env pafio_home store' w1 = (Inr (), w')"
  proof -
    obtain body w1 where b: "LoadDescriptorText env source w = (Inr body, w1)"
      using assms(1) by (auto simp: ImportRegistryTrustDescriptor_def io_bind_Inr)
    show thesis
    proof (cases "json_parse (env_json env) body")
      case (Inl what)
      with assms(1) b show thesis by (auto simp: ImportRegistryTrustDescriptor_def io_bind_Inr io_throw_eq)
    next
      case (Inr descriptor)
      with assms(1) b show thesis
        by (auto simp: ImportRegistryTrustDescriptor_def io_bind_Inr io_lift_eq io_return_eq rbind_eq_Inr intro!: that)
    qed
  qed
  from WriteTrustStore_Inr [OF s(6)] assms(2) obtain t where
    t: "fs_read env w' (RegistryTrustStorePath env pafio_home) = Some t" "json_parse (env_json env) t = Inr store'"
    by (auto simp: json_roundtrip_def)
  then have "fs_exists env w' (RegistryTrustStorePath env pafio_home)"
    by (auto simp: fs_read_def fs_exists_def split: option.splits)
  with t have "LoadTrustStore env w' pafio_home = Inr store'"
    by (simp add: LoadTrustStore_def ReadDescriptorFile_def)
  moreover have "jget ''pins'' store' = Some (JArray entries')"
    using s(5) by (auto simp: store_with_pins_def jget_def Let_def split: json.splits)
  ultimately have "LoadRegistryTrustPins env w' pafio_home = rmap load_pin entries'"
    by (simp add: LoadRegistryTrustPins_def json_array_def)
  with s that show thesis by blast
qed


text \<open>A root that is only slashes makes the store unusable: such a descriptor is imported without an error, its
  pin is stored with an empty root, and from then on no pin of any registry can be loaded.\<close>

theorem slash_root_blocks_trust_store:
  assumes "ImportRegistryTrustDescriptor env pafio_home source w = (Inr pin, w')" and "json_roundtrip (env_json env)"
    and "tp_registry_root pin = []"
  shows "\<exists>e. ResolveRegistryTrustPin env w' pafio_home root = Inl e"
proof -
  obtain body w1 descriptor store entries' where s: "LoadDescriptorText env source w = (Inr body, w1)"
    "import_pin env source body descriptor = Inr pin" "LoadTrustStore env w1 pafio_home = Inr store"
    "replace_pin pin (case json_array (jget ''pins'' store) of None \<Rightarrow> [] | Some es \<Rightarrow> es) = Inr entries'"
    "LoadRegistryTrustPins env w' pafio_home = rmap load_pin entries'"
    using assms(1,2) by (rule ImportRegistryTrustDescriptor_steps)
  have "replace_pin pin es = Inr es' \<Longrightarrow> SerializeRegistryTrustPin pin \<in> set es'" for es es'
    by (induction es arbitrary: es') (auto simp: result_simps split: if_splits)
  from this [OF s(4)] have stored: "SerializeRegistryTrustPin pin \<in> set entries'" .
  have "rmap load_pin entries' \<noteq> Inr pins" for pins
  proof
    assume "rmap load_pin entries' = Inr pins"
    then obtain q where "load_pin (SerializeRegistryTrustPin pin) = Inr q"
      using list_all2_ex_right [OF rmap_eq_Inr stored] by blast
    then have "PinFromJson (SerializeRegistryTrustPin pin) = Inr q"
      by (auto simp: load_pin_def result_simps split: if_splits)
    from PinFromJson_root [OF this] assms(3) show False by (simp add: SerializeRegistryTrustPin_def)
  qed
  then show ?thesis
    by (cases "rmap load_pin entries'") (auto simp: ResolveRegistryTrustPin_def s(5))
qed

subsection \<open>Instances\<close>

text \<open>A descriptor file \<open>/d\<close> for a registry root, imported into an empty home \<open>/h\<close>.\<close>

definition trust_descriptor :: "string \<Rightarrow> json" where
  "trust_descriptor root = jobject [(''registry_root'', JString root), (''root_sha256'', JString (replicate 64 CHR ''a''))]"

definition trust_imported :: "string \<Rightarrow> trust_pin" where
  "trust_imported root = \<lparr>tp_registry_root = NormalizeRegistryTrustRoot root, tp_registry_name = [],
     tp_root_sha256 = replicate 64 CHR ''a'', tp_descriptor_sha256 = sha_hex (bytes_of ''D''),
     tp_descriptor_source = ''/d'', tp_control_plane_base_url = [], tp_issued_at = [], tp_expires = []\<rparr>"

definition trust_payload :: "string \<Rightarrow> json" where
  "trust_payload root = projr (store_with_pins empty_store [SerializeRegistryTrustPin (trust_imported root)])"

definition trust_env :: "string \<Rightarrow> env" where
  "trust_env root = sample_env\<lparr>env_json := \<lparr>json_dump = (\<lambda>_ j. if j = trust_payload root then Inr ''S'' else Inl []),
     json_parse = (\<lambda>t. if t = ''D'' then Inr (trust_descriptor root)
       else if t = ''S'' @ [CHR 0x0A] then Inr (trust_payload root) else Inl []), json_trunc = (\<lambda>_. 0),
     json_stream = (\<lambda>_. Inl [])\<rparr>\<rparr>"

definition trust_fs :: fs where
  "trust_fs = [([''d''], File ''D'')]"

lemma trust_roundtrip: "json_roundtrip (env_json (trust_env root))"
  by (simp add: json_roundtrip_def trust_env_def)

lemma trust_paths:
  "path_key (trust_env root) (RegistryTrustStorePath (trust_env root) ''/h'') = [''h'', ''registry'', ''trust'', ''registry-trust.json'']"
  "path_key (trust_env root) (parent_path (RegistryTrustStorePath (trust_env root) ''/h'')) = [''h'', ''registry'', ''trust'']"
  "path_key (trust_env root) (trust_temp_path (trust_env root) ''/h'') = [''h'', ''registry'', ''trust'', ''registry-trust.json.tmp'']"
  "path_key (trust_env root) ''/d'' = [''d'']"
proof -
  have cwd: "env_cwd (trust_env root) = env_cwd sample_env" by (simp add: trust_env_def)
  then have "RegistryTrustStorePath (trust_env root) ''/h'' = RegistryTrustStorePath sample_env ''/h''"
    by (simp add: RegistryTrustStorePath_def RegistryTrustRoot_def RegistryCacheRoot_def)
  moreover have "path_key (trust_env root) p = path_key sample_env p" for p by (simp add: path_key_def cwd)
  moreover have "path_key sample_env (RegistryTrustStorePath sample_env ''/h'') = [''h'', ''registry'', ''trust'', ''registry-trust.json'']"
    "path_key sample_env (parent_path (RegistryTrustStorePath sample_env ''/h'')) = [''h'', ''registry'', ''trust'']"
    "path_key sample_env (trust_temp_path sample_env ''/h'') = [''h'', ''registry'', ''trust'', ''registry-trust.json.tmp'']"
    "path_key sample_env ''/d'' = [''d'']"
    by code_simp+
  ultimately show
    "path_key (trust_env root) (RegistryTrustStorePath (trust_env root) ''/h'') = [''h'', ''registry'', ''trust'', ''registry-trust.json'']"
    "path_key (trust_env root) (parent_path (RegistryTrustStorePath (trust_env root) ''/h'')) = [''h'', ''registry'', ''trust'']"
    "path_key (trust_env root) (trust_temp_path (trust_env root) ''/h'') = [''h'', ''registry'', ''trust'', ''registry-trust.json.tmp'']"
    "path_key (trust_env root) ''/d'' = [''d'']"
    by (simp_all add: trust_temp_path_def)
qed

lemma trust_import_pin:
  assumes "root \<noteq> []"
  shows "import_pin (trust_env root) ''/d'' ''D'' (trust_descriptor root) = Inr (trust_imported root)"
proof -
  have obj: "is_object (trust_descriptor root)" by (simp add: is_object_def trust_descriptor_def jobject_def)
  have req: "RequiredString (trust_descriptor root) ''registry_root'' = Inr root"
    "RequiredString (trust_descriptor root) ''root_sha256'' = Inr (replicate 64 CHR ''a'')"
    using assms by (simp_all add: RequiredString_Inr trust_descriptor_def)
  have opt: "json_value_string (trust_descriptor root) k [] = Inr []"
    if "k \<notin> {''registry_root'', ''root_sha256''}" for k
    using obj that by (simp add: json_value_string_def trust_descriptor_def)
  have payload: "descriptor_payload (trust_env root) (trust_descriptor root) = Inr (trust_descriptor root)"
    by (simp add: descriptor_payload_def jcontains_def trust_descriptor_def)
  have "IsRegistrySha256Digest (replicate 64 CHR ''a'')" by code_simp
  then show ?thesis
    using obj payload by (simp add: import_pin_def PinFromJson_def req opt Sha256Text_eq trust_imported_def)
qed

lemma trust_import_run:
  assumes "root \<noteq> []"
  shows "\<exists>w'. ImportRegistryTrustDescriptor (trust_env root) ''/h'' ''/d'' trust_fs = (Inr (trust_imported root), w')"
proof -
  let ?env = "trust_env root"
  have writable: "env_writable ?env k" for k by (simp add: trust_env_def sample_env_def)
  have src: "LoadDescriptorText ?env ''/d'' trust_fs = (Inr ''D'', trust_fs)"
    by (simp add: LoadDescriptorText_def IsHttpSource_def IsFileUrl_def starts_with_def ReadDescriptorFile_def fs_read_def
        node_at_def trust_paths trust_fs_def)
  have store: "LoadTrustStore ?env trust_fs ''/h'' = Inr empty_store"
    by (simp add: LoadTrustStore_def fs_exists_def node_at_def trust_paths trust_fs_def)
  have pins: "json_array (jget ''pins'' empty_store) = Some []" by (simp add: json_array_def empty_store_def)
  have payload: "store_with_pins empty_store [SerializeRegistryTrustPin (trust_imported root)] = Inr (trust_payload root)"
    by (simp add: trust_payload_def store_with_pins_def empty_store_def jobject_def Let_def)
  have dump: "json_dump (env_json ?env) 2 (trust_payload root) = Inr ''S''"
    and parse: "json_parse (env_json ?env) ''D'' = Inr (trust_descriptor root)"
    by (simp_all add: trust_env_def)
  have "\<exists>w'. WriteTrustStore ?env ''/h'' (trust_payload root) trust_fs = (Inr (), w')"
    by (simp add: WriteTrustStore_def Let_def io_bind_def io_lift_def dump fs_create_directories_def fs_write_def
        fs_can_write_def fs_put_def fs_rename_def trust_paths writable trust_fs_def has_children_def)
  then show ?thesis
    by (auto simp: ImportRegistryTrustDescriptor_def io_bind_def io_lift_def io_return_def src parse
        trust_import_pin [OF assms] store pins payload)
qed


theorem slash_root_blocks_trust_store_witness:
  "\<exists>w'. ImportRegistryTrustDescriptor (trust_env ''/'') ''/h'' ''/d'' trust_fs = (Inr (trust_imported ''/''), w') \<and>
     (\<exists>e. ResolveRegistryTrustPin (trust_env ''/'') w' ''/h'' ''https://r'' = Inl e)"
proof -
  obtain w' where run: "ImportRegistryTrustDescriptor (trust_env ''/'') ''/h'' ''/d'' trust_fs = (Inr (trust_imported ''/''), w')"
    using trust_import_run [of "''/''"] by auto
  have "tp_registry_root (trust_imported ''/'') = []" by (simp add: trust_imported_def NormalizeRegistryTrustRoot_def)
  from slash_root_blocks_trust_store [OF run trust_roundtrip this, of "''https://r''"] run show ?thesis by blast
qed

end
