(* ===== verification/Files.thy ===== *)
theory Files
  imports Digest World
begin

section \<open>Operations on files and directories\<close>

text \<open>
  The rest of \<open>std::filesystem\<close> the components use on top of \<open>World\<close>: \<open>file_size\<close>, \<open>copy_file\<close>, the
  throwing \<open>remove\<close>, directory iteration, and the digest of a file of the file system
  (\<open>src/PafioCore/Sha256.cpp\<close>).
\<close>

definition fs_query :: "(fs \<Rightarrow> 'a result) \<Rightarrow> (fs, 'a) io" where
  "fs_query f = (\<lambda>w. (f w, w))"

definition fs_update :: "(fs \<Rightarrow> fs) \<Rightarrow> (fs, unit) io" where
  "fs_update f = (\<lambda>w. (Inr (), f w))"

lemma fs_query_eq [result_simps]: "fs_query f w = (r, w') \<longleftrightarrow> f w = r \<and> w' = w"
  by (auto simp: fs_query_def)

lemma fs_update_eq [result_simps]: "fs_update f w = (r, w') \<longleftrightarrow> r = Inr () \<and> w' = f w"
  by (auto simp: fs_update_def)

text \<open>One step of a computation.\<close>

lemma io_bind_apply: "io_bind m f w = (case m w of (Inl e, w') \<Rightarrow> (Inl e, w') | (Inr x, w') \<Rightarrow> f x w')"
  by (simp add: io_bind_def)

text \<open>\<open>file_size(path, ec)\<close>: \<open>None\<close> when \<open>ec\<close> is set.\<close>

definition fs_file_size :: "env \<Rightarrow> fs \<Rightarrow> string \<Rightarrow> nat option" where
  "fs_file_size env w p = map_option length (fs_read env w p)"

text \<open>\<open>remove(path)\<close> throws on a directory that is not empty.\<close>

definition fs_remove_file :: "env \<Rightarrow> string \<Rightarrow> (fs, unit) io" where
  "fs_remove_file env p = (\<lambda>w. if map_of w (path_key env p) = Some Dir \<and> has_children w (path_key env p)
     then (Inl (FilesystemError ''remove''), w) else (Inr (), fs_remove env p w))"

text \<open>\<open>copy_file(from, to, overwrite_existing, ec)\<close>: \<open>None\<close> when \<open>ec\<close> is set.\<close>

definition fs_copy_file :: "env \<Rightarrow> string \<Rightarrow> string \<Rightarrow> fs \<Rightarrow> fs option" where
  "fs_copy_file env a b w =
     (case fs_read env w a of
        None \<Rightarrow> None
      | Some content \<Rightarrow>
          if path_key env a = path_key env b \<or> \<not> fs_can_write env w b then None
          else Some (fs_put env b (File content) w))"

text \<open>\<open>directory_iterator(path)\<close>: the names of the entries of a directory with their nodes.\<close>

definition dir_entries :: "env \<Rightarrow> fs \<Rightarrow> string \<Rightarrow> (string \<times> node) list" where
  "dir_entries env w p = map (\<lambda>(k, n). (last k, n))
     (filter (\<lambda>(k, n). k \<noteq> [] \<and> butlast k = path_key env p) w)"

definition sha256_of_file :: "env \<Rightarrow> fs \<Rightarrow> string \<Rightarrow> string result" where
  "sha256_of_file env w p =
     (case fs_read env w p of
        None \<Rightarrow> Inl (CacheError (''failed to open file for sha256: '' @ p))
      | Some content \<Rightarrow> (case Sha256File content of None \<Rightarrow> Inl OutOfFuel | Some d \<Rightarrow> Inr d))"

lemma sha256_of_file_eq:
  "sha256_of_file env w p = (case fs_read env w p of
      None \<Rightarrow> Inl (CacheError (''failed to open file for sha256: '' @ p)) | Some content \<Rightarrow> Inr (sha_hex (bytes_of content)))"
  by (simp add: sha256_of_file_def Sha256File_eq split: option.splits)

lemma sha256_of_file_Inr:
  "sha256_of_file env w p = Inr d \<longleftrightarrow> (\<exists>content. fs_read env w p = Some content \<and> d = sha_hex (bytes_of content))"
  by (auto simp: sha256_of_file_eq split: option.splits)

lemma fs_copy_file_read:
  "fs_copy_file env a b w = Some w' \<Longrightarrow> \<exists>content. fs_read env w a = Some content \<and> fs_read env w' b = Some content"
  by (auto simp: fs_copy_file_def fs_read_def fs_can_write_def node_at_put_same split: option.splits if_splits node.splits)

lemma fs_remove_file_Inr: "fs_remove_file env p w = (Inr u, w') \<Longrightarrow> w' = fs_remove env p w"
  by (auto simp: fs_remove_file_def split: if_splits)

text \<open>A proper name appended to a path names a child of its node.\<close>

lemma path_key_append:
  assumes "is_absolute (env_cwd env)" and "\<not> is_absolute q" and "comps q = [q]" and "proper_name q"
  shows "path_key env (path_append p q) = path_key env p @ [q]"
  using canonical_append [OF assms(1,2), of p] assms(3,4) by (simp add: path_key_def)

lemma proper_relative: "proper_name q \<Longrightarrow> \<not> is_absolute q \<and> comps q = [q]"
  by (cases q) (auto simp: is_absolute_def proper_name_def plain_name_def intro!: comps_name)

lemma path_key_proper:
  "is_absolute (env_cwd env) \<Longrightarrow> proper_name q \<Longrightarrow> path_key env (path_append p q) = path_key env p @ [q]"
  using proper_relative by (simp add: path_key_append)

text \<open>A file is read at the key of its path.\<close>

lemma fs_read_key: "path_key env p = path_key env q \<Longrightarrow> fs_read env w p = fs_read env w q"
  by (simp add: fs_read_def node_at_def)

lemma fs_read_frame: "map_of w' (path_key env p) = map_of w (path_key env p) \<Longrightarrow> fs_read env w' p = fs_read env w p"
  by (simp add: fs_read_def node_at_def)

text \<open>\<open>std::isspace\<close>, and \<open>std::stoi\<close> with its two exceptions.\<close>

definition is_space :: "char \<Rightarrow> bool" where
  "is_space c \<longleftrightarrow> c = CHR '' '' \<or> (9 \<le> (of_char c :: nat) \<and> (of_char c :: nat) \<le> 13)"

definition std_stoi :: "string \<Rightarrow> int result" where
  "std_stoi v =
     (let t = dropWhile is_space v;
          negative = (t \<noteq> [] \<and> hd t = CHR ''-'');
          u = (if t \<noteq> [] \<and> (hd t = CHR ''-'' \<or> hd t = CHR ''+'') then tl t else t);
          ds = takeWhile is_digit u;
          n = foldl (\<lambda>a c. a * 10 + (of_char c - 48)) (0 :: int) ds;
          i = (if negative then - n else n)
      in if ds = [] then Inl (LogicError ''stoi: invalid_argument'')
         else if i < - (2 ^ 31) \<or> 2 ^ 31 \<le> i then Inl (LogicError ''stoi: out_of_range'') else Inr i)"

end
