(* ===== verification/Client.thy ===== *)
theory Client
  imports Files Security Resolver
begin

section \<open>The registry client\<close>

text \<open>
  \<open>src/PafioRegistryClient/Client.cpp\<close>: how a package of a registry becomes a directory of sources.  Objects of
  the registry are read from a \<open>file://\<close> root, or fetched with \<open>curl\<close> into a cache; the index entry names the
  digest and size of the artifact, which is cached under its digest, checked, listed and unpacked with \<open>tar\<close>.
  The file's own copies of \<open>Fnv1a64\<close> and \<open>Hex64\<close> are those of \<open>Digest\<close>.
  \<open>curl\<close> and \<open>tar\<close> are child processes, hence \<open>env_spawn\<close>.  A non-negative \<open>JInt\<close> stands for nlohmann's unsigned
  number.
\<close>

definition kRegistryMetadataMaxBytes :: nat where "kRegistryMetadataMaxBytes = 16 * 1024 * 1024"
definition kRegistryArtifactMaxBytes :: nat where "kRegistryArtifactMaxBytes = 512 * 1024 * 1024"

datatype object_kind = kMetadata | kArtifact

definition client_registry_root :: "string \<Rightarrow> string" where
  "client_registry_root v = pop_back_while (\<lambda>c. c = slash) v"

definition IsHttpRegistry :: "string \<Rightarrow> bool" where
  "IsHttpRegistry r \<longleftrightarrow> starts_with r ''http://'' \<or> starts_with r ''https://''"

definition IsFileRegistry :: "string \<Rightarrow> bool" where
  "IsFileRegistry r \<longleftrightarrow> starts_with r ''file://''"

definition FileUrlToPath :: "string \<Rightarrow> string" where
  "FileUrlToPath r = drop (length ''file://'') r"

definition SplitPackageName :: "string \<Rightarrow> (string \<times> string) result" where
  "SplitPackageName package_name =
     rbind (ValidateRegistryPackageIdentity package_name) (\<lambda>_.
     case find_char slash package_name of
       None \<Rightarrow> Inr (package_name, package_name)
     | Some i \<Rightarrow> Inr (take i package_name, drop (i + 1) package_name))"

definition ReadTextFile :: "env \<Rightarrow> string \<Rightarrow> string \<Rightarrow> (fs, string) io" where
  "ReadTextFile env path context = fs_query (\<lambda>w. case fs_read env w path of
      None \<Rightarrow> Inl (FetchError (''failed to open '' @ context @ '': '' @ path))
    | Some content \<Rightarrow> Inr content)"

definition ParseJsonObject :: "env \<Rightarrow> string \<Rightarrow> string \<Rightarrow> json result" where
  "ParseJsonObject env content context =
     (case json_parse (env_json env) content of
        Inl what \<Rightarrow> Inl (FetchError (context @ '' is not valid JSON''))
      | Inr payload \<Rightarrow>
          if \<not> is_object payload then Inl (FetchError (context @ '' must be a JSON object'')) else Inr payload)"

definition NormalizeRelativeRegistryPath :: "string \<Rightarrow> string \<Rightarrow> string result" where
  "NormalizeRelativeRegistryPath relative_path context = NormalizeRegistryObjectPath relative_path context"

subsection \<open>Registry documents\<close>

record registry_config =
  rc_targets_prefix :: string

definition ValidateConfig :: "env \<Rightarrow> json \<Rightarrow> string \<Rightarrow> registry_config result" where
  "ValidateConfig env config context =
     (let unsupported = Inl (FetchError (context @ '' does not match the supported registry v2 protocol'')) in
      rbind (json_value_string config ''protocol'' []) (\<lambda>protocol.
      if protocol \<noteq> ''pafio-static-registry'' then unsupported else
      rbind (json_value_int env config ''protocol_version'' 0) (\<lambda>version.
      if version \<noteq> 2 then unsupported else
      rbind (case jget ''paths'' config of
          None \<Rightarrow> Inr ''trust/targets/''
        | Some paths \<Rightarrow>
            if \<not> is_object paths then Inl (FetchError (context @ '' paths must be a JSON object''))
            else json_value_string paths ''targets_prefix'' ''trust/targets/'') (\<lambda>targets_prefix.
      if targets_prefix = [] then Inl (FetchError (context @ '' is missing paths.targets_prefix''))
      else Inr \<lparr>rc_targets_prefix = targets_prefix\<rparr>))))"

record registry_package_metadata =
  rpm_index_path :: string

definition object_at :: "json \<Rightarrow> string \<Rightarrow> error \<Rightarrow> json result" where
  "object_at j key err = (case jget key j of
      None \<Rightarrow> Inl err
    | Some v \<Rightarrow> if is_object v then Inr v else Inl err)"

definition ValidateTargetsMetadata ::
    "json \<Rightarrow> string \<Rightarrow> string \<Rightarrow> string \<Rightarrow> string \<Rightarrow> registry_package_metadata result" where
  "ValidateTargetsMetadata payload package_name package_namespace version context =
     rbind (object_at payload ''signed'' (FetchError (context @ '' must contain a signed object''))) (\<lambda>signed_payload.
     rbind (json_value_string signed_payload ''type'' []) (\<lambda>type.
     if type \<noteq> ''targets'' then Inl (FetchError (context @ '' signed.type must equal '' @ squote ''targets'')) else
     rbind (json_value_string signed_payload ''namespace'' []) (\<lambda>ns.
     if ns \<noteq> package_namespace
       then Inl (FetchError (context @ '' namespace mismatch: expected '' @ squote package_namespace @ '' but found '' @ squote ns)) else
     rbind (object_at signed_payload ''packages'' (FetchError (context @ '' signed.packages must be a JSON object''))) (\<lambda>packages.
     rbind (object_at packages package_name
       (FetchError (''registry v2 targets metadata is missing package: '' @ package_name))) (\<lambda>package.
     rbind (json_value_string package ''index_path'' []) (\<lambda>index_path.
     if index_path = [] then Inl (FetchError (''registry v2 targets metadata is missing index_path for '' @ package_name)) else
     rbind (object_at package ''releases''
       (FetchError (''registry v2 targets metadata is missing releases for '' @ package_name))) (\<lambda>releases.
     if \<not> jcontains releases version
       then Inl (FetchError (''registry v2 targets metadata does not contain version '' @ package_name @ ''@'' @ version)) else
     rbind (NormalizeRelativeRegistryPath index_path ''registry v2 package index_path'') (\<lambda>path.
     Inr \<lparr>rpm_index_path = path\<rparr>))))))))"

record registry_entry =
  re_package :: string
  re_version :: string
  re_sha256 :: string
  re_artifact_path :: string
  re_size_bytes :: nat

definition unsigned_at :: "json \<Rightarrow> string \<Rightarrow> nat option" where
  "unsigned_at j key = (case jget key j of Some (JInt n) \<Rightarrow> if 0 \<le> n then Some (nat n) else None | _ \<Rightarrow> None)"

definition ValidateEntry :: "json \<Rightarrow> string \<Rightarrow> string \<Rightarrow> registry_entry result" where
  "ValidateEntry entry expected_package expected_version =
     rbind (json_value_string entry ''package'' []) (\<lambda>package.
     rbind (json_value_string entry ''version'' []) (\<lambda>version.
     if package \<noteq> expected_package
       then Inl (FetchError (''registry v2 entry package mismatch: expected '' @ squote expected_package @ '' but found '' @ squote package)) else
     if version \<noteq> expected_version
       then Inl (FetchError (''registry v2 entry version mismatch: expected '' @ squote expected_version @ '' but found '' @ squote version)) else
     rbind (object_at entry ''source_artifact'' (FetchError ''registry v2 entry is missing source_artifact'')) (\<lambda>artifact.
     rbind (json_value_string artifact ''sha256'' []) (\<lambda>sha256.
     rbind (json_value_string artifact ''path'' []) (\<lambda>artifact_path.
     if \<not> IsRegistrySha256Digest sha256
       then Inl (FetchError ''registry v2 source_artifact is missing a valid sha256 digest'') else
     (case unsigned_at artifact ''size_bytes'' of
        None \<Rightarrow> Inl (FetchError ''registry v2 source_artifact is missing a valid size_bytes value'')
      | Some size_bytes \<Rightarrow>
          rbind (NormalizeRelativeRegistryPath artifact_path ''registry v2 source_artifact path'') (\<lambda>_.
          Inr \<lparr>re_package = package, re_version = version, re_sha256 = sha256,
            re_artifact_path = artifact_path, re_size_bytes = size_bytes\<rparr>)))))))"

subsection \<open>Fetching\<close>

definition TrimAscii :: "string \<Rightarrow> string" where
  "TrimAscii v = pop_back_while is_space (dropWhile is_space v)"

definition lower_char :: "char \<Rightarrow> char" where
  "lower_char c = (if CHR ''A'' \<le> c \<and> c \<le> CHR ''Z'' then char_of (of_char c + 32 :: nat) else c)"

definition LowerAscii :: "string \<Rightarrow> string" where
  "LowerAscii v = map lower_char v"

definition content_type_step :: "string \<Rightarrow> string \<Rightarrow> string" where
  "content_type_step media_type line0 =
     (let line = (if line0 \<noteq> [] \<and> last line0 = CHR 0x0D then butlast line0 else line0);
          pre = ''content-type:''
      in if starts_with (LowerAscii line) pre then
           let m = TrimAscii (drop (length pre) line);
               m' = (case find_char CHR '';'' m of None \<Rightarrow> m | Some i \<Rightarrow> take i m)
           in LowerAscii (TrimAscii m')
         else media_type)"

definition ReadLastContentType :: "env \<Rightarrow> string \<Rightarrow> (fs, string) io" where
  "ReadLastContentType env headers_path = fs_query (\<lambda>w. case fs_read env w headers_path of
      None \<Rightarrow> Inl (FetchError (''failed to read registry response headers: '' @ headers_path))
    | Some content \<Rightarrow> Inr (foldl content_type_step [] (getlines CHR 0x0A content)))"

definition IsAllowedRegistryMediaType :: "string \<Rightarrow> object_kind \<Rightarrow> bool" where
  "IsAllowedRegistryMediaType media_type kind =
     (if kind = kArtifact
      then media_type \<in> set [''application/octet-stream'', ''application/x-tar'', ''application/tar'']
      else media_type \<in> set [''application/json'', ''application/octet-stream'', ''application/x-ndjson'',
        ''application/jsonl'', ''text/plain''])"

definition CurlReadPolicyArgs :: "nat \<Rightarrow> string list" where
  "CurlReadPolicyArgs max_bytes = [''--connect-timeout'', ''10'', ''--max-time'', ''30'', ''--speed-time'', ''10'',
     ''--speed-limit'', ''1024'', ''--max-filesize'', to_dec max_bytes]"

definition registry_process :: "string \<Rightarrow> string list \<Rightarrow> process_request" where
  "registry_process program args = \<lparr>pr_program = program, pr_args = args, pr_workdir = None,
     pr_search_path = True, pr_timeout_ms = kExternalProcessStepTimeout, pr_context = ''registry process''\<rparr>"

definition temp_beside :: "string \<Rightarrow> string \<Rightarrow> string" where
  "temp_beside path ext = path_append (parent_path path) (filename path @ ext)"

definition accept_download :: "env \<Rightarrow> string \<Rightarrow> string \<Rightarrow> string \<Rightarrow> nat \<Rightarrow> (fs, unit) io" where
  "accept_download env url temp_path path max_bytes = (\<lambda>w.
     if (case fs_file_size env w temp_path of None \<Rightarrow> True | Some downloaded \<Rightarrow> max_bytes < downloaded)
     then io_bind (fs_remove_file env temp_path) (\<lambda>_.
       io_throw (FetchError (''registry object exceeded response limit '' @ squote url))) w
     else case fs_rename env temp_path path w of
       (Inr u, w') \<Rightarrow> (Inr (), w')
     | (Inl e, w') \<Rightarrow> io_bind (fs_remove_file env temp_path) (\<lambda>_.
         io_throw (CacheError (''failed to finalize registry artifact cache: '' @ path))) w')"

definition FetchUrlToFile :: "env \<Rightarrow> string \<Rightarrow> string \<Rightarrow> string list \<Rightarrow> nat \<Rightarrow> object_kind \<Rightarrow> (fs, unit) io" where
  "FetchUrlToFile env url path request_headers max_bytes kind =
     (let temp_path = temp_beside path ''.tmp''; headers_path = temp_beside path ''.headers.tmp'' in
      io_bind (fs_create_directories env (parent_path path)) (\<lambda>_.
      io_bind (RunProcess env CacheError (registry_process ''curl''
         ([''-fsSL'', ''-D'', headers_path] @ CurlReadPolicyArgs max_bytes @
          concat (map (\<lambda>header. [''-H'', header]) request_headers) @ [''-o'', temp_path, url]))) (\<lambda>r.
      if exit_code r \<noteq> 0 then
        io_bind (fs_update (fs_remove_quiet env temp_path)) (\<lambda>_.
        io_bind (fs_update (fs_remove_quiet env headers_path)) (\<lambda>_.
        io_throw (FetchError (''failed to fetch registry object '' @ squote url @ '': '' @ DescribeProcessFailure r))))
      else
      io_bind (ReadLastContentType env headers_path) (\<lambda>media_type.
      io_bind (fs_update (fs_remove_quiet env headers_path)) (\<lambda>_.
      if \<not> IsAllowedRegistryMediaType media_type kind then
        io_bind (fs_update (fs_remove_quiet env temp_path)) (\<lambda>_.
        io_throw (FetchError (''registry object has unsupported media type '' @
          squote (if media_type = [] then ''<missing>'' else media_type) @ '': '' @ url)))
      else accept_download env url temp_path path max_bytes)))))"

definition JoinUrl :: "string \<Rightarrow> string \<Rightarrow> string result" where
  "JoinUrl root relative_path =
     rbind (NormalizeRelativeRegistryPath relative_path ''registry object path'') (\<lambda>path.
     Inr (client_registry_root root @ ''/'' @ path))"

definition RegistryObjectCachePath :: "env \<Rightarrow> string \<Rightarrow> string \<Rightarrow> string \<Rightarrow> string result" where
  "RegistryObjectCachePath env pafio_home registry_root relative_path =
     rbind (NormalizeRelativeRegistryPath relative_path ''registry cache object path'') (\<lambda>path.
     Inr (path_append (path_append (RegistryIndexCacheRoot env pafio_home) (Hex64 (Fnv1a64 registry_root))) path))"

definition BlobCachePath :: "env \<Rightarrow> string \<Rightarrow> string \<Rightarrow> string" where
  "BlobCachePath env pafio_home sha256 =
     path_append (path_append (path_append (RegistryBlobCacheRoot env pafio_home) (take 2 sha256)) (take 2 (drop 2 sha256)))
       (sha256 @ ''.tar'')"

definition CheckoutPath :: "env \<Rightarrow> string \<Rightarrow> string \<Rightarrow> string \<Rightarrow> string \<Rightarrow> string result" where
  "CheckoutPath env pafio_home package_name version sha256 =
     rbind (SplitPackageName package_name) (\<lambda>(package_namespace, short_name).
     Inr (foldl path_append (RegistryCheckoutRoot env pafio_home) [package_namespace, short_name, version, sha256]))"

definition LoadRegistryObjectText ::
    "env \<Rightarrow> string \<Rightarrow> string \<Rightarrow> string list \<Rightarrow> string \<Rightarrow> string \<Rightarrow> bool \<Rightarrow> (fs, string) io" where
  "LoadRegistryObjectText env pafio_home registry_root request_headers relative_path context offline =
     io_bind (io_lift (NormalizeRelativeRegistryPath relative_path context)) (\<lambda>normalized_relative.
     if IsFileRegistry registry_root then
       ReadTextFile env (path_append (FileUrlToPath registry_root) normalized_relative) context
     else if \<not> IsHttpRegistry registry_root then
       io_throw (FetchError (''registry root must use file://, http://, or https://: '' @ registry_root))
     else
       io_bind (io_lift (RegistryObjectCachePath env pafio_home registry_root normalized_relative)) (\<lambda>cache_path.
       if offline then
         io_bind (fs_query (\<lambda>w. guard (fs_exists env w cache_path)
           (FetchError (''offline mode is missing cached '' @ context @ '' for '' @ registry_root)))) (\<lambda>_.
         ReadTextFile env cache_path (''cached '' @ context))
       else
         io_bind (io_lift (JoinUrl registry_root normalized_relative)) (\<lambda>url.
         io_bind (FetchUrlToFile env url cache_path request_headers kRegistryMetadataMaxBytes kMetadata) (\<lambda>_.
         ReadTextFile env cache_path (''cached '' @ context)))))"

definition LoadConfig :: "env \<Rightarrow> string \<Rightarrow> string \<Rightarrow> string list \<Rightarrow> bool \<Rightarrow> (fs, registry_config) io" where
  "LoadConfig env pafio_home registry_root request_headers offline =
     io_bind (LoadRegistryObjectText env pafio_home registry_root request_headers ''config.json'' ''registry v2 config'' offline)
       (\<lambda>content. io_lift (rbind (ParseJsonObject env content ''registry v2 config'') (\<lambda>j.
         ValidateConfig env j ''registry v2 config'')))"

definition LoadPackageMetadata ::
    "env \<Rightarrow> string \<Rightarrow> string \<Rightarrow> string list \<Rightarrow> registry_config \<Rightarrow> string \<Rightarrow> string \<Rightarrow> bool \<Rightarrow>
     (fs, registry_package_metadata) io" where
  "LoadPackageMetadata env pafio_home registry_root request_headers config package_name version offline =
     (let context = ''registry v2 targets metadata'' in
      io_bind (io_lift (SplitPackageName package_name)) (\<lambda>(package_namespace, short_name).
      io_bind (LoadRegistryObjectText env pafio_home registry_root request_headers
          (rc_targets_prefix config @ package_namespace @ ''.json'') context offline) (\<lambda>content.
      io_lift (rbind (ParseJsonObject env content context) (\<lambda>j.
        ValidateTargetsMetadata j package_name package_namespace version context)))))"

definition blank_line :: "string \<Rightarrow> bool" where
  "blank_line line \<longleftrightarrow> list_all (\<lambda>c. c \<in> set [CHR '' '', CHR 0x09, CHR 0x0D, CHR 0x0A]) line"

fun find_entry :: "env \<Rightarrow> string \<Rightarrow> string \<Rightarrow> string list \<Rightarrow> registry_entry result" where
  "find_entry env package_name version [] =
     Inl (FetchError (''registry v2 index does not contain package version: '' @ package_name @ ''@'' @ version))"
| "find_entry env package_name version (line # rest) =
     (if blank_line line then find_entry env package_name version rest else
      rbind (ParseJsonObject env line ''registry v2 index record'') (\<lambda>entry.
      rbind (json_value_string entry ''package'' []) (\<lambda>p.
      if p \<noteq> package_name then find_entry env package_name version rest else
      rbind (json_value_string entry ''version'' []) (\<lambda>v.
      if v \<noteq> version then find_entry env package_name version rest
      else ValidateEntry entry package_name version))))"

definition LoadEntry ::
    "env \<Rightarrow> string \<Rightarrow> string \<Rightarrow> string list \<Rightarrow> string \<Rightarrow> string \<Rightarrow> registry_package_metadata \<Rightarrow> bool \<Rightarrow>
     (fs, registry_entry) io" where
  "LoadEntry env pafio_home registry_root request_headers package_name version metadata offline =
     io_bind (LoadRegistryObjectText env pafio_home registry_root request_headers (rpm_index_path metadata)
       ''registry v2 index'' offline) (\<lambda>content.
     io_lift (find_entry env package_name version (getlines CHR 0x0A content)))"

subsection \<open>Artifacts and checkouts\<close>

definition check_cached_blob :: "env \<Rightarrow> string \<Rightarrow> registry_entry \<Rightarrow> (fs, unit) io" where
  "check_cached_blob env blob entry =
     io_bind (fs_query (\<lambda>w. sha256_of_file env w blob)) (\<lambda>actual.
     if actual \<noteq> re_sha256 entry then io_throw (CacheError (''cached registry artifact sha256 mismatch: '' @ blob)) else
     fs_query (\<lambda>w. guard (fs_file_size env w blob = Some (re_size_bytes entry))
       (CacheError (''cached registry artifact size mismatch: '' @ blob))))"

definition check_new_blob :: "env \<Rightarrow> string \<Rightarrow> registry_entry \<Rightarrow> (fs, unit) io" where
  "check_new_blob env blob entry =
     (let release = re_package entry @ ''@'' @ re_version entry in
      io_bind (fs_query (\<lambda>w. guard (fs_file_size env w blob = Some (re_size_bytes entry))
        (FetchError (''registry v2 source artifact size mismatch for '' @ release)))) (\<lambda>_.
      io_bind (fs_query (\<lambda>w. sha256_of_file env w blob)) (\<lambda>actual.
      io_guard (actual = re_sha256 entry) (FetchError (''registry v2 source artifact sha256 mismatch for '' @ release)))))"

definition copy_blob :: "env \<Rightarrow> string \<Rightarrow> string \<Rightarrow> (fs, unit) io" where
  "copy_blob env source_blob blob =
     io_bind (fs_query (\<lambda>w. guard (fs_exists env w source_blob)
       (FetchError (''registry v2 source artifact not found: '' @ source_blob)))) (\<lambda>_.
     io_bind (fs_create_directories env (parent_path blob)) (\<lambda>_.
     (\<lambda>w. case fs_copy_file env source_blob blob w of
         None \<Rightarrow> (Inl (CacheError (''failed to cache registry v2 source artifact: '' @ blob)), w)
       | Some w' \<Rightarrow> (Inr (), w'))))"

definition MaterializeArtifact ::
    "env \<Rightarrow> string \<Rightarrow> string \<Rightarrow> string list \<Rightarrow> registry_entry \<Rightarrow> bool \<Rightarrow> (fs, unit) io" where
  "MaterializeArtifact env pafio_home registry_root request_headers entry offline = (\<lambda>w.
     let blob = BlobCachePath env pafio_home (re_sha256 entry) in
     if fs_exists env w blob then check_cached_blob env blob entry w
     else
       io_bind (io_lift (NormalizeRelativeRegistryPath (re_artifact_path entry) ''registry v2 source artifact path'')) (\<lambda>artifact.
       io_bind
         (if IsFileRegistry registry_root then copy_blob env (path_append (FileUrlToPath registry_root) artifact) blob
          else if offline then io_throw (FetchError (''offline mode is missing cached registry artifact for '' @
            re_package entry @ ''@'' @ re_version entry))
          else io_bind (io_lift (JoinUrl registry_root artifact)) (\<lambda>url.
            FetchUrlToFile env url blob request_headers kRegistryArtifactMaxBytes kArtifact)) (\<lambda>_.
       check_new_blob env blob entry)) w)"

definition DetectSnapshotRoot :: "env \<Rightarrow> fs \<Rightarrow> string \<Rightarrow> string result" where
  "DetectSnapshotRoot env w checkout_root =
     (if fs_exists env w (path_append checkout_root ''pafio.toml'') then Inr checkout_root
      else if \<not> fs_is_directory env w checkout_root then Inl (FilesystemError ''directory_iterator'')
      else let subdirectories = map (path_append checkout_root \<circ> fst)
                 (filter (\<lambda>(name, n). n = Dir) (dir_entries env w checkout_root));
               failed = Inl (CacheError (''registry package snapshot does not contain pafio.toml: '' @ checkout_root))
      in case subdirectories of
           [d] \<Rightarrow> if fs_exists env w (path_append d ''pafio.toml'') then Inr d else failed
         | _ \<Rightarrow> failed)"

definition check_member :: "string \<Rightarrow> nat \<Rightarrow> nat result" where
  "check_member original_entry_path manifest_candidates =
     (let entry_path = pop_back_while (\<lambda>c. c = slash) original_entry_path in
      if entry_path = []
      then Inl (CacheError (''registry archive member path is empty after normalization: '' @ original_entry_path))
      else rbind (NormalizeRelativeRegistryPath entry_path ''registry archive member path'') (\<lambda>_.
        Inr (if entry_path = ''pafio.toml'' \<or> ends_with entry_path ''/pafio.toml''
             then Suc manifest_candidates else manifest_candidates)))"

definition check_member_type :: "string \<Rightarrow> unit \<Rightarrow> unit result" where
  "check_member_type verbose_line u =
     (case verbose_line of
        [] \<Rightarrow> Inr ()
      | type # _ \<Rightarrow> if type \<noteq> CHR ''-'' \<and> type \<noteq> CHR ''d''
          then Inl (CacheError (''registry archive member type is not allowed: '' @ verbose_line)) else Inr ())"

definition run_tar :: "env \<Rightarrow> string list \<Rightarrow> string \<Rightarrow> string \<Rightarrow> (fs, process_result) io" where
  "run_tar env args what blob =
     io_bind (RunProcess env CacheError (registry_process ''tar'' args)) (\<lambda>r.
     if exit_code r \<noteq> 0
     then io_throw (CacheError (''failed to '' @ what @ '' registry artifact '' @ squote blob @ '': '' @ DescribeProcessFailure r))
     else io_return r)"

definition ValidateTarListingPaths :: "env \<Rightarrow> string \<Rightarrow> (fs, unit) io" where
  "ValidateTarListingPaths env blob =
     io_bind (run_tar env [''-tf'', blob] ''list'' blob) (\<lambda>path_listing.
     io_bind (io_lift (rfold check_member (getlines CHR 0x0A (stdout_text path_listing)) 0)) (\<lambda>manifest_candidates.
     if manifest_candidates \<noteq> 1
     then io_throw (CacheError ''registry archive must contain exactly one pafio.toml manifest'') else
     io_bind (run_tar env [''-tvf'', blob] ''inspect'' blob) (\<lambda>verbose_listing.
     io_lift (rfold check_member_type (getlines CHR 0x0A (stdout_text verbose_listing)) ()))))"

definition unpack_checkout :: "env \<Rightarrow> string \<Rightarrow> string \<Rightarrow> (fs, string) io" where
  "unpack_checkout env blob checkout_root =
     io_bind (fs_update (fs_remove_all env checkout_root)) (\<lambda>_.
     io_bind (fs_create_directories env checkout_root) (\<lambda>_.
     io_bind (ValidateTarListingPaths env blob) (\<lambda>_.
     io_bind (run_tar env [''--no-same-owner'', ''--no-same-permissions'', ''-xf'', blob, ''-C'', checkout_root] ''extract'' blob) (\<lambda>_.
     io_bind (fs_query (\<lambda>w. DetectSnapshotRoot env w checkout_root)) (\<lambda>snapshot_root.
     io_bind (fs_write env (path_append checkout_root ''.pafio-snapshot-ready'') (''ready'' @ [CHR 0x0A])
       (CacheError (''failed to write registry ready marker: '' @ path_append checkout_root ''.pafio-snapshot-ready''))) (\<lambda>_.
     io_return snapshot_root))))))"

definition EnsureCheckout :: "env \<Rightarrow> string \<Rightarrow> registry_entry \<Rightarrow> (fs, string) io" where
  "EnsureCheckout env pafio_home entry =
     io_bind (io_lift (CheckoutPath env pafio_home (re_package entry) (re_version entry) (re_sha256 entry))) (\<lambda>checkout_root.
     (\<lambda>w. if fs_exists env w (path_append checkout_root ''.pafio-snapshot-ready'')
       then (DetectSnapshotRoot env w checkout_root, w)
       else unpack_checkout env (BlobCachePath env pafio_home (re_sha256 entry)) checkout_root w))"

text \<open>The check of a remote registry against its pinned descriptor.\<close>

definition check_trust :: "env \<Rightarrow> string \<Rightarrow> read_decision \<Rightarrow> bool \<Rightarrow> (fs, unit) io" where
  "check_trust env pafio_home security offline =
     (let root = rd_registry_root security in
      if \<not> IsHttpRegistry root then io_return () else
      io_bind (fs_query (\<lambda>w. ResolveRegistryTrustPin env w pafio_home root)) (\<lambda>pin.
      case pin of
        None \<Rightarrow> io_throw (FetchError (''remote registry is not trusted: import a platform registry descriptor with '' @
          squote ''pafio registry trust import'' @ '' before fetching '' @ root))
      | Some trust_pin \<Rightarrow>
          io_bind (LoadRegistryObjectText env pafio_home root (rd_request_headers security) ''trust/root.json''
            ''registry v2 root metadata'' offline) (\<lambda>root_metadata.
          case Sha256Text root_metadata of
            None \<Rightarrow> io_throw OutOfFuel
          | Some actual_root_sha256 \<Rightarrow> io_guard (actual_root_sha256 = tp_root_sha256 trust_pin)
              (FetchError (''registry v2 root metadata does not match the imported platform descriptor pin for '' @ root)))))"

definition MaterializeRegistryPackage :: "security_slots \<Rightarrow> env \<Rightarrow> registry_client" where
  "MaterializeRegistryPackage slots env registry_root package_name version offline =
     io_bind (io_lift (ResolveRegistryReadSecurity slots \<lparr>rr_registry_root = registry_root, rr_offline = offline\<rparr>)) (\<lambda>security.
     io_bind (io_lift (ResolvePafioHome env)) (\<lambda>pafio_home.
     io_bind (check_trust env pafio_home security offline) (\<lambda>_.
     io_bind (LoadConfig env pafio_home (rd_registry_root security) (rd_request_headers security) offline) (\<lambda>config.
     io_bind (LoadPackageMetadata env pafio_home (rd_registry_root security) (rd_request_headers security) config
       package_name version offline) (\<lambda>metadata.
     io_bind (LoadEntry env pafio_home (rd_registry_root security) (rd_request_headers security) package_name version
       metadata offline) (\<lambda>entry.
     io_bind (MaterializeArtifact env pafio_home (rd_registry_root security) (rd_request_headers security) entry offline) (\<lambda>_.
     io_bind (EnsureCheckout env pafio_home entry) (\<lambda>snapshot_root.
     io_return \<lparr>rm_registry_root = rd_registry_root security, rm_package_name = re_package entry,
       rm_version = re_version entry, rm_sha256 = re_sha256 entry, rm_snapshot_root = snapshot_root\<rparr>))))))))"

end
