(* ===== verification/ClientFacts.thy ===== *)
theory ClientFacts
  imports Client SecurityProperties ResolverRuns
begin

section \<open>Facts about the registry client\<close>

text \<open>
  What a registry materialization guarantees, as an interface the resolver relies on, and the client as a provider
  of that interface; the checks of artifacts and archive listings; the independence of offline runs from \<open>curl\<close>.
\<close>

subsection \<open>The interface\<close>

locale registry_provider =
  fixes mat :: registry_client
  assumes mat_named: "mat root package version offline w = (Inr m, w') \<Longrightarrow>
      rm_registry_root m \<noteq> [] \<and> rm_package_name m = package \<and> rm_version m = version"
    and mat_digest: "mat root package version offline w = (Inr m, w') \<Longrightarrow> rx_match Sha256Regex (rm_sha256 m)"
begin

lemma provider_ok: "registry_ok mat"
  using mat_named mat_digest unfolding registry_ok_def by blast

lemma provider_graph_state:
  assumes "ResolveSingleVersionGraph fuel env mat mp off vr w = (Inr g, w')"
  obtains R ids s where "g = graph_of_state R ids s" "rinv {} s" "set ids \<subseteq> n_id ` set (st_nodes s)"
  using resolved_graph_state [OF assms provider_ok] by blast

lemma provider_graph_single_version:
  assumes "ResolveSingleVersionGraph fuel env mat mp off vr w = (Inr g, w')"
  shows "distinct (map (pkg_name \<circ> rp_package) (rg_packages g))"
proof -
  obtain R ids s where g: "g = graph_of_state R ids s" and inv: "rinv {} s"
    using assms by (rule provider_graph_state)
  have pk: "rg_packages g = sort_key rp_id (map package_of_node (st_nodes s))"
    by (simp add: g graph_of_state_def Let_def)
  have "distinct (map (pkg_name \<circ> rp_package) (rg_packages g)) = distinct (map node_name (st_nodes s))"
    by (simp add: pk std_sort.srt_distinct_map comp_def)
  with rinv_distinct_names [OF inv] show ?thesis by simp
qed

lemma provider_lockfile_wf:
  assumes "ResolveSingleVersionGraph fuel env mat mp off vr w = (Inr g, w')"
  shows "wf_lockfile (rg_lockfile g)"
proof -
  obtain R ids s where g: "g = graph_of_state R ids s" and inv: "rinv {} s"
    using assms by (rule provider_graph_state)
  with graph_lockfile_wf [OF inv] show ?thesis by simp
qed

end

subsection \<open>Entries\<close>

lemma ValidateEntry_Inr:
  assumes "ValidateEntry entry package version = Inr e"
  shows "re_package e = package \<and> re_version e = version \<and> IsRegistrySha256Digest (re_sha256 e) \<and>
    NormalizeRegistryObjectPath (re_artifact_path e) ''registry v2 source_artifact path'' = Inr (re_artifact_path e)"
  using assms NormalizeRegistryObjectPath_Inr
  unfolding ValidateEntry_def result_simps NormalizeRelativeRegistryPath_def
  by (auto simp: result_simps split: option.splits)

lemma find_entry_Inr:
  "find_entry env package version lines = Inr e \<Longrightarrow> \<exists>entry. ValidateEntry entry package version = Inr e"
  by (induction lines) (auto simp: result_simps split: if_splits)

lemma LoadEntry_Inr:
  assumes "LoadEntry env home root headers package version metadata offline w = (Inr e, w')"
  shows "re_package e = package \<and> re_version e = version \<and> IsRegistrySha256Digest (re_sha256 e)"
proof -
  from assms obtain lines where "find_entry env package version lines = Inr e"
    by (auto simp: LoadEntry_def result_simps)
  from find_entry_Inr [OF this] ValidateEntry_Inr show ?thesis by blast
qed

subsection \<open>Artifacts\<close>

lemma check_cached_blob_Inr:
  assumes "check_cached_blob env blob e w = (Inr u, w')"
  shows "w' = w \<and> (\<exists>c. fs_read env w blob = Some c \<and> Sha256Text c = Some (re_sha256 e) \<and> length c = re_size_bytes e)"
  using assms
  by (auto simp: check_cached_blob_def result_simps sha256_of_file_Inr Sha256Text_eq fs_file_size_def split: if_splits)

lemma check_new_blob_Inr:
  assumes "check_new_blob env blob e w = (Inr u, w')"
  shows "w' = w \<and> (\<exists>c. fs_read env w blob = Some c \<and> Sha256Text c = Some (re_sha256 e) \<and> length c = re_size_bytes e)"
  using assms
  by (auto simp: check_new_blob_def result_simps sha256_of_file_Inr Sha256Text_eq fs_file_size_def Let_def)

lemma MaterializeArtifact_Inr:
  assumes "MaterializeArtifact env home root headers e offline w = (Inr u, w')"
  shows "\<exists>c. fs_read env w' (BlobCachePath env home (re_sha256 e)) = Some c \<and> Sha256Text c = Some (re_sha256 e) \<and>
    length c = re_size_bytes e"
proof (cases "fs_exists env w (BlobCachePath env home (re_sha256 e))")
  case True
  with assms check_cached_blob_Inr show ?thesis by (fastforce simp: MaterializeArtifact_def Let_def)
next
  case False
  with assms obtain w1 where "check_new_blob env (BlobCachePath env home (re_sha256 e)) e w1 = (Inr u, w')"
    unfolding MaterializeArtifact_def Let_def io_bind_Inr if_not_P [OF False] by blast
  with check_new_blob_Inr show ?thesis by fastforce
qed

subsection \<open>The default policy and the client as a provider\<close>

lemma default_read_root:
  assumes "ResolveRegistryReadSecurity initial_slots rq = Inr d"
  shows "rd_registry_root d = NormalizeRegistryRoot (rr_registry_root rq) \<and> rd_request_headers d = [] \<and>
    (IsFileRegistry (rd_registry_root d) \<or> IsHttpRegistry (rd_registry_root d))"
  using assms
  by (auto simp: ResolveRegistryReadSecurity_def initial_slots_def ResolveDefaultRegistryReadSecurity_def
      NormalizeReadRegistryRoot_def ValidateReadRegistryRootScheme_def ResolvePublicDefaultReadAccess_def
      IsFileRegistry_def IsHttpRegistry_def IsFileRegistryRoot_def IsHttpRegistryRoot_def split: if_splits)

lemma Materialize_steps:
  assumes "MaterializeRegistryPackage slots env root package version offline w = (Inr m, w')"
  obtains d home e w1 w2 w3 where
    "ResolveRegistryReadSecurity slots \<lparr>rr_registry_root = root, rr_offline = offline\<rparr> = Inr d"
    "ResolvePafioHome env = Inr home" "check_trust env home d offline w = (Inr (), w1)"
    "re_package e = package" "re_version e = version" "IsRegistrySha256Digest (re_sha256 e)"
    "MaterializeArtifact env home (rd_registry_root d) (rd_request_headers d) e offline w2 = (Inr (), w3)"
    "EnsureCheckout env home e w3 = (Inr (rm_snapshot_root m), w')"
    "rm_registry_root m = rd_registry_root d" "rm_package_name m = package" "rm_version m = version"
    "rm_sha256 m = re_sha256 e"
  using assms unfolding MaterializeRegistryPackage_def io_bind_Inr io_lift_eq io_return_eq
  by (elim exE conjE) (auto dest: LoadEntry_Inr)

interpretation client: registry_provider "MaterializeRegistryPackage initial_slots env" for env
proof
  fix root package version offline w m w'
  assume run: "MaterializeRegistryPackage initial_slots env root package version offline w = (Inr m, w')"
  obtain d :: read_decision and e :: registry_entry where d: "ResolveRegistryReadSecurity initial_slots \<lparr>rr_registry_root = root, rr_offline = offline\<rparr> = Inr d"
    and m: "rm_registry_root m = rd_registry_root d" "rm_package_name m = package" "rm_version m = version"
      "rm_sha256 m = re_sha256 e" "IsRegistrySha256Digest (re_sha256 e)"
    by (rule Materialize_steps [OF run]) blast
  have "rd_registry_root d \<noteq> []"
    using default_read_root [OF d] by (auto simp: IsFileRegistry_def IsHttpRegistry_def starts_with_def)
  with m show "rm_registry_root m \<noteq> [] \<and> rm_package_name m = package \<and> rm_version m = version" by simp
  from m show "rx_match Sha256Regex (rm_sha256 m)"
    unfolding IsRegistrySha256Digest_iff Sha256Regex_def rx_power_Cls list_all_iff by simp
qed

subsection \<open>Archive listings\<close>

lemma check_member_Inr:
  assumes "check_member line n = Inr n'"
  shows "(let p = pop_back_while (\<lambda>c. c = slash) line in
     NormalizeRegistryObjectPath p ''registry archive member path'' = Inr p \<and>
     n' = (if p = ''pafio.toml'' \<or> ends_with p ''/pafio.toml'' then Suc n else n))"
  using assms NormalizeRegistryObjectPath_Inr
  by (auto simp: check_member_def Let_def NormalizeRelativeRegistryPath_def result_simps split: if_splits)

definition names_manifest :: "string \<Rightarrow> bool" where
  "names_manifest line \<longleftrightarrow> (let p = pop_back_while (\<lambda>c. c = slash) line in p = ''pafio.toml'' \<or> ends_with p ''/pafio.toml'')"

lemma check_members_Inr:
  "rfold check_member lines n = Inr n' \<Longrightarrow>
     (\<forall>line \<in> set lines. NormalizeRegistryObjectPath (pop_back_while (\<lambda>c. c = slash) line) ''registry archive member path'' =
        Inr (pop_back_while (\<lambda>c. c = slash) line)) \<and>
     n' = n + length (filter names_manifest lines)"
proof (induction lines arbitrary: n)
  case Nil
  then show ?case by simp
next
  case (Cons line lines)
  then obtain k where k: "check_member line n = Inr k" "rfold check_member lines k = Inr n'" by (auto simp: result_simps)
  from check_member_Inr [OF k(1)] Cons.IH [OF k(2)] show ?case by (auto simp: names_manifest_def Let_def split: if_splits)
qed

lemma check_types_Inr:
  "rfold check_member_type lines u = Inr u' \<Longrightarrow> \<forall>line \<in> set lines. line = [] \<or> hd line \<in> {CHR ''-'', CHR ''d''}"
proof (induction lines arbitrary: u)
  case Nil
  then show ?case by simp
next
  case (Cons line lines)
  then obtain k where k: "check_member_type line u = Inr k" "rfold check_member_type lines k = Inr u'"
    by (auto simp: result_simps)
  from k(1) have "line = [] \<or> hd line \<in> {CHR ''-'', CHR ''d''}"
    by (auto simp: check_member_type_def split: list.splits if_splits)
  with Cons.IH [OF k(2)] show ?case by simp
qed

subsection \<open>Offline runs\<close>

lemma spawn_frame_files:
  "RegistryIndexCacheRoot (spawning env sp) = RegistryIndexCacheRoot env"
  "RegistryCheckoutRoot (spawning env sp) = RegistryCheckoutRoot env"
  "BlobCachePath (spawning env sp) = BlobCachePath env"
  "RegistryTrustStorePath (spawning env sp) = RegistryTrustStorePath env"
  "fs_file_size (spawning env sp) = fs_file_size env" "fs_is_directory (spawning env sp) = fs_is_directory env"
  "sha256_of_file (spawning env sp) = sha256_of_file env" "fs_copy_file (spawning env sp) = fs_copy_file env"
  "dir_entries (spawning env sp) = dir_entries env" "fs_write (spawning env sp) = fs_write env"
  unfolding fun_eq_iff BlobCachePath_def RegistryIndexCacheRoot_def RegistryCheckoutRoot_def RegistryBlobCacheRoot_def
    RegistryTrustStorePath_def RegistryTrustRoot_def RegistryCacheRoot_def fs_file_size_def fs_is_directory_def
    sha256_of_file_def fs_copy_file_def dir_entries_def fs_write_def spawn_frame
  by simp_all

lemma spawn_frame_trust:
  "ResolveRegistryTrustPin (spawning env sp) = ResolveRegistryTrustPin env"
  unfolding fun_eq_iff ResolveRegistryTrustPin_def LoadRegistryTrustPins_def LoadTrustStore_def ReadDescriptorFile_def
    spawn_frame spawn_frame_files by simp

lemma spawn_frame_texts:
  "ReadTextFile (spawning env sp) = ReadTextFile env" "ParseJsonObject (spawning env sp) = ParseJsonObject env"
  "RegistryObjectCachePath (spawning env sp) = RegistryObjectCachePath env"
  "ValidateConfig (spawning env sp) = ValidateConfig env" "CheckoutPath (spawning env sp) = CheckoutPath env"
  "DetectSnapshotRoot (spawning env sp) = DetectSnapshotRoot env"
  "check_cached_blob (spawning env sp) = check_cached_blob env" "check_new_blob (spawning env sp) = check_new_blob env"
  "copy_blob (spawning env sp) = copy_blob env"
  unfolding fun_eq_iff ReadTextFile_def ParseJsonObject_def RegistryObjectCachePath_def ValidateConfig_def CheckoutPath_def
    DetectSnapshotRoot_def json_value_int_def json_to_int_def check_cached_blob_def check_new_blob_def copy_blob_def
    spawn_frame spawn_frame_files
  by simp_all

lemma find_entry_frame: "find_entry (spawning env sp) p v lines = find_entry env p v lines"
  by (induction lines) (simp_all only: find_entry.simps spawn_frame_texts)

lemma run_tar_local: "same_locally env sp \<Longrightarrow> run_tar (spawning env sp) = run_tar env"
  unfolding fun_eq_iff run_tar_def
  by (simp add: RunProcess_local remote_request_def registry_process_def)

lemma LoadRegistryObjectText_offline:
  "LoadRegistryObjectText (spawning env sp) home root headers path context True =
     LoadRegistryObjectText env home root headers path context True"
  unfolding LoadRegistryObjectText_def spawn_frame spawn_frame_texts if_True ..

lemma MaterializeArtifact_offline:
  "MaterializeArtifact (spawning env sp) home root headers e True = MaterializeArtifact env home root headers e True"
  unfolding fun_eq_iff MaterializeArtifact_def spawn_frame spawn_frame_files spawn_frame_texts if_True by simp

lemma EnsureCheckout_local:
  "same_locally env sp \<Longrightarrow> EnsureCheckout (spawning env sp) home e = EnsureCheckout env home e"
  unfolding EnsureCheckout_def unpack_checkout_def ValidateTarListingPaths_def spawn_frame spawn_frame_files
    spawn_frame_texts run_tar_local ..

lemma client_offline:
  assumes "same_locally env sp"
  shows "MaterializeRegistryPackage slots (spawning env sp) root package version True =
    MaterializeRegistryPackage slots env root package version True"
  unfolding MaterializeRegistryPackage_def check_trust_def LoadConfig_def LoadPackageMetadata_def LoadEntry_def
    LoadRegistryObjectText_offline MaterializeArtifact_offline EnsureCheckout_local [OF assms] spawn_frame_resolver
    spawn_frame_trust spawn_frame_texts find_entry_frame ..

end
