(* ===== verification/ClientProperties.thy ===== *)
theory ClientProperties
  imports ClientFacts ResolveProperties
begin

section \<open>Properties of the registry client\<close>

text \<open>
  The chain of checks behind a materialized package, the refusal of untrusted remote registries, the containment of
  unpacked archives, and the resolution of a project through the client.
\<close>

subsection \<open>Verified materialization\<close>


text \<open>A remote registry without an imported pin is refused before anything is fetched: the result is a fetch error,
  the file system is untouched, whatever a child process would do.\<close>

theorem untrusted_registry_refused:
  assumes "ResolvePafioHome env = Inr home" and "IsHttpRegistry (NormalizeRegistryRoot root)"
    and "ResolveRegistryTrustPin env w home (NormalizeRegistryRoot root) = Inr None"
  shows "\<exists>msg. MaterializeRegistryPackage initial_slots (env\<lparr>env_spawn := sp\<rparr>) root package version offline w =
    (Inl (FetchError msg), w)"
proof -
  let ?env = "spawning env sp"
  let ?d = "\<lparr>rd_registry_root = NormalizeRegistryRoot root, rd_request_headers = [], rd_provider_name = ''public-default''\<rparr>"
  have "ResolveRegistryReadSecurity initial_slots \<lparr>rr_registry_root = root, rr_offline = offline\<rparr> = Inr ?d"
    using assms(2)
    by (simp add: ResolveRegistryReadSecurity_def initial_slots_def ResolveDefaultRegistryReadSecurity_def
        NormalizeReadRegistryRoot_def ValidateReadRegistryRootScheme_def ResolvePublicDefaultReadAccess_def
        IsHttpRegistry_def IsHttpRegistryRoot_def)
  then have sec: "io_lift (ResolveRegistryReadSecurity initial_slots \<lparr>rr_registry_root = root, rr_offline = offline\<rparr>) w = (Inr ?d, w)"
    by (simp add: io_lift_def)
  have home: "io_lift (ResolvePafioHome ?env) w = (Inr home, w)"
    using assms(1) by (simp only: spawn_frame_resolver io_lift_def)
  have "ResolveRegistryTrustPin ?env w home (NormalizeRegistryRoot root) = Inr None"
    using assms(3) by (simp only: spawn_frame_trust)
  then obtain msg where "check_trust ?env home ?d offline w = (Inl (FetchError msg), w)"
    using assms(2) unfolding check_trust_def Let_def by (auto simp: io_bind_def fs_query_def io_throw_def)
  then show ?thesis
    by (intro exI [of _ msg]) (simp only: MaterializeRegistryPackage_def io_bind_apply sec home prod.case sum.case)
qed

theorem untrusted_registry_refused_witness:
  "\<exists>msg. MaterializeRegistryPackage initial_slots (resolver_env\<lparr>env_spawn := (\<lambda>_ w. (Inl ''unreachable'', []))\<rparr>)
     ''https://r.example/'' ''a/p'' ''1.0.0'' False resolver_fs = (Inl (FetchError msg), resolver_fs)"
proof (rule untrusted_registry_refused)
  show "ResolvePafioHome resolver_env = Inr ''/h''" by code_simp
  show "IsHttpRegistry (NormalizeRegistryRoot ''https://r.example/'')" by code_simp
  show "ResolveRegistryTrustPin resolver_env resolver_fs ''/h'' (NormalizeRegistryRoot ''https://r.example/'') = Inr None"
    by code_simp
qed

subsection \<open>Archives\<close>


text \<open>A \<open>tar\<close> that knows one archive with one package directory.\<close>

definition tar_result :: "string \<Rightarrow> process_result" where
  "tar_result out = \<lparr>exit_code = 0, terminated_by_signal = False, signal_number = 0, timed_out = False,
     stdout_truncated = False, stderr_truncated = False, stdout_text = out, stderr_text = []\<rparr>"

definition tar_env :: env where
  "tar_env = resolver_env\<lparr>env_spawn := (\<lambda>req w.
     if pr_program req \<noteq> ''tar'' then (Inl ''no such program'', w)
     else if hd (pr_args req) = ''-tf'' then (Inr (tar_result (''p/'' @ nl @ ''p/pafio.toml'' @ nl)), w)
     else if hd (pr_args req) = ''-tvf'' then (Inr (tar_result (''drwx p/'' @ nl @ ''-rw- p/pafio.toml'' @ nl)), w)
     else (Inr (tar_result []), ([''c'', ''p''], Dir) # ([''c'', ''p'', ''pafio.toml''], File ''B'') # w))\<rparr>"


subsection \<open>Resolving with the client\<close>

text \<open>C15: an offline build is local through and through: with the registry client in place, resolving a project with the
  offline flag does not depend on what \<open>git clone\<close>, \<open>git fetch\<close> and \<open>curl\<close> would do.\<close>

theorem offline_build_is_local:
  assumes "\<forall>req w. \<not> remote_request req \<longrightarrow> sp req w = env_spawn env req w"
  shows "ResolveSingleVersionGraph fuel (env\<lparr>env_spawn := sp\<rparr>) (MaterializeRegistryPackage slots (env\<lparr>env_spawn := sp\<rparr>))
      manifest_path True vendor_root w =
    ResolveSingleVersionGraph fuel env (MaterializeRegistryPackage slots env) manifest_path True vendor_root w"
proof (rule Resolve_offline)
  show "same_locally env sp" using assms by (simp add: same_locally_def)
  then show "MaterializeRegistryPackage slots (env\<lparr>env_spawn := sp\<rparr>) root package version True =
      MaterializeRegistryPackage slots env root package version True" for root package version
    by (rule client_offline)
qed

theorem offline_build_is_local_witness:
  "ResolveSingleVersionGraph 3 (tar_env\<lparr>env_spawn := (\<lambda>req w. if remote_request req then (Inl ''network'', [])
        else env_spawn tar_env req w)\<rparr>)
      (MaterializeRegistryPackage initial_slots (tar_env\<lparr>env_spawn := (\<lambda>req w. if remote_request req then (Inl ''network'', [])
        else env_spawn tar_env req w)\<rparr>)) ''pafio.toml'' True None resolver_fs =
   ResolveSingleVersionGraph 3 tar_env (MaterializeRegistryPackage initial_slots tar_env) ''pafio.toml'' True None resolver_fs"
  by (rule offline_build_is_local) simp

text \<open>The registry client meets what the resolver asks of a registry, so a project resolved with it has one package
  per name and a lockfile that is well formed.\<close>

lemma project_with_client:
  assumes "ResolveSingleVersionGraph fuel env (MaterializeRegistryPackage initial_slots env) mp off vr w = (Inr g, w')"
  shows "distinct (map (pkg_name \<circ> rp_package) (rg_packages g)) \<and> wf_lockfile (rg_lockfile g)"
  using client.provider_graph_single_version [OF assms] client.provider_lockfile_wf [OF assms] by blast

subsection \<open>A registry with one package\<close>


















subsection \<open>Weaknesses\<close>

text \<open>A corrupt artifact is cached before it is checked and stays in the cache: every later attempt to fetch an artifact
  with that digest, from whatever registry, fails at the cached copy and leaves it where it is.\<close>

theorem corrupt_blob_is_permanent:
  assumes "IsFileRegistry root"
    and "\<not> fs_exists env w (BlobCachePath env home (re_sha256 e))"
    and "NormalizeRelativeRegistryPath (re_artifact_path e) ''registry v2 source artifact path'' = Inr path"
    and "copy_blob env (path_append (FileUrlToPath root) path) (BlobCachePath env home (re_sha256 e)) w = (Inr (), w1)"
    and "fs_read env w1 (BlobCachePath env home (re_sha256 e)) = Some content" and "Sha256Text content \<noteq> Some (re_sha256 e)"
  shows "(\<exists>err. MaterializeArtifact env home root headers e offline w = (Inl err, w1)) \<and>
    MaterializeArtifact env home root' headers' e offline' w1 =
      (Inl (CacheError (''cached registry artifact sha256 mismatch: '' @ BlobCachePath env home (re_sha256 e))), w1)"
proof -
  have "\<exists>err. check_new_blob env (BlobCachePath env home (re_sha256 e)) e w1 = (Inl err, w1)"
    using assms(5,6) by (simp add: check_new_blob_def io_bind_apply fs_query_def sha256_of_file_eq Sha256Text_eq
        io_guard_def io_lift_def guard_def Let_def)
  then have "\<exists>err. MaterializeArtifact env home root headers e offline w = (Inl err, w1)"
    using assms(1-4) by (auto simp: MaterializeArtifact_def io_bind_apply io_lift_def Let_def)
  moreover have "fs_exists env w1 (BlobCachePath env home (re_sha256 e))"
    using assms(5) by (auto simp: fs_exists_def fs_read_def split: option.splits)
  ultimately show ?thesis
    using assms(5,6) by (simp add: MaterializeArtifact_def check_cached_blob_def io_bind_apply fs_query_def sha256_of_file_eq
        Sha256Text_eq io_throw_def Let_def)
qed

text \<open>The version a registry dependency asks for is compared with the registry's index only, never with the manifest of the
  unpacked package: an artifact published under one version resolves as another.\<close>

definition misnumbered_registry :: registry_client where
  "misnumbered_registry root package version offline = io_return \<lparr>rm_registry_root = root, rm_package_name = package,
     rm_version = version, rm_sha256 = replicate 64 CHR ''a'', rm_snapshot_root = ''/s''\<rparr>"

definition pinned_util_dep :: dependency where
  "pinned_util_dep = \<lparr>dep_alias = ''u'', dep_package = Some ''a/u'', dep_source_kind = kRegistry, dep_source = ''file:///r'',
     dep_rev = None, dep_version = Some ''9.9.9''\<rparr>"

definition pinned_env :: env where
  "pinned_env = resolver_env\<lparr>env_toml := sample_api\<lparr>toml_parse := (\<lambda>c.
     if c = ''A'' then Inr (toml_of_manifest (sample_library ''a/p'' [pinned_util_dep]))
     else if c = ''B'' then Inr (toml_of_manifest sample_util) else Inl ''syntax error'')\<rparr>\<rparr>"

theorem registry_version_unchecked:
  "\<exists>g w p. ResolveSingleVersionGraph 3 pinned_env misnumbered_registry ''pafio.toml'' False None
      [([''w''], Dir), ([''w'', ''pafio.toml''], File ''A''), ([''s''], Dir), ([''s'', ''pafio.toml''], File ''B'')] = (Inr g, w) \<and>
    p \<in> set (rg_packages g) \<and> pkg_name (rp_package p) = ''a/u'' \<and> rp_source_kind p = ''registry'' \<and>
    pkg_version (rp_package p) = ''1.0.0''"
proof -
  let ?run = "ResolveSingleVersionGraph 3 pinned_env misnumbered_registry ''pafio.toml'' False None
      [([''w''], Dir), ([''w'', ''pafio.toml''], File ''A''), ([''s''], Dir), ([''s'', ''pafio.toml''], File ''B'')]"
  have "\<not> isl (fst ?run) \<and> list_ex (\<lambda>p. pkg_name (rp_package p) = ''a/u'' \<and> rp_source_kind p = ''registry'' \<and>
      pkg_version (rp_package p) = ''1.0.0'') (rg_packages (projr (fst ?run)))"
    by code_simp
  then have "?run = (Inr (projr (fst ?run)), snd ?run)" "\<exists>p \<in> set (rg_packages (projr (fst ?run))).
      pkg_name (rp_package p) = ''a/u'' \<and> rp_source_kind p = ''registry'' \<and> pkg_version (rp_package p) = ''1.0.0''"
    by (simp_all add: prod_eq_iff list_ex_iff)
  then show ?thesis by metis
qed

end
