(* ===== verification/Dependencies.thy ===== *)
theory Dependencies
  imports Files Tree ManifestFacts
begin

section \<open>Editing the dependencies of a project\<close>

text \<open>
  \<open>src/PafioWorkflow/Dependencies.cpp\<close>: the \<open>add\<close>, \<open>remove\<close> and \<open>fetch\<close> workflows.  An edit is computed on the
  loaded manifest (\<open>add_dependency\<close>, \<open>remove_dependency\<close>), then committed: the manifest is written, the project
  resolved and the lockfile written; any exception restores both files from their original bytes.  The file's own
  copies of the name, version, path and registry checks are those of \<open>Manifest\<close>.
\<close>

datatype dependency_section = kDependencies | kDevDependencies

record add_request =
  ar_manifest_path :: string
  ar_package_name :: string
  ar_alias :: "string option"
  ar_section :: dependency_section
  ar_use_git :: bool
  ar_use_registry :: bool
  ar_source :: string
  ar_rev :: "string option"
  ar_version :: "string option"

record remove_request =
  dr_manifest_path :: string
  dr_target :: string
  dr_section :: "dependency_section option"

record dependency_result =
  dc_manifest_path :: string
  dc_lockfile_path :: string
  dc_alias :: string
  dc_package_name :: string
  dc_section :: dependency_section
  dc_package_count :: nat

record fetch_result =
  fc_manifest_path :: string
  fc_package_count :: nat
  fc_git_package_count :: nat
  fc_registry_package_count :: nat

definition dependency_short_name :: "string \<Rightarrow> string result" where
  "dependency_short_name package_name =
     rbind (ValidatePackageName package_name ''package name'') (\<lambda>_.
     Inr (case find_char slash package_name of None \<Rightarrow> package_name | Some i \<Rightarrow> drop (i + 1) package_name))"

definition ReadFileText :: "env \<Rightarrow> fs \<Rightarrow> string \<Rightarrow> string result" where
  "ReadFileText env w path = (case fs_read env w path of
      None \<Rightarrow> Inl (RuntimeError (''failed to read file: '' @ path))
    | Some content \<Rightarrow> Inr content)"

definition WriteFileText :: "env \<Rightarrow> string \<Rightarrow> string \<Rightarrow> (fs, unit) io" where
  "WriteFileText env path content = fs_write env path content (RuntimeError (''failed to open file for write: '' @ path))"

definition SelectSection :: "package_config \<Rightarrow> dependency_section \<Rightarrow> dependency list" where
  "SelectSection package section =
     (case section of kDevDependencies \<Rightarrow> pkg_dev_dependencies package | kDependencies \<Rightarrow> pkg_dependencies package)"

definition set_section :: "dependency_section \<Rightarrow> dependency list \<Rightarrow> package_config \<Rightarrow> package_config" where
  "set_section section ds package =
     (case section of kDevDependencies \<Rightarrow> package\<lparr>pkg_dev_dependencies := ds\<rparr>
      | kDependencies \<Rightarrow> package\<lparr>pkg_dependencies := ds\<rparr>)"

definition EnsurePackageManifest :: "manifest_document \<Rightarrow> string \<Rightarrow> string \<Rightarrow> package_config result" where
  "EnsurePackageManifest manifest manifest_path command = (case doc_package manifest of
      None \<Rightarrow> Inl (ValidationError (command @ '' requires a manifest with [package]: '' @ manifest_path))
    | Some package \<Rightarrow> Inr package)"

definition project_lockfile :: "string \<Rightarrow> string" where
  "project_lockfile manifest_path = path_append (parent_path manifest_path) ''pafio.lock''"

definition read_original_lock :: "env \<Rightarrow> fs \<Rightarrow> string \<Rightarrow> string option result" where
  "read_original_lock env w lockfile_path =
     (if fs_exists env w lockfile_path then map_sum id Some (ReadFileText env w lockfile_path) else Inr None)"

subsection \<open>Committing an edit\<close>

definition RestoreLockfile :: "env \<Rightarrow> string \<Rightarrow> string option \<Rightarrow> (fs, unit) io" where
  "RestoreLockfile env lockfile_path original_lock = (case original_lock of
      Some content \<Rightarrow> WriteFileText env lockfile_path content
    | None \<Rightarrow> fs_update (fs_remove_quiet env lockfile_path))"

definition CommitManifestEdit ::
    "nat \<Rightarrow> env \<Rightarrow> registry_client \<Rightarrow> string \<Rightarrow> string \<Rightarrow> string option \<Rightarrow> manifest_document \<Rightarrow>
     string \<Rightarrow> string \<Rightarrow> dependency_section \<Rightarrow> (fs, dependency_result) io" where
  "CommitManifestEdit fuel env mat manifest_path original_manifest original_lock manifest alias package_name section =
     io_on_error
       (io_bind (WriteFileText env manifest_path (SerializeManifestCanonical manifest)) (\<lambda>_.
        io_bind (ResolveSingleVersionLockfile fuel env mat manifest_path False None) (\<lambda>generated.
        io_bind (WriteFileText env (lg_lockfile_path generated) (SerializeLockfileCanonical (lg_lockfile generated))) (\<lambda>_.
        io_return \<lparr>dc_manifest_path = lg_manifest_path generated, dc_lockfile_path = lg_lockfile_path generated,
          dc_alias = alias, dc_package_name = package_name, dc_section = section,
          dc_package_count = length (lf_packages (lg_lockfile generated))\<rparr>))))
       (io_bind (WriteFileText env manifest_path original_manifest) (\<lambda>_.
        RestoreLockfile env (project_lockfile manifest_path) original_lock))"

subsection \<open>Adding\<close>

definition validate_add :: "add_request \<Rightarrow> unit result" where
  "validate_add rq =
     (if ar_alias rq = Some [] then Inl (ValidationError ''dependency alias must be a non-empty string'')
      else if ar_source rq = [] then Inl (ValidationError ''dependency source must be a non-empty string'') else
      rbind (ValidatePackageName (ar_package_name rq) ''dependency package'') (\<lambda>_.
      if of_bool (ar_use_git rq) + of_bool (ar_use_registry rq) +
           of_bool (\<not> ar_use_git rq \<and> \<not> ar_use_registry rq) \<noteq> (1 :: int)
        then Inl (ValidationError ''add requires exactly one dependency source kind'')
      else if \<not> ar_use_git rq \<and> \<not> ar_use_registry rq \<and> \<not> IsNonEmptyRelativePath (ar_source rq)
        then Inl (ValidationError ''path dependency source must be an explicit relative path'')
      else if ar_use_git rq then
        (if ar_rev rq = None \<or> ar_rev rq = Some [] then Inl (ValidationError ''git dependencies require --rev <rev>'')
         else if ar_version rq \<noteq> None then Inl (ValidationError ''--version is only valid with --registry'')
         else Inr ())
      else if ar_use_registry rq then
        (if ar_rev rq \<noteq> None then Inl (ValidationError ''--rev is only valid with --git'')
         else (case ar_version rq of
            None \<Rightarrow> Inl (ValidationError ''registry dependencies require --version <x.y.z>'')
          | Some v \<Rightarrow>
             if v = [] then Inl (ValidationError ''registry dependencies require --version <x.y.z>'') else
             rbind (ValidateSemver v ''dependency version'') (\<lambda>_.
             if \<not> IsRegistryRootUrl (ar_source rq)
             then Inl (ValidationError ''registry dependency source must use file://, http://, or https://'') else Inr ())))
      else if ar_rev rq \<noteq> None \<or> ar_version rq \<noteq> None
        then Inl (ValidationError ''--rev is only valid with --git and --version is only valid with --registry'')
      else Inr ()))"

definition has_alias :: "string \<Rightarrow> dependency list \<Rightarrow> bool" where
  "has_alias alias dependencies \<longleftrightarrow> list_ex (\<lambda>d. dep_alias d = alias) dependencies"

definition has_package :: "string \<Rightarrow> dependency list \<Rightarrow> bool" where
  "has_package package_name dependencies \<longleftrightarrow> list_ex (\<lambda>d. dep_package d = Some package_name) dependencies"

definition new_dependency :: "add_request \<Rightarrow> string \<Rightarrow> dependency" where
  "new_dependency rq alias = \<lparr>dep_alias = alias, dep_package = Some (ar_package_name rq),
     dep_source_kind = (if ar_use_git rq then kGit else if ar_use_registry rq then kRegistry else kPath),
     dep_source = ar_source rq, dep_rev = ar_rev rq, dep_version = ar_version rq\<rparr>"

definition add_dependency :: "add_request \<Rightarrow> string \<Rightarrow> manifest_document \<Rightarrow> manifest_document result" where
  "add_dependency rq alias manifest =
     rbind (EnsurePackageManifest manifest (ar_manifest_path rq) ''add'') (\<lambda>package.
     if has_alias alias (pkg_dependencies package) \<or> has_alias alias (pkg_dev_dependencies package)
       then Inl (ValidationError (''dependency alias already exists in manifest: '' @ alias))
     else if has_package (ar_package_name rq) (pkg_dependencies package) \<or>
         has_package (ar_package_name rq) (pkg_dev_dependencies package)
       then Inl (ValidationError (''dependency package already exists in manifest: '' @ ar_package_name rq))
     else Inr (manifest\<lparr>doc_package := Some (set_section (ar_section rq)
       (SelectSection package (ar_section rq) @ [new_dependency rq alias]) package)\<rparr>))"

definition AddDependencyAndRefreshLock ::
    "nat \<Rightarrow> env \<Rightarrow> registry_client \<Rightarrow> add_request \<Rightarrow> (fs, dependency_result) io" where
  "AddDependencyAndRefreshLock fuel env mat rq = (let mp = ar_manifest_path rq in
     io_bind (fs_query (\<lambda>w. guard (fs_exists env w mp) (ValidationError (''manifest not found: '' @ mp)))) (\<lambda>_.
     io_bind (io_lift (validate_add rq)) (\<lambda>_.
     io_bind (io_lift (dependency_short_name (ar_package_name rq))) (\<lambda>short.
     let alias = (case ar_alias rq of Some a \<Rightarrow> a | None \<Rightarrow> short) in
     io_bind (fs_query (\<lambda>w. ReadFileText env w mp)) (\<lambda>original_manifest.
     io_bind (fs_query (\<lambda>w. read_original_lock env w (project_lockfile mp))) (\<lambda>original_lock.
     io_bind (fs_query (\<lambda>w. LoadManifest env w mp)) (\<lambda>manifest.
     io_bind (io_lift (add_dependency rq alias manifest)) (\<lambda>edited.
     CommitManifestEdit fuel env mat mp original_manifest original_lock edited alias (ar_package_name rq)
       (ar_section rq)))))))))"

subsection \<open>Removing\<close>

definition DependencyMatchesTarget :: "dependency \<Rightarrow> string \<Rightarrow> bool \<Rightarrow> bool" where
  "DependencyMatchesTarget d target treat_as_package_name =
     (if \<not> treat_as_package_name then dep_alias d = target else dep_package d = Some target)"

record match_location =
  ml_section :: dependency_section
  ml_index :: nat
  ml_alias :: string
  ml_package_name :: string

definition collect_matches ::
    "package_config \<Rightarrow> string \<Rightarrow> bool \<Rightarrow> dependency_section \<Rightarrow> match_location list" where
  "collect_matches package target by_name section =
     map (\<lambda>(i, d). \<lparr>ml_section = section, ml_index = i, ml_alias = dep_alias d,
         ml_package_name = case_option [] id (dep_package d)\<rparr>)
       (filter (\<lambda>(i, d). DependencyMatchesTarget d target by_name) (List.enumerate 0 (SelectSection package section)))"

definition FindMatches ::
    "package_config \<Rightarrow> string \<Rightarrow> dependency_section option \<Rightarrow> bool \<Rightarrow> match_location list" where
  "FindMatches package target requested_section treat_as_package_name = (case requested_section of
      Some s \<Rightarrow> collect_matches package target treat_as_package_name s
    | None \<Rightarrow> collect_matches package target treat_as_package_name kDependencies @
        collect_matches package target treat_as_package_name kDevDependencies)"

definition erase_at :: "nat \<Rightarrow> 'a list \<Rightarrow> 'a list" where
  "erase_at i xs = take i xs @ drop (Suc i) xs"

definition remove_dependency ::
    "string \<Rightarrow> string \<Rightarrow> dependency_section option \<Rightarrow> manifest_document \<Rightarrow> (match_location \<times> manifest_document) result" where
  "remove_dependency manifest_path target section manifest =
     rbind (EnsurePackageManifest manifest manifest_path ''remove'') (\<lambda>package.
     let by_alias = FindMatches package target section False;
         matches = (if by_alias = [] \<and> find_char slash target \<noteq> None
                    then FindMatches package target section True else by_alias)
     in case matches of
          [] \<Rightarrow> Inl (ValidationError (''dependency was not found in manifest: '' @ target))
        | [m] \<Rightarrow> Inr (m, manifest\<lparr>doc_package := Some (set_section (ml_section m)
            (erase_at (ml_index m) (SelectSection package (ml_section m))) package)\<rparr>)
        | _ \<Rightarrow> Inl (ValidationError (''dependency target is ambiguous in manifest: '' @ target)))"

definition RemoveDependencyAndRefreshLock ::
    "nat \<Rightarrow> env \<Rightarrow> registry_client \<Rightarrow> remove_request \<Rightarrow> (fs, dependency_result) io" where
  "RemoveDependencyAndRefreshLock fuel env mat rq = (let mp = dr_manifest_path rq in
     io_bind (fs_query (\<lambda>w. guard (fs_exists env w mp) (ValidationError (''manifest not found: '' @ mp)))) (\<lambda>_.
     io_bind (io_guard (dr_target rq \<noteq> []) (ValidationError ''remove requires a dependency alias or package name'')) (\<lambda>_.
     io_bind (fs_query (\<lambda>w. ReadFileText env w mp)) (\<lambda>original_manifest.
     io_bind (fs_query (\<lambda>w. read_original_lock env w (project_lockfile mp))) (\<lambda>original_lock.
     io_bind (fs_query (\<lambda>w. LoadManifest env w mp)) (\<lambda>manifest.
     io_bind (io_lift (remove_dependency mp (dr_target rq) (dr_section rq) manifest)) (\<lambda>(m, edited).
     CommitManifestEdit fuel env mat mp original_manifest original_lock edited (ml_alias m) (ml_package_name m)
       (ml_section m))))))))"

subsection \<open>Fetching\<close>

definition FetchDependencies ::
    "nat \<Rightarrow> env \<Rightarrow> registry_client \<Rightarrow> string \<Rightarrow> bool \<Rightarrow> string option \<Rightarrow> (fs, fetch_result) io" where
  "FetchDependencies fuel env mat manifest_path offline vendor_root =
     io_bind (fs_query (\<lambda>w. guard (fs_exists env w manifest_path)
       (ValidationError (''manifest not found: '' @ manifest_path)))) (\<lambda>_.
     io_bind (ResolveSingleVersionLockfile fuel env mat manifest_path offline vendor_root) (\<lambda>generated.
     let packages = lf_packages (lg_lockfile generated) in
     io_return \<lparr>fc_manifest_path = lg_manifest_path generated, fc_package_count = length packages,
       fc_git_package_count = length (filter (\<lambda>p. lk_source_kind p = ''git'') packages),
       fc_registry_package_count = length (filter (\<lambda>p. lk_source_kind p = ''registry'') packages)\<rparr>))"

definition DependencySectionName :: "dependency_section \<Rightarrow> string" where
  "DependencySectionName section =
     (case section of kDevDependencies \<Rightarrow> ''dev-dependencies'' | kDependencies \<Rightarrow> ''dependencies'')"

end
