(* ===== verification/DependencyProperties.thy ===== *)
theory DependencyProperties
  imports Dependencies ResolveProperties
begin

section \<open>Properties of dependency edits\<close>

text \<open>
  A failed edit restores the project files, a successful one commits a well-formed manifest and the lockfile of its
  resolution, and removing what was added gives the manifest back.
\<close>

subsection \<open>Rollback\<close>

lemma RestoreLockfile_frame:
  "RestoreLockfile env lp old_lock w = (r, w') \<Longrightarrow> path_key env lp \<noteq> path_key env mp \<Longrightarrow> fs_read env w' mp = fs_read env w mp"
  using fs_read_frame [of w' env mp w]
  by (auto simp: RestoreLockfile_def WriteFileText_def fs_update_eq fs_remove_quiet_frame fs_write_map split: option.splits)

lemma restore_Inr:
  assumes "io_bind (WriteFileText env mp original) (\<lambda>_. RestoreLockfile env lp old_lock) w = (Inr u, w')"
    and "path_key env lp = path_key env mp \<Longrightarrow> old_lock = Some original"
  shows "fs_read env w' mp = Some original \<and> fs_read env w' lp = old_lock"
proof -
  from assms(1) obtain w1 where 1: "WriteFileText env mp original w = (Inr (), w1)" "RestoreLockfile env lp old_lock w1 = (Inr u, w')"
    by (auto simp: io_bind_Inr)
  have mp: "fs_read env w1 mp = Some original" using 1(1) fs_write_read unfolding WriteFileText_def by blast
  note same = RestoreLockfile_frame [OF 1(2)]
  show ?thesis
  proof (cases old_lock)
    case None
    with 1(2) have "fs_read env w' lp = None" by (auto simp: RestoreLockfile_def fs_update_eq fs_remove_quiet_read)
    with None same mp assms(2) show ?thesis by (cases "path_key env lp = path_key env mp") simp_all
  next
    case (Some c)
    with 1(2) have lp: "fs_read env w' lp = Some c"
      using fs_write_read by (auto simp: RestoreLockfile_def WriteFileText_def)
    show ?thesis
    proof (cases "path_key env lp = path_key env mp")
      case True
      with lp assms(2) Some fs_read_key [OF True] show ?thesis by simp
    next
      case False
      with same mp lp Some show ?thesis by simp
    qed
  qed
qed

lemma restore_Inl:
  "io_bind (WriteFileText env mp original) (\<lambda>_. RestoreLockfile env lp old_lock) w = (Inl e, w') \<Longrightarrow>
     \<exists>p \<in> {mp, lp}. e = RuntimeError (''failed to open file for write: '' @ p)"
  by (auto simp: io_bind_Inl RestoreLockfile_def WriteFileText_def fs_update_eq dest: fs_write_Inl split: option.splits)

lemma io_on_error_Inl_cases:
  "io_on_error m h w = (Inl e, w') \<Longrightarrow> \<exists>w1. h w1 = (Inl e, w') \<or> (\<exists>u. h w1 = (Inr u, w'))"
  by (fastforce simp: io_on_error_def split: prod.splits sum.splits)

definition restored :: "env \<Rightarrow> string \<Rightarrow> fs \<Rightarrow> error \<Rightarrow> fs \<Rightarrow> bool" where
  "restored env mp w e w' \<longleftrightarrow>
     fs_read env w' mp = fs_read env w mp \<and> fs_read env w' (project_lockfile mp) = fs_read env w (project_lockfile mp) \<or>
     e = RuntimeError (''failed to open file for write: '' @ mp) \<or>
     e = RuntimeError (''failed to open file for write: '' @ project_lockfile mp)"

lemma CommitManifestEdit_Inl:
  assumes "CommitManifestEdit fuel env mat mp original old_lock m alias name section w = (Inl e, w')"
    and "fs_read env w mp = Some original" and "read_original_lock env w (project_lockfile mp) = Inr old_lock"
  shows "restored env mp w e w'"
proof -
  have lock: "old_lock = fs_read env w (project_lockfile mp)"
    using assms(3)
    by (auto simp: read_original_lock_def ReadFileText_def fs_exists_def fs_read_def split: if_splits option.splits node.splits)
  have key: "path_key env (project_lockfile mp) = path_key env mp \<Longrightarrow> old_lock = Some original"
    using assms(2) lock fs_read_key [of env "project_lockfile mp" mp w] by simp
  let ?undo = "io_bind (WriteFileText env mp original) (\<lambda>_. RestoreLockfile env (project_lockfile mp) old_lock)"
  from io_on_error_Inl_cases [OF assms(1) [unfolded CommitManifestEdit_def]]
  obtain w1 where "?undo w1 = (Inl e, w') \<or> (\<exists>u. ?undo w1 = (Inr u, w'))" by blast
  then show ?thesis
  proof (elim disjE exE)
    assume "?undo w1 = (Inl e, w')"
    from restore_Inl [OF this] show ?thesis by (auto simp: restored_def)
  next
    fix u assume "?undo w1 = (Inr u, w')"
    from restore_Inr [OF this key] assms(2) lock show ?thesis by (auto simp: restored_def)
  qed
qed

text \<open>C9: a failed edit leaves the project as it was: when adding or removing a dependency throws, the manifest and the
  lockfile hold the bytes they held before, whatever the resolution did in between; the one exception is reported as
  the failure to write one of the two files back.\<close>

theorem failed_edit_restores:
  "(AddDependencyAndRefreshLock fuel env mat add w = (Inl e, w') \<longrightarrow> restored env (ar_manifest_path add) w e w') \<and>
   (RemoveDependencyAndRefreshLock fuel env mat rm w = (Inl e, w') \<longrightarrow> restored env (dr_manifest_path rm) w e w')"
proof -
  have read: "fs_read env w mp = Some c" if "ReadFileText env w mp = Inr c" for c mp
    using that by (auto simp: ReadFileText_def split: option.splits)
  have same: "restored env mp w e w" for mp by (simp add: restored_def)
  show ?thesis
  proof (intro conjI impI)
    assume "AddDependencyAndRefreshLock fuel env mat add w = (Inl e, w')"
    then show "restored env (ar_manifest_path add) w e w'"
      unfolding AddDependencyAndRefreshLock_def Let_def io_bind_Inl fs_query_eq io_lift_eq
      using same read by (auto dest!: CommitManifestEdit_Inl)
  next
    assume "RemoveDependencyAndRefreshLock fuel env mat rm w = (Inl e, w')"
    then show "restored env (dr_manifest_path rm) w e w'"
      unfolding RemoveDependencyAndRefreshLock_def Let_def io_bind_Inl fs_query_eq io_lift_eq io_guard_Inl io_guard_Inr
      using same read by (auto dest!: CommitManifestEdit_Inl)
  qed
qed

text \<open>Adding a path dependency whose directory does not exist: the resolution fails and the manifest comes back.\<close>

definition missing_dep :: add_request where
  "missing_dep = \<lparr>ar_manifest_path = ''/w/pafio.toml'', ar_package_name = ''a/x'', ar_alias = None,
     ar_section = kDependencies, ar_use_git = False, ar_use_registry = False, ar_source = ''../x'', ar_rev = None,
     ar_version = None\<rparr>"

theorem failed_edit_restores_witness:
  "\<exists>e w'. AddDependencyAndRefreshLock 3 resolver_env no_registry missing_dep resolver_fs = (Inl e, w') \<and>
     fs_read resolver_env w' ''/w/pafio.toml'' = fs_read resolver_env resolver_fs ''/w/pafio.toml''"
proof -
  let ?run = "AddDependencyAndRefreshLock 3 resolver_env no_registry missing_dep resolver_fs"
  have "isl (fst ?run) \<and> projl (fst ?run) \<noteq> RuntimeError (''failed to open file for write: '' @ ''/w/pafio.toml'') \<and>
      projl (fst ?run) \<noteq> RuntimeError (''failed to open file for write: '' @ project_lockfile ''/w/pafio.toml'')"
    by code_simp
  moreover from this have "?run = (Inl (projl (fst ?run)), snd ?run)" by (simp add: prod_eq_iff)
  moreover have "ar_manifest_path missing_dep = ''/w/pafio.toml''" by (simp add: missing_dep_def)
  ultimately show ?thesis
    using failed_edit_restores [of 3 resolver_env no_registry missing_dep resolver_fs "projl (fst ?run)" "snd ?run"]
    unfolding restored_def by metis
qed

subsection \<open>Adding and removing\<close>

lemma set_section_idem [simp]:
  "SelectSection (set_section s ds p) s = ds" "set_section s ds (set_section s es p) = set_section s ds p"
  "set_section s (SelectSection p s) p = p"
  by (simp_all add: SelectSection_def set_section_def split: dependency_section.splits)

lemma SelectSection_other: "t \<noteq> s \<Longrightarrow> SelectSection (set_section s ds p) t = SelectSection p t"
  by (cases s; cases t) (simp_all add: SelectSection_def set_section_def)

lemma erase_at_snoc [simp]: "erase_at (length xs) (xs @ [x]) = xs"
  by (simp add: erase_at_def)

lemma set_enumerateD: "(i, x) \<in> set (List.enumerate n xs) \<Longrightarrow> x \<in> set xs"
  by (auto simp: enumerate_eq_zip dest: set_zip_rightD)

lemma enumerate_filter_Nil:
  "(\<And>d. d \<in> set xs \<Longrightarrow> \<not> P d) \<Longrightarrow> filter (\<lambda>(i, d). P d) (List.enumerate n xs) = []"
  by (auto simp: filter_empty_conv dest!: set_enumerateD)

lemma new_dependency_wf:
  assumes "validate_add rq = Inr ()"
  shows "wf_dependency (new_dependency rq alias)"
  using assms
  by (auto simp: validate_add_def wf_dependency_def new_dependency_def validate_defs result_simps split: if_splits option.splits)

lemma set_section_wf:
  "wf_package p \<Longrightarrow> (\<And>d. d \<in> set ds \<Longrightarrow> wf_dependency d) \<Longrightarrow> wf_package (set_section s ds p)"
  by (auto simp: wf_package_def set_section_def split: dependency_section.splits)

lemma SelectSection_wf: "wf_package p \<Longrightarrow> d \<in> set (SelectSection p s) \<Longrightarrow> wf_dependency d"
  by (auto simp: wf_package_def SelectSection_def split: dependency_section.splits)

lemma has_alias_sections:
  "\<not> has_alias a (pkg_dependencies p) \<Longrightarrow> \<not> has_alias a (pkg_dev_dependencies p) \<Longrightarrow>
     d \<in> set (SelectSection p s) \<Longrightarrow> dep_alias d \<noteq> a"
  by (auto simp: has_alias_def list_ex_iff SelectSection_def split: dependency_section.splits)

lemma collect_absent:
  "(\<And>d. d \<in> set (SelectSection p s) \<Longrightarrow> dep_alias d \<noteq> a) \<Longrightarrow> collect_matches p a False s = []"
  by (simp add: collect_matches_def DependencyMatchesTarget_def enumerate_filter_Nil)

lemma collect_last:
  assumes "\<And>d. d \<in> set ds \<Longrightarrow> dep_alias d \<noteq> dep_alias x"
  shows "collect_matches (set_section s (ds @ [x]) p) (dep_alias x) False s =
     [\<lparr>ml_section = s, ml_index = length ds, ml_alias = dep_alias x, ml_package_name = case_option [] id (dep_package x)\<rparr>]"
  using enumerate_filter_Nil [of ds "\<lambda>d. dep_alias d = dep_alias x" 0] assms
  by (simp add: collect_matches_def DependencyMatchesTarget_def enumerate_append_eq)

lemma collect_after_add:
  assumes "\<And>d t. d \<in> set (SelectSection p t) \<Longrightarrow> dep_alias d \<noteq> dep_alias x"
  shows "FindMatches (set_section s (SelectSection p s @ [x]) p) (dep_alias x) None False =
     [\<lparr>ml_section = s, ml_index = length (SelectSection p s), ml_alias = dep_alias x,
       ml_package_name = case_option [] id (dep_package x)\<rparr>]"
proof (cases s)
  case kDependencies
  with collect_last [of "SelectSection p s" x s p] assms
    collect_absent [of "set_section s (SelectSection p s @ [x]) p" kDevDependencies "dep_alias x"]
  show ?thesis by (simp add: FindMatches_def SelectSection_other)
next
  case kDevDependencies
  with collect_last [of "SelectSection p s" x s p] assms
    collect_absent [of "set_section s (SelectSection p s @ [x]) p" kDependencies "dep_alias x"]
  show ?thesis by (simp add: FindMatches_def SelectSection_other)
qed

text \<open>C24: an edit keeps the manifest contract and can be taken back: adding a validated dependency to a well-formed
  manifest gives a well-formed manifest, and removing the alias again finds exactly that entry and returns the manifest
  the edit started from.\<close>

theorem add_then_remove:
  assumes "wf_manifest m" and "validate_add rq = Inr ()" and "add_dependency rq alias m = Inr m'"
  shows "wf_manifest m' \<and> (\<exists>loc. remove_dependency path alias None m' = Inr (loc, m) \<and>
     ml_section loc = ar_section rq \<and> ml_alias loc = alias \<and> ml_package_name loc = ar_package_name rq)"
proof -
  let ?s = "ar_section rq" and ?x = "new_dependency rq alias"
  from assms(3) obtain p where p: "doc_package m = Some p" and fresh: "\<not> has_alias alias (pkg_dependencies p)"
      "\<not> has_alias alias (pkg_dev_dependencies p)"
    and m': "m' = m\<lparr>doc_package := Some (set_section ?s (SelectSection p ?s @ [?x]) p)\<rparr>"
    by (auto simp: add_dependency_def EnsurePackageManifest_def result_simps split: option.splits if_splits)
  have x: "dep_alias ?x = alias" "dep_package ?x = Some (ar_package_name rq)" by (simp_all add: new_dependency_def)
  have "wf_package (set_section ?s (SelectSection p ?s @ [?x]) p)"
    using assms(1) p new_dependency_wf [OF assms(2)] SelectSection_wf [of p _ ?s]
    by (auto simp: wf_manifest_def intro!: set_section_wf)
  then have "wf_manifest m'" using assms(1) by (simp add: m' wf_manifest_def)
  moreover have "FindMatches (set_section ?s (SelectSection p ?s @ [?x]) p) alias None False =
      [\<lparr>ml_section = ?s, ml_index = length (SelectSection p ?s), ml_alias = alias, ml_package_name = ar_package_name rq\<rparr>]"
    using collect_after_add [of p ?x ?s] has_alias_sections [OF fresh] x by simp
  then have "remove_dependency path alias None m' = Inr (\<lparr>ml_section = ?s, ml_index = length (SelectSection p ?s),
      ml_alias = alias, ml_package_name = ar_package_name rq\<rparr>, m)"
    using p by (simp add: remove_dependency_def EnsurePackageManifest_def m' rbind_def)
  ultimately show ?thesis by simp
qed

definition registry_dep :: add_request where
  "registry_dep = \<lparr>ar_manifest_path = ''/w/pafio.toml'', ar_package_name = ''acme/json'', ar_alias = Some ''j'',
     ar_section = kDevDependencies, ar_use_git = False, ar_use_registry = True, ar_source = ''https://r'', ar_rev = None,
     ar_version = Some ''1.2.3''\<rparr>"

theorem add_then_remove_witness:
  "\<exists>loc. remove_dependency ''/w/pafio.toml'' ''j'' None (projr (add_dependency registry_dep ''j'' sample_manifest)) =
     Inr (loc, sample_manifest) \<and> ml_section loc = kDevDependencies"
proof -
  have "validate_add registry_dep = Inr ()" by code_simp
  moreover have "isl (add_dependency registry_dep ''j'' sample_manifest) = False" by code_simp
  then have "add_dependency registry_dep ''j'' sample_manifest = Inr (projr (add_dependency registry_dep ''j'' sample_manifest))"
    by (cases "add_dependency registry_dep ''j'' sample_manifest") simp_all
  moreover have "ar_section registry_dep = kDevDependencies" by (simp add: registry_dep_def)
  ultimately show ?thesis
    using add_then_remove [OF sample_manifest_wf, of registry_dep "''j''" "projr (add_dependency registry_dep ''j'' sample_manifest)" "''/w/pafio.toml''"]
    by metis
qed

end
