(* ===== verification/Vendor.thy ===== *)
theory Vendor
  imports Files Security Resolver
begin

section \<open>Vendored snapshots\<close>

text \<open>
  \<open>src/PafioVendor/Vendor.cpp\<close>: the project is resolved, and the snapshot of every git package is copied below the
  vendor root, where the resolver's \<open>FindVendoredSnapshot\<close> looks for it.  The recursive \<open>copy\<close> of
  \<open>std::filesystem\<close> throws at a node that is neither a file nor a directory; links are opaque here and throw too.
\<close>

record vendor_request =
  vq_manifest_path :: string
  vq_output_path :: "string option"
  vq_offline :: bool

record vendor_result =
  vn_manifest_path :: string
  vn_vendor_root :: string
  vn_metadata_path :: string
  vn_package_count :: nat
  vn_git_snapshot_count :: nat

record vendored_snapshot =
  vs_source :: string
  vs_rev :: string
  vs_repo_hash :: string
  vs_snapshot_root :: string

definition copy_node :: "env \<Rightarrow> string list \<times> node \<Rightarrow> unit \<Rightarrow> (fs, unit) io" where
  "copy_node env kn u = (\<lambda>w. (case kn of (k, n) \<Rightarrow>
     (case n of
        Symlink \<Rightarrow> (Inl (FilesystemError ''copy''), w)
      | Special \<Rightarrow> (Inl (FilesystemError ''copy''), w)
      | _ \<Rightarrow> if env_writable env k then (Inr (), AList.update k n w) else (Inl (FilesystemError ''copy''), w))))"

text \<open>The nodes of the tree, moved below the destination.\<close>

definition tree_nodes :: "env \<Rightarrow> fs \<Rightarrow> string \<Rightarrow> string \<Rightarrow> fs" where
  "tree_nodes env w source destination =
     map (\<lambda>(k, n). (path_key env destination @ drop (length (path_key env source)) k, n))
       (filter (\<lambda>(k, n). prefix (path_key env source) k) w)"

definition fs_copy_tree :: "env \<Rightarrow> string \<Rightarrow> string \<Rightarrow> (fs, unit) io" where
  "fs_copy_tree env source destination = (\<lambda>w. io_fold (copy_node env) (tree_nodes env w source destination) () w)"

definition CopySnapshotTree :: "env \<Rightarrow> string \<Rightarrow> string \<Rightarrow> (fs, unit) io" where
  "CopySnapshotTree env source_root destination_root =
     io_bind (fs_query (\<lambda>w. guard (fs_exists env w source_root)
       (VendorError (''vendored source snapshot does not exist: '' @ source_root)))) (\<lambda>_.
     io_bind (fs_query (\<lambda>w. guard (fs_is_directory env w source_root)
       (VendorError (''vendored source snapshot is not a directory: '' @ source_root)))) (\<lambda>_.
     io_bind (fs_update (fs_remove_all env destination_root)) (\<lambda>_.
     io_bind (fs_create_directories env (parent_path destination_root)) (\<lambda>_.
     io_bind (fs_copy_tree env source_root destination_root) (\<lambda>_.
     fs_write env (ready_marker destination_root) (''ready'' @ nl)
       (VendorError (''failed to write vendor ready marker: '' @ ready_marker destination_root)))))))"

definition vendored_of :: "resolved_package \<Rightarrow> vendored_snapshot result" where
  "vendored_of p = (case (rp_git p, rp_rev p, rp_repo_hash p, rp_snapshot_root p) of
      (Some source, Some rv, Some repo_hash, Some snapshot_root) \<Rightarrow>
        Inr \<lparr>vs_source = source, vs_rev = rv, vs_repo_hash = repo_hash, vs_snapshot_root = snapshot_root\<rparr>
    | _ \<Rightarrow> Inl (VendorError (''resolved git package is missing snapshot metadata: '' @ rp_id p)))"

definition CollectVendoredSnapshots :: "resolved_graph \<Rightarrow> vendored_snapshot list result" where
  "CollectVendoredSnapshots g =
     rbind (rmap vendored_of (filter (\<lambda>p. rp_source_kind p = ''git'') (rg_packages g))) (\<lambda>snapshots.
     Inr (unique_by (\<lambda>s. (vs_repo_hash s, vs_rev s))
       (sort_key (\<lambda>s. [vs_repo_hash s, vs_rev s, vs_source s]) snapshots)))"

definition snapshot_destination :: "string \<Rightarrow> vendored_snapshot \<Rightarrow> string" where
  "snapshot_destination vendor_root s =
     path_append (path_append (path_append vendor_root ''git'') (vs_repo_hash s)) (vs_rev s)"

definition copy_snapshot :: "env \<Rightarrow> string \<Rightarrow> vendored_snapshot \<Rightarrow> json list \<Rightarrow> (fs, json list) io" where
  "copy_snapshot env vendor_root s records =
     (let destination_root = snapshot_destination vendor_root s in
      io_bind (CopySnapshotTree env (vs_snapshot_root s) destination_root) (\<lambda>_.
      io_return (records @ [jobject [(''source'', JString (vs_source s)), (''rev'', JString (vs_rev s)),
        (''repo_hash'', JString (vs_repo_hash s)), (''path'', JString destination_root)]])))"

definition write_vendor_metadata :: "env \<Rightarrow> string \<Rightarrow> string \<Rightarrow> json list \<Rightarrow> (fs, string) io" where
  "write_vendor_metadata env manifest_path vendor_root records =
     (let metadata_path = path_append vendor_root ''pafio-vendor.json'';
          metadata = jobject [(''tool'', JString ''pafio''), (''version'', JString kVersion),
            (''manifest_path'', JString manifest_path), (''vendor_root'', JString vendor_root),
            (''git_snapshots'', JArray records)];
          failed = VendorError (''failed to open vendor metadata for write: '' @ metadata_path)
      in io_bind (fs_write env metadata_path [] failed) (\<lambda>_.
         io_bind (io_lift (map_sum (\<lambda>_. type_error) id (json_dump (env_json env) 2 metadata))) (\<lambda>body.
         io_bind (fs_write env metadata_path (body @ nl) failed) (\<lambda>_.
         io_return metadata_path))))"

definition vendor_root_of :: "env \<Rightarrow> vendor_request \<Rightarrow> string" where
  "vendor_root_of env rq = (case vq_output_path rq of
      Some p \<Rightarrow> canonical env p
    | None \<Rightarrow> ProjectVendorRootForManifest env (canonical env (vq_manifest_path rq)))"

definition WriteVendorTree :: "nat \<Rightarrow> env \<Rightarrow> registry_client \<Rightarrow> vendor_request \<Rightarrow> (fs, vendor_result) io" where
  "WriteVendorTree fuel env mat rq =
     (let manifest_path = canonical env (vq_manifest_path rq); vendor_root = vendor_root_of env rq in
      io_bind (fs_query (\<lambda>w. guard (fs_exists env w manifest_path)
        (ValidationError (''manifest not found: '' @ manifest_path)))) (\<lambda>_.
      io_bind (ResolveSingleVersionGraph fuel env mat manifest_path (vq_offline rq) (Some vendor_root)) (\<lambda>graph.
      io_bind (io_lift (CollectVendoredSnapshots graph)) (\<lambda>snapshots.
      io_bind (fs_create_directories env vendor_root) (\<lambda>_.
      io_bind (fs_update (fs_remove_all env (path_append vendor_root ''git''))) (\<lambda>_.
      io_bind (io_fold (copy_snapshot env vendor_root) snapshots []) (\<lambda>records.
      io_bind (write_vendor_metadata env manifest_path vendor_root records) (\<lambda>metadata_path.
      io_return \<lparr>vn_manifest_path = manifest_path, vn_vendor_root = vendor_root, vn_metadata_path = metadata_path,
        vn_package_count = length (rg_packages graph), vn_git_snapshot_count = length snapshots\<rparr>))))))))"

end
