(* ===== verification/VendorProperties.thy ===== *)
theory VendorProperties
  imports Vendor ResolveProperties
begin

section \<open>Properties of vendoring\<close>

text \<open>
  The contract between the vendor tree and the resolver: what a run writes is what \<open>FindVendoredSnapshot\<close> finds; and
  the failure of a second run into the same tree.
\<close>

subsection \<open>Copying\<close>











lemma remove_all_gone: "prefix (path_key env p) k \<Longrightarrow> map_of (fs_remove_all env p w) k = None"
  unfolding map_of_eq_None_iff by (auto simp: fs_remove_all_def)






subsection \<open>What is vendored is found\<close>







subsection \<open>A second run\<close>

text \<open>C40: vendoring again destroys the vendor tree: when the first snapshot to copy lies in the vendor tree, as it does
  once a run has written it, the tree is removed before the copy, the run fails because the snapshot does not exist, and
  nothing of the tree is left.\<close>

theorem vendor_rerun_destroys:
  assumes "fs_exists env w (canonical env (vq_manifest_path rq))"
    and "ResolveSingleVersionGraph fuel env mat (canonical env (vq_manifest_path rq)) (vq_offline rq)
      (Some (vendor_root_of env rq)) w = (Inr g, w1)"
    and "CollectVendoredSnapshots g = Inr (s # ss)"
    and "prefix (path_key env (path_append (vendor_root_of env rq) ''git'')) (path_key env (vs_snapshot_root s))"
    and "path_key env (vs_snapshot_root s) \<noteq> []"
    and "fs_create_directories env (vendor_root_of env rq) w1 = (Inr (), w2)"
  shows "\<exists>w'. WriteVendorTree fuel env mat rq w =
      (Inl (VendorError (''vendored source snapshot does not exist: '' @ vs_snapshot_root s)), w') \<and>
    (\<forall>k. prefix (path_key env (path_append (vendor_root_of env rq) ''git'')) k \<longrightarrow> map_of w' k = None)"
proof -
  let ?git = "path_append (vendor_root_of env rq) ''git''"
  let ?w' = "fs_remove_all env ?git w2"
  have "\<not> fs_exists env ?w' (vs_snapshot_root s)"
    using remove_all_gone [OF assms(4)] assms(5) by (simp add: fs_exists_def node_at_def)
  then have "CopySnapshotTree env (vs_snapshot_root s) d ?w' =
      (Inl (VendorError (''vendored source snapshot does not exist: '' @ vs_snapshot_root s)), ?w')" for d
    by (simp add: CopySnapshotTree_def io_bind_def fs_query_def guard_def)
  with assms(1,2,3,6) have "WriteVendorTree fuel env mat rq w =
      (Inl (VendorError (''vendored source snapshot does not exist: '' @ vs_snapshot_root s)), ?w')"
    by (simp add: WriteVendorTree_def Let_def io_bind_def fs_query_def guard_def io_lift_def fs_update_def copy_snapshot_def)
  with remove_all_gone show ?thesis by blast
qed

subsection \<open>A project with one git dependency\<close>

text \<open>\<open>/w\<close> depends on revision \<open>r\<close> of \<open>https://g\<close>, which is in the git cache and checked out; every child process succeeds.\<close>

definition git_hash :: string where
  "git_hash = Hex64 (Fnv1a64 ''https://g'')"

definition git_app :: manifest_document where
  "git_app = sample_library ''a/p'' [\<lparr>dep_alias = ''u'', dep_package = None, dep_source_kind = kGit,
     dep_source = ''https://g'', dep_rev = Some ''r'', dep_version = None\<rparr>]"

definition vendor_env :: env where
  "vendor_env = resolver_env\<lparr>env_spawn := (\<lambda>_ w. (Inr \<lparr>exit_code = 0, terminated_by_signal = False, signal_number = 0,
       timed_out = False, stdout_truncated = False, stderr_truncated = False, stdout_text = [], stderr_text = []\<rparr>, w)),
     env_toml := sample_api\<lparr>toml_parse := (\<lambda>c. if c = ''A'' then Inr (toml_of_manifest git_app)
       else Inr (toml_of_manifest sample_util))\<rparr>\<rparr>"

definition vendor_this :: vendor_request where
  "vendor_this = \<lparr>vq_manifest_path = ''/w/pafio.toml'', vq_output_path = Some ''/v'', vq_offline = True\<rparr>"

definition snapshot_at :: "string list \<Rightarrow> fs" where
  "snapshot_at k = [(k, Dir), (k @ [''pafio.toml''], File ''B''), (k @ [''.pafio-snapshot-ready''], File [])]"





lemma vendor_paths:
  "canonical vendor_env (vq_manifest_path vendor_this) = ''/w/pafio.toml''" "vq_offline vendor_this = True"
  "vendor_root_of vendor_env vendor_this = ''/v''" "canonical vendor_env ''/v'' = ''/v''" "is_absolute (env_cwd vendor_env)"
  by code_simp+




text \<open>The same command in the world the first run leaves, the cached checkout apart.\<close>

definition vendored_fs :: fs where
  "vendored_fs = [([''w''], Dir), ([''w'', ''pafio.toml''], File ''A''), ([''v''], Dir), ([''v'', ''git''], Dir),
     ([''v'', ''git'', git_hash], Dir)] @ snapshot_at [''v'', ''git'', git_hash, ''r'']"

definition vendored_graph :: "resolved_graph result \<times> fs" where
  "vendored_graph = ResolveSingleVersionGraph 3 vendor_env no_registry ''/w/pafio.toml'' True (Some ''/v'') vendored_fs"

lemma second_run_facts:
  "case fst vendored_graph of
     Inl e \<Rightarrow> False
   | Inr g \<Rightarrow> (case CollectVendoredSnapshots g of
       Inr (s # ss) \<Rightarrow> prefix [''v'', ''git''] (path_key vendor_env (vs_snapshot_root s))
     | _ \<Rightarrow> False)"
  by code_simp

lemma second_run_world:
  "fst (fs_create_directories vendor_env ''/v'' (snd vendored_graph)) = Inr ()"
  "fs_exists vendor_env vendored_fs ''/w/pafio.toml''"
  "path_key vendor_env (path_append ''/v'' ''git'') = [''v'', ''git'']"
  by code_simp+

theorem vendor_rerun_destroys_witness:
  "\<exists>e w'. WriteVendorTree 3 vendor_env no_registry vendor_this vendored_fs = (Inl e, w') \<and>
     map_of vendored_fs [''v'', ''git'', git_hash, ''r'', ''pafio.toml''] = Some (File ''B'') \<and>
     map_of w' [''v'', ''git'', git_hash, ''r'', ''pafio.toml''] = None"
proof -
  from second_run_facts obtain g s ss where run: "fst vendored_graph = Inr g" "CollectVendoredSnapshots g = Inr (s # ss)"
    and inside: "prefix [''v'', ''git''] (path_key vendor_env (vs_snapshot_root s))"
    by (auto split: sum.splits list.splits)
  then have g: "ResolveSingleVersionGraph 3 vendor_env no_registry (canonical vendor_env (vq_manifest_path vendor_this))
      (vq_offline vendor_this) (Some (vendor_root_of vendor_env vendor_this)) vendored_fs = (Inr g, snd vendored_graph)"
    unfolding vendor_paths by (simp add: vendored_graph_def prod_eq_iff)
  obtain w2 where w2: "fs_create_directories vendor_env (vendor_root_of vendor_env vendor_this) (snd vendored_graph) = (Inr (), w2)"
    using second_run_world(1) unfolding vendor_paths by (metis prod.collapse)
  have there: "fs_exists vendor_env vendored_fs (canonical vendor_env (vq_manifest_path vendor_this))"
    unfolding vendor_paths by (rule second_run_world(2))
  have key: "path_key vendor_env (path_append (vendor_root_of vendor_env vendor_this) ''git'') = [''v'', ''git'']"
    unfolding vendor_paths by (rule second_run_world(3))
  from inside have "path_key vendor_env (vs_snapshot_root s) \<noteq> []" by auto
  from vendor_rerun_destroys [OF there g run(2) _ this w2] inside
  obtain e w' where "WriteVendorTree 3 vendor_env no_registry vendor_this vendored_fs = (Inl e, w')"
    and "\<And>k. prefix [''v'', ''git''] k \<Longrightarrow> map_of w' k = None"
    unfolding key by blast
  then show ?thesis by (intro exI [of _ e] exI [of _ w']) (simp add: vendored_fs_def snapshot_at_def)
qed

end
