(* ===== verification/Publish.thy ===== *)
theory Publish
  imports Pack
begin

section \<open>Publish candidates\<close>

text \<open>
  \<open>src/PafioPublish/Publish.cpp\<close>: the package chosen for publication, the conditions it must meet, and its source
  package.  The candidates are collected as for packing; the file's own copy of \<open>CollectPackageCandidates\<close> is the one
  of \<open>Pack\<close>.
\<close>

record publish_request =
  bq_manifest_path :: string
  bq_package_name :: "string option"
  bq_output_path :: "string option"

record publish_result =
  pb_manifest_path :: string
  pb_package_root :: string
  pb_archive_path :: string
  pb_package_name :: string
  pb_package_version :: string
  pb_dependencies :: "dependency list"
  pb_dev_dependencies :: "dependency list"
  pb_dependency_count :: nat
  pb_dev_dependency_count :: nat

definition SelectPackageForPublish :: "env \<Rightarrow> fs \<Rightarrow> publish_request \<Rightarrow> package_selection result" where
  "SelectPackageForPublish env w rq =
     (let root_manifest_path = canonical env (bq_manifest_path rq) in
      rbind (CollectPackageCandidates env w root_manifest_path) (\<lambda>candidates.
      if candidates = [] then Inl (PublishError ''publish requires a manifest with a local [package] target'')
      else case bq_package_name rq of
        Some name \<Rightarrow> (case filter (\<lambda>c. pkg_name (ps_package c) = name) candidates of
            [] \<Rightarrow> Inl (PublishError (''selected package was not found under the active manifest: '' @ name))
          | [c] \<Rightarrow> Inr c
          | _ \<Rightarrow> Inl (PublishError (''selected package is ambiguous under the active manifest: '' @ name)))
      | None \<Rightarrow> (case find (\<lambda>c. path_eq (ps_manifest_path c) root_manifest_path) candidates of
            Some c \<Rightarrow> Inr c
          | None \<Rightarrow> (case candidates of
              [c] \<Rightarrow> Inr c
            | _ \<Rightarrow> Inl (PublishError
                ''workspace publish is ambiguous; select a root package with --package <namespace/name>'')))))"

definition validate_published_dependency :: "string \<Rightarrow> string \<Rightarrow> dependency \<Rightarrow> unit result" where
  "validate_published_dependency section_name package_name d =
     (if dep_source_kind d \<noteq> kRegistry then Inl (PublishError
        (''published packages may only contain registry-addressable dependencies in ['' @ section_name @ '']: '' @ package_name))
      else if dep_package d = None \<or> dep_package d = Some [] then Inl (PublishError
        (''registry dependency in ['' @ section_name @ ''] must include package = \"namespace/name\": '' @ package_name))
      else if dep_version d = None \<or> dep_version d = Some [] then Inl (PublishError
        (''registry dependency in ['' @ section_name @ ''] must include version = \"x.y.z\": '' @ package_name))
      else if dep_source d = [] then Inl (PublishError
        (''registry dependency in ['' @ section_name @ ''] must include registry = \"<url>\": '' @ package_name))
      else Inr ())"

definition ValidatePublishCandidate :: "package_selection \<Rightarrow> unit result" where
  "ValidatePublishCandidate sel =
     (let package = ps_package sel in
      if \<not> pkg_publish package
      then Inl (PublishError (''selected package is marked publish = false: '' @ pkg_name package))
      else rbind (rmap (validate_published_dependency ''dependencies'' (pkg_name package)) (pkg_dependencies package)) (\<lambda>_.
        rbind (rmap (validate_published_dependency ''dev-dependencies'' (pkg_name package)) (pkg_dev_dependencies package)) (\<lambda>_.
        Inr ())))"

definition PreparePublishCandidate :: "env \<Rightarrow> publish_request \<Rightarrow> (fs, publish_result) io" where
  "PreparePublishCandidate env rq = (\<lambda>w.
     io_bind (io_lift (SelectPackageForPublish env w rq)) (\<lambda>sel.
     io_bind (io_lift (ValidatePublishCandidate sel)) (\<lambda>_.
     io_bind (WriteSourcePackage env \<lparr>pq_manifest_path = ps_manifest_path sel,
         pq_package_name = Some (pkg_name (ps_package sel)), pq_output_path = bq_output_path rq\<rparr>) (\<lambda>archive.
     let package = ps_package sel in
     io_return \<lparr>pb_manifest_path = ps_manifest_path sel, pb_package_root = ps_package_root sel,
       pb_archive_path = pk_archive_path archive, pb_package_name = pkg_name package,
       pb_package_version = pkg_version package, pb_dependencies = pkg_dependencies package,
       pb_dev_dependencies = pkg_dev_dependencies package, pb_dependency_count = length (pkg_dependencies package),
       pb_dev_dependency_count = length (pkg_dev_dependencies package)\<rparr>))) w)"

end
