(* ===== verification/PublishProperties.thy ===== *)
theory PublishProperties
  imports Publish PackProperties
begin

section \<open>Properties of publish candidates\<close>

text \<open>
  What a successful run guarantees of the package: it may be published, its dependencies can be fetched from a registry,
  and the archive is the source package of the very selection that was checked.
\<close>

definition registry_addressable :: "dependency \<Rightarrow> bool" where
  "registry_addressable d \<longleftrightarrow> dep_source_kind d = kRegistry \<and> dep_source d \<noteq> [] \<and>
     (case dep_package d of None \<Rightarrow> False | Some p \<Rightarrow> p \<noteq> []) \<and> (case dep_version d of None \<Rightarrow> False | Some v \<Rightarrow> v \<noteq> [])"

lemma validate_published_Inr:
  "validate_published_dependency section name d = Inr u \<longleftrightarrow> registry_addressable d"
  by (auto simp: validate_published_dependency_def registry_addressable_def split: option.splits)

lemma rmap_check_iff: "(\<exists>us. rmap f xs = Inr us) \<longleftrightarrow> (\<forall>x \<in> set xs. \<exists>u. f x = Inr u)"
  by (induction xs) (auto simp: result_simps)

lemma ValidatePublishCandidate_Inr:
  "ValidatePublishCandidate sel = Inr u \<longleftrightarrow> pkg_publish (ps_package sel) \<and>
     (\<forall>d \<in> set (pkg_dependencies (ps_package sel)) \<union> set (pkg_dev_dependencies (ps_package sel)). registry_addressable d)"
  by (auto simp: ValidatePublishCandidate_def Let_def result_simps rmap_check_iff validate_published_Inr ball_Un)

text \<open>A candidate is what its own manifest says.\<close>

lemma candidate_loaded:
  assumes "CollectPackageCandidates env w mp = Inr cs" and "c \<in> set cs"
  shows "\<exists>p. ps_manifest_path c = canonical env p \<and> LoadManifest env w (ps_manifest_path c) = Inr (ps_manifest c) \<and>
    doc_package (ps_manifest c) = Some (ps_package c) \<and> ps_package_root c = parent_path (ps_manifest_path c)"
  using assms
  by (fastforce simp: CollectPackageCandidates_def member_candidate_def Let_def result_simps
      dest!: rmap_Inr_in_set split: option.splits)

lemma publish_selects:
  assumes "SelectPackageForPublish env w rq = Inr sel"
  shows "\<exists>cs. CollectPackageCandidates env w (canonical env (bq_manifest_path rq)) = Inr cs \<and> sel \<in> set cs"
proof -
  let ?mp = "canonical env (bq_manifest_path rq)"
  from assms obtain cs where cs: "CollectPackageCandidates env w ?mp = Inr cs" "cs \<noteq> []"
    by (auto simp: SelectPackageForPublish_def Let_def result_simps split: if_splits)
  have "sel \<in> set cs"
  proof (cases "bq_package_name rq")
    case None
    with assms cs show ?thesis
      by (auto simp: SelectPackageForPublish_def rbind_def find_Some_iff split: option.splits list.splits)
  next
    case (Some name)
    from Some assms cs show ?thesis
      by (cases "filter (\<lambda>c. pkg_name (ps_package c) = name) cs")
        (auto simp: SelectPackageForPublish_def rbind_def dest: filter_eq_ConsD split: list.splits)
  qed
  with cs show ?thesis by blast
qed

lemma pack_selects:
  assumes "SelectPackageForPack env w rq = Inr sel" and "pq_package_name rq = Some name"
  shows "\<exists>cs. CollectPackageCandidates env w (canonical env (pq_manifest_path rq)) = Inr cs \<and>
    filter (\<lambda>c. pkg_name (ps_package c) = name) cs = [sel]"
proof -
  from assms obtain cs where cs: "CollectPackageCandidates env w (canonical env (pq_manifest_path rq)) = Inr cs"
    and one: "(case filter (\<lambda>c. pkg_name (ps_package c) = name) cs of
        [] \<Rightarrow> Inl (PackError (''selected package was not found under the active manifest: '' @ name))
      | [c] \<Rightarrow> Inr c
      | _ \<Rightarrow> Inl (PackError (''selected package is ambiguous under the active manifest: '' @ name))) = Inr sel"
    by (auto simp: SelectPackageForPack_def Let_def result_simps split: if_splits)
  have "filter (\<lambda>c. pkg_name (ps_package c) = name) cs = [sel]"
    using one by (cases "filter (\<lambda>c. pkg_name (ps_package c) = name) cs") (auto split: list.splits)
  with cs show ?thesis by blast
qed

text \<open>Packing by the manifest and the name of a selection selects it again.\<close>

lemma pack_selects_same:
  assumes "is_absolute (env_cwd env)" and "ps_manifest_path sel = canonical env p"
    and "LoadManifest env w (ps_manifest_path sel) = Inr (ps_manifest sel)"
    and "doc_package (ps_manifest sel) = Some (ps_package sel)"
    and "ps_package_root sel = parent_path (ps_manifest_path sel)"
    and "SelectPackageForPack env w \<lparr>pq_manifest_path = ps_manifest_path sel,
      pq_package_name = Some (pkg_name (ps_package sel)), pq_output_path = out\<rparr> = Inr sel'"
  shows "sel' = sel"
proof -
  obtain cs where cs: "CollectPackageCandidates env w (canonical env (ps_manifest_path sel)) = Inr cs"
    and one: "filter (\<lambda>c. pkg_name (ps_package c) = pkg_name (ps_package sel)) cs = [sel']"
    using pack_selects [OF assms(6)] by auto
  have same: "canonical env (canonical env (ps_manifest_path sel)) = ps_manifest_path sel"
    using canonical_idem [OF assms(1)] assms(2) by simp
  obtain rest where "cs = sel # rest"
    using cs assms(3-5) canonical_idem [OF assms(1)]
    unfolding CollectPackageCandidates_def Let_def same
    by (cases sel) (auto simp: result_simps split: option.splits)
  with one show ?thesis by simp
qed

text \<open>C25: what is published is what was checked: a prepared candidate is a package of the project marked for
  publication, every one of its dependencies names a registry, a package and a version, and the archive at the reported
  path was written from the entries of that same package, its canonical manifest among them.\<close>

theorem published_package_checked:
  assumes "PreparePublishCandidate env rq w = (Inr r, w')" and "is_absolute (env_cwd env)"
  shows "\<exists>sel entries archive_prefix. SelectPackageForPublish env w rq = Inr sel \<and>
    LoadManifest env w (pb_manifest_path r) = Inr (ps_manifest sel) \<and>
    doc_package (ps_manifest sel) = Some (ps_package sel) \<and> pkg_publish (ps_package sel) \<and>
    pb_package_name r = pkg_name (ps_package sel) \<and> pb_package_version r = pkg_version (ps_package sel) \<and>
    (\<forall>d \<in> set (pkg_dependencies (ps_package sel)) \<union> set (pkg_dev_dependencies (ps_package sel)). registry_addressable d) \<and>
    CollectPackEntries env w sel (pb_archive_path r) = Inr entries \<and> manifest_entry sel \<in> set entries \<and>
    WriteTarArchive env entries (pb_archive_path r) archive_prefix w = (Inr (), w')"
proof -
  obtain sel archive where sel: "SelectPackageForPublish env w rq = Inr sel"
    and ok: "ValidatePublishCandidate sel = Inr ()"
    and pack: "WriteSourcePackage env \<lparr>pq_manifest_path = ps_manifest_path sel,
         pq_package_name = Some (pkg_name (ps_package sel)), pq_output_path = bq_output_path rq\<rparr> w = (Inr archive, w')"
    and r: "pb_archive_path r = pk_archive_path archive" "pb_manifest_path r = ps_manifest_path sel"
      "pb_package_name r = pkg_name (ps_package sel)" "pb_package_version r = pkg_version (ps_package sel)"
    using assms(1) unfolding PreparePublishCandidate_def Let_def by (auto simp: result_simps)
  obtain cs where "CollectPackageCandidates env w (canonical env (bq_manifest_path rq)) = Inr cs" "sel \<in> set cs"
    using publish_selects [OF sel] by blast
  from candidate_loaded [OF this] obtain p where p: "ps_manifest_path sel = canonical env p"
    "LoadManifest env w (ps_manifest_path sel) = Inr (ps_manifest sel)"
    "doc_package (ps_manifest sel) = Some (ps_package sel)" "ps_package_root sel = parent_path (ps_manifest_path sel)"
    by blast
  obtain sel' entries archive_prefix where again: "SelectPackageForPack env w \<lparr>pq_manifest_path = ps_manifest_path sel,
         pq_package_name = Some (pkg_name (ps_package sel)), pq_output_path = bq_output_path rq\<rparr> = Inr sel'"
    and entries: "CollectPackEntries env w sel' (pk_archive_path archive) = Inr entries"
    and written: "WriteTarArchive env entries (pk_archive_path archive) archive_prefix w = (Inr (), w')"
    using pack unfolding WriteSourcePackage_def Let_def by (auto simp: result_simps split: option.splits)
  have same: "sel' = sel" by (rule pack_selects_same [OF assms(2) p again])
  have "manifest_entry sel \<in> set entries"
    using entries unfolding same CollectPackEntries_def Let_def manifest_entry_def [symmetric]
    by (auto simp: result_simps set_insort_key split: if_splits)
  with sel ok p entries written show ?thesis unfolding same ValidatePublishCandidate_Inr r
    by (intro exI [of _ sel] exI [of _ entries] exI [of _ archive_prefix]) simp
qed

text \<open>A package with one registry dependency.\<close>

definition published_package :: package_config where
  "published_package = \<lparr>pkg_name = ''a/p'', pkg_version = ''1.0.0'', pkg_edition = ''2026'', pkg_publish = True,
     pkg_toolchain = sample_toolchain, pkg_lib = Some \<lparr>lib_path = ''l''\<rparr>, pkg_bins = [], pkg_tests = [],
     pkg_dependencies = [\<lparr>dep_alias = ''j'', dep_package = Some ''a/j'', dep_source_kind = kRegistry,
       dep_source = ''https://r'', dep_rev = None, dep_version = Some ''1.2.3''\<rparr>], pkg_dev_dependencies = []\<rparr>"

definition publish_env :: env where
  "publish_env = sample_env_reading (toml_of_manifest \<lparr>doc_package = Some published_package, doc_workspace = None\<rparr>)"

definition publish_this :: publish_request where
  "publish_this = \<lparr>bq_manifest_path = ''/w/pafio.toml'', bq_package_name = None, bq_output_path = None\<rparr>"

definition publish_fs :: fs where
  "publish_fs = [([''w''], Dir), ([''w'', ''pafio.toml''], File [])]"

definition published_selection :: package_selection where
  "published_selection = projr (SelectPackageForPublish publish_env publish_fs publish_this)"

lemma publish_steps:
  "SelectPackageForPublish publish_env publish_fs publish_this = Inr published_selection"
  "ValidatePublishCandidate published_selection = Inr ()"
  "SelectPackageForPack publish_env publish_fs \<lparr>pq_manifest_path = ps_manifest_path published_selection,
     pq_package_name = Some (pkg_name (ps_package published_selection)), pq_output_path = None\<rparr> = Inr published_selection"
  "PackageShortName (pkg_name (ps_package published_selection)) = Inr ''p''"
  "pkg_version (ps_package published_selection) = ''1.0.0''"
  "canonical publish_env (path_append (path_append (canonical publish_env (ps_package_root published_selection)) ''dist'')
     ''p-1.0.0.tar'') = ''/w/dist/p-1.0.0.tar''"
  "CollectPackEntries publish_env publish_fs published_selection ''/w/dist/p-1.0.0.tar'' = Inr [manifest_entry published_selection]"
proof -
  show sel: "SelectPackageForPublish publish_env publish_fs publish_this = Inr published_selection"
    unfolding published_selection_def by code_simp
qed (code_simp+)

lemma publish_archive:
  "\<exists>w'. WriteTarArchive publish_env [manifest_entry published_selection] ''/w/dist/p-1.0.0.tar'' ''p-1.0.0'' publish_fs
     = (Inr (), w')"
proof -
  let ?text = "SerializeManifestCanonical (ps_manifest published_selection)"
  have "length ?text < 512" by code_simp
  then obtain b where "WriteTarEntry (''p-1.0.0/pafio.toml'') ?text = Inr b"
    using WriteTarEntry_short [of "''p-1.0.0/pafio.toml''" ?text] by auto
  then have "archive_bytes publish_env w ''p-1.0.0'' [manifest_entry published_selection] = Inr (b @ zeros 1024)" for w
    by (simp add: archive_bytes_def manifest_entry_def entry_contents_def)
  moreover have "env_writable publish_env k" for k by (simp add: publish_env_def sample_env_reading_def sample_env_def)
  moreover have "path_key publish_env ''/w/dist/p-1.0.0.tar'' = [''w'', ''dist'', ''p-1.0.0.tar'']"
    "path_key publish_env (''/w/dist/p-1.0.0.tar'' @ ''.tmp'') = [''w'', ''dist'', ''p-1.0.0.tar.tmp'']"
    "path_key publish_env (parent_path ''/w/dist/p-1.0.0.tar'') = [''w'', ''dist'']"
    by code_simp+
  ultimately show ?thesis
    unfolding WriteTarArchive_def Let_def io_bind_def io_on_error_def io_lift_def fs_create_directories_def
      fs_write_def fs_can_write_def fs_put_def fs_rename_def
    by (simp add: publish_fs_def has_children_def)
qed

lemma publish_runs: "\<exists>r w'. PreparePublishCandidate publish_env publish_this publish_fs = (Inr r, w')"
proof -
  obtain w' where "WriteTarArchive publish_env [manifest_entry published_selection] ''/w/dist/p-1.0.0.tar''
      ''p-1.0.0'' publish_fs = (Inr (), w')"
    using publish_archive by blast
  moreover have "bq_output_path publish_this = None" by (simp add: publish_this_def)
  ultimately show ?thesis
    unfolding PreparePublishCandidate_def WriteSourcePackage_def io_bind_def io_lift_def io_return_def Let_def
    by (simp add: publish_steps)
qed

theorem published_package_checked_witness:
  "\<exists>sel. SelectPackageForPublish publish_env publish_fs publish_this = Inr sel \<and> pkg_publish (ps_package sel) \<and>
     (\<forall>d \<in> set (pkg_dependencies (ps_package sel)). registry_addressable d)"
proof -
  obtain r w' where run: "PreparePublishCandidate publish_env publish_this publish_fs = (Inr r, w')"
    using publish_runs by blast
  have "is_absolute (env_cwd publish_env)" by code_simp
  from published_package_checked [OF run this] show ?thesis by blast
qed

end
