(* ===== verification/Compat.thy ===== *)
theory Compat
  imports Files Security
begin

section \<open>Compiler compatibility\<close>

text \<open>
  \<open>src/PafioCompat/Compat.cpp\<close>: the probe of a compiler binary, the entry of the compatibility matrix its version and
  channel select, the checks against that entry, and the choice of the binary for a project.  The compiler is a child
  process; the matrix is a TOML file below the project root the build passes in.
\<close>

record compatibility_report =
  cr_binary :: string
  cr_compiler_version :: string
  cr_compiler_channel :: string
  cr_compiler_edition_max :: string
  cr_integration_phase :: string
  cr_supported_compile_plan_versions :: "int list"
  cr_capabilities :: "string list"

subsection \<open>Versions\<close>

text \<open>The tuple of the three numbers, compared lexicographically.\<close>

definition ParseSemver :: "string \<Rightarrow> int list result" where
  "ParseSemver version =
     (case getlines CHR ''.'' version of
        major # minor # patch # _ \<Rightarrow>
          rbind (std_stoi major) (\<lambda>a. rbind (std_stoi minor) (\<lambda>b. rbind (std_stoi patch) (\<lambda>c. Inr [a, b, c])))
      | _ \<Rightarrow> Inl (CompatibilityError (''invalid compiler version in handshake: '' @ version)))"

definition ParseEdition :: "string \<Rightarrow> int result" where
  "ParseEdition edition =
     map_sum (\<lambda>_. CompatibilityError (''invalid compiler edition_max in handshake: '' @ edition)) id (std_stoi edition)"

subsection \<open>Access to JSON and TOML arrays\<close>

definition json_string :: "json option \<Rightarrow> string result" where
  "json_string v = (case v of Some (JString s) \<Rightarrow> Inr s | _ \<Rightarrow> Inl type_error)"

definition json_strings :: "json option \<Rightarrow> string list result" where
  "json_strings v = (case json_array v of
      None \<Rightarrow> Inl type_error
    | Some js \<Rightarrow> rmap (\<lambda>j. json_string (Some j)) js)"

definition json_ints :: "env \<Rightarrow> json option \<Rightarrow> int list result" where
  "json_ints env v = (case json_array v of
      None \<Rightarrow> Inl type_error
    | Some js \<Rightarrow> rmap (json_to_int env) js)"

definition entry_string :: "env \<Rightarrow> toml_table \<Rightarrow> string \<Rightarrow> string" where
  "entry_string env entry key = (case Option.bind (map_of entry key) (toml_string (env_toml env)) of
      None \<Rightarrow> [] | Some s \<Rightarrow> s)"

definition LoadStringArray :: "env \<Rightarrow> toml_table \<Rightarrow> string \<Rightarrow> string list" where
  "LoadStringArray env table key = (case as_array (map_of table key) of
      None \<Rightarrow> []
    | Some a \<Rightarrow> List.map_filter (toml_string (env_toml env)) a)"

definition LoadIntArray :: "env \<Rightarrow> toml_table \<Rightarrow> string \<Rightarrow> int list" where
  "LoadIntArray env table key = (case as_array (map_of table key) of
      None \<Rightarrow> []
    | Some a \<Rightarrow> map int32 (List.map_filter (toml_int64 (env_toml env)) a))"

subsection \<open>The handshake\<close>

text \<open>\<open>toml::parse_file\<close>; its error carries the description.\<close>

definition parse_toml_file :: "env \<Rightarrow> fs \<Rightarrow> string \<Rightarrow> string + toml_table" where
  "parse_toml_file env w path = (case fs_read env w path of
      None \<Rightarrow> Inl (toml_open_error (env_toml env))
    | Some content \<Rightarrow> toml_parse (env_toml env) content)"

definition LoadCompatMatrix :: "env \<Rightarrow> fs \<Rightarrow> toml_table result" where
  "LoadCompatMatrix env w = map_sum RuntimeError id
     (parse_toml_file env w (foldl path_append (env_project_root env) [''contracts'', ''compat'', ''styio-support.toml'']))"

definition required_fields :: "string list" where
  "required_fields = [''tool'', ''compiler_version'', ''channel'', ''supported_contracts'', ''capabilities'', ''edition_max'']"

definition check_machine_info :: "json \<Rightarrow> json result" where
  "check_machine_info payload =
     rbind (rmap (\<lambda>field. guard (jcontains payload field)
       (CompatibilityError (''compiler handshake missing required field: '' @ field))) required_fields) (\<lambda>_.
     if \<not> (case jget ''supported_contracts'' payload of Some v \<Rightarrow> is_object v | None \<Rightarrow> False)
       then Inl (CompatibilityError (''compiler handshake field '' @ squote ''supported_contracts'' @ '' must be an object''))
     else if json_array (jget ''capabilities'' payload) = None
       then Inl (CompatibilityError (''compiler handshake field '' @ squote ''capabilities'' @ '' must be an array''))
     else if jget ''tool'' payload \<noteq> Some (JString ''styio'')
       then Inl (CompatibilityError (''compiler handshake field '' @ squote ''tool'' @ '' must equal '' @ squote ''styio''))
     else Inr payload)"

definition ProbeMachineInfo :: "env \<Rightarrow> string \<Rightarrow> (fs, json) io" where
  "ProbeMachineInfo env binary =
     io_bind (RunProcess env CompilerProbeError \<lparr>pr_program = binary, pr_args = [''--machine-info=json''], pr_workdir = None,
       pr_search_path = False, pr_timeout_ms = kExternalProcessProbeTimeout, pr_context = ''compiler probe process''\<rparr>) (\<lambda>r.
     if exit_code r \<noteq> 0 then
       (let detail = DescribeProcessFailure r in
        io_throw (CompilerProbeError (''compiler '' @ squote binary @ '' rejected --machine-info=json'' @
          (if detail = [] then [] else '': '' @ detail))))
     else (case json_parse (env_json env) (stdout_text r) of
         Inl what \<Rightarrow> io_throw (CompatibilityError (''compiler '' @ squote binary @ '' returned invalid machine-info JSON''))
       | Inr payload \<Rightarrow> io_lift (check_machine_info payload)))"

subsection \<open>The matrix\<close>

definition version_in :: "int list \<Rightarrow> int list \<Rightarrow> int list \<Rightarrow> bool" where
  "version_in lo hi v \<longleftrightarrow> lo \<le> v \<and> v < hi"

fun find_matrix_entry :: "env \<Rightarrow> int list \<Rightarrow> string \<Rightarrow> toml list \<Rightarrow> toml_table result" where
  "find_matrix_entry env version channel [] =
     Inl (CompatibilityError ''compiler version/channel is outside the published pafio compatibility matrix'')"
| "find_matrix_entry env version channel (node # nodes) =
     (case as_table (Some node) of
        None \<Rightarrow> find_matrix_entry env version channel nodes
      | Some entry \<Rightarrow>
          rbind (ParseSemver (entry_string env entry ''min'')) (\<lambda>lo.
          rbind (ParseSemver (entry_string env entry ''max_exclusive'')) (\<lambda>hi.
          if \<not> version_in lo hi version \<or> entry_string env entry ''channel'' \<noteq> channel
          then find_matrix_entry env version channel nodes else Inr entry)))"

definition FindMatchingEntry :: "env \<Rightarrow> json \<Rightarrow> toml_table \<Rightarrow> toml_table result" where
  "FindMatchingEntry env machine_info compat_doc =
     rbind (json_string (jget ''compiler_version'' machine_info)) (\<lambda>v.
     rbind (ParseSemver v) (\<lambda>version.
     rbind (json_string (jget ''channel'' machine_info)) (\<lambda>channel.
     case as_array (map_of compat_doc ''supported_styio'') of
       None \<Rightarrow> Inl (CompatibilityError ''compatibility matrix is missing supported_styio entries'')
     | Some entries \<Rightarrow> find_matrix_entry env version channel entries)))"

definition compile_plan_versions :: "env \<Rightarrow> json \<Rightarrow> int list result" where
  "compile_plan_versions env machine_info =
     (case Option.bind (jget ''supported_contracts'' machine_info) (jget ''compile_plan'') of
        None \<Rightarrow> Inr []
      | Some v \<Rightarrow> json_ints env (Some v))"

definition build_report :: "env \<Rightarrow> string \<Rightarrow> json \<Rightarrow> toml_table \<Rightarrow> compatibility_report result" where
  "build_report env binary machine_info entry =
     rbind (json_strings (jget ''capabilities'' machine_info)) (\<lambda>capabilities.
     rbind (rmap (\<lambda>required. guard (required \<in> set capabilities)
       (CompatibilityError (''compiler handshake is missing required capabilities: '' @ required)))
         (LoadStringArray env entry ''required_capabilities'')) (\<lambda>_.
     rbind (compile_plan_versions env machine_info) (\<lambda>supported.
     let expected = LoadIntArray env entry ''supported_compile_plan_versions'' in
     rbind (rmap (\<lambda>version. guard (version \<in> set supported)
       (CompatibilityError ''compiler handshake does not provide the compile-plan versions required by this pafio phase''))
         expected) (\<lambda>_.
     rbind (json_string (jget ''edition_max'' machine_info)) (\<lambda>edition_max.
     rbind (ParseEdition edition_max) (\<lambda>compiler_edition.
     rbind (ParseEdition (entry_string env entry ''edition_max'')) (\<lambda>supported_edition.
     if compiler_edition < supported_edition
     then Inl (CompatibilityError ''compiler edition_max is lower than the minimum edition supported by this pafio phase'') else
     rbind (json_string (jget ''compiler_version'' machine_info)) (\<lambda>version.
     rbind (json_string (jget ''channel'' machine_info)) (\<lambda>channel.
     Inr \<lparr>cr_binary = absolute (env_cwd env) binary, cr_compiler_version = version, cr_compiler_channel = channel,
       cr_compiler_edition_max = edition_max,
       cr_integration_phase = (case Option.bind (map_of entry ''integration_phase'') (toml_string (env_toml env)) of
         None \<Rightarrow> ''unspecified'' | Some s \<Rightarrow> s),
       cr_supported_compile_plan_versions = expected, cr_capabilities = sort capabilities\<rparr>)))))))))"

definition CheckCompilerCompatibility :: "env \<Rightarrow> string \<Rightarrow> (fs, compatibility_report) io" where
  "CheckCompilerCompatibility env binary =
     io_bind (ProbeMachineInfo env binary) (\<lambda>machine_info.
     io_bind (fs_query (\<lambda>w. LoadCompatMatrix env w)) (\<lambda>compat_doc.
     io_bind (io_lift (FindMatchingEntry env machine_info compat_doc)) (\<lambda>entry.
     io_lift (build_report env binary machine_info entry))))"

subsection \<open>The binary of a project\<close>

record toolchain_pin =
  tpin_path :: string
  tpin_compiler_version :: string
  tpin_compiler_channel :: string

definition exact_string :: "toml_table \<Rightarrow> string \<Rightarrow> string option" where
  "exact_string table key = (case map_of table key of Some (TString s) \<Rightarrow> Some s | _ \<Rightarrow> None)"

definition LoadProjectToolchainPin :: "env \<Rightarrow> fs \<Rightarrow> string \<Rightarrow> toolchain_pin option result" where
  "LoadProjectToolchainPin env w manifest_path =
     (case FindProjectToolchainPinPath env w manifest_path of
        None \<Rightarrow> Inr None
      | Some pin_path \<Rightarrow> (case parse_toml_file env w pin_path of
          Inl what \<Rightarrow> Inl (ToolError (''failed to parse project toolchain pin '' @ squote pin_path @ '': '' @ what))
        | Inr doc \<Rightarrow> (case as_table (map_of doc ''styio'') of
            None \<Rightarrow> Inl (ToolError (''project toolchain pin is missing [styio]: '' @ pin_path))
          | Some styio \<Rightarrow> (case (exact_string styio ''version'', exact_string styio ''channel'') of
              (Some (v # vs), Some (c # cs)) \<Rightarrow> Inr (Some \<lparr>tpin_path = pin_path, tpin_compiler_version = v # vs,
                tpin_compiler_channel = c # cs\<rparr>)
            | (Some (v # vs), _) \<Rightarrow> Inl (ToolError (''project toolchain pin is missing styio.channel: '' @ pin_path))
            | _ \<Rightarrow> Inl (ToolError (''project toolchain pin is missing styio.version: '' @ pin_path))))))"

definition ResolveStyioBinary :: "env \<Rightarrow> fs \<Rightarrow> string option \<Rightarrow> string option \<Rightarrow> string option result" where
  "ResolveStyioBinary env w explicit_path manifest_path =
     (case explicit_path of Some (c # cs) \<Rightarrow> Inr (Some (canonical env (c # cs))) | _ \<Rightarrow>
     (case env_getenv env ''PAFIO_STYIO_BIN'' of Some (c # cs) \<Rightarrow> Inr (Some (canonical env (c # cs))) | _ \<Rightarrow>
     rbind (case manifest_path of None \<Rightarrow> Inr None | Some m \<Rightarrow> LoadProjectToolchainPin env w m) (\<lambda>pin.
     case pin of
       Some p \<Rightarrow> rbind (ResolvePafioHome env) (\<lambda>home.
         let managed = ManagedStyioBinaryPath env
               (ManagedStyioInstallRoot env home (tpin_compiler_channel p) (tpin_compiler_version p)) in
         if \<not> fs_exists env w managed \<or> \<not> fs_is_regular_file env w managed
         then Inl (ToolError (''project toolchain pin requires an installed managed styio compiler: '' @
           tpin_compiler_channel p @ ''/'' @ tpin_compiler_version p @ '' ('' @ tpin_path p @ '')''))
         else Inr (Some managed))
     | None \<Rightarrow> (case ResolveOptionalPafioHome env of
         None \<Rightarrow> Inr None
       | Some home \<Rightarrow> (let managed = ManagedStyioBinaryPath env (ManagedStyioCurrentRoot env home) in
           Inr (if fs_exists env w managed then Some managed else None))))))"

end
