(* ===== verification/Install.thy ===== *)
theory Install
  imports Compat Manifest
begin

section \<open>Managed compilers\<close>

text \<open>
  \<open>src/PafioTool/Install.cpp\<close>: compilers are installed below \<open>PAFIO_HOME/tools/styio/<channel>/<version>\<close>, one of them
  is copied to \<open>current\<close>, a project pins one by channel and version, and the status query lists them.  File permissions
  are not part of the file system model: the call that copies them has no effect here.
\<close>

subsection \<open>Requests and results\<close>

record tool_install_result =
  ti_source_binary :: string
  ti_pafio_home :: string
  ti_install_root :: string
  ti_install_binary_path :: string
  ti_install_metadata_path :: string
  ti_current_root :: string
  ti_managed_binary_path :: string
  ti_current_metadata_path :: string
  ti_report :: compatibility_report

record tool_use_request =
  tu_compiler_version :: string
  tu_compiler_channel :: "string option"

record tool_use_result =
  ur_pafio_home :: string
  ur_install_root :: string
  ur_install_binary_path :: string
  ur_install_metadata_path :: string
  ur_current_root :: string
  ur_managed_binary_path :: string
  ur_current_metadata_path :: string
  ur_report :: compatibility_report

record tool_pin_request =
  tq_manifest_path :: string
  tq_compiler_version :: "string option"
  tq_compiler_channel :: "string option"
  tq_clear :: bool

record tool_pin_result =
  tp_manifest_path :: string
  tp_pin_path :: string
  tp_cleared :: bool
  tp_install_root :: "string option"
  tp_install_binary_path :: "string option"
  tp_compiler_version :: "string option"
  tp_compiler_channel :: "string option"

record managed_toolchain_status =
  mt_install_root :: string
  mt_install_binary_path :: string
  mt_install_metadata_path :: string
  mt_compiler_version :: string
  mt_compiler_channel :: string
  mt_compiler_edition_max :: string
  mt_integration_phase :: string
  mt_supported_compile_plan_versions :: "int list"
  mt_capabilities :: "string list"
  mt_current :: bool

record tool_status_result =
  tr_pafio_home :: string
  tr_manifest_path :: "string option"
  tr_project_pin :: "toolchain_pin option"
  tr_current_compiler :: "managed_toolchain_status option"
  tr_managed_toolchains :: "managed_toolchain_status list"

record installed_compiler =
  ic_install_root :: string
  ic_install_binary_path :: string
  ic_install_metadata_path :: string
  ic_compiler_version :: string
  ic_compiler_channel :: string

subsection \<open>Files\<close>

definition EnsureLocalExecutableFile :: "env \<Rightarrow> fs \<Rightarrow> string \<Rightarrow> unit result" where
  "EnsureLocalExecutableFile env w path =
     (if \<not> fs_exists env w path then Inl (ToolError (''styio binary not found: '' @ path))
      else if \<not> fs_is_regular_file env w path then Inl (ToolError (''styio binary must be a regular file: '' @ path))
      else Inr ())"

definition CopyExecutableFile :: "env \<Rightarrow> string \<Rightarrow> string \<Rightarrow> (fs, unit) io" where
  "CopyExecutableFile env source destination =
     io_bind (fs_create_directories env (parent_path destination)) (\<lambda>_.
     (\<lambda>w. if elements (canonical env source) = elements (canonical env destination) then (Inr (), w)
       else (case fs_copy_file env source destination w of
           None \<Rightarrow> (Inl (FilesystemError ''copy_file''), w)
         | Some w' \<Rightarrow> (Inr (), w'))))"

definition WriteJsonFile :: "env \<Rightarrow> string \<Rightarrow> json \<Rightarrow> (fs, unit) io" where
  "WriteJsonFile env path payload =
     (let failed = ToolError (''failed to open tool metadata for write: '' @ path) in
      io_bind (fs_create_directories env (parent_path path)) (\<lambda>_.
      io_bind (fs_write env path [] failed) (\<lambda>_.
      io_bind (io_lift (map_sum (\<lambda>_. type_error) id (json_dump (env_json env) 2 payload))) (\<lambda>body.
      fs_write env path (body @ nl) failed))))"

definition WriteTextFile :: "env \<Rightarrow> string \<Rightarrow> string \<Rightarrow> (fs, unit) io" where
  "WriteTextFile env path content =
     io_bind (fs_create_directories env (parent_path path)) (\<lambda>_.
     fs_write env path content (ToolError (''failed to open tool configuration for write: '' @ path)))"

definition BuildInstallMetadata :: "compatibility_report \<Rightarrow> string \<Rightarrow> string \<Rightarrow> json" where
  "BuildInstallMetadata report source_binary managed_binary = jobject
     [(''tool'', JString ''styio''), (''install_kind'', JString ''local-executable''),
      (''source_binary'', JString source_binary), (''managed_binary'', JString managed_binary),
      (''compiler_version'', JString (cr_compiler_version report)), (''channel'', JString (cr_compiler_channel report)),
      (''edition_max'', JString (cr_compiler_edition_max report)),
      (''integration_phase'', JString (cr_integration_phase report)),
      (''supported_compile_plan_versions'', JArray (map JInt (cr_supported_compile_plan_versions report))),
      (''capabilities'', JArray (map JString (cr_capabilities report)))]"

definition LoadJsonFile :: "env \<Rightarrow> fs \<Rightarrow> string \<Rightarrow> json result" where
  "LoadJsonFile env w path = (case fs_read env w path of
      None \<Rightarrow> Inl (ToolError (''failed to open tool metadata for read: '' @ path))
    | Some content \<Rightarrow> map_sum RuntimeError id (json_stream (env_json env) content))"

text \<open>\<open>value(key, default)\<close> with a vector as default.\<close>

definition json_value_list :: "json \<Rightarrow> string \<Rightarrow> (json option \<Rightarrow> 'a list result) \<Rightarrow> 'a list result" where
  "json_value_list j key conv =
     (if \<not> is_object j then Inl type_error
      else case jget key j of None \<Rightarrow> Inr [] | Some v \<Rightarrow> conv (Some v))"

definition BuildManagedToolchainStatus ::
    "env \<Rightarrow> fs \<Rightarrow> string \<Rightarrow> string \<Rightarrow> string \<Rightarrow> bool \<Rightarrow> managed_toolchain_status result" where
  "BuildManagedToolchainStatus env w install_root install_binary_path install_metadata_path current =
     rbind (LoadJsonFile env w install_metadata_path) (\<lambda>metadata.
     rbind (json_value_string metadata ''compiler_version'' (filename install_root)) (\<lambda>version.
     rbind (json_value_string metadata ''channel'' (filename (parent_path install_root))) (\<lambda>channel.
     rbind (json_value_string metadata ''edition_max'' []) (\<lambda>edition_max.
     rbind (json_value_string metadata ''integration_phase'' []) (\<lambda>phase.
     rbind (json_value_list metadata ''supported_compile_plan_versions'' (json_ints env)) (\<lambda>versions.
     rbind (json_value_list metadata ''capabilities'' json_strings) (\<lambda>capabilities.
     Inr \<lparr>mt_install_root = install_root, mt_install_binary_path = install_binary_path,
       mt_install_metadata_path = install_metadata_path, mt_compiler_version = version, mt_compiler_channel = channel,
       mt_compiler_edition_max = edition_max, mt_integration_phase = phase,
       mt_supported_compile_plan_versions = versions, mt_capabilities = capabilities, mt_current = current\<rparr>)))))))"

definition RefreshManagedCurrentRoot :: "env \<Rightarrow> compatibility_report \<Rightarrow> string \<Rightarrow> string \<Rightarrow> (fs, unit) io" where
  "RefreshManagedCurrentRoot env report source_binary current_root =
     (let managed = ManagedStyioBinaryPath env current_root in
      io_bind (CopyExecutableFile env source_binary managed) (\<lambda>_.
      WriteJsonFile env (ManagedStyioMetadataPath env current_root) (BuildInstallMetadata report source_binary managed)))"

subsection \<open>Installed compilers\<close>

definition installed_at :: "env \<Rightarrow> fs \<Rightarrow> string \<Rightarrow> string \<Rightarrow> string \<times> node \<Rightarrow> installed_compiler list" where
  "installed_at env w channel channel_path entry =
     (let install_root = path_append channel_path (fst entry);
          binary = ManagedStyioBinaryPath env install_root; metadata = ManagedStyioMetadataPath env install_root
      in if snd entry = Dir \<and> fs_is_regular_file env w binary \<and> fs_is_regular_file env w metadata
         then [\<lparr>ic_install_root = install_root, ic_install_binary_path = binary, ic_install_metadata_path = metadata,
           ic_compiler_version = fst entry, ic_compiler_channel = channel\<rparr>]
         else [])"

definition installed_in_channel :: "env \<Rightarrow> fs \<Rightarrow> string \<Rightarrow> string \<times> node \<Rightarrow> installed_compiler list" where
  "installed_in_channel env w styio_root entry =
     (if snd entry \<noteq> Dir \<or> fst entry = ''current'' then []
      else let channel_path = path_append styio_root (fst entry)
        in concat (map (installed_at env w (fst entry) channel_path) (dir_entries env w channel_path)))"

definition CollectInstalledManagedCompilers :: "env \<Rightarrow> fs \<Rightarrow> string \<Rightarrow> installed_compiler list result" where
  "CollectInstalledManagedCompilers env w pafio_home =
     (let styio_root = ManagedStyioRoot env pafio_home in
      if \<not> fs_exists env w styio_root then Inr []
      else if \<not> fs_is_directory env w styio_root then Inl (FilesystemError ''directory_iterator'')
      else Inr (concat (map (installed_in_channel env w styio_root) (dir_entries env w styio_root))))"

definition compiler_matches :: "tool_use_request \<Rightarrow> installed_compiler \<Rightarrow> bool" where
  "compiler_matches rq c \<longleftrightarrow> ic_compiler_version c = tu_compiler_version rq \<and>
     (case tu_compiler_channel rq of None \<Rightarrow> True | Some channel \<Rightarrow> ic_compiler_channel c = channel)"

definition SelectInstalledManagedCompiler :: "env \<Rightarrow> fs \<Rightarrow> string \<Rightarrow> tool_use_request \<Rightarrow> installed_compiler result" where
  "SelectInstalledManagedCompiler env w pafio_home rq =
     (if tu_compiler_version rq = [] then Inl (ToolError ''tool use requires a non-empty --version <compiler-version>'')
      else if tu_compiler_channel rq = Some [] then Inl (ToolError ''tool use --channel must be a non-empty string'') else
      rbind (CollectInstalledManagedCompilers env w pafio_home) (\<lambda>installed.
      case filter (compiler_matches rq) installed of
        [] \<Rightarrow> Inl (ToolError (''managed styio compiler is not installed: '' @
          (case tu_compiler_channel rq of
             Some channel \<Rightarrow> channel @ ''/'' @ tu_compiler_version rq
           | None \<Rightarrow> tu_compiler_version rq)))
      | [c] \<Rightarrow> Inr c
      | _ \<Rightarrow> Inl (ToolError (''managed styio compiler version is ambiguous across installed channels; select --channel <channel>: '' @
          tu_compiler_version rq))))"

definition RenderProjectToolchainPin :: "installed_compiler \<Rightarrow> string" where
  "RenderProjectToolchainPin c = ''[styio]'' @ nl @ ''channel = '' @ [CHR 0x22] @ ic_compiler_channel c @ [CHR 0x22] @ nl @
     ''version = '' @ [CHR 0x22] @ ic_compiler_version c @ [CHR 0x22] @ nl"

definition LoadProjectToolchainPinStatus :: "env \<Rightarrow> fs \<Rightarrow> string option \<Rightarrow> toolchain_pin option result" where
  "LoadProjectToolchainPinStatus env w manifest_path = (case manifest_path of
      None \<Rightarrow> Inr None
    | Some m \<Rightarrow> LoadProjectToolchainPin env w m)"

subsection \<open>Operations\<close>

definition InstallManagedStyio :: "env \<Rightarrow> string \<Rightarrow> (fs, tool_install_result) io" where
  "InstallManagedStyio env styio_binary =
     (let source_binary = canonical env styio_binary in
      io_bind (fs_query (\<lambda>w. EnsureLocalExecutableFile env w source_binary)) (\<lambda>_.
      io_bind (CheckCompilerCompatibility env source_binary) (\<lambda>report.
      io_bind (io_lift (ResolvePafioHome env)) (\<lambda>pafio_home.
      let install_root = ManagedStyioInstallRoot env pafio_home (cr_compiler_channel report) (cr_compiler_version report);
          binary = ManagedStyioBinaryPath env install_root; metadata = ManagedStyioMetadataPath env install_root;
          current_root = ManagedStyioCurrentRoot env pafio_home in
      io_bind (CopyExecutableFile env source_binary binary) (\<lambda>_.
      io_bind (WriteJsonFile env metadata (BuildInstallMetadata report source_binary binary)) (\<lambda>_.
      io_bind (RefreshManagedCurrentRoot env report binary current_root) (\<lambda>_.
      io_return \<lparr>ti_source_binary = source_binary, ti_pafio_home = pafio_home, ti_install_root = install_root,
        ti_install_binary_path = binary, ti_install_metadata_path = metadata, ti_current_root = current_root,
        ti_managed_binary_path = ManagedStyioBinaryPath env current_root,
        ti_current_metadata_path = ManagedStyioMetadataPath env current_root, ti_report = report\<rparr>)))))))"

definition UseManagedStyio :: "env \<Rightarrow> tool_use_request \<Rightarrow> (fs, tool_use_result) io" where
  "UseManagedStyio env rq =
     io_bind (io_lift (ResolvePafioHome env)) (\<lambda>pafio_home.
     io_bind (fs_query (\<lambda>w. SelectInstalledManagedCompiler env w pafio_home rq)) (\<lambda>selected.
     io_bind (CheckCompilerCompatibility env (ic_install_binary_path selected)) (\<lambda>report.
     let current_root = ManagedStyioCurrentRoot env pafio_home in
     io_bind (RefreshManagedCurrentRoot env report (ic_install_binary_path selected) current_root) (\<lambda>_.
     io_return \<lparr>ur_pafio_home = pafio_home, ur_install_root = ic_install_root selected,
       ur_install_binary_path = ic_install_binary_path selected, ur_install_metadata_path = ic_install_metadata_path selected,
       ur_current_root = current_root, ur_managed_binary_path = ManagedStyioBinaryPath env current_root,
       ur_current_metadata_path = ManagedStyioMetadataPath env current_root, ur_report = report\<rparr>))))"

definition PinManagedStyio :: "env \<Rightarrow> tool_pin_request \<Rightarrow> (fs, tool_pin_result) io" where
  "PinManagedStyio env rq =
     (let manifest_path = canonical env (tq_manifest_path rq); pin_path = ProjectToolchainPinPathForManifest env manifest_path in
      io_bind (fs_query (\<lambda>w. LoadManifest env w manifest_path)) (\<lambda>_.
      if tq_clear rq then
        (\<lambda>w. if map_of w (path_key env pin_path) = Some Dir \<and> has_children w (path_key env pin_path)
          then (Inl (ToolError (''failed to clear project toolchain pin: '' @ pin_path)), w)
          else (Inr \<lparr>tp_manifest_path = manifest_path, tp_pin_path = pin_path, tp_cleared = True, tp_install_root = None,
            tp_install_binary_path = None, tp_compiler_version = None, tp_compiler_channel = None\<rparr>, fs_remove env pin_path w))
      else case tq_compiler_version rq of
        Some (v # vs) \<Rightarrow>
          if tq_compiler_channel rq = Some [] then io_throw (ToolError ''tool pin --channel must be a non-empty string'') else
          io_bind (io_lift (ResolvePafioHome env)) (\<lambda>pafio_home.
          io_bind (fs_query (\<lambda>w. SelectInstalledManagedCompiler env w pafio_home
            \<lparr>tu_compiler_version = v # vs, tu_compiler_channel = tq_compiler_channel rq\<rparr>)) (\<lambda>selected.
          io_bind (CheckCompilerCompatibility env (ic_install_binary_path selected)) (\<lambda>_.
          io_bind (WriteTextFile env pin_path (RenderProjectToolchainPin selected)) (\<lambda>_.
          io_return \<lparr>tp_manifest_path = manifest_path, tp_pin_path = pin_path, tp_cleared = False,
            tp_install_root = Some (ic_install_root selected),
            tp_install_binary_path = Some (ic_install_binary_path selected),
            tp_compiler_version = Some (ic_compiler_version selected),
            tp_compiler_channel = Some (ic_compiler_channel selected)\<rparr>))))
      | _ \<Rightarrow> io_throw (ToolError ''tool pin requires --version <compiler-version> unless --clear is set'')))"

definition QueryToolStatus :: "env \<Rightarrow> fs \<Rightarrow> string option \<Rightarrow> tool_status_result result" where
  "QueryToolStatus env w manifest =
     rbind (ResolvePafioHome env) (\<lambda>pafio_home.
     let manifest_path = map_option (canonical env) manifest;
         current_root = ManagedStyioCurrentRoot env pafio_home;
         binary = ManagedStyioBinaryPath env current_root; metadata = ManagedStyioMetadataPath env current_root in
     rbind (LoadProjectToolchainPinStatus env w manifest_path) (\<lambda>pin.
     rbind (if fs_exists env w metadata \<and> fs_exists env w binary
            then map_sum id Some (BuildManagedToolchainStatus env w current_root binary metadata True) else Inr None) (\<lambda>current.
     rbind (CollectInstalledManagedCompilers env w pafio_home) (\<lambda>installed.
     rbind (rmap (\<lambda>c. BuildManagedToolchainStatus env w (ic_install_root c) (ic_install_binary_path c)
         (ic_install_metadata_path c) (case current of None \<Rightarrow> False | Some s \<Rightarrow>
           mt_compiler_version s = ic_compiler_version c \<and> mt_compiler_channel s = ic_compiler_channel c)) installed) (\<lambda>toolchains.
     Inr \<lparr>tr_pafio_home = pafio_home, tr_manifest_path = manifest_path, tr_project_pin = pin,
       tr_current_compiler = current, tr_managed_toolchains = toolchains\<rparr>)))))"

end
