(* ===== verification/InstallProperties.thy ===== *)
theory InstallProperties
  imports Install ResolveProperties
begin

section \<open>Properties of managed compilers\<close>

text \<open>
  What a compatibility report promises, and the contract between the pin a project writes and the compiler a build
  later chooses.
\<close>

subsection \<open>Compatibility\<close>






subsection \<open>Pins\<close>

text \<open>The document a pin spells.\<close>

definition pin_document :: "string \<Rightarrow> string \<Rightarrow> toml_table" where
  "pin_document channel version = [(''styio'', TTable [(''channel'', TString channel), (''version'', TString version)])]"









subsection \<open>One installed compiler\<close>

definition machine_info_0_1 :: json where
  "machine_info_0_1 = jobject [(''tool'', JString ''styio''), (''compiler_version'', JString ''0.1.0''),
     (''channel'', JString ''nightly''), (''supported_contracts'', jobject [(''compile_plan'', JArray [JInt 1])]),
     (''capabilities'', JArray [JString ''b'', JString ''a'']), (''edition_max'', JString ''2026'')]"

definition support_matrix :: toml_table where
  "support_matrix = [(''supported_styio'', TArray [TTable [(''min'', TString ''0.0.1''), (''max_exclusive'', TString ''0.2.0''),
     (''channel'', TString ''nightly''), (''edition_max'', TString ''2026''),
     (''required_capabilities'', TArray [TString ''a'']), (''supported_compile_plan_versions'', TArray [TInteger 1])]])]"

definition tool_env :: env where
  "tool_env = resolver_env\<lparr>
     env_spawn := (\<lambda>_ w. (Inr \<lparr>exit_code = 0, terminated_by_signal = False, signal_number = 0, timed_out = False,
       stdout_truncated = False, stderr_truncated = False, stdout_text = ''M'', stderr_text = []\<rparr>, w)),
     env_json := sample_json\<lparr>json_parse := (\<lambda>_. Inr machine_info_0_1)\<rparr>,
     env_toml := sample_api\<lparr>toml_parse := (\<lambda>c. if c = ''A'' then Inr (toml_of_manifest sample_app)
       else if c = ''X'' then Inr support_matrix else Inr (pin_document ''nightly'' ''0.1.0''))\<rparr>\<rparr>"










text \<open>A version is only read up to its three numbers, so a compiler can report one that leads out of the tools directory.\<close>

lemma install_root_escapes:
  "ParseSemver ''0.0.1/../../../../../evil'' = Inr [0, 0, 1] \<and>
   ManagedStyioInstallRoot tool_env ''/h'' ''nightly'' ''0.0.1/../../../../../evil'' = ''/evil'' \<and>
   \<not> PathIsWithin (env_cwd tool_env) ''/evil'' (ManagedStyioRoot tool_env ''/h'')"
  by code_simp

end
