(* ===== verification/Process.thy ===== *)
theory Process
  imports World
begin

section \<open>Child processes\<close>

text \<open>
  \<open>src/PafioCore/Process.cpp\<close>: what the child does before it becomes the program, and the parent's loop over the pipes
  with its deadline.  The answers of the system calls are an argument: one \<open>answers\<close> record per turn of the loop, and the
  status of the wait.  A list of answers that stops before a call has returned gives \<open>None\<close>.  The operation as a whole
  is \<open>env_spawn\<close> for the components that call it.
\<close>

record child_request =
  cq_program :: string
  cq_args :: "string list"
  cq_working_directory :: "string option"
  cq_search_path :: bool
  cq_environment_overrides :: "(string \<times> string option) list"
  cq_clear_environment :: bool
  cq_timeout :: "int option"
  cq_max_stdout_bytes :: nat
  cq_max_stderr_bytes :: nat
  cq_stdin_text :: string
  cq_terminate_group :: bool
  cq_error_context :: string

text \<open>The requests of the other components leave the remaining fields at their defaults.\<close>

definition full_request :: "process_request \<Rightarrow> child_request" where
  "full_request rq = \<lparr>cq_program = pr_program rq, cq_args = pr_args rq, cq_working_directory = pr_workdir rq,
     cq_search_path = pr_search_path rq, cq_environment_overrides = [], cq_clear_environment = False,
     cq_timeout = Some (pr_timeout_ms rq), cq_max_stdout_bytes = 2 ^ 20, cq_max_stderr_bytes = 2 ^ 20,
     cq_stdin_text = [], cq_terminate_group = True, cq_error_context = pr_context rq\<rparr>"

definition DescribeProcessContext :: "string \<Rightarrow> string" where
  "DescribeProcessContext context = (if context = [] then ''child process'' else context)"

subsection \<open>The child\<close>

text \<open>The environment block is a list of entries; \<open>setenv\<close> and \<open>unsetenv\<close> refuse a name that is empty or has an equals sign.\<close>

definition entry_name :: "string \<Rightarrow> string option" where
  "entry_name entry = map_option (\<lambda>i. take i entry) (find_char CHR ''='' entry)"

definition valid_variable :: "string \<Rightarrow> bool" where
  "valid_variable name \<longleftrightarrow> name \<noteq> [] \<and> CHR ''='' \<notin> set name"

definition unset_variable :: "string \<Rightarrow> string list \<Rightarrow> string list" where
  "unset_variable name entries = (if valid_variable name then filter (\<lambda>e. entry_name e \<noteq> Some name) entries else entries)"

definition set_variable :: "string \<Rightarrow> string \<Rightarrow> string list \<Rightarrow> string list" where
  "set_variable name v entries =
     (if valid_variable name then unset_variable name entries @ [name @ ''='' @ v] else entries)"

definition ClearChildEnvironment :: "string list \<Rightarrow> string list" where
  "ClearChildEnvironment entries = fold unset_variable (List.map_filter entry_name entries) entries"

definition ApplyChildEnvironment :: "child_request \<Rightarrow> string list \<Rightarrow> string list" where
  "ApplyChildEnvironment rq entries =
     fold (\<lambda>(name, v). case v of Some v \<Rightarrow> set_variable name v | None \<Rightarrow> unset_variable name)
       (cq_environment_overrides rq) (if cq_clear_environment rq then ClearChildEnvironment entries else entries)"

text \<open>
  What becomes of the child: it runs the program, or it writes a message to its standard error and exits with 127.
  \<open>chdir\<close> and \<open>exec\<close> give the text of the error, if there is one.
\<close>

datatype child_fate = Executed "string list" "string list" | Exited127 string

definition run_child ::
    "child_request \<Rightarrow> string list \<Rightarrow> (string \<Rightarrow> string option) \<Rightarrow> (bool \<Rightarrow> string \<Rightarrow> string option) \<Rightarrow> child_fate" where
  "run_child rq entries chdir exec =
     (let environment = ApplyChildEnvironment rq entries;
          start = (case exec (cq_search_path rq) (cq_program rq) of
              None \<Rightarrow> Executed (cq_program rq # cq_args rq) environment
            | Some what \<Rightarrow> Exited127 (''failed to execute program: '' @ cq_program rq @ '': '' @ what))
      in case cq_working_directory rq of
           None \<Rightarrow> start
         | Some directory \<Rightarrow> (case chdir directory of
             None \<Rightarrow> start
           | Some what \<Rightarrow> Exited127 (''failed to chdir to '' @ squote directory @ '': '' @ what)))"

subsection \<open>The parent\<close>

datatype pipe_end = StdinWrite | StdoutRead | StderrRead

record output_stream =
  om_text :: string
  om_truncated :: bool
  om_open :: bool

text \<open>The state of the loop, with the ends of pipes closed so far and the signals sent (to the group or to the child).\<close>

record loop_state =
  lp_stdout :: output_stream
  lp_stderr :: output_stream
  lp_stdin_open :: bool
  lp_stdin_written :: nat
  lp_timed_out :: bool
  lp_kills :: "bool list"
  lp_closed :: "pipe_end list"

datatype read_answer = Bytes string | EndOfFile | ReadInterrupted | ReadWouldBlock | ReadFails

datatype write_answer = Wrote nat | WriteInterrupted | WriteWouldBlock | WriteFails

datatype poll_answer = PollInterrupted | PollFails | PollTimesOut | PollReady

record answers =
  an_elapsed :: int
  an_poll :: poll_answer
  an_stdin_ready :: bool
  an_writes :: "write_answer list"
  an_stdout_ready :: bool
  an_stdout_reads :: "read_answer list"
  an_stderr_ready :: bool
  an_stderr_reads :: "read_answer list"

definition new_stream :: output_stream where
  "new_stream = \<lparr>om_text = [], om_truncated = False, om_open = True\<rparr>"

definition start_state :: "child_request \<Rightarrow> loop_state" where
  "start_state rq = \<lparr>lp_stdout = new_stream, lp_stderr = new_stream, lp_stdin_open = (cq_stdin_text rq \<noteq> []),
     lp_stdin_written = 0, lp_timed_out = False, lp_kills = [], lp_closed = []\<rparr>"

definition append_output :: "nat \<Rightarrow> string \<Rightarrow> output_stream \<Rightarrow> output_stream" where
  "append_output limit chunk s = (case AppendOutputChunk (om_text s, om_truncated s) chunk limit of
     (out, truncated) \<Rightarrow> s\<lparr>om_text := out, om_truncated := truncated\<rparr>)"

text \<open>\<open>drain_fd\<close> reads until the pipe is empty or closed.\<close>

fun drain_fd :: "nat \<Rightarrow> read_answer list \<Rightarrow> output_stream \<Rightarrow> output_stream option" where
  "drain_fd limit [] s = None"
| "drain_fd limit (Bytes chunk # answers) s = drain_fd limit answers (append_output limit chunk s)"
| "drain_fd limit (ReadInterrupted # answers) s = drain_fd limit answers s"
| "drain_fd limit (ReadWouldBlock # answers) s = (if answers = [] then Some s else None)"
| "drain_fd limit (EndOfFile # answers) s = (if answers = [] then Some (s\<lparr>om_open := False\<rparr>) else None)"
| "drain_fd limit (ReadFails # answers) s = (if answers = [] then Some (s\<lparr>om_open := False\<rparr>) else None)"

text \<open>The loop that feeds the standard input; a write of nothing counts as a failure, which gives the rest up.\<close>

fun feed_stdin :: "nat \<Rightarrow> write_answer list \<Rightarrow> nat \<Rightarrow> nat option" where
  "feed_stdin amount [] written = (if written < amount then None else Some written)"
| "feed_stdin amount (answer # answers) written =
     (if amount \<le> written then None
      else case answer of
        Wrote n \<Rightarrow> if n = 0 then (if answers = [] then Some amount else None) else feed_stdin amount answers (written + n)
      | WriteInterrupted \<Rightarrow> feed_stdin amount answers written
      | WriteWouldBlock \<Rightarrow> if answers = [] then Some written else None
      | WriteFails \<Rightarrow> if answers = [] then Some amount else None)"

definition kill_child :: "child_request \<Rightarrow> loop_state \<Rightarrow> loop_state" where
  "kill_child rq s = s\<lparr>lp_timed_out := True, lp_kills := lp_kills s @ [cq_terminate_group rq]\<rparr>"

definition stdin_turn :: "child_request \<Rightarrow> answers \<Rightarrow> loop_state \<Rightarrow> loop_state option" where
  "stdin_turn rq a s =
     (if \<not> (lp_stdin_open s \<and> an_stdin_ready a) then Some s
      else case feed_stdin (length (cq_stdin_text rq)) (an_writes a) (lp_stdin_written s) of
        None \<Rightarrow> None
      | Some written \<Rightarrow>
          if length (cq_stdin_text rq) \<le> written
          then Some (s\<lparr>lp_stdin_written := written, lp_stdin_open := False, lp_closed := lp_closed s @ [StdinWrite]\<rparr>)
          else Some (s\<lparr>lp_stdin_written := written\<rparr>))"

definition drain_turn ::
    "bool \<Rightarrow> nat \<Rightarrow> read_answer list \<Rightarrow> pipe_end \<Rightarrow> output_stream \<Rightarrow> (output_stream \<times> pipe_end list) option" where
  "drain_turn ready limit reads fd s =
     (if \<not> (om_open s \<and> ready) then Some (s, [])
      else map_option (\<lambda>s'. (s', if om_open s' then [] else [fd])) (drain_fd limit reads s))"

definition output_turn :: "child_request \<Rightarrow> answers \<Rightarrow> loop_state \<Rightarrow> loop_state option" where
  "output_turn rq a s =
     Option.bind (drain_turn (an_stdout_ready a) (cq_max_stdout_bytes rq) (an_stdout_reads a) StdoutRead (lp_stdout s))
       (\<lambda>(out, closed). Option.bind
          (drain_turn (an_stderr_ready a) (cq_max_stderr_bytes rq) (an_stderr_reads a) StderrRead (lp_stderr s))
       (\<lambda>(err, closed'). Some (s\<lparr>lp_stdout := out, lp_stderr := err, lp_closed := lp_closed s @ closed @ closed'\<rparr>)))"

text \<open>The wait given to \<open>poll\<close>: without a limit, or what is left, as a signed 32-bit number.\<close>

definition poll_wait :: "child_request \<Rightarrow> int \<Rightarrow> int" where
  "poll_wait rq elapsed = (case cq_timeout rq of None \<Rightarrow> - 1 | Some limit \<Rightarrow> (limit - elapsed + 2 ^ 31) mod 2 ^ 32 - 2 ^ 31)"

definition deadline_passed :: "child_request \<Rightarrow> int \<Rightarrow> bool" where
  "deadline_passed rq elapsed \<longleftrightarrow> (case cq_timeout rq of None \<Rightarrow> False | Some limit \<Rightarrow> limit \<le> elapsed)"

datatype turn = Again loop_state | Left loop_state | Failed string

text \<open>One turn of the loop.\<close>

definition poll_turn :: "child_request \<Rightarrow> answers \<Rightarrow> loop_state \<Rightarrow> turn option" where
  "poll_turn rq a s =
     (if deadline_passed rq (an_elapsed a) then Some (Left (kill_child rq s))
      else case an_poll a of
        PollInterrupted \<Rightarrow> Some (Again s)
      | PollFails \<Rightarrow> Some (Failed (''failed to poll process pipes for '' @ DescribeProcessContext (cq_error_context rq)))
      | PollTimesOut \<Rightarrow> Some (Left (kill_child rq s))
      | PollReady \<Rightarrow> map_option Again (Option.bind (stdin_turn rq a s) (output_turn rq a)))"

definition pipes_open :: "loop_state \<Rightarrow> bool" where
  "pipes_open s \<longleftrightarrow> om_open (lp_stdout s) \<or> om_open (lp_stderr s)"

fun poll_loop :: "child_request \<Rightarrow> answers list \<Rightarrow> loop_state \<Rightarrow> (string + loop_state) option" where
  "poll_loop rq [] s = (if pipes_open s then None else Some (Inr s))"
| "poll_loop rq (a # as) s =
     (if \<not> pipes_open s then None
      else case poll_turn rq a s of
        None \<Rightarrow> None
      | Some (Again s') \<Rightarrow> poll_loop rq as s'
      | Some (Left s') \<Rightarrow> if as = [] then Some (Inr s') else None
      | Some (Failed what) \<Rightarrow> if as = [] then Some (Inl what) else None)"

datatype wait_status = Exited nat | Signaled nat | OtherStatus

text \<open>The pipes are closed once more after the loop; then the parent waits for the child.\<close>

definition close_pipes :: "child_request \<Rightarrow> loop_state \<Rightarrow> loop_state" where
  "close_pipes rq s = s\<lparr>lp_closed := lp_closed s @ (if cq_stdin_text rq = [] then [] else [StdinWrite]) @ [StdoutRead, StderrRead]\<rparr>"

definition child_result :: "loop_state \<Rightarrow> wait_status \<Rightarrow> process_result" where
  "child_result s status =
     \<lparr>exit_code = (case status of Exited n \<Rightarrow> int n | Signaled n \<Rightarrow> 128 + int n | OtherStatus \<Rightarrow> 1),
      terminated_by_signal = (case status of Signaled _ \<Rightarrow> True | _ \<Rightarrow> False),
      signal_number = (case status of Signaled n \<Rightarrow> int n | _ \<Rightarrow> 0),
      timed_out = lp_timed_out s, stdout_truncated = om_truncated (lp_stdout s), stderr_truncated = om_truncated (lp_stderr s),
      stdout_text = om_text (lp_stdout s), stderr_text = om_text (lp_stderr s)\<rparr>"

text \<open>The calls before the loop, and the wait after it; \<open>None\<close> for a wait that fails.\<close>

datatype setup_answer = StdinPipeFails | PipesFail | ForkFails | NonBlockingFails | Started

definition RunProcessChecked ::
    "child_request \<Rightarrow> setup_answer \<Rightarrow> answers list \<Rightarrow> wait_status option \<Rightarrow> (string + process_result) option" where
  "RunProcessChecked rq setup as status = (let context = DescribeProcessContext (cq_error_context rq) in
     case setup of
       StdinPipeFails \<Rightarrow> (if cq_stdin_text rq = [] then None
         else Some (Inl (''failed to create stdin pipe for '' @ context @ '' execution'')))
     | PipesFail \<Rightarrow> Some (Inl (''failed to create pipes for '' @ context @ '' execution''))
     | ForkFails \<Rightarrow> Some (Inl (''failed to fork '' @ context))
     | NonBlockingFails \<Rightarrow> Some (Inl (''failed to configure non-blocking pipe for '' @ context))
     | Started \<Rightarrow> (case poll_loop rq as (start_state rq) of
         None \<Rightarrow> None
       | Some (Inl what) \<Rightarrow> Some (Inl what)
       | Some (Inr s) \<Rightarrow> Some (case status of
           None \<Rightarrow> Inl (''failed to wait for '' @ context)
         | Some st \<Rightarrow> Inr (child_result (close_pipes rq s) st))))"

end
