(* ===== verification/ProcessProperties.thy ===== *)
theory ProcessProperties
  imports Process
begin

section \<open>Properties of child processes\<close>

text \<open>
  The loop over the pipes as a state machine: the states it passes through together with the bytes the child has
  delivered on each stream, an invariant by rule induction, and what it says of a result.
\<close>

subsection \<open>The bytes delivered\<close>

fun read_bytes :: "read_answer list \<Rightarrow> string" where
  "read_bytes [] = []"
| "read_bytes (Bytes chunk # answers) = chunk @ read_bytes answers"
| "read_bytes (_ # answers) = read_bytes answers"

definition stdout_bytes :: "answers \<Rightarrow> loop_state \<Rightarrow> string" where
  "stdout_bytes a s = (if an_poll a = PollReady \<and> om_open (lp_stdout s) \<and> an_stdout_ready a then read_bytes (an_stdout_reads a) else [])"

definition stderr_bytes :: "answers \<Rightarrow> loop_state \<Rightarrow> string" where
  "stderr_bytes a s = (if an_poll a = PollReady \<and> om_open (lp_stderr s) \<and> an_stderr_ready a then read_bytes (an_stderr_reads a) else [])"

inductive polling :: "child_request \<Rightarrow> string \<Rightarrow> string \<Rightarrow> loop_state \<Rightarrow> bool" where
  polling_start: "polling rq [] [] (start_state rq)"
| polling_turn: "polling rq out err s \<Longrightarrow> pipes_open s \<Longrightarrow> poll_turn rq a s = Some (Again s') \<Longrightarrow>
    polling rq (out @ stdout_bytes a s) (err @ stderr_bytes a s) s'"

subsection \<open>The invariant\<close>

definition holds_output :: "nat \<Rightarrow> string \<Rightarrow> output_stream \<Rightarrow> bool" where
  "holds_output limit out s \<longleftrightarrow> om_text s = take limit out \<and> (om_truncated s \<longleftrightarrow> limit < length out)"

lemma append_output_holds:
  "holds_output limit out s \<Longrightarrow> holds_output limit (out @ chunk) (append_output limit chunk s)"
  using AppendOutputChunk_step [of limit out chunk]
  by (simp add: holds_output_def append_output_def)

lemma drain_fd_holds:
  "drain_fd limit answers s = Some s' \<Longrightarrow> holds_output limit out s \<Longrightarrow> holds_output limit (out @ read_bytes answers) s'"
proof (induction limit answers s arbitrary: out rule: drain_fd.induct)
  case (2 limit chunk answers s)
  from "2.IH" [OF _ append_output_holds [OF "2.prems"(2), of chunk]] "2.prems"(1) show ?case by simp
qed (auto simp: holds_output_def split: if_splits)

lemma append_output_open [simp]: "om_open (append_output limit chunk s) = om_open s"
  by (simp add: append_output_def split: prod.split)

text \<open>A stream is closed at most once, and only when it is open.\<close>

lemma drain_turn_spec:
  assumes "drain_turn ready limit reads fd s = Some (s', closed)"
  shows "holds_output limit out s \<Longrightarrow>
      holds_output limit (out @ (if om_open s \<and> ready then read_bytes reads else [])) s'"
    and "closed = (if om_open s \<and> \<not> om_open s' then [fd] else [])" and "om_open s' \<longrightarrow> om_open s"
  using assms by (auto simp: drain_turn_def split: if_splits intro: drain_fd_holds)

definition loop_ok :: "child_request \<Rightarrow> string \<Rightarrow> string \<Rightarrow> loop_state \<Rightarrow> bool" where
  "loop_ok rq out err s \<longleftrightarrow>
     holds_output (cq_max_stdout_bytes rq) out (lp_stdout s) \<and> holds_output (cq_max_stderr_bytes rq) err (lp_stderr s) \<and>
     \<not> lp_timed_out s \<and> lp_kills s = [] \<and>
     count_list (lp_closed s) StdoutRead = (if om_open (lp_stdout s) then 0 else 1) \<and>
     count_list (lp_closed s) StderrRead = (if om_open (lp_stderr s) then 0 else 1)"

lemma stdin_turn_spec:
  assumes "stdin_turn rq a s = Some s'"
  shows "lp_stdout s' = lp_stdout s \<and> lp_stderr s' = lp_stderr s \<and> lp_timed_out s' = lp_timed_out s \<and> lp_kills s' = lp_kills s \<and>
    count_list (lp_closed s') StdoutRead = count_list (lp_closed s) StdoutRead \<and>
    count_list (lp_closed s') StderrRead = count_list (lp_closed s) StderrRead"
  using assms by (auto simp: stdin_turn_def split: if_splits option.splits)

lemma poll_turn_keeps:
  assumes "loop_ok rq out err s" and "poll_turn rq a s = Some (Again s')"
  shows "loop_ok rq (out @ stdout_bytes a s) (err @ stderr_bytes a s) s'"
proof (cases "an_poll a")
  case PollReady
  with assms(2) obtain s1 where s1: "stdin_turn rq a s = Some s1" and s': "output_turn rq a s1 = Some s'"
    by (auto simp: poll_turn_def bind_eq_Some_conv split: if_splits)
  note io = stdin_turn_spec [OF s1]
  from s' obtain o1 c1 e1 c2
    where out: "drain_turn (an_stdout_ready a) (cq_max_stdout_bytes rq) (an_stdout_reads a) StdoutRead (lp_stdout s1) = Some (o1, c1)"
    and err: "drain_turn (an_stderr_ready a) (cq_max_stderr_bytes rq) (an_stderr_reads a) StderrRead (lp_stderr s1) = Some (e1, c2)"
    and s'_eq: "s' = s1\<lparr>lp_stdout := o1, lp_stderr := e1, lp_closed := lp_closed s1 @ c1 @ c2\<rparr>"
    by (auto simp: output_turn_def bind_eq_Some_conv)
  from drain_turn_spec(1) [OF out] drain_turn_spec(1) [OF err] drain_turn_spec(2,3) [OF out] drain_turn_spec(2,3) [OF err]
    assms(1) io PollReady show ?thesis
    by (auto simp: loop_ok_def s'_eq stdout_bytes_def stderr_bytes_def)
qed (use assms in \<open>auto simp: poll_turn_def stdout_bytes_def stderr_bytes_def split: if_splits\<close>)

lemma polling_ok: "polling rq out err s \<Longrightarrow> loop_ok rq out err s"
proof (induction rule: polling.induct)
  case (polling_start rq)
  show ?case by (simp add: loop_ok_def start_state_def new_stream_def holds_output_def)
qed (rule poll_turn_keeps)

subsection \<open>The end of the loop\<close>










subsection \<open>What the supervision does not do\<close>

text \<open>The ends of pipes the loop has closed are closed again after it.\<close>

lemma pipes_closed_twice:
  assumes "polling rq out err s" and "\<not> pipes_open s"
  shows "count_list (lp_closed (close_pipes rq s)) StdoutRead = 2" and "count_list (lp_closed (close_pipes rq s)) StderrRead = 2"
  using polling_ok [OF assms(1)] assms(2) by (auto simp: loop_ok_def close_pipes_def pipes_open_def)

text \<open>A turn reads as long as there is something to read: the deadline is not looked at between reads.\<close>

lemma drain_has_no_deadline: "\<exists>s'. drain_fd limit (replicate n (Bytes chunk) @ [ReadWouldBlock]) s = Some s'"
  by (induction n arbitrary: s) auto

text \<open>A child that has closed both streams is waited for without a deadline.\<close>

lemma wait_has_no_deadline:
  assumes "poll_loop rq as (start_state rq) = Some (Inr s)" and "\<not> lp_timed_out s"
  shows "\<exists>r. RunProcessChecked rq Started as (Some st) = Some (Inr r) \<and> \<not> timed_out r"
  using assms by (simp add: RunProcessChecked_def Let_def child_result_def close_pipes_def)

end
