(* ===== verification/ScaffoldProperties.thy ===== *)
theory ScaffoldProperties
  imports Files CoreProperties
begin

section \<open>Properties of new projects\<close>

text \<open>
  A new project loads as the scaffold it was written from; a refused one leaves a manifest that refuses every retry.
\<close>

lemma scaffold_fields [simp]:
  "rx_match SemverRegex ''0.1.0''" "IsNonEmptyRelativePath ''src/lib.styio''" "IsNonEmptyRelativePath ''src/main.styio''"
  by code_simp+

lemma short_name_nonempty [simp]: "PackageShortName name \<noteq> Inr []"
  by (auto simp: PackageShortName_def split: option.splits if_splits)



subsection \<open>The files of a new project\<close>

lemma io_bind_unchecked: "io_bind (write_unchecked env p c) k w = k () (snd (write_unchecked env p c w))"
  by (simp add: io_bind_def write_unchecked_def)

lemma io_bind_runs: "m w = (r, w') \<Longrightarrow> io_bind m k w = (case r of Inl e \<Rightarrow> (Inl e, w') | Inr x \<Rightarrow> k x w')"
  by (simp add: io_bind_def)

lemma io_bind_refused: "P w p \<Longrightarrow> io_bind (\<lambda>w. io_guard (\<not> P w p) e w) k w = (Inl e, w)"
  by (simp add: io_bind_def io_guard_def io_lift_def guard_def)



lemma write_unchecked_creates:
  "\<not> fs_exists env w p \<Longrightarrow> fs_exists env (snd (write_unchecked env p c w)) p \<Longrightarrow>
     fs_read env (snd (write_unchecked env p c w)) p = Some c \<and>
     snd (write_unchecked env p c' (snd (write_unchecked env p c w))) = fs_put env p (File c') (snd (write_unchecked env p c w))"
  by (auto simp: write_unchecked_def fs_exists_def fs_read_def node_at_def fs_put_def fs_can_write_def update_conv' split: if_splits)



definition scaffold_source :: "string \<Rightarrow> string \<Rightarrow> string" where
  "scaffold_source root kind = path_append (path_append root ''src'') (if kind = ''lib'' then ''lib.styio'' else ''main.styio'')"


text \<open>A run that got past its checks has emptied the manifest before it validates the name.\<close>

lemma InitializeProject_steps:
  assumes "InitializeProject env name root kind w = (r, w')" and "r = Inr () \<or> r = Inl (ValidationError message)"
  obtains w1 w2 where "\<not> fs_exists env w1 (path_append root ''pafio.toml'')" "only_adds {} w w1"
    "w2 = snd (write_unchecked env (path_append root ''pafio.toml'') [] w1)"
    "case BuildScaffoldManifest name kind of Inl e \<Rightarrow> r = Inl e \<and> w' = w2
     | Inr m \<Rightarrow> r = Inr () \<and> w' = snd (write_unchecked env (scaffold_source root kind)
         (if kind = ''lib'' then RenderLibSource else RenderMainSource)
         (snd (write_unchecked env (path_append root ''pafio.toml'') (SerializeManifestCanonical m) w2)))"
proof -
  let ?mp = "path_append root ''pafio.toml''"
  have ends: "write_unchecked env p c v = (r, v') \<longleftrightarrow> r = Inr () \<and> v' = snd (write_unchecked env p c v)" for p c v r v'
    by (auto simp: write_unchecked_def)
  have passes: "io_bind (\<lambda>w. io_guard (\<not> fs_exists env w ?mp) e w) k v = k () v" if "\<not> fs_exists env v ?mp" for e k v
    using that by (simp add: io_bind_def io_guard_def io_lift_def guard_def)
  have lifted: "io_bind (io_lift x) k v = (case x of Inl e \<Rightarrow> (Inl e, v) | Inr y \<Rightarrow> k y v)" for x :: "manifest_document result" and k v
    by (simp add: io_bind_def io_lift_def split: sum.split)
  have dirs: "fs_create_directories env p v = (Inl e, v') \<Longrightarrow> \<forall>m. e \<noteq> ValidationError m" for p v e v'
    using fs_create_directories_Inl by fastforce
  from assms obtain v w1 where d: "fs_create_directories env root w = (Inr (), v)"
      "fs_create_directories env (path_append root ''src'') v = (Inr (), w1)"
    and rest: "io_bind (\<lambda>w. io_guard (\<not> fs_exists env w ?mp) (RuntimeError (''manifest already exists: '' @ ?mp)) w) (\<lambda>_.
      io_bind (write_unchecked env ?mp []) (\<lambda>_.
      io_bind (io_lift (BuildScaffoldManifest name kind)) (\<lambda>m.
      io_bind (write_unchecked env ?mp (SerializeManifestCanonical m)) (\<lambda>_.
      write_unchecked env (scaffold_source root kind) (if kind = ''lib'' then RenderLibSource else RenderMainSource))))) w1 = (r, w')"
    unfolding InitializeProject_def Let_def scaffold_source_def
    by (auto simp: io_bind_def dest: dirs split: prod.splits sum.splits)
  from rest assms(2) have absent: "\<not> fs_exists env w1 ?mp" by (auto simp: io_bind_def io_guard_def io_lift_def guard_def)
  have "only_adds {} w w1" using d only_adds_dirs only_adds_trans by blast
  with absent show thesis
  proof (rule that [OF _ _ refl])
    show "case BuildScaffoldManifest name kind of Inl e \<Rightarrow> r = Inl e \<and> w' = snd (write_unchecked env ?mp [] w1)
     | Inr m \<Rightarrow> r = Inr () \<and> w' = snd (write_unchecked env (scaffold_source root kind)
         (if kind = ''lib'' then RenderLibSource else RenderMainSource)
         (snd (write_unchecked env ?mp (SerializeManifestCanonical m) (snd (write_unchecked env ?mp [] w1)))))"
      using rest unfolding passes [OF absent] io_bind_unchecked lifted by (auto simp: ends split: sum.splits)
  qed
qed




text \<open>A refused name leaves an empty manifest, and every later attempt in the same directory is refused.\<close>

lemma failed_new_blocks_retry:
  assumes "InitializeProject env name root kind w = (Inl (ValidationError message), w')"
    and "fs_exists env w' (path_append root ''pafio.toml'')"
  shows "fs_read env w' (path_append root ''pafio.toml'') = Some [] \<and>
    (\<forall>name' kind'. \<exists>e w''. InitializeProject env name' root kind' w' = (Inl e, w'') \<and>
       fs_read env w'' (path_append root ''pafio.toml'') = Some [])"
proof -
  let ?mp = "path_append root ''pafio.toml''"
  obtain w1 w2 where absent: "\<not> fs_exists env w1 ?mp" and w2: "w2 = snd (write_unchecked env ?mp [] w1)" and w': "w' = w2"
    by (rule InitializeProject_steps [OF assms(1)]) (auto split: sum.splits)
  have exists: "fs_exists env w2 ?mp" using assms(2) w' by simp
  have emptied: "fs_read env w2 ?mp = Some []"
    using write_unchecked_creates [OF absent] exists unfolding w2 by blast
  have "\<exists>e w''. InitializeProject env name' root kind' w2 = (Inl e, w'') \<and> fs_read env w'' ?mp = Some []" for name' kind'
  proof -
    have key: "path_key env ?mp \<noteq> []" using absent by (auto simp: fs_exists_def node_at_def)
    have read: "fs_read env v ?mp = Some [] \<longleftrightarrow> map_of v (path_key env ?mp) = Some (File [])" for v
      using key by (auto simp: fs_read_def node_at_def split: option.splits node.splits)
    have keep: "fs_read env v' ?mp = Some []" if "fs_create_directories env p v = (r, v')" "fs_read env v ?mp = Some []" for p v r v'
      using fs_create_directories_keeps [OF that(1)] that(2) unfolding read by blast
    have there: "fs_exists env v ?mp" if "fs_read env v ?mp = Some []" for v
      using that by (auto simp: fs_read_def fs_exists_def split: option.splits)
    obtain r1 v1 where d1: "fs_create_directories env root w2 = (r1, v1)" by fastforce
    obtain r2 v2 where d2: "fs_create_directories env (path_append root ''src'') v1 = (r2, v2)" by fastforce
    have k: "fs_read env v1 ?mp = Some []" "fs_read env v2 ?mp = Some []" using keep d1 d2 emptied by blast+
    have "InitializeProject env name' root kind' w2 = (case r1 of Inl e \<Rightarrow> (Inl e, v1) | Inr _ \<Rightarrow>
        (case r2 of Inl e \<Rightarrow> (Inl e, v2) | Inr _ \<Rightarrow> (Inl (RuntimeError (''manifest already exists: '' @ ?mp)), v2)))"
      unfolding InitializeProject_def Let_def io_bind_runs [of "fs_create_directories env root", OF d1]
        io_bind_runs [of "fs_create_directories env (path_append root ''src'')", OF d2] io_bind_refused [where P = "fs_exists env",
        OF there [OF k(2)]] ..
    then have "\<exists>e v. InitializeProject env name' root kind' w2 = (Inl e, v) \<and> v \<in> {v1, v2}"
      by (cases r1; cases r2; simp only: sum.case) blast+
    with k show ?thesis by blast
  qed
  with emptied w' show ?thesis by blast
qed

end
