(* ===== verification/SourceBuild.thy ===== *)
theory SourceBuild
  imports Files Toolchain
begin

section \<open>Compilers built from source\<close>

text \<open>
  \<open>src/PafioToolchain/SourceBuild.cpp\<close>: the source tree of the compiler (given, from the environment, or a checkout below
  \<open>PAFIO_HOME\<close>), its revision, and the build.  \<open>git\<close> and \<open>cmake\<close> are child processes; the terminal and the execute
  permission are a record.  The file's copies of \<open>Fnv1a64\<close> and \<open>Hex64\<close> are those of \<open>Digest\<close>.  The text of the question
  that asks for the fetch is not part of the model, its answer is.
\<close>

record terminal =
  tm_isatty :: bool
  tm_answer :: "string option"
  tm_executable :: "string \<Rightarrow> bool"

record source_build_request =
  sb_manifest_path :: string
  sb_channel :: string
  sb_build_mode :: string
  sb_explicit_source_root :: "string option"
  sb_source_revision :: "string option"
  sb_allow_fetch :: bool
  sb_offline :: bool
  sb_assume_yes :: bool
  sb_non_interactive :: bool

record source_build_result =
  sr_source_root :: string
  sr_compiler_binary :: string
  sr_source_revision :: string
  sr_channel :: string
  sr_build_mode :: string
  sr_fetched :: bool
  sr_built :: bool

definition kExternalProcessBuildTimeout :: int where
  "kExternalProcessBuildTimeout = 60 * 60 * 1000"

definition is_slug_char :: "char \<Rightarrow> bool" where
  "is_slug_char c \<longleftrightarrow> (let n = of_char c :: nat in (97 \<le> n \<and> n \<le> 122) \<or> (65 \<le> n \<and> n \<le> 90) \<or> (48 \<le> n \<and> n \<le> 57)) \<or>
     c = CHR ''.'' \<or> c = CHR ''_'' \<or> c = CHR ''-''"

definition Slugify :: "string \<Rightarrow> string" where
  "Slugify content = map (\<lambda>c. if is_slug_char c then c else CHR ''_'') content @ ''-'' @ Hex64 (Fnv1a64 content)"

definition is_trimmed :: "char \<Rightarrow> bool" where
  "is_trimmed c \<longleftrightarrow> c = CHR 0x0A \<or> c = CHR 0x0D \<or> c = CHR '' '' \<or> c = CHR 0x09"

definition Trim :: "string \<Rightarrow> string" where
  "Trim content = dropWhile is_trimmed (pop_back_while is_trimmed content)"

definition IsExecutableFile :: "env \<Rightarrow> terminal \<Rightarrow> fs \<Rightarrow> string \<Rightarrow> bool" where
  "IsExecutableFile env tm w path \<longleftrightarrow> fs_exists env w path \<and> \<not> fs_is_directory env w path \<and> tm_executable tm path"

definition nonempty_env :: "env \<Rightarrow> string \<Rightarrow> string option" where
  "nonempty_env env name = (case env_getenv env name of Some (c # cs) \<Rightarrow> Some (c # cs) | _ \<Rightarrow> None)"

definition ProgramExistsOnPath :: "env \<Rightarrow> terminal \<Rightarrow> fs \<Rightarrow> string \<Rightarrow> bool" where
  "ProgramExistsOnPath env tm w program = (case nonempty_env env ''PATH'' of
      None \<Rightarrow> False
    | Some path_list \<Rightarrow> list_ex (\<lambda>directory. directory \<noteq> [] \<and> IsExecutableFile env tm w (path_append directory program))
        (split_on CHR '':'' path_list))"

definition PreferredCmakeGenerator :: "env \<Rightarrow> terminal \<Rightarrow> fs \<Rightarrow> string option" where
  "PreferredCmakeGenerator env tm w = (case nonempty_env env ''PAFIO_CMAKE_GENERATOR'' of
      Some generator \<Rightarrow> Some generator
    | None \<Rightarrow> (if ProgramExistsOnPath env tm w ''ninja'' then Some ''Ninja'' else None))"

definition CmakeConfigureArgs :: "env \<Rightarrow> terminal \<Rightarrow> fs \<Rightarrow> string \<Rightarrow> string \<Rightarrow> string list" where
  "CmakeConfigureArgs env tm w source_root build_root =
     [''-S'', source_root, ''-B'', build_root, ''-DCMAKE_BUILD_TYPE=Release''] @
     (case PreferredCmakeGenerator env tm w of None \<Rightarrow> [] | Some generator \<Rightarrow> [''-G'', generator])"

definition OfficialSourceOrigin :: "env \<Rightarrow> string" where
  "OfficialSourceOrigin env = (case nonempty_env env ''PAFIO_STYIO_SOURCE_ORIGIN'' of
      Some origin \<Rightarrow> origin | None \<Rightarrow> ''https://github.com/SymPolicy/styio.git'')"

definition RequestedSourceRef :: "source_build_request \<Rightarrow> string" where
  "RequestedSourceRef rq = (case sb_source_revision rq of Some (c # cs) \<Rightarrow> c # cs | _ \<Rightarrow> sb_channel rq)"

definition ShouldFetchSource :: "terminal \<Rightarrow> source_build_request \<Rightarrow> bool result" where
  "ShouldFetchSource tm rq =
     (if \<not> sb_allow_fetch rq \<or> sb_offline rq then Inr False
      else if sb_assume_yes rq then Inr True
      else if sb_non_interactive rq \<or> \<not> tm_isatty tm then Inl (ToolError
        ''styio source tree not found locally; rerun with --yes, configure a local source root, or disable source-build mode'')
      else (case tm_answer tm of
          None \<Rightarrow> Inr False
        | Some answer \<Rightarrow> Inr (Trim answer \<in> {[], ''Y'', ''y'', ''yes'', ''YES''})))"

definition EnsureDirectorySourceRoot :: "env \<Rightarrow> fs \<Rightarrow> string \<Rightarrow> unit result" where
  "EnsureDirectorySourceRoot env w source_root =
     (if \<not> fs_exists env w source_root then Inl (ToolError (''styio source root not found: '' @ source_root))
      else if \<not> fs_is_directory env w source_root
        then Inl (ToolError (''styio source root must be a directory: '' @ source_root))
      else if \<not> fs_exists env w (path_append source_root ''CMakeLists.txt'')
        then Inl (ToolError (''styio source root is missing CMakeLists.txt: '' @ source_root))
      else Inr ())"

definition source_process :: "string \<Rightarrow> string list \<Rightarrow> string option \<Rightarrow> int \<Rightarrow> process_request" where
  "source_process program args workdir timeout = \<lparr>pr_program = program, pr_args = args, pr_workdir = workdir,
     pr_search_path = True, pr_timeout_ms = timeout, pr_context = ''source-toolchain process''\<rparr>"

definition TryResolveGitRevision :: "env \<Rightarrow> string \<Rightarrow> (fs, string) io" where
  "TryResolveGitRevision env source_root = (\<lambda>w.
     if \<not> fs_exists env w (path_append source_root ''.git'') then (Inr [], w) else
     io_bind (RunProcess env ToolError (source_process ''git'' [''rev-parse'', ''HEAD''] (Some source_root)
       kExternalProcessProbeTimeout)) (\<lambda>r.
     io_return (if exit_code r \<noteq> 0 then [] else Trim (stdout_text r))) w)"

definition RunChecked :: "env \<Rightarrow> string \<Rightarrow> string list \<Rightarrow> string option \<Rightarrow> string \<Rightarrow> int \<Rightarrow> (fs, unit) io" where
  "RunChecked env program args workdir label timeout =
     io_bind (RunProcess env ToolError (source_process program args workdir timeout)) (\<lambda>r.
     io_guard (exit_code r = 0) (let detail = DescribeProcessFailure r in
       ToolError (label @ '' failed'' @ (if detail = [] then [] else '': '' @ detail))))"

definition run_git :: "env \<Rightarrow> string list \<Rightarrow> string option \<Rightarrow> string \<Rightarrow> (fs, unit) io" where
  "run_git env args workdir label = RunChecked env ''git'' args workdir label kExternalProcessStepTimeout"

subsection \<open>The source tree\<close>

definition given_source :: "env \<Rightarrow> string \<Rightarrow> (fs, string \<times> string \<times> bool) io" where
  "given_source env path = (let source_root = canonical env path in
     io_bind (fs_query (\<lambda>w. EnsureDirectorySourceRoot env w source_root)) (\<lambda>_.
     io_bind (TryResolveGitRevision env source_root) (\<lambda>rv.
     io_return (source_root, rv, False))))"

definition clone_source :: "env \<Rightarrow> source_build_request \<Rightarrow> string \<Rightarrow> (fs, unit) io" where
  "clone_source env rq source_root =
     io_bind (fs_create_directories env (parent_path source_root)) (\<lambda>_.
     if sb_source_revision rq \<noteq> None then
       io_bind (run_git env [''clone'', ''--no-checkout'', OfficialSourceOrigin env, source_root] None ''git clone'') (\<lambda>_.
       io_bind (run_git env [''fetch'', ''--depth'', ''1'', ''origin'', RequestedSourceRef rq] (Some source_root) ''git fetch'') (\<lambda>_.
       run_git env [''checkout'', ''--force'', ''FETCH_HEAD''] (Some source_root) ''git checkout''))
     else run_git env [''clone'', ''--depth'', ''1'', ''--branch'', sb_channel rq, OfficialSourceOrigin env, source_root] None
       ''git clone'')"

definition refresh_source :: "env \<Rightarrow> source_build_request \<Rightarrow> string \<Rightarrow> (fs, unit) io" where
  "refresh_source env rq source_root =
     io_bind (fs_query (\<lambda>w. EnsureDirectorySourceRoot env w source_root)) (\<lambda>_.
     (\<lambda>w. if fs_exists env w (path_append source_root ''.git'') \<and> \<not> sb_offline rq then
         io_bind (run_git env [''fetch'', ''--depth'', ''1'', ''origin'',
           if sb_source_revision rq \<noteq> None then RequestedSourceRef rq else sb_channel rq] (Some source_root) ''git fetch'') (\<lambda>_.
         run_git env [''checkout'', ''--force'', ''FETCH_HEAD''] (Some source_root) ''git checkout'') w
       else (Inr (), w)))"

definition cached_source :: "env \<Rightarrow> terminal \<Rightarrow> string \<Rightarrow> source_build_request \<Rightarrow> (fs, string \<times> string \<times> bool) io" where
  "cached_source env tm pafio_home rq =
     (let identity = Slugify (OfficialSourceOrigin env @ ''#'' @ RequestedSourceRef rq);
          source_root = SourceCheckoutRoot env pafio_home (sb_channel rq) identity
      in (\<lambda>w.
        io_bind (if \<not> fs_exists env w source_root then
            io_bind (io_lift (ShouldFetchSource tm rq)) (\<lambda>fetch.
            io_bind (io_guard fetch (ToolError ''styio source tree not available locally and fetch was declined'')) (\<lambda>_.
            io_bind (clone_source env rq source_root) (\<lambda>_. io_return True)))
          else io_bind (refresh_source env rq source_root) (\<lambda>_. io_return False)) (\<lambda>fetched.
        io_bind (TryResolveGitRevision env source_root) (\<lambda>rv.
        io_return (source_root, rv, fetched))) w))"

definition find_source :: "env \<Rightarrow> terminal \<Rightarrow> string \<Rightarrow> source_build_request \<Rightarrow> (fs, string \<times> string \<times> bool) io" where
  "find_source env tm pafio_home rq = (case sb_explicit_source_root rq of
      Some path \<Rightarrow> given_source env path
    | None \<Rightarrow> (case nonempty_env env ''PAFIO_STYIO_SOURCE_ROOT'' of
        Some path \<Rightarrow> given_source env path
      | None \<Rightarrow> cached_source env tm pafio_home rq))"

subsection \<open>The build\<close>

definition build_compiler :: "env \<Rightarrow> terminal \<Rightarrow> string \<Rightarrow> string \<Rightarrow> (fs, unit) io" where
  "build_compiler env tm source_root build_root =
     io_bind (fs_create_directories env build_root) (\<lambda>_.
     io_bind (fs_query (\<lambda>w. Inr (CmakeConfigureArgs env tm w source_root build_root))) (\<lambda>args.
     io_bind (RunChecked env ''cmake'' args None ''cmake configure'' kExternalProcessBuildTimeout) (\<lambda>_.
     RunChecked env ''cmake'' [''--build'', build_root, ''--target'', ''styio''] None ''cmake build''
       kExternalProcessBuildTimeout)))"

definition EnsureSourceBuiltStyio :: "env \<Rightarrow> terminal \<Rightarrow> source_build_request \<Rightarrow> (fs, source_build_result) io" where
  "EnsureSourceBuiltStyio env tm rq =
     io_bind (io_guard (VocabularyContains (sb_build_mode rq) kSupportedBuildModes)
       (ToolError (''unsupported source build mode: '' @ sb_build_mode rq))) (\<lambda>_.
     io_bind (io_lift (ResolvePafioHome env)) (\<lambda>pafio_home.
     io_bind (find_source env tm pafio_home rq) (\<lambda>(source_root, found_revision, fetched).
     let source_revision = (if found_revision = []
           then (case sb_source_revision rq of Some rv \<Rightarrow> rv | None \<Rightarrow> Slugify source_root) else found_revision);
         build_root = SourceToolchainBuildRoot env pafio_home (sb_channel rq) (Slugify source_revision) (sb_build_mode rq);
         compiler_binary = canonical env (path_append (path_append build_root ''bin'') ''styio'') in
     io_bind (fs_query (\<lambda>w. Inr (fs_exists env w compiler_binary))) (\<lambda>present.
     io_bind (if present then io_return () else build_compiler env tm source_root build_root) (\<lambda>_.
     io_bind (fs_query (\<lambda>w. guard (fs_exists env w compiler_binary)
       (ToolError (''source-built styio compiler binary was not produced at '' @ compiler_binary)))) (\<lambda>_.
     io_return \<lparr>sr_source_root = source_root, sr_compiler_binary = compiler_binary, sr_source_revision = source_revision,
       sr_channel = sb_channel rq, sr_build_mode = sb_build_mode rq, sr_fetched = fetched, sr_built = \<not> present\<rparr>))))))"

end
