(* ===== verification/SourceProperties.thy ===== *)
theory SourceProperties
  imports SourceBuild ResolveProperties
begin

section \<open>Properties of source builds\<close>






definition source_answer :: process_result where
  "source_answer = \<lparr>exit_code = 0, terminated_by_signal = False, signal_number = 0, timed_out = False,
     stdout_truncated = False, stderr_truncated = False, stdout_text = [], stderr_text = []\<rparr>"

text \<open>A \<open>cmake\<close> that leaves the compiler in the build directory.\<close>

definition source_env :: env where
  "source_env = resolver_env\<lparr>env_spawn := (\<lambda>req w. (Inr source_answer, case pr_args req of
     [o1, root, o2, target] \<Rightarrow> fs_put resolver_env (path_append (path_append root ''bin'') ''styio'') (File ''S'') w
   | _ \<Rightarrow> w))\<rparr>"

definition source_fs :: fs where
  "source_fs = [([''s''], Dir), ([''s'', ''CMakeLists.txt''], File [])]"

definition local_request :: source_build_request where
  "local_request = \<lparr>sb_manifest_path = ''pafio.toml'', sb_channel = ''nightly'', sb_build_mode = ''minimal'',
     sb_explicit_source_root = Some ''/s'', sb_source_revision = Some ''r1'', sb_allow_fetch = True, sb_offline = True,
     sb_assume_yes = False, sb_non_interactive = True\<rparr>"

definition no_terminal :: terminal where
  "no_terminal = \<lparr>tm_isatty = False, tm_answer = None, tm_executable = (\<lambda>_. False)\<rparr>"






subsection \<open>Offline builds\<close>

text \<open>The requests of this file that reach a remote.\<close>

definition source_remote :: "process_request \<Rightarrow> bool" where
  "source_remote req \<longleftrightarrow> pr_program req = ''git'' \<and> (\<exists>rest. pr_args req = ''clone'' # rest \<or> pr_args req = ''fetch'' # rest)"

lemma directory_frame: "fs_is_directory (spawning env sp) = fs_is_directory env"
  by (simp add: fun_eq_iff fs_is_directory_def spawn_frame)

lemma source_frame:
  "ResolvePafioHome (spawning env sp) = ResolvePafioHome env" "EnsureDirectorySourceRoot (spawning env sp) = EnsureDirectorySourceRoot env"
  "OfficialSourceOrigin (spawning env sp) = OfficialSourceOrigin env" "nonempty_env (spawning env sp) = nonempty_env env"
  "CmakeConfigureArgs (spawning env sp) = CmakeConfigureArgs env" "SourceCheckoutRoot (spawning env sp) = SourceCheckoutRoot env"
  "SourceToolchainBuildRoot (spawning env sp) = SourceToolchainBuildRoot env"
proof -
  show nonempty: "nonempty_env (spawning env sp) = nonempty_env env" by (simp add: fun_eq_iff nonempty_env_def)
  have executable: "IsExecutableFile (spawning env sp) = IsExecutableFile env"
    unfolding fun_eq_iff IsExecutableFile_def spawn_frame directory_frame by simp
  show "CmakeConfigureArgs (spawning env sp) = CmakeConfigureArgs env"
    unfolding fun_eq_iff CmakeConfigureArgs_def PreferredCmakeGenerator_def ProgramExistsOnPath_def nonempty executable by simp
  show "ResolvePafioHome (spawning env sp) = ResolvePafioHome env" by (rule spawn_frame_resolver)
  show "EnsureDirectorySourceRoot (spawning env sp) = EnsureDirectorySourceRoot env"
    unfolding fun_eq_iff EnsureDirectorySourceRoot_def spawn_frame directory_frame by simp
  show "OfficialSourceOrigin (spawning env sp) = OfficialSourceOrigin env" unfolding OfficialSourceOrigin_def nonempty ..
  show "SourceCheckoutRoot (spawning env sp) = SourceCheckoutRoot env"
    unfolding fun_eq_iff SourceCheckoutRoot_def SourceStateRoot_def by simp
  show "SourceToolchainBuildRoot (spawning env sp) = SourceToolchainBuildRoot env"
    unfolding fun_eq_iff SourceToolchainBuildRoot_def by simp
qed

text \<open>C19: Offline, a source build does not depend on a remote: exchanging what clone and fetch requests of git would do, and
  nothing else, changes neither the result nor the file system left behind.\<close>

theorem offline_source_build_local:
  assumes "sb_offline rq" and "\<forall>req w. \<not> source_remote req \<longrightarrow> sp req w = env_spawn env req w"
  shows "EnsureSourceBuiltStyio (env\<lparr>env_spawn := sp\<rparr>) tm rq w = EnsureSourceBuiltStyio env tm rq w"
proof -
  have run: "RunProcess (spawning env sp) exn req = RunProcess env exn req" if "\<not> source_remote req" for exn req
    using assms(2) that by (simp add: RunProcess_def)
  have revision: "TryResolveGitRevision (spawning env sp) = TryResolveGitRevision env"
    by (simp add: fun_eq_iff TryResolveGitRevision_def run spawn_frame source_remote_def source_process_def)
  have cmake: "RunChecked (spawning env sp) ''cmake'' = RunChecked env ''cmake''"
    by (simp add: fun_eq_iff RunChecked_def run source_remote_def source_process_def)
  have given: "given_source (spawning env sp) = given_source env"
    unfolding fun_eq_iff given_source_def source_frame revision by simp
  have build: "build_compiler (spawning env sp) = build_compiler env"
    unfolding fun_eq_iff build_compiler_def cmake source_frame spawn_frame by simp
  have refresh: "refresh_source (spawning env sp) rq = refresh_source env rq"
    using assms(1) unfolding fun_eq_iff refresh_source_def source_frame spawn_frame by simp
  have declined: "io_bind (io_bind (io_lift (ShouldFetchSource tm rq)) (\<lambda>fetch. io_bind (io_guard fetch e) (k fetch))) k' v =
      (Inl e, v)" for e k k' v
    using assms(1) by (simp add: ShouldFetchSource_def io_bind_def io_lift_def io_guard_def guard_def)
  have cached: "cached_source (spawning env sp) tm home rq = cached_source env tm home rq" for home
    unfolding fun_eq_iff cached_source_def Let_def source_frame spawn_frame refresh revision
    by (simp add: declined)
  have found: "find_source (spawning env sp) tm home rq = find_source env tm home rq" for home
    unfolding find_source_def given cached source_frame ..
  show ?thesis
    unfolding EnsureSourceBuiltStyio_def found build source_frame spawn_frame ..
qed

theorem offline_source_build_local_witness:
  "EnsureSourceBuiltStyio (source_env\<lparr>env_spawn := (\<lambda>req w. if source_remote req then (Inl ''network'', [])
      else env_spawn source_env req w)\<rparr>) no_terminal local_request source_fs =
   EnsureSourceBuiltStyio source_env no_terminal local_request source_fs"
  by (rule offline_source_build_local) (simp_all add: local_request_def)

subsection \<open>Interrupted fetches\<close>

text \<open>A checkout is cloned in place, without its files; when the fetch that follows fails, the directory stays.  Every later
  run for the same source and channel finds it, and refuses it before it would fetch again.\<close>

lemma interrupted_fetch_blocks:
  assumes "run_git env [''clone'', ''--no-checkout'', OfficialSourceOrigin env, root] None ''git clone'' w1 = (Inr (), w2)"
    and "run_git env [''fetch'', ''--depth'', ''1'', ''origin'', RequestedSourceRef rq] (Some root) ''git fetch'' w2 = (Inl e, w3)"
    and "fs_create_directories env (parent_path root) w = (Inr (), w1)" and "\<not> fs_exists env w root"
    and "ShouldFetchSource tm rq = Inr True" and "sb_source_revision rq \<noteq> None"
    and "root = SourceCheckoutRoot env home (sb_channel rq) (Slugify (OfficialSourceOrigin env @ ''#'' @ RequestedSourceRef rq))"
    and "fs_is_directory env w3 root" and "\<not> fs_exists env w3 (path_append root ''CMakeLists.txt'')"
  shows "cached_source env tm home rq w = (Inl e, w3) \<and>
    (\<forall>tm' rq'. sb_channel rq' = sb_channel rq \<and> RequestedSourceRef rq' = RequestedSourceRef rq \<longrightarrow>
       cached_source env tm' home rq' w3 = (Inl (ToolError (''styio source root is missing CMakeLists.txt: '' @ root)), w3))"
proof -
  have "clone_source env rq root w = (Inl e, w3)"
    using assms(1-3,6) by (simp add: clone_source_def io_bind_def)
  then have "cached_source env tm home rq w = (Inl e, w3)"
    using assms(4,5) unfolding cached_source_def Let_def assms(7) [symmetric]
    by (simp add: io_bind_def io_lift_def io_guard_def guard_def)
  moreover have exists: "fs_exists env w3 root" using assms(8) by (simp add: fs_exists_def fs_is_directory_def)
  then have "refresh_source env rq' root w3 = (Inl (ToolError (''styio source root is missing CMakeLists.txt: '' @ root)), w3)" for rq'
    using assms(8,9) by (simp add: refresh_source_def EnsureDirectorySourceRoot_def fs_query_def io_bind_def)
  then have "cached_source env tm' home rq' w3 = (Inl (ToolError (''styio source root is missing CMakeLists.txt: '' @ root)), w3)"
    if "sb_channel rq' = sb_channel rq" "RequestedSourceRef rq' = RequestedSourceRef rq" for tm' rq'
    using exists that unfolding cached_source_def Let_def that assms(7) [symmetric]
    by (simp add: io_bind_def)
  ultimately show ?thesis by blast
qed

end
