(* ===== verification/Cli.thy ===== *)
theory Cli
  imports Dependencies Cloud Client SourceBuild
begin

section \<open>Command line support\<close>

text \<open>
  \<open>src/PafioCLI/Support.cpp\<close>, \<open>MachineInfoContract.cpp\<close> and the exit codes of \<open>PafioCore/Errors.hpp\<close>: what a command
  prints and returns, the loop over its arguments, the workflow flags and the policy of \<open>--locked\<close>.  A command runs in a
  \<open>runtime\<close>: the environment, the registry client, the security slots, the platform macros, the fuel of the resolver,
  the terminal, and the text of an exception of the standard library.  Its result is an \<open>outcome\<close>; an error left in the
  result is an exception that leaves \<open>main\<close>.  The file's copies of \<open>ReadFile\<close> and of the tests on registry roots are those
  of \<open>Dependencies\<close>, \<open>Security\<close> and \<open>Client\<close>.
\<close>

definition kExitSuccess :: int where "kExitSuccess = 0"
definition kExitPack :: int where "kExitPack = 16"
definition kExitPublish :: int where "kExitPublish = 17"
definition kExitToolInstall :: int where "kExitToolInstall = 18"
definition kExitVendor :: int where "kExitVendor = 19"
definition kExitPlan :: int where "kExitPlan = 20"
definition kExitContract :: int where "kExitContract = 21"
definition kExitCompilerSpawn :: int where "kExitCompilerSpawn = 22"
definition kExitCompiler :: int where "kExitCompiler = 23"
definition kExitNotImplemented :: int where "kExitNotImplemented = 31"

subsection \<open>Outcomes\<close>

record runtime =
  rt_env :: env
  rt_fuel :: nat
  rt_mat :: registry_client
  rt_slots :: security_slots
  rt_macros :: platform_macros
  rt_terminal :: terminal
  rt_what :: "error \<Rightarrow> string"

record outcome =
  oc_code :: int
  oc_out :: string
  oc_err :: string

definition printed :: "string \<Rightarrow> outcome" where
  "printed content = \<lparr>oc_code = kExitSuccess, oc_out = content, oc_err = []\<rparr>"

definition EmitError :: "runtime \<Rightarrow> command_error \<Rightarrow> bool \<Rightarrow> outcome result" where
  "EmitError rt e as_json =
     rbind (if as_json
       then rbind (dump_json (rt_env rt) (- 1) (jobject [(''category'', JString (ce_category e)), (''code'', JInt (ce_code e)),
           (''message'', JString (ce_message e)), (''command'', JString (ce_command e))])) (\<lambda>body. Inr (body @ nl))
       else Inr (''['' @ ce_category e @ '':'' @ int_to_string (ce_code e) @ ''] '' @ ce_command e @ '': '' @
           ce_message e @ nl)) (\<lambda>message.
     Inr \<lparr>oc_code = ce_code e, oc_out = [], oc_err = message\<rparr>)"

definition EmitSuccess :: "runtime \<Rightarrow> json \<Rightarrow> bool \<Rightarrow> outcome result" where
  "EmitSuccess rt payload as_json =
     (if as_json then rbind (dump_json (rt_env rt) (- 1) payload) (\<lambda>body. Inr (printed (body @ nl)))
      else case jget ''message'' payload of
        Some (JString message) \<Rightarrow> Inr (printed (message @ nl))
      | Some v \<Rightarrow> Inl type_error
      | None \<Rightarrow> Inr (printed []))"

definition EmitBootstrapNotImplemented :: "runtime \<Rightarrow> string \<Rightarrow> bool \<Rightarrow> outcome result" where
  "EmitBootstrapNotImplemented rt command as_json = EmitError rt \<lparr>ce_category = ''BootstrapNotImplemented'',
     ce_code = kExitNotImplemented,
     ce_message = ''command is recognized but not implemented in the native bootstrap scaffold'', ce_command = command\<rparr> as_json"

definition usage_error :: "string \<Rightarrow> string \<Rightarrow> command_error" where
  "usage_error command message =
     \<lparr>ce_category = ''UsageError'', ce_code = kExitUsage, ce_message = message, ce_command = command\<rparr>"

subsection \<open>Help\<close>

definition kUsageCommands :: "(string \<times> string) list" where
  "kUsageCommands =
    [(''machine-info'', ''usage: pafio machine-info [--json]'' @ nl),
     (''project-graph'', ''usage: pafio project-graph --json [--manifest-path <path>] [--locked|--offline|--frozen]'' @ nl),
     (''cloud'', ''usage: pafio cloud <status|plan> ...'' @ nl @ ''  pafio cloud status [--json] [--manifest-path <path>]'' @ nl @
       ''  pafio cloud plan --json <build|run|test> [minimal] [--manifest-path <path>] [--package <package-name>] [--bin <name>|--lib|--test <name>] [--profile <dev|release>] [--source-root <path>] [--source-rev <rev>] [--yes|--no-fetch|--non-interactive] [--locked|--offline|--frozen]'' @
       nl),
     (''new'', ''usage: pafio new <package-name> [directory] [--lib|--bin]'' @ nl),
     (''init'', ''usage: pafio init [--name <package-name>] [--lib|--bin]'' @ nl),
     (''install'', ''usage: pafio install styio[@latest] [--source-root <path>] [--source-rev <ref>] [--channel <stable|nightly>] [--build <minimal>] [--yes|--no-fetch|--offline|--non-interactive]'' @
       nl),
     (''use'', ''usage: pafio use <binary|build> [--manifest-path <path>]'' @ nl),
     (''set'', ''usage:'' @ nl @ ''  pafio set channel as <stable|nightly> [--manifest-path <path>]'' @ nl @
       ''  pafio set build as <minimal> [--manifest-path <path>]'' @ nl @
       ''  pafio set risk as <trusted-internal|partner-controlled|untrusted-user> [--manifest-path <path>]'' @ nl @
       ''  pafio set lane as <isolated|warm-shared> [--manifest-path <path>]'' @ nl @
       ''  pafio set security as <sandbox-default|partner-restricted|trusted-warm> [--manifest-path <path>]'' @ nl),
     (''check'', ''usage: pafio check [--manifest-path <path>] [--styio-bin <path>] [--locked|--offline|--frozen]'' @ nl),
     (''add'', ''usage: pafio add <package-name> (--path <path> | --git <source> --rev <rev> | --registry <url> --version <x.y.z>) [--alias <name>] [--dev] [--manifest-path <path>]'' @
       nl),
     (''remove'', ''usage: pafio remove <alias-or-package> [--dev] [--manifest-path <path>]'' @ nl),
     (''sync'', ''usage: pafio sync [--manifest-path <path>] [--locked|--offline|--frozen]'' @ nl),
     (''fetch'', ''usage: pafio fetch [--manifest-path <path>] [--locked|--offline|--frozen]'' @ nl),
     (''lock'', ''usage: pafio lock [--manifest-path <path>] [--check] [--offline]'' @ nl),
     (''tree'', ''usage: pafio tree [--manifest-path <path>]'' @ nl),
     (''vendor'', ''usage: pafio vendor [--manifest-path <path>] [--output <path>] [--locked|--offline|--frozen]'' @ nl),
     (''build'', ''usage: pafio build [minimal] [--manifest-path <path>] [--package <package-name>] [--bin <name>|--lib] [--profile <dev|release>] [--dry-run] [--styio-bin <path>] [--source-root <path>] [--source-rev <rev>] [--yes|--no-fetch|--non-interactive] [--locked|--offline|--frozen]'' @
       nl),
     (''run'', ''usage: pafio run [--manifest-path <path>] [--package <package-name>] [--bin <name>] [--profile <dev|release>] [--dry-run] [--styio-bin <path>] [--source-root <path>] [--source-rev <rev>] [--yes|--no-fetch|--non-interactive] [--locked|--offline|--frozen]'' @
       nl),
     (''test'', ''usage: pafio test [--manifest-path <path>] [--package <package-name>] [--test <name>] [--profile <dev|release>] [--dry-run] [--styio-bin <path>] [--source-root <path>] [--source-rev <rev>] [--yes|--no-fetch|--non-interactive] [--locked|--offline|--frozen]'' @
       nl),
     (''pack'', ''usage: pafio pack [--manifest-path <path>] [--package <package-name>] [--output <path>]'' @ nl),
     (''publish'', ''usage: pafio publish [--manifest-path <path>] [--package <package-name>] [--output <path>] [--registry <path-or-url>] [--registry-profile <name>] [--registry-policy-file <path>] [--registry-header <name:value>] [--dry-run]'' @
       nl),
     (''registry'', ''usage:'' @ nl @ ''  pafio registry trust import <descriptor-url|descriptor-file>'' @ nl @
       ''  pafio registry trust status --json'' @ nl),
     (''tool'', ''usage:'' @ nl @ ''  pafio tool install --styio-bin <path>'' @ nl @
       ''  pafio tool status --json [--manifest-path <path>]'' @ nl @
       ''  pafio tool use --version <compiler-version> [--channel <channel>]'' @ nl @
       ''  pafio tool pin (--version <compiler-version> [--channel <channel>] | --clear) [--manifest-path <path>]'' @ nl)]"


definition FindUsageCommandEntry :: "string \<Rightarrow> string option" where
  "FindUsageCommandEntry command = map_of kUsageCommands command"

definition global_help :: string where
  "global_help = ''pafio usage:'' @ nl @ ''  pafio [--help] [--version] [--json] <command> [command-args...]'' @ nl @ nl @
     ''commands:'' @ nl @ ''  machine-info [--json]'' @ nl @
     ''  project-graph --json [--manifest-path <path>] [--locked|--offline|--frozen]'' @ nl @
     ''  cloud status [--json] [--manifest-path <path>]'' @ nl @ ''  cloud plan --json <build|run|test> [...]'' @ nl @
     ''  new <package-name> [directory] [--lib|--bin]'' @ nl @ ''  init [--name <package-name>] [--lib|--bin]'' @ nl @
     ''  install styio[@latest] [--source-root <path>] [--source-rev <ref>] [--channel <stable|nightly>] [--build <minimal>] [--yes|--no-fetch|--offline|--non-interactive]'' @
     nl @ ''  use <binary|build> [--manifest-path <path>]'' @ nl @
     ''  set channel [as] <stable|nightly> [--manifest-path <path>]'' @ nl @
     ''  set build [as] <minimal> [--manifest-path <path>]'' @ nl @
     ''  set risk [as] <trusted-internal|partner-controlled|untrusted-user> [--manifest-path <path>]'' @ nl @
     ''  set lane [as] <isolated|warm-shared> [--manifest-path <path>]'' @ nl @
     ''  set security [as] <sandbox-default|partner-restricted|trusted-warm> [--manifest-path <path>]'' @ nl @
     ''  check [--manifest-path <path>] [--styio-bin <path>] [--locked|--offline|--frozen]'' @ nl @
     ''  add <package-name> (--path <path> | --git <source> --rev <rev> | --registry <url> --version <x.y.z>) [--alias <name>] [--dev] [--manifest-path <path>]'' @
     nl @ ''  remove <alias-or-package> [--dev] [--manifest-path <path>]'' @ nl @
     ''  sync [--manifest-path <path>] [--locked|--offline|--frozen]'' @ nl @
     ''  fetch [--manifest-path <path>] [--locked|--offline|--frozen]'' @ nl @
     ''  lock [--manifest-path <path>] [--check] [--offline]'' @ nl @ ''  tree [--manifest-path <path>]'' @ nl @
     ''  vendor [--manifest-path <path>] [--output <path>] [--locked|--offline|--frozen]'' @ nl @
     ''  build [minimal] [--manifest-path <path>] [--package <package-name>] [--bin <name>|--lib] [--profile <dev|release>] [--dry-run] [--styio-bin <path>] [--source-root <path>] [--source-rev <rev>] [--yes|--no-fetch|--non-interactive] [--locked|--offline|--frozen]'' @
     nl @
     ''  run [--manifest-path <path>] [--package <package-name>] [--bin <name>] [--profile <dev|release>] [--dry-run] [--styio-bin <path>] [--source-root <path>] [--source-rev <rev>] [--yes|--no-fetch|--non-interactive] [--locked|--offline|--frozen]'' @
     nl @
     ''  test [--manifest-path <path>] [--package <package-name>] [--test <name>] [--profile <dev|release>] [--dry-run] [--styio-bin <path>] [--source-root <path>] [--source-rev <rev>] [--yes|--no-fetch|--non-interactive] [--locked|--offline|--frozen]'' @
     nl @ ''  pack [--manifest-path <path>] [--package <package-name>] [--output <path>]'' @ nl @
     ''  publish [--manifest-path <path>] [--package <package-name>] [--output <path>] [--registry <path-or-url>] [--registry-profile <name>] [--registry-policy-file <path>] [--registry-header <name:value>] [--dry-run]'' @
     nl @ ''  registry trust import <descriptor-url|descriptor-file>'' @ nl @ ''  registry trust status --json'' @ nl @
     ''  tool install --styio-bin <path>'' @ nl @ ''  tool status --json [--manifest-path <path>]'' @ nl @
     ''  tool use --version <compiler-version> [--channel <channel>]'' @ nl @
     ''  tool pin (--version <compiler-version> [--channel <channel>] | --clear) [--manifest-path <path>]'' @ nl"

definition PrintGlobalHelp :: outcome where
  "PrintGlobalHelp = printed global_help"

definition PrintCommandUsage :: "string \<Rightarrow> outcome" where
  "PrintCommandUsage command = printed (case FindUsageCommandEntry command of
      None \<Rightarrow> ''usage: pafio '' @ command @ nl
    | Some usage \<Rightarrow> usage)"

definition BuildMachineInfoPayload :: json where
  "BuildMachineInfoPayload = jobject [(''tool'', JString ''pafio''), (''version'', JString kVersion), (''bootstrap'', JBool True),
     (''implementation_language'', JString ''c++''), (''supported_manifests'', JArray [JInt 1]),
     (''supported_lockfiles'', JArray [JInt 1]),
     (''supported_contracts'', jobject (map (\<lambda>c. (c, JArray [JInt 1])) [''compile_plan'', ''build_job_request'',
        ''project_graph'', ''toolchain_state'', ''workflow_success_payloads'', ''cloud_execution_policy'', ''worker_pool_keys''])),
     (''notes'', JArray [JString ''native c++ workflow core with compile-plan v1 handoff'',
        JString ''binary-mode build/run/test execute through styio --compile-plan when compatibility passes'',
        JString ''cloud control-plane execution-policy baseline is active as a local machine contract''])]"

subsection \<open>Exceptions\<close>

datatype exception_class = XValidation | XWorkspace | XResolution | XFetch | XCache | XPack | XPublish | XTool | XVendor |
  XPlan | XCompatibility | XCompilerProbe | XStd

fun instance_of :: "exception_class \<Rightarrow> error \<Rightarrow> bool" where
  "instance_of XValidation e = (case e of ValidationError _ \<Rightarrow> True | _ \<Rightarrow> False)"
| "instance_of XWorkspace e = (case e of WorkspaceError _ \<Rightarrow> True | _ \<Rightarrow> False)"
| "instance_of XResolution e = (case e of ResolutionError _ \<Rightarrow> True | _ \<Rightarrow> False)"
| "instance_of XFetch e = (case e of FetchError _ \<Rightarrow> True | _ \<Rightarrow> False)"
| "instance_of XCache e = (case e of CacheError _ \<Rightarrow> True | _ \<Rightarrow> False)"
| "instance_of XPack e = (case e of PackError _ \<Rightarrow> True | _ \<Rightarrow> False)"
| "instance_of XPublish e = (case e of PublishError _ \<Rightarrow> True | _ \<Rightarrow> False)"
| "instance_of XTool e = (case e of ToolError _ \<Rightarrow> True | _ \<Rightarrow> False)"
| "instance_of XVendor e = (case e of VendorError _ \<Rightarrow> True | _ \<Rightarrow> False)"
| "instance_of XPlan e = (case e of PlanError _ \<Rightarrow> True | _ \<Rightarrow> False)"
| "instance_of XCompatibility e = (case e of CompatibilityError _ \<Rightarrow> True | _ \<Rightarrow> False)"
| "instance_of XCompilerProbe e = (case e of CompilerProbeError _ \<Rightarrow> True | _ \<Rightarrow> False)"
| "instance_of XStd e = (e \<noteq> OutOfFuel)"

definition what :: "runtime \<Rightarrow> error \<Rightarrow> string" where
  "what rt e = (case e of
      ValidationError s \<Rightarrow> s | WorkspaceError s \<Rightarrow> s | ResolutionError s \<Rightarrow> s | FetchError s \<Rightarrow> s | CacheError s \<Rightarrow> s
    | PackError s \<Rightarrow> s | PublishError s \<Rightarrow> s | ToolError s \<Rightarrow> s | VendorError s \<Rightarrow> s | PlanError s \<Rightarrow> s
    | CompatibilityError s \<Rightarrow> s | CompilerProbeError s \<Rightarrow> s | RuntimeError s \<Rightarrow> s
    | _ \<Rightarrow> rt_what rt e)"

text \<open>The \<open>catch\<close> clauses of a \<open>try\<close> block, in order, each with the category and the code it reports.\<close>

type_synonym catch_clauses = "(exception_class \<times> string \<times> int) list"

definition caught_by :: "runtime \<Rightarrow> string \<Rightarrow> catch_clauses \<Rightarrow> error \<Rightarrow> command_error option" where
  "caught_by rt command clauses e = map_option (\<lambda>(c, category, code). \<lparr>ce_category = category, ce_code = code,
     ce_message = what rt e, ce_command = command\<rparr>) (find (\<lambda>(c, category, code). instance_of c e) clauses)"

definition io_catch :: "runtime \<Rightarrow> string \<Rightarrow> catch_clauses \<Rightarrow> (fs, 'a) io \<Rightarrow> (fs, command_error + 'a) io" where
  "io_catch rt command clauses m = (\<lambda>w. case m w of
      (Inr x, w') \<Rightarrow> (Inr (Inr x), w')
    | (Inl e, w') \<Rightarrow> (case caught_by rt command clauses e of
        None \<Rightarrow> (Inl e, w')
      | Some ce \<Rightarrow> (Inr (Inl ce), w')))"

definition io_try :: "runtime \<Rightarrow> bool \<Rightarrow> string \<Rightarrow> catch_clauses \<Rightarrow> (fs, 'a) io \<Rightarrow> ('a \<Rightarrow> (fs, outcome) io) \<Rightarrow> (fs, outcome) io" where
  "io_try rt as_json command clauses m k = io_bind (io_catch rt command clauses m) (\<lambda>r. case r of
      Inl ce \<Rightarrow> io_lift (EmitError rt ce as_json)
    | Inr x \<Rightarrow> k x)"

definition manifest_clause :: "exception_class \<times> string \<times> int" where
  "manifest_clause = (XValidation, ''ManifestError'', kExitManifest)"

definition source_clauses :: catch_clauses where
  "source_clauses = [(XResolution, ''ResolutionError'', kExitResolve), (XFetch, ''FetchError'', kExitFetch),
     (XCache, ''CacheError'', kExitCache)]"

definition project_clauses :: catch_clauses where
  "project_clauses = [manifest_clause, (XWorkspace, ''WorkspaceError'', kExitWorkspace)] @ source_clauses"

definition tool_clause :: "exception_class \<times> string \<times> int" where
  "tool_clause = (XTool, ''ToolError'', kExitToolInstall)"

definition cache_clause :: "exception_class \<times> string \<times> int" where
  "cache_clause = (XCache, ''CacheError'', kExitCache)"

definition probe_clauses :: catch_clauses where
  "probe_clauses = [(XCompilerProbe, ''CompilerSpawnError'', kExitCompilerSpawn), (XCompatibility, ''ContractError'', kExitContract)]"

subsection \<open>Arguments\<close>

text \<open>
  The loop over the arguments that every command has: a flag is a switch, takes the next argument, or is refused; anything
  else is unexpected.
\<close>

datatype 's flag_action = Switch "'s \<Rightarrow> 's" | Argument "string \<Rightarrow> 's \<Rightarrow> string + 's" | Refuse string

fun parse_flags :: "string \<Rightarrow> (string \<Rightarrow> 's flag_action option) \<Rightarrow> string list \<Rightarrow> 's \<Rightarrow> command_error + 's" where
  "parse_flags command spec [] s = Inr s"
| "parse_flags command spec [a] s = (case spec a of
      None \<Rightarrow> Inl (usage_error command (''unexpected argument for '' @ command @ '': '' @ a))
    | Some (Switch f) \<Rightarrow> Inr (f s)
    | Some (Argument f) \<Rightarrow> Inl (usage_error command (a @ '' requires a value''))
    | Some (Refuse message) \<Rightarrow> Inl (usage_error command message))"
| "parse_flags command spec (a # b # args) s = (case spec a of
      None \<Rightarrow> Inl (usage_error command (''unexpected argument for '' @ command @ '': '' @ a))
    | Some (Switch f) \<Rightarrow> parse_flags command spec (b # args) (f s)
    | Some (Argument f) \<Rightarrow> (case f b s of
        Inl message \<Rightarrow> Inl (usage_error command message)
      | Inr s' \<Rightarrow> parse_flags command spec args s')
    | Some (Refuse message) \<Rightarrow> Inl (usage_error command message))"

definition put_value :: "(string \<Rightarrow> 's \<Rightarrow> 's) \<Rightarrow> 's flag_action" where
  "put_value f = Argument (\<lambda>v s. Inr (f v s))"

fun lift_action :: "('t \<Rightarrow> 's) \<Rightarrow> ('s \<Rightarrow> 't \<Rightarrow> 't) \<Rightarrow> 's flag_action \<Rightarrow> 't flag_action" where
  "lift_action get put (Switch f) = Switch (\<lambda>t. put (f (get t)) t)"
| "lift_action get put (Argument f) = Argument (\<lambda>v t. map_sum id (\<lambda>s. put s t) (f v (get t)))"
| "lift_action get put (Refuse message) = Refuse message"

definition is_ascii_blank :: "char \<Rightarrow> bool" where
  "is_ascii_blank c \<longleftrightarrow> c = CHR '' '' \<or> c = CHR 0x09 \<or> c = CHR 0x0A \<or> c = CHR 0x0D"

definition TrimAsciiWhitespace :: "string \<Rightarrow> string" where
  "TrimAsciiWhitespace v = pop_back_while is_ascii_blank (dropWhile is_ascii_blank v)"

definition NormalizeRegistryHeader :: "string \<Rightarrow> string option" where
  "NormalizeRegistryHeader v = (case find_char CHR '':'' v of
      None \<Rightarrow> None
    | Some separator \<Rightarrow>
        let name = TrimAsciiWhitespace (take separator v); header_value = TrimAsciiWhitespace (drop (separator + 1) v)
        in if name = [] \<or> header_value = [] then None else Some (name @ '': '' @ header_value))"

text \<open>The kind of a new project, with the arguments that are left.\<close>

fun KindFromFlags :: "string \<Rightarrow> string list \<Rightarrow> string \<times> string list" where
  "KindFromFlags kind (a # args) = (if a = ''--lib'' then KindFromFlags ''lib'' args
     else if a = ''--bin'' then KindFromFlags ''bin'' args else (kind, a # args))"
| "KindFromFlags kind [] = (kind, [])"

record workflow_flags =
  wf_locked :: bool
  wf_offline :: bool

record source_flags =
  sf_allow_fetch :: bool
  sf_assume_yes :: bool
  sf_non_interactive :: bool
  sf_source_root :: "string option"
  sf_source_revision :: "string option"

record plan_invocation =
  pv_request :: plan_request
  pv_styio_bin :: "string option"
  pv_dry_run :: bool
  pv_workflow :: workflow_flags
  pv_source :: source_flags

definition no_workflow_flags :: workflow_flags where
  "no_workflow_flags = \<lparr>wf_locked = False, wf_offline = False\<rparr>"

definition ConsumeWorkflowFlag :: "string \<Rightarrow> workflow_flags flag_action option" where
  "ConsumeWorkflowFlag argument =
     (if argument = ''--locked'' then Some (Switch (\<lambda>f. f\<lparr>wf_locked := True\<rparr>))
      else if argument = ''--offline'' then Some (Switch (\<lambda>f. f\<lparr>wf_offline := True\<rparr>))
      else if argument = ''--frozen'' then Some (Switch (\<lambda>f. f\<lparr>wf_locked := True, wf_offline := True\<rparr>))
      else None)"

definition ConsumeSourceWorkflowFlag :: "string \<Rightarrow> source_flags flag_action option" where
  "ConsumeSourceWorkflowFlag argument =
     (if argument = ''--yes'' then Some (Switch (\<lambda>f. f\<lparr>sf_assume_yes := True\<rparr>))
      else if argument = ''--no-fetch'' then Some (Switch (\<lambda>f. f\<lparr>sf_allow_fetch := False\<rparr>))
      else if argument = ''--non-interactive'' then Some (Switch (\<lambda>f. f\<lparr>sf_non_interactive := True\<rparr>))
      else if argument = ''--source-root'' then Some (put_value (\<lambda>v f. f\<lparr>sf_source_root := Some v\<rparr>))
      else if argument = ''--source-rev'' then Some (put_value (\<lambda>v f. f\<lparr>sf_source_revision := Some v\<rparr>))
      else None)"

definition NormalizeSetKeyword :: "string \<Rightarrow> string" where
  "NormalizeSetKeyword v = map (\<lambda>c. if 65 \<le> (of_char c :: nat) \<and> (of_char c :: nat) \<le> 90
     then char_of ((of_char c :: nat) + 32) else c) v"

subsection \<open>Invocations of the planner\<close>

definition default_request :: "string \<Rightarrow> plan_request" where
  "default_request intent = \<lparr>rq_manifest_path = ''pafio.toml'', rq_intent = intent, rq_package_name = None,
     rq_bin_name = None, rq_test_name = None, rq_select_lib = False, rq_profile = ''dev'', rq_build_mode = [],
     rq_compiler_version = None, rq_offline = False, rq_vendor_root = None\<rparr>"

definition on_request :: "(plan_request \<Rightarrow> plan_request) \<Rightarrow> plan_invocation \<Rightarrow> plan_invocation" where
  "on_request f p = p\<lparr>pv_request := f (pv_request p)\<rparr>"

definition refused :: "string \<Rightarrow> string \<Rightarrow> 's flag_action" where
  "refused command flag = Refuse (command @ '' does not accept '' @ flag)"

definition plan_flag :: "string \<Rightarrow> bool \<Rightarrow> bool \<Rightarrow> bool \<Rightarrow> string \<Rightarrow> plan_invocation flag_action option" where
  "plan_flag command allow_lib allow_bin allow_test a =
     (if a = ''--manifest-path'' then Some (put_value (\<lambda>v. on_request (\<lambda>r. r\<lparr>rq_manifest_path := v\<rparr>)))
      else if a = ''--package'' then Some (put_value (\<lambda>v. on_request (\<lambda>r. r\<lparr>rq_package_name := Some v\<rparr>)))
      else if a = ''--bin'' then Some (if \<not> allow_bin then refused command a
        else put_value (\<lambda>v. on_request (\<lambda>r. r\<lparr>rq_bin_name := Some v\<rparr>)))
      else if a = ''--test'' then Some (if \<not> allow_test then refused command a
        else put_value (\<lambda>v. on_request (\<lambda>r. r\<lparr>rq_test_name := Some v\<rparr>)))
      else if a = ''--lib'' then Some (if \<not> allow_lib then refused command a
        else Switch (on_request (\<lambda>r. r\<lparr>rq_select_lib := True\<rparr>)))
      else if a = ''--profile'' then Some (put_value (\<lambda>v. on_request (\<lambda>r. r\<lparr>rq_profile := v\<rparr>)))
      else if a = ''--dry-run'' then Some (Switch (\<lambda>p. p\<lparr>pv_dry_run := True\<rparr>))
      else if a = ''--styio-bin'' then Some (put_value (\<lambda>v p. p\<lparr>pv_styio_bin := Some v\<rparr>))
      else case ConsumeSourceWorkflowFlag a of
        Some act \<Rightarrow> Some (lift_action pv_source (\<lambda>f p. p\<lparr>pv_source := f\<rparr>) act)
      | None \<Rightarrow> map_option (lift_action pv_workflow (\<lambda>f p. p\<lparr>pv_workflow := f\<rparr>)) (ConsumeWorkflowFlag a))"

definition ParsePlanInvocation ::
    "string \<Rightarrow> string \<Rightarrow> bool \<Rightarrow> bool \<Rightarrow> bool \<Rightarrow> string list \<Rightarrow> command_error + plan_invocation" where
  "ParsePlanInvocation command intent allow_lib allow_bin allow_test args =
     (let start = \<lparr>pv_request = default_request intent, pv_styio_bin = None, pv_dry_run = False,
            pv_workflow = no_workflow_flags, pv_source = \<lparr>sf_allow_fetch = True, sf_assume_yes = False,
              sf_non_interactive = False, sf_source_root = None, sf_source_revision = None\<rparr>\<rparr>;
          spec = plan_flag command allow_lib allow_bin allow_test
      in case args of
           a # rest \<Rightarrow>
             if command = ''build'' \<and> \<not> starts_with a ''--'' then
               (let mode = NormalizeSetKeyword a in
                if \<not> VocabularyContains mode kSupportedBuildModes
                then Inl (usage_error command (''build currently supports only the '' @ squote ''minimal'' @ '' mode''))
                else parse_flags command spec rest (on_request (\<lambda>r. r\<lparr>rq_build_mode := mode\<rparr>) start))
             else parse_flags command spec args start
         | [] \<Rightarrow> Inr start)"

subsection \<open>Resolution options and the locked policy\<close>

record resolve_options =
  ro_offline :: bool
  ro_vendor_root :: "string option"

definition BuildResolveOptions :: "env \<Rightarrow> fs \<Rightarrow> string \<Rightarrow> workflow_flags \<Rightarrow> string option \<Rightarrow> resolve_options" where
  "BuildResolveOptions env w manifest_path flags vendor_root_override =
     \<lparr>ro_offline = wf_offline flags,
      ro_vendor_root = (case vendor_root_override of
          Some v \<Rightarrow> Some (canonical env v)
        | None \<Rightarrow> (let default = ProjectVendorRootForManifest env manifest_path
            in if fs_exists env w default then Some default else None))\<rparr>"

definition resolve_lockfile :: "runtime \<Rightarrow> string \<Rightarrow> resolve_options \<Rightarrow> (fs, lock_generation) io" where
  "resolve_lockfile rt manifest_path options = ResolveSingleVersionLockfile (rt_fuel rt) (rt_env rt) (rt_mat rt)
     manifest_path (ro_offline options) (ro_vendor_root options)"

definition lock_error :: "string \<Rightarrow> string \<Rightarrow> command_error" where
  "lock_error command message =
     \<lparr>ce_category = ''LockfileError'', ce_code = kExitLock, ce_message = message, ce_command = command\<rparr>"

definition lockfile_of :: "string \<Rightarrow> string" where
  "lockfile_of manifest_path = path_append (parent_path manifest_path) ''pafio.lock''"

text \<open>The lockfile compared with a fresh resolution.\<close>

definition check_lockfile :: "runtime \<Rightarrow> string \<Rightarrow> string \<Rightarrow> resolve_options \<Rightarrow> (fs, command_error option) io" where
  "check_lockfile rt manifest_path command options =
     io_bind (resolve_lockfile rt manifest_path options) (\<lambda>generated.
     io_bind (fs_query (\<lambda>w. ReadFileText (rt_env rt) w (lockfile_of manifest_path))) (\<lambda>current.
     io_return (if current \<noteq> SerializeLockfileCanonical (lg_lockfile generated)
       then Some (lock_error command (''lockfile is stale: '' @ lockfile_of manifest_path)) else None)))"

definition ValidateLockedPolicy ::
    "runtime \<Rightarrow> string \<Rightarrow> string \<Rightarrow> workflow_flags \<Rightarrow> resolve_options \<Rightarrow> (fs, command_error option) io" where
  "ValidateLockedPolicy rt manifest_path command flags options = (\<lambda>w.
     if \<not> wf_locked flags then (Inr None, w)
     else if \<not> fs_exists (rt_env rt) w (lockfile_of manifest_path)
       then (Inr (Some (lock_error command (''lockfile missing: '' @ lockfile_of manifest_path))), w)
     else io_bind (io_catch rt command project_clauses (check_lockfile rt manifest_path command options))
       (\<lambda>r. io_return (case r of Inl e \<Rightarrow> Some e | Inr e \<Rightarrow> e)) w)"

text \<open>A command goes on only when the policy has no objection.\<close>

definition with_locked_policy ::
    "runtime \<Rightarrow> bool \<Rightarrow> string \<Rightarrow> string \<Rightarrow> workflow_flags \<Rightarrow> resolve_options \<Rightarrow> (fs, outcome) io \<Rightarrow> (fs, outcome) io" where
  "with_locked_policy rt as_json manifest_path command flags options k =
     io_bind (ValidateLockedPolicy rt manifest_path command flags options) (\<lambda>e. case e of
         Some e \<Rightarrow> io_lift (EmitError rt e as_json)
       | None \<Rightarrow> k)"

end
