(* ===== verification/Commands.thy ===== *)
theory Commands
  imports Cli Install
begin

section \<open>The shape of a command\<close>

text \<open>
  What the handlers of \<open>src/PafioApp\<close> have in common: \<open>--help\<close>, the loop over the arguments with the options most of
  them take, an error or a success payload as result, and the catch clauses around a step.
\<close>

type_synonym handler = "string list \<Rightarrow> bool \<Rightarrow> (fs, outcome) io"

definition emit_error :: "runtime \<Rightarrow> bool \<Rightarrow> command_error \<Rightarrow> (fs, outcome) io" where
  "emit_error rt as_json e = io_lift (EmitError rt e as_json)"

definition emit_usage :: "runtime \<Rightarrow> bool \<Rightarrow> string \<Rightarrow> string \<Rightarrow> (fs, outcome) io" where
  "emit_usage rt as_json command message = emit_error rt as_json (usage_error command message)"

definition emit_success :: "runtime \<Rightarrow> bool \<Rightarrow> (string \<times> json) list \<Rightarrow> (fs, outcome) io" where
  "emit_success rt as_json payload = io_lift (EmitSuccess rt (jobject payload) as_json)"

definition command_failure :: "string \<Rightarrow> int \<Rightarrow> string \<Rightarrow> string \<Rightarrow> command_error" where
  "command_failure category code command message =
     \<lparr>ce_category = category, ce_code = code, ce_message = message, ce_command = command\<rparr>"

definition manifest_missing :: "string \<Rightarrow> string \<Rightarrow> command_error" where
  "manifest_missing command path = command_failure ''ManifestError'' kExitManifest command (''manifest not found: '' @ path)"

definition with_help :: "string \<Rightarrow> string list \<Rightarrow> (fs, outcome) io \<Rightarrow> (fs, outcome) io" where
  "with_help command args k = (if args = [''--help''] then io_return (PrintCommandUsage command) else k)"

definition with_flags ::
    "runtime \<Rightarrow> bool \<Rightarrow> string \<Rightarrow> (string \<Rightarrow> 's flag_action option) \<Rightarrow> string list \<Rightarrow> 's \<Rightarrow>
     ('s \<Rightarrow> (fs, outcome) io) \<Rightarrow> (fs, outcome) io" where
  "with_flags rt as_json command spec args s k = (case parse_flags command spec args s of
      Inl e \<Rightarrow> emit_error rt as_json e
    | Inr s' \<Rightarrow> k s')"

text \<open>A \<open>try\<close> block that returns the outcome itself.\<close>

definition io_attempt :: "runtime \<Rightarrow> bool \<Rightarrow> string \<Rightarrow> catch_clauses \<Rightarrow> (fs, outcome) io \<Rightarrow> (fs, outcome) io" where
  "io_attempt rt as_json command clauses m = io_try rt as_json command clauses m io_return"

definition io_query :: "(fs \<Rightarrow> 'a) \<Rightarrow> (fs, 'a) io" where
  "io_query f = (\<lambda>w. (Inr (f w), w))"

subsection \<open>Options\<close>

record command_flags =
  cm_json :: bool
  cm_manifest_path :: "string option"
  cm_workflow :: workflow_flags
  cm_styio_bin :: "string option"
  cm_package :: "string option"
  cm_output_path :: "string option"
  cm_version :: "string option"
  cm_channel :: "string option"
  cm_switch :: bool

definition no_flags :: "bool \<Rightarrow> command_flags" where
  "no_flags as_json = \<lparr>cm_json = as_json, cm_manifest_path = None, cm_workflow = no_workflow_flags, cm_styio_bin = None,
     cm_package = None, cm_output_path = None, cm_version = None, cm_channel = None, cm_switch = False\<rparr>"

definition manifest_of :: "command_flags \<Rightarrow> string" where
  "manifest_of f = case_option ''pafio.toml'' id (cm_manifest_path f)"

type_synonym 's flag_spec = "string \<Rightarrow> 's flag_action option"

definition option_named :: "string \<Rightarrow> 's flag_action \<Rightarrow> 's flag_spec" where
  "option_named name act a = (if a = name then Some act else None)"

definition any_of :: "'s flag_spec list \<Rightarrow> 's flag_spec" where
  "any_of specs a = foldr (\<lambda>spec r. case spec a of None \<Rightarrow> r | Some act \<Rightarrow> Some act) specs None"

definition json_flag :: "command_flags flag_spec" where
  "json_flag = option_named ''--json'' (Switch (\<lambda>f. f\<lparr>cm_json := True\<rparr>))"

definition manifest_flag :: "command_flags flag_spec" where
  "manifest_flag = option_named ''--manifest-path'' (put_value (\<lambda>v f. f\<lparr>cm_manifest_path := Some v\<rparr>))"

definition styio_bin_flag :: "command_flags flag_spec" where
  "styio_bin_flag = option_named ''--styio-bin'' (put_value (\<lambda>v f. f\<lparr>cm_styio_bin := Some v\<rparr>))"

definition package_flag :: "command_flags flag_spec" where
  "package_flag = option_named ''--package'' (put_value (\<lambda>v f. f\<lparr>cm_package := Some v\<rparr>))"

definition output_flag :: "command_flags flag_spec" where
  "output_flag = option_named ''--output'' (put_value (\<lambda>v f. f\<lparr>cm_output_path := Some v\<rparr>))"

definition version_flag :: "command_flags flag_spec" where
  "version_flag = option_named ''--version'' (put_value (\<lambda>v f. f\<lparr>cm_version := Some v\<rparr>))"

definition channel_flag :: "command_flags flag_spec" where
  "channel_flag = option_named ''--channel'' (put_value (\<lambda>v f. f\<lparr>cm_channel := Some v\<rparr>))"

definition switch_flag :: "string \<Rightarrow> command_flags flag_spec" where
  "switch_flag name = option_named name (Switch (\<lambda>f. f\<lparr>cm_switch := True\<rparr>))"

definition workflow_flag :: "command_flags flag_spec" where
  "workflow_flag a = map_option (lift_action cm_workflow (\<lambda>g f. f\<lparr>cm_workflow := g\<rparr>)) (ConsumeWorkflowFlag a)"

text \<open>The steps that run before the work of a workflow command: the options of the resolution and the locked policy.\<close>

definition with_resolve_options ::
    "runtime \<Rightarrow> bool \<Rightarrow> string \<Rightarrow> string \<Rightarrow> workflow_flags \<Rightarrow> string option \<Rightarrow>
     (resolve_options \<Rightarrow> (fs, outcome) io) \<Rightarrow> (fs, outcome) io" where
  "with_resolve_options rt as_json command manifest_path flags vendor_root k =
     io_bind (io_query (\<lambda>w. BuildResolveOptions (rt_env rt) w manifest_path flags vendor_root)) (\<lambda>options.
     with_locked_policy rt as_json manifest_path command flags options (k options))"

definition workflow_entries :: "workflow_flags \<Rightarrow> (string \<times> json) list" where
  "workflow_entries f = [(''locked'', JBool (wf_locked f)), (''offline'', JBool (wf_offline f))]"

definition jstrings :: "string list \<Rightarrow> json" where
  "jstrings xs = JArray (map JString xs)"

definition jints :: "int list \<Rightarrow> json" where
  "jints xs = JArray (map JInt xs)"

definition jnat :: "nat \<Rightarrow> json" where
  "jnat n = JInt (int n)"

definition no_update :: "string \<Rightarrow> toolchain_update" where
  "no_update mp = \<lparr>tu_manifest_path = mp, tu_mode = None, tu_channel = None, tu_build_mode = None, tu_risk_class = None,
     tu_lane = None, tu_security = None, tu_source_revision = None\<rparr>"

end
