(* ===== verification/Contracts.thy ===== *)
theory Contracts
  imports Commands
begin

section \<open>Machine contracts\<close>

text \<open>
  The JSON documents other tools read: the status of the managed compilers (\<open>src/PafioTool/Contract.cpp\<close>) and the
  project graph (\<open>src/PafioResolve/ProjectGraphContract.cpp\<close>).
\<close>

subsection \<open>Managed compilers\<close>

definition BuildProjectPinPayload :: "toolchain_pin \<Rightarrow> json" where
  "BuildProjectPinPayload pin = jobject [(''pin_path'', JString (tpin_path pin)),
     (''compiler_version'', JString (tpin_compiler_version pin)), (''channel'', JString (tpin_compiler_channel pin))]"

definition BuildManagedToolchainPayload :: "managed_toolchain_status \<Rightarrow> json" where
  "BuildManagedToolchainPayload s = jobject
     [(''install_root'', JString (mt_install_root s)), (''install_binary_path'', JString (mt_install_binary_path s)),
      (''install_metadata_path'', JString (mt_install_metadata_path s)),
      (''compiler_version'', JString (mt_compiler_version s)), (''channel'', JString (mt_compiler_channel s)),
      (''edition_max'', JString (mt_compiler_edition_max s)), (''integration_phase'', JString (mt_integration_phase s)),
      (''supported_compile_plan_versions'', jints (mt_supported_compile_plan_versions s)),
      (''capabilities'', jstrings (mt_capabilities s)), (''current'', JBool (mt_current s))]"

definition optional_json :: "string \<Rightarrow> ('a \<Rightarrow> json) \<Rightarrow> 'a option \<Rightarrow> (string \<times> json) list" where
  "optional_json key f v = (case v of None \<Rightarrow> [] | Some x \<Rightarrow> [(key, f x)])"

definition BuildToolStatusPayload ::
    "tool_status_result \<Rightarrow> toolchain_state option \<Rightarrow> cloud_policy option \<Rightarrow> (string \<times> json) list" where
  "BuildToolStatusPayload s project_state policy =
     [(''command'', JString ''tool status''), (''pafio_home'', JString (tr_pafio_home s)),
      (''managed_toolchains'', JArray (map BuildManagedToolchainPayload (tr_managed_toolchains s)))] @
     optional_json ''manifest_path'' JString (tr_manifest_path s) @
     [(''project_pin'', case_option JNull BuildProjectPinPayload (tr_project_pin s)),
      (''current_compiler'', case_option JNull BuildManagedToolchainPayload (tr_current_compiler s))] @
     optional_json ''toolchain_state'' SerializeProjectToolchainState project_state @
     optional_json ''cloud'' SerializeCloudExecutionPolicy policy"

subsection \<open>The project graph\<close>

definition BuildPackagePayload :: "resolved_package \<Rightarrow> json" where
  "BuildPackagePayload p = jobject
     ([(''id'', JString (rp_id p)), (''manifest_path'', JString (rp_manifest_path p)),
       (''root_dir'', JString (rp_root_dir p)), (''name'', JString (pkg_name (rp_package p))),
       (''version'', JString (pkg_version (rp_package p))), (''edition'', JString (pkg_edition (rp_package p))),
       (''publish'', JBool (pkg_publish (rp_package p))), (''source_kind'', JString (rp_source_kind p)),
       (''dependencies'', jstrings (rp_dependencies p))] @
      optional_json ''git'' JString (rp_git p) @ optional_json ''rev'' JString (rp_rev p) @
      optional_json ''registry'' JString (rp_registry p) @ optional_json ''sha256'' JString (rp_sha256 p) @
      optional_json ''snapshot_root'' JString (rp_snapshot_root p) @
      [(''dependency_aliases'', JArray (map (\<lambda>a. jobject [(''alias'', JString (da_alias a)),
         (''package_id'', JString (da_package_id a))]) (rp_aliases p)))])"

definition target_entry :: "env \<Rightarrow> resolved_package \<Rightarrow> string \<times> string \<Rightarrow> json" where
  "target_entry env p t = jobject [(''name'', JString (fst t)),
     (''path'', JString (canonical env (path_append (rp_root_dir p) (snd t))))]"

definition BuildTargetPayload :: "env \<Rightarrow> resolved_package \<Rightarrow> json" where
  "BuildTargetPayload env p = (let pkg = rp_package p in jobject
     [(''package_id'', JString (rp_id p)),
      (''lib'', case pkg_lib pkg of None \<Rightarrow> JNull
         | Some l \<Rightarrow> JString (canonical env (path_append (rp_root_dir p) (lib_path l)))),
      (''bins'', JArray (map (\<lambda>b. target_entry env p (bin_name b, bin_path b)) (pkg_bins pkg))),
      (''tests'', JArray (map (\<lambda>t. target_entry env p (test_name t, test_path t)) (pkg_tests pkg)))])"

definition dependency_edges :: "resolved_graph \<Rightarrow> (string \<times> string \<times> string) list" where
  "dependency_edges g = concat (map (\<lambda>p. map (\<lambda>a. (rp_id p, da_package_id a, da_alias a)) (rp_aliases p)) (rg_packages g))"

definition BuildDependencyEdgesPayload :: "resolved_graph \<Rightarrow> json" where
  "BuildDependencyEdgesPayload g = JArray (map (\<lambda>(a, b, alias). jobject
     [(''from'', JString a), (''to'', JString b), (''alias'', JString alias)]) (dependency_edges g))"

definition count_kind :: "string \<Rightarrow> resolved_graph \<Rightarrow> nat" where
  "count_kind kind g = length (filter (\<lambda>p. rp_source_kind p = kind) (rg_packages g))"

definition BuildPackageDistributionPayload :: "resolved_graph \<Rightarrow> json" where
  "BuildPackageDistributionPayload g = jobject
     [(''root_package_count'', jnat (length (rg_root_ids g))), (''total_package_count'', jnat (length (rg_packages g))),
      (''path_packages'', jnat (count_kind ''path'' g)), (''git_packages'', jnat (count_kind ''git'' g)),
      (''registry_packages'', jnat (count_kind ''registry'' g)),
      (''workspace_local_packages'', jnat (length (filter
         (\<lambda>p. starts_with (rp_manifest_path p) (parent_path (rg_manifest_path g))) (rg_packages g))))]"

definition BuildSourceStatePayload :: "env \<Rightarrow> string \<Rightarrow> toolchain_state \<Rightarrow> string \<Rightarrow> json" where
  "BuildSourceStatePayload env manifest_path s pafio_home = jobject
     ([(''toolchain_mode'', JString (ts_mode s)), (''source_origin'', JString (ResolveSourceOriginBaseline env)),
       (''source_state_root'', JString (SourceStateRoot env pafio_home))] @
      optional_json ''source_revision'' JString (ts_source_revision s) @
      optional_json ''explicit_source_root'' (\<lambda>path. JString (canonical env path)) (nonempty_env env ''PAFIO_STYIO_SOURCE_ROOT'') @
      [(''project_state_root'', JString (ProjectStateRootForManifest env manifest_path))])"

text \<open>Whether the lockfile exists and is the one a fresh resolution gives.\<close>

definition lock_freshness :: "runtime \<Rightarrow> string \<Rightarrow> resolve_options \<Rightarrow> (fs, bool \<times> bool) io" where
  "lock_freshness rt manifest_path options = (let path = lockfile_of manifest_path; env = rt_env rt in (\<lambda>w.
     if \<not> fs_exists env w path then (Inr (False, False), w)
     else io_bind (resolve_lockfile rt manifest_path options) (\<lambda>generated.
       io_bind (fs_query (\<lambda>w. ReadFileText env w path)) (\<lambda>current.
       io_return (True, current = SerializeLockfileCanonical (lg_lockfile generated)))) w))"

definition BuildProjectGraphPayload ::
    "runtime \<Rightarrow> string \<Rightarrow> resolved_graph \<Rightarrow> workflow_flags \<Rightarrow> toolchain_state \<Rightarrow> cloud_policy \<Rightarrow> tool_status_result \<Rightarrow>
     resolve_options \<Rightarrow> (fs, (string \<times> json) list) io" where
  "BuildProjectGraphPayload rt manifest_path g flags s policy status options = (let env = rt_env rt in
     io_bind (lock_freshness rt manifest_path options) (\<lambda>(lock_exists, lock_fresh).
     io_return
       [(''command'', JString ''project-graph''), (''manifest_path'', JString (canonical env manifest_path)),
        (''root_ids'', jstrings (rg_root_ids g)), (''packages'', JArray (map BuildPackagePayload (rg_packages g))),
        (''dependencies'', BuildDependencyEdgesPayload g),
        (''targets'', JArray (map (BuildTargetPayload env) (rg_packages g))),
        (''toolchain'', jobject [(''mode'', JString (ts_mode s)), (''channel'', JString (ts_channel s)),
           (''build_mode'', JString (ts_build_mode s)), (''risk_class'', JString (ts_risk_class s)),
           (''preferred_execution_lane'', JString (ts_lane s)), (''security_profile'', JString (ts_security s)),
           (''cloud'', SerializeCloudExecutionPolicy policy)]),
        (''managed_toolchains'', JArray (map BuildManagedToolchainPayload (tr_managed_toolchains status))),
        (''lock_state'', jobject ([(''path'', JString (lockfile_of manifest_path)), (''exists'', JBool lock_exists),
           (''fresh'', JBool lock_fresh)] @ workflow_entries flags)),
        (''source_state'', BuildSourceStatePayload env manifest_path s (tr_pafio_home status)),
        (''package_distribution'', BuildPackageDistributionPayload g)]))"

end
