(* ===== verification/Workflow.thy ===== *)
theory Workflow
  imports Contracts
begin

section \<open>The workflow commands\<close>

text \<open>
  \<open>src/PafioApp/WorkflowApp.cpp\<close>: \<open>project-graph\<close>, \<open>check\<close>, and \<open>build\<close>, \<open>run\<close> and \<open>test\<close>, which write a compile plan
  and hand it to the compiler; and \<open>src/PafioApp/CloudApp.cpp\<close>, which renders the same invocation as a job.
\<close>

subsection \<open>Project graph and check\<close>

definition project_graph :: "runtime \<Rightarrow> bool \<Rightarrow> string \<Rightarrow> workflow_flags \<Rightarrow> (fs, outcome) io" where
  "project_graph rt as_json mp flags = (let env = rt_env rt in
     io_bind (fs_query (\<lambda>w. LoadManifest env w mp)) (\<lambda>_.
     io_bind (fs_query (\<lambda>w. LoadProjectToolchainState env w mp)) (\<lambda>state.
     let policy = ResolveCloudExecutionPolicy env (rt_macros rt) state in
     io_bind (fs_query (\<lambda>w. QueryToolStatus env w (Some mp))) (\<lambda>status.
     with_resolve_options rt as_json ''project-graph'' mp flags None (\<lambda>options.
     io_bind (ResolveSingleVersionGraph (rt_fuel rt) env (rt_mat rt) mp (ro_offline options) (ro_vendor_root options)) (\<lambda>g.
     io_bind (BuildProjectGraphPayload rt mp g flags state policy status options) (emit_success rt True)))))))"

definition HandleProjectGraph :: "runtime \<Rightarrow> handler" where
  "HandleProjectGraph rt args as_json = with_help ''project-graph'' args
     (with_flags rt as_json ''project-graph'' (any_of [json_flag, manifest_flag, workflow_flag]) args (no_flags as_json) (\<lambda>f.
      if \<not> cm_json f then emit_usage rt as_json ''project-graph'' ''project-graph currently requires --json''
      else io_attempt rt as_json ''project-graph'' (project_clauses @ [tool_clause])
        (project_graph rt as_json (manifest_of f) (cm_workflow f))))"

definition report_entries :: "compatibility_report \<Rightarrow> (string \<times> json) list" where
  "report_entries r = [(''binary'', JString (cr_binary r)), (''compiler_version'', JString (cr_compiler_version r)),
     (''compiler_channel'', JString (cr_compiler_channel r)), (''compiler_edition_max'', JString (cr_compiler_edition_max r)),
     (''integration_phase'', JString (cr_integration_phase r)),
     (''supported_compile_plan_versions'', jints (cr_supported_compile_plan_versions r)),
     (''capabilities'', jstrings (cr_capabilities r))]"

text \<open>The lockfile of the project, if there is one, parses and is the one the resolution gives.\<close>

definition lockfile_is_current :: "runtime \<Rightarrow> string \<Rightarrow> lock_generation \<Rightarrow> (fs, bool) io" where
  "lockfile_is_current rt path generated = (\<lambda>w.
     if \<not> fs_exists (rt_env rt) w path then (Inr True, w)
     else io_bind (fs_query (\<lambda>w. LoadLockfile (rt_env rt) w path)) (\<lambda>_.
       io_bind (fs_query (\<lambda>w. ReadFileText (rt_env rt) w path)) (\<lambda>current.
       io_return (current = SerializeLockfileCanonical (lg_lockfile generated)))) w)"

definition check_compiler :: "runtime \<Rightarrow> string option \<Rightarrow> (fs, json) io" where
  "check_compiler rt compiler = (case compiler of
      None \<Rightarrow> io_return JNull
    | Some binary \<Rightarrow> io_bind (CheckCompilerCompatibility (rt_env rt) binary) (\<lambda>report.
        io_return (jobject (report_entries report))))"

definition check_success ::
    "runtime \<Rightarrow> bool \<Rightarrow> string \<Rightarrow> workflow_flags \<Rightarrow> lock_generation \<Rightarrow> string option \<Rightarrow> json \<Rightarrow> (fs, outcome) io" where
  "check_success rt as_json mp flags generated compiler styio = (\<lambda>w. emit_success rt as_json
     ([(''command'', JString ''check''), (''message'', JString (''manifest and lockfile look valid: '' @ mp)),
       (''manifest_path'', JString (absolute (env_cwd (rt_env rt)) mp)),
       (''lockfile_present'', JBool (fs_exists (rt_env rt) w (lockfile_of mp))),
       (''packages'', jnat (length (lf_packages (lg_lockfile generated)))), (''compiler_checked'', JBool (compiler \<noteq> None))] @
      workflow_entries flags @ [(''styio'', styio)]) w)"

definition check_project :: "runtime \<Rightarrow> bool \<Rightarrow> string \<Rightarrow> workflow_flags \<Rightarrow> string option \<Rightarrow> (fs, outcome) io" where
  "check_project rt as_json mp flags styio_bin = (let env = rt_env rt in
     io_try rt as_json ''check'' [manifest_clause] (fs_query (\<lambda>w. LoadManifest env w mp)) (\<lambda>_.
     with_resolve_options rt as_json ''check'' mp flags None (\<lambda>options.
     io_try rt as_json ''check'' project_clauses (resolve_lockfile rt mp options) (\<lambda>generated.
     io_try rt as_json ''check'' [(XValidation, ''LockfileError'', kExitLock), (XStd, ''LockfileError'', kExitLock)]
       (lockfile_is_current rt (lockfile_of mp) generated) (\<lambda>current.
     if \<not> current then emit_error rt as_json (lock_error ''check'' (''lockfile is stale: '' @ lockfile_of mp)) else
     io_try rt as_json ''check'' [tool_clause, cache_clause] (fs_query (\<lambda>w. ResolveStyioBinary env w styio_bin (Some mp))) (\<lambda>compiler.
     io_try rt as_json ''check'' (probe_clauses @ [tool_clause]) (check_compiler rt compiler)
       (check_success rt as_json mp flags generated compiler)))))))"

definition HandleCheck :: "runtime \<Rightarrow> handler" where
  "HandleCheck rt args as_json = with_help ''check'' args
     (with_flags rt as_json ''check'' (any_of [manifest_flag, styio_bin_flag, workflow_flag]) args (no_flags as_json) (\<lambda>f w.
      (if \<not> fs_exists (rt_env rt) w (manifest_of f)
       then emit_error rt as_json (manifest_missing ''check'' (manifest_of f))
       else check_project rt as_json (manifest_of f) (cm_workflow f) (cm_styio_bin f)) w))"

subsection \<open>Build, run, test\<close>

definition invocation_options :: "plan_invocation \<Rightarrow> workflow_options" where
  "invocation_options p = \<lparr>wo_locked = wf_locked (pv_workflow p), wo_offline = wf_offline (pv_workflow p),
     wo_styio_bin = pv_styio_bin p, wo_allow_fetch = sf_allow_fetch (pv_source p),
     wo_assume_yes = sf_assume_yes (pv_source p), wo_non_interactive = sf_non_interactive (pv_source p),
     wo_source_root = sf_source_root (pv_source p), wo_source_revision = sf_source_revision (pv_source p)\<rparr>"

definition with_build_mode :: "toolchain_state \<Rightarrow> plan_request \<Rightarrow> plan_request" where
  "with_build_mode s rq = (if rq_build_mode rq = [] then rq\<lparr>rq_build_mode := ts_build_mode s\<rparr> else rq)"

text \<open>A compiler that is ready: its path, what is reported of it, and the version the cache key names.\<close>

type_synonym ready_compiler = "string option \<times> json \<times> string option"

definition binary_payload :: "compatibility_report \<Rightarrow> json" where
  "binary_payload r = jobject ((''mode'', JString ''binary'') # report_entries r)"

definition with_binary_compiler ::
    "runtime \<Rightarrow> bool \<Rightarrow> string \<Rightarrow> string option \<Rightarrow> string \<Rightarrow> (ready_compiler \<Rightarrow> (fs, outcome) io) \<Rightarrow> (fs, outcome) io" where
  "with_binary_compiler rt as_json command styio_bin mp k = (let env = rt_env rt in
     io_try rt as_json command [tool_clause, cache_clause] (fs_query (\<lambda>w. ResolveStyioBinary env w styio_bin (Some mp))) (\<lambda>compiler.
     case compiler of
       None \<Rightarrow> emit_usage rt as_json command (command @ '' requires --styio-bin <path>, PAFIO_STYIO_BIN, '' @
         ''a project toolchain pin, or a managed current compiler unless --dry-run is set'')
     | Some binary \<Rightarrow>
       io_try rt as_json command (probe_clauses @ [tool_clause]) (CheckCompilerCompatibility env binary) (\<lambda>report.
       if 1 \<notin> set (cr_supported_compile_plan_versions report)
       then emit_error rt as_json (command_failure ''ContractError'' kExitContract command
         (''active compatibility matrix does not allow compile-plan v1 '' @ command @ '' for this compiler''))
       else k (Some binary, binary_payload report, Some (cr_compiler_version report)))))"

definition source_payload :: "source_build_result \<Rightarrow> json" where
  "source_payload r = jobject [(''mode'', JString ''build''), (''source_root'', JString (sr_source_root r)),
     (''compiler_binary'', JString (sr_compiler_binary r)), (''source_revision'', JString (sr_source_revision r)),
     (''channel'', JString (sr_channel r)), (''build_mode'', JString (sr_build_mode r)),
     (''fetched'', JBool (sr_fetched r)), (''built'', JBool (sr_built r))]"

definition source_request :: "plan_invocation \<Rightarrow> toolchain_state \<Rightarrow> source_build_request" where
  "source_request p s = \<lparr>sb_manifest_path = rq_manifest_path (pv_request p), sb_channel = ts_channel s,
     sb_build_mode = rq_build_mode (pv_request p), sb_explicit_source_root = sf_source_root (pv_source p),
     sb_source_revision = (if sf_source_revision (pv_source p) \<noteq> None then sf_source_revision (pv_source p)
       else ts_source_revision s),
     sb_allow_fetch = sf_allow_fetch (pv_source p), sb_offline = wf_offline (pv_workflow p),
     sb_assume_yes = sf_assume_yes (pv_source p), sb_non_interactive = sf_non_interactive (pv_source p)\<rparr>"

text \<open>The compiler is built when it has to be, and the project remembers the revision.\<close>

definition source_compiler :: "runtime \<Rightarrow> plan_invocation \<Rightarrow> toolchain_state \<Rightarrow> (fs, ready_compiler) io" where
  "source_compiler rt p s =
     io_bind (EnsureSourceBuiltStyio (rt_env rt) (rt_terminal rt) (source_request p s)) (\<lambda>r.
     io_bind (if ts_source_revision s = Some (sr_source_revision r) then io_return () else
       io_bind (UpdateProjectToolchainState (rt_env rt)
         ((no_update (rq_manifest_path (pv_request p)))\<lparr>tu_source_revision := Some (sr_source_revision r)\<rparr>)) (\<lambda>_. io_return ())) (\<lambda>_.
     io_return (Some (sr_compiler_binary r), source_payload r, Some (sr_source_revision r))))"

definition with_compiler ::
    "runtime \<Rightarrow> bool \<Rightarrow> string \<Rightarrow> plan_invocation \<Rightarrow> toolchain_state \<Rightarrow> (ready_compiler \<Rightarrow> (fs, outcome) io) \<Rightarrow> (fs, outcome) io" where
  "with_compiler rt as_json command p s k =
     (if pv_dry_run p then k (None, JNull, None)
      else if ts_mode s = ''binary''
        then with_binary_compiler rt as_json command (pv_styio_bin p) (rq_manifest_path (pv_request p)) k
      else io_try rt as_json command [manifest_clause, tool_clause, cache_clause] (source_compiler rt p s) k)"

definition plan_entries :: "string \<Rightarrow> plan_result \<Rightarrow> plan_invocation \<Rightarrow> toolchain_state \<Rightarrow> cloud_policy \<Rightarrow> (string \<times> json) list" where
  "plan_entries message plan p s policy =
     [(''message'', JString message), (''manifest_path'', JString (pr_manifest_path plan)),
      (''workspace_root'', JString (pr_workspace_root plan)), (''toolchain_mode'', JString (ts_mode s)),
      (''channel'', JString (ts_channel s)), (''plan_path'', JString (pr_plan_path plan)),
      (''build_root'', JString (pr_build_root plan)), (''artifact_dir'', JString (pr_artifact_dir plan)),
      (''diag_dir'', JString (pr_diag_dir plan)), (''cache_key'', JString (pr_cache_key plan)),
      (''packages'', jnat (pr_package_count plan)),
      (''entry'', jobject [(''package'', JString (pr_entry_package_name plan)),
         (''package_id'', JString (pr_entry_package_id plan)), (''target_kind'', JString (pr_entry_target_kind plan)),
         (''target_name'', JString (pr_entry_target_name plan))]),
      (''profile'', JString (pr_profile_name plan)), (''build_mode'', JString (pr_build_mode plan)),
      (''intent'', JString (rq_intent (pv_request p)))] @ workflow_entries (pv_workflow p) @
     [(''cloud'', SerializeCloudExecutionPolicy policy)]"

subsection \<open>The compiler run\<close>

definition missing_outputs :: "env \<Rightarrow> fs \<Rightarrow> plan_result \<Rightarrow> string list" where
  "missing_outputs env w plan =
     map (\<lambda>(label, path). label @ ''='' @ path)
       (filter (\<lambda>(label, path). \<not> fs_is_directory env w path)
          [(''outputs.build_root'', pr_build_root plan), (''outputs.artifact_dir'', pr_artifact_dir plan),
           (''outputs.diag_dir'', pr_diag_dir plan)] @
        filter (\<lambda>(label, path). \<not> fs_is_regular_file env w path)
          [(''receipt'', path_append (pr_build_root plan) ''receipt.json'')])"

definition ValidateCompilePlanMaterialization :: "env \<Rightarrow> fs \<Rightarrow> plan_result \<Rightarrow> string option" where
  "ValidateCompilePlanMaterialization env w plan =
     (case missing_outputs env w plan of [] \<Rightarrow> None | missing \<Rightarrow> Some (join '', '' missing))"

definition compiler_process :: "string \<Rightarrow> string \<Rightarrow> process_request" where
  "compiler_process binary plan_path = \<lparr>pr_program = binary, pr_args = [''--compile-plan'', plan_path], pr_workdir = None,
     pr_search_path = False, pr_timeout_ms = kExternalProcessBuildTimeout, pr_context = ''compiler compile-plan execution''\<rparr>"

text \<open>The outcome of a run that failed, or what the compiler printed; only text output repeats it.\<close>

definition echoed :: "string \<times> string \<Rightarrow> outcome \<Rightarrow> outcome" where
  "echoed e oc = oc\<lparr>oc_out := fst e @ oc_out oc, oc_err := snd e @ oc_err oc\<rparr>"

definition run_compiler :: "runtime \<Rightarrow> bool \<Rightarrow> string \<Rightarrow> string \<Rightarrow> plan_result \<Rightarrow> (fs, outcome + string \<times> string) io" where
  "run_compiler rt as_json command binary plan =
     io_bind (RunProcess (rt_env rt) RuntimeError (compiler_process binary (pr_plan_path plan))) (\<lambda>r.
     if exit_code r = 127 then io_bind (emit_error rt as_json (command_failure ''CompilerSpawnError'' kExitCompilerSpawn command
         ''compiler failed to execute --compile-plan'')) (\<lambda>oc. io_return (Inl oc))
     else if exit_code r \<noteq> 0 then (let detail = DescribeProcessFailure r in
       io_bind (emit_error rt as_json (command_failure ''CompilerError'' kExitCompiler command
         (''compiler failed for compile-plan '' @ pr_plan_path plan @ (if detail = [] then [] else '': '' @ detail))))
         (\<lambda>oc. io_return (Inl oc)))
     else (let echo = (if as_json then ([], []) else (stdout_text r, stderr_text r)) in (\<lambda>w.
       case ValidateCompilePlanMaterialization (rt_env rt) w plan of
         Some missing \<Rightarrow> io_bind (emit_error rt as_json (command_failure ''CompilerError'' kExitCompiler command
           (''compiler completed but did not materialize compile-plan outputs: '' @ missing)))
           (\<lambda>oc. io_return (Inl (echoed echo oc))) w
       | None \<Rightarrow> (Inr (Inr echo), w))))"

definition spawn_clause :: "exception_class \<times> string \<times> int" where
  "spawn_clause = (XStd, ''CompilerSpawnError'', kExitCompilerSpawn)"

definition report_run ::
    "runtime \<Rightarrow> bool \<Rightarrow> string \<Rightarrow> plan_invocation \<Rightarrow> toolchain_state \<Rightarrow> cloud_policy \<Rightarrow> json \<Rightarrow> plan_result \<Rightarrow>
     outcome + string \<times> string \<Rightarrow> (fs, outcome) io" where
  "report_run rt as_json command p s policy styio plan r = (case r of
      Inl oc \<Rightarrow> io_return oc
    | Inr echo \<Rightarrow> io_bind (emit_success rt as_json ([(''command'', JString command), (''mode'', JString ''execute'')] @
        plan_entries (''completed compiler '' @ command @ '' via compile-plan: '' @ pr_plan_path plan) plan p s policy @
        [(''styio'', styio)])) (\<lambda>oc. io_return (echoed echo oc)))"

definition finish_plan ::
    "runtime \<Rightarrow> bool \<Rightarrow> string \<Rightarrow> plan_invocation \<Rightarrow> toolchain_state \<Rightarrow> cloud_policy \<Rightarrow> ready_compiler \<Rightarrow> plan_result \<Rightarrow>
     (fs, outcome) io" where
  "finish_plan rt as_json command p s policy compiler plan =
     (if pv_dry_run p then emit_success rt as_json ([(''command'', JString command), (''mode'', JString ''dry-run'')] @
        plan_entries (''wrote compile-plan: '' @ pr_plan_path plan) plan p s policy)
      else io_try rt as_json command [spawn_clause] (run_compiler rt as_json command (case_option [] id (fst compiler)) plan)
        (report_run rt as_json command p s policy (fst (snd compiler)) plan))"

definition plan_clauses :: catch_clauses where
  "plan_clauses = project_clauses @ [(XPlan, ''PlanError'', kExitPlan)]"

text \<open>The invocation once it is parsed and the state of the project is loaded.\<close>

definition plan_command :: "runtime \<Rightarrow> bool \<Rightarrow> string \<Rightarrow> plan_invocation \<Rightarrow> toolchain_state \<Rightarrow> (fs, outcome) io" where
  "plan_command rt as_json command parsed s = (let env = rt_env rt;
       p = on_request (with_build_mode s) parsed;
       policy = ResolveCloudExecutionPolicy env (rt_macros rt) s;
       mp = rq_manifest_path (pv_request p) in
     case BuildCloudBuildJobRequest env command (pv_request p) s (invocation_options p) policy of
       Inl (ValidationError message) \<Rightarrow> emit_usage rt as_json command (command @ '' '' @ message)
     | Inl e \<Rightarrow> io_throw e
     | Inr _ \<Rightarrow>
       with_resolve_options rt as_json command mp (pv_workflow p) None (\<lambda>options.
       with_compiler rt as_json command p s (\<lambda>compiler.
       io_try rt as_json command plan_clauses
         (WriteBuildCompilePlan (rt_fuel rt) env (rt_mat rt) ((pv_request p)\<lparr>rq_offline := wf_offline (pv_workflow p),
            rq_vendor_root := ro_vendor_root options, rq_compiler_version := snd (snd compiler)\<rparr>))
         (finish_plan rt as_json command p s policy compiler))))"

definition HandlePlanCommand :: "runtime \<Rightarrow> string \<Rightarrow> string \<Rightarrow> bool \<Rightarrow> bool \<Rightarrow> bool \<Rightarrow> handler" where
  "HandlePlanCommand rt command intent allow_lib allow_bin allow_test args as_json = with_help command args
     (case ParsePlanInvocation command intent allow_lib allow_bin allow_test args of
        Inl e \<Rightarrow> emit_error rt as_json e
      | Inr p \<Rightarrow> io_try rt as_json command [tool_clause]
          (fs_query (\<lambda>w. LoadProjectToolchainState (rt_env rt) w (rq_manifest_path (pv_request p))))
          (plan_command rt as_json command p))"

definition HandleBuild :: "runtime \<Rightarrow> handler" where
  "HandleBuild rt = HandlePlanCommand rt ''build'' ''build'' True True False"

definition HandleRun :: "runtime \<Rightarrow> handler" where
  "HandleRun rt = HandlePlanCommand rt ''run'' ''run'' False True False"

definition HandleTest :: "runtime \<Rightarrow> handler" where
  "HandleTest rt = HandlePlanCommand rt ''test'' ''test'' False False True"

subsection \<open>Cloud jobs\<close>

datatype cloud_subcommand = CloudStatus | CloudPlan

datatype cloud_plan_action = ActionBuild | ActionRun | ActionTest

definition ParseCloudSubcommand :: "string \<Rightarrow> cloud_subcommand option" where
  "ParseCloudSubcommand raw = map_of [(''status'', CloudStatus), (''plan'', CloudPlan)] (NormalizeSetKeyword raw)"

definition ParseCloudPlanAction :: "string \<Rightarrow> cloud_plan_action option" where
  "ParseCloudPlanAction raw =
     map_of [(''build'', ActionBuild), (''run'', ActionRun), (''test'', ActionTest)] (NormalizeSetKeyword raw)"

fun CloudPlanActionName :: "cloud_plan_action \<Rightarrow> string" where
  "CloudPlanActionName ActionBuild = ''build''"
| "CloudPlanActionName ActionRun = ''run''"
| "CloudPlanActionName ActionTest = ''test''"

definition CloudPlanAllowsLibTarget :: "cloud_plan_action \<Rightarrow> bool" where
  "CloudPlanAllowsLibTarget action \<longleftrightarrow> action = ActionBuild"

definition CloudPlanAllowsBinTarget :: "cloud_plan_action \<Rightarrow> bool" where
  "CloudPlanAllowsBinTarget action \<longleftrightarrow> action \<noteq> ActionTest"

definition CloudPlanAllowsTestTarget :: "cloud_plan_action \<Rightarrow> bool" where
  "CloudPlanAllowsTestTarget action \<longleftrightarrow> action = ActionTest"

definition HandleCloudStatus :: "runtime \<Rightarrow> handler" where
  "HandleCloudStatus rt args as_json =
     with_flags rt as_json ''cloud status'' (any_of [json_flag, manifest_flag]) args (no_flags as_json) (\<lambda>f.
     if \<not> cm_json f then emit_usage rt as_json ''cloud status'' ''cloud status currently requires --json''
     else io_attempt rt as_json ''cloud status'' [manifest_clause, tool_clause]
       (io_bind (fs_query (\<lambda>w. LoadProjectToolchainState (rt_env rt) w (manifest_of f))) (\<lambda>s.
        io_lift (EmitSuccess rt (BuildCloudStatusPayload s (ResolveCloudExecutionPolicy (rt_env rt) (rt_macros rt) s)) True))))"

definition cloud_job :: "runtime \<Rightarrow> string \<Rightarrow> plan_invocation \<Rightarrow> (fs, outcome) io" where
  "cloud_job rt name parsed =
     io_bind (fs_query (\<lambda>w. LoadProjectToolchainState (rt_env rt) w (rq_manifest_path (pv_request parsed)))) (\<lambda>s.
     let p = on_request (with_build_mode s) parsed in
     io_bind (io_lift (BuildCloudBuildJobRequest (rt_env rt) name (pv_request p) s (invocation_options p)
       (ResolveCloudExecutionPolicy (rt_env rt) (rt_macros rt) s))) (\<lambda>job.
     emit_success rt True [(''command'', JString ''cloud plan''),
       (''message'', JString (''rendered a control-plane build job request for '' @ name)),
       (''job_request'', BuildCloudBuildJobRequestPayload (rt_env rt) job)]))"

definition HandleCloudPlan :: "runtime \<Rightarrow> handler" where
  "HandleCloudPlan rt args as_json = (let named = (case args of a # rest \<Rightarrow> a = ''--json'' | [] \<Rightarrow> False);
       usage = emit_usage rt as_json ''cloud plan'' in
     if \<not> (as_json \<or> named) then usage ''cloud plan currently requires --json''
     else case (if named then tl args else args) of
       [] \<Rightarrow> usage ''cloud plan requires <build|run|test>''
     | raw # invocation \<Rightarrow> (case ParseCloudPlanAction raw of
         None \<Rightarrow> usage ''cloud plan requires one of: build, run, test''
       | Some action \<Rightarrow> (let name = CloudPlanActionName action in
           case ParsePlanInvocation name name (CloudPlanAllowsLibTarget action) (CloudPlanAllowsBinTarget action)
               (CloudPlanAllowsTestTarget action) invocation of
             Inl e \<Rightarrow> emit_error rt as_json e
           | Inr p \<Rightarrow> io_attempt rt as_json ''cloud plan'' [manifest_clause, tool_clause] (cloud_job rt name p))))"

definition HandleCloud :: "runtime \<Rightarrow> handler" where
  "HandleCloud rt args as_json = with_help ''cloud'' args (case args of
      [] \<Rightarrow> emit_usage rt as_json ''cloud'' ''cloud requires a subcommand''
    | subcommand # rest \<Rightarrow> (case ParseCloudSubcommand (NormalizeSetKeyword subcommand) of
        None \<Rightarrow> emit_usage rt as_json ''cloud''
          (''cloud supports only the '' @ squote ''status'' @ '' and '' @ squote ''plan'' @ '' subcommands'')
      | Some CloudStatus \<Rightarrow> with_help ''cloud'' rest (HandleCloudStatus rt rest as_json)
      | Some CloudPlan \<Rightarrow> with_help ''cloud'' rest (HandleCloudPlan rt rest as_json)))"

end
