(* ===== verification/ToolApp.thy ===== *)
theory ToolApp
  imports Contracts
begin

section \<open>The tool commands\<close>

text \<open>
  \<open>src/PafioApp/ToolApp.cpp\<close>: \<open>install\<close> (a compiler built from source, then managed), \<open>use\<close> and \<open>set\<close>, which change the
  toolchain state of the project, and \<open>tool status\<close>, \<open>tool install\<close>, \<open>tool use\<close> and \<open>tool pin\<close>.
\<close>

subsection \<open>Keywords\<close>

datatype mode_selection = SelectBinary | SelectBuild

datatype set_subject = SubjectChannel | SubjectBuild | SubjectRisk | SubjectLane | SubjectSecurity

definition kToolchainModeSelections :: "(string \<times> mode_selection) list" where
  "kToolchainModeSelections = [(''binary'', SelectBinary), (''build'', SelectBuild)]"

definition kSetSubjects :: "(string \<times> set_subject) list" where
  "kSetSubjects = [(''channel'', SubjectChannel), (''build'', SubjectBuild), (''risk'', SubjectRisk),
     (''lane'', SubjectLane), (''security'', SubjectSecurity)]"

definition ParseNamedEnum :: "string \<Rightarrow> (string \<times> 'a) list \<Rightarrow> 'a option" where
  "ParseNamedEnum raw entries = map_of entries (NormalizeSetKeyword raw)"

definition ParseToolchainModeSelection :: "string \<Rightarrow> mode_selection option" where
  "ParseToolchainModeSelection raw = ParseNamedEnum raw kToolchainModeSelections"

fun ToolchainModeSelectionName :: "mode_selection \<Rightarrow> string" where
  "ToolchainModeSelectionName SelectBinary = ''binary''"
| "ToolchainModeSelectionName SelectBuild = ''build''"

definition ParseSetSubject :: "string \<Rightarrow> set_subject option" where
  "ParseSetSubject raw = ParseNamedEnum raw kSetSubjects"

fun SetSubjectName :: "set_subject \<Rightarrow> string" where
  "SetSubjectName SubjectChannel = ''channel''"
| "SetSubjectName SubjectBuild = ''build''"
| "SetSubjectName SubjectRisk = ''risk''"
| "SetSubjectName SubjectLane = ''lane''"
| "SetSubjectName SubjectSecurity = ''security''"

definition BuildProjectToolchainStatePayload ::
    "string \<Rightarrow> string \<Rightarrow> toolchain_state \<Rightarrow> cloud_policy \<Rightarrow> (string \<times> json) list" where
  "BuildProjectToolchainStatePayload command message s policy =
     [(''command'', JString command), (''message'', JString message), (''manifest_path'', JString (ts_manifest_path s)),
      (''toolchain_state_path'', JString (ts_state_path s)), (''mode'', JString (ts_mode s)),
      (''channel'', JString (ts_channel s)), (''build_mode'', JString (ts_build_mode s)),
      (''risk_class'', JString (ts_risk_class s)), (''execution_lane'', JString (ts_lane s)),
      (''security_profile'', JString (ts_security s)), (''cloud'', SerializeCloudExecutionPolicy policy)] @
     optional_json ''source_revision'' JString (ts_source_revision s)"

subsection \<open>Installing a compiler from source\<close>

text \<open>The part of the argument before the first \<open>@\<close>, and the part after it.\<close>

definition install_target :: "string \<Rightarrow> string \<times> string" where
  "install_target target = (case find_char CHR ''@'' target of
      None \<Rightarrow> (target, ''latest'')
    | Some i \<Rightarrow> (take i target, drop (i + 1) target))"

definition default_install :: source_build_request where
  "default_install = \<lparr>sb_manifest_path = ''pafio.toml'', sb_channel = ''stable'', sb_build_mode = ''minimal'',
     sb_explicit_source_root = None, sb_source_revision = None, sb_allow_fetch = True, sb_offline = False,
     sb_assume_yes = True, sb_non_interactive = True\<rparr>"

definition install_channel :: "string \<Rightarrow> source_build_request \<Rightarrow> string + source_build_request" where
  "install_channel v rq = (if VocabularyContains (NormalizeSetKeyword v) kSupportedChannels
     then Inr (rq\<lparr>sb_channel := NormalizeSetKeyword v\<rparr>) else Inl ''--channel must be stable or nightly'')"

definition install_build :: "string \<Rightarrow> source_build_request \<Rightarrow> string + source_build_request" where
  "install_build v rq = (if VocabularyContains (NormalizeSetKeyword v) kSupportedBuildModes
     then Inr (rq\<lparr>sb_build_mode := NormalizeSetKeyword v\<rparr>) else Inl ''--build must be minimal'')"

definition install_flag :: "source_build_request flag_spec" where
  "install_flag = any_of
     [option_named ''--source-root'' (put_value (\<lambda>v rq. rq\<lparr>sb_explicit_source_root := Some v\<rparr>)),
      option_named ''--source-rev'' (put_value (\<lambda>v rq. rq\<lparr>sb_source_revision := Some v\<rparr>)),
      option_named ''--channel'' (Argument install_channel), option_named ''--build'' (Argument install_build),
      option_named ''--yes'' (Switch (\<lambda>rq. rq\<lparr>sb_assume_yes := True, sb_non_interactive := True\<rparr>)),
      option_named ''--no-fetch'' (Switch (\<lambda>rq. rq\<lparr>sb_allow_fetch := False\<rparr>)),
      option_named ''--offline'' (Switch (\<lambda>rq. rq\<lparr>sb_offline := True, sb_allow_fetch := False\<rparr>)),
      option_named ''--non-interactive'' (Switch (\<lambda>rq. rq\<lparr>sb_non_interactive := True\<rparr>))]"

definition install_revision :: "env \<Rightarrow> string \<Rightarrow> source_build_request \<Rightarrow> source_build_request" where
  "install_revision env requested rq = (case sb_source_revision rq of
      Some _ \<Rightarrow> rq
    | None \<Rightarrow> rq\<lparr>sb_source_revision := Some (if requested \<noteq> ''latest'' then requested
        else case nonempty_env env ''PAFIO_STYIO_SOURCE_REF'' of Some ref \<Rightarrow> ref | None \<Rightarrow> ''main'')\<rparr>)"

definition compiler_entries :: "compatibility_report \<Rightarrow> (string \<times> json) list" where
  "compiler_entries r = [(''compiler_version'', JString (cr_compiler_version r)), (''channel'', JString (cr_compiler_channel r)),
     (''edition_max'', JString (cr_compiler_edition_max r)), (''integration_phase'', JString (cr_integration_phase r)),
     (''supported_compile_plan_versions'', jints (cr_supported_compile_plan_versions r)),
     (''capabilities'', jstrings (cr_capabilities r))]"

definition install_from_source :: "runtime \<Rightarrow> bool \<Rightarrow> string \<Rightarrow> source_build_request \<Rightarrow> (fs, outcome) io" where
  "install_from_source rt as_json requested rq =
     io_bind (EnsureSourceBuiltStyio (rt_env rt) (rt_terminal rt) rq) (\<lambda>built.
     io_bind (InstallManagedStyio (rt_env rt) (sr_compiler_binary built)) (\<lambda>inst.
     emit_success rt as_json ([(''command'', JString ''install''),
       (''message'', JString (''installed styio '' @ requested @ '': '' @ ti_managed_binary_path inst)),
       (''package'', JString ''styio''), (''requested'', JString requested),
       (''build_mode'', JString (sr_build_mode built)), (''source_root'', JString (sr_source_root built)),
       (''source_revision'', JString (sr_source_revision built)), (''source_fetched'', JBool (sr_fetched built)),
       (''source_built'', JBool (sr_built built)), (''compiler_binary'', JString (sr_compiler_binary built)),
       (''pafio_home'', JString (ti_pafio_home inst)), (''install_root'', JString (ti_install_root inst)),
       (''install_binary_path'', JString (ti_install_binary_path inst)),
       (''managed_binary_path'', JString (ti_managed_binary_path inst))] @ compiler_entries (ti_report inst))))"

definition HandleInstall :: "runtime \<Rightarrow> handler" where
  "HandleInstall rt args as_json = with_help ''install'' args (case args of
      [] \<Rightarrow> emit_usage rt as_json ''install'' ''install requires styio[@latest]''
    | target # rest \<Rightarrow> (case install_target target of (tool, requested) \<Rightarrow>
        if tool \<noteq> ''styio'' \<or> requested = [] then emit_usage rt as_json ''install'' ''install supports only styio[@latest]''
        else with_flags rt as_json ''install'' install_flag rest default_install (\<lambda>rq.
          io_attempt rt as_json ''install'' ([manifest_clause, tool_clause] @ probe_clauses @ [cache_clause])
            (install_from_source rt as_json requested (install_revision (rt_env rt) requested rq)))))"

subsection \<open>The toolchain state of a project\<close>

definition update_state :: "runtime \<Rightarrow> bool \<Rightarrow> string \<Rightarrow> toolchain_update \<Rightarrow> (toolchain_state \<Rightarrow> string) \<Rightarrow> (fs, outcome) io" where
  "update_state rt as_json command u message = io_attempt rt as_json command [manifest_clause, tool_clause]
     (io_bind (UpdateProjectToolchainState (rt_env rt) u) (\<lambda>s.
      emit_success rt as_json (BuildProjectToolchainStatePayload command (message s) s
        (ResolveCloudExecutionPolicy (rt_env rt) (rt_macros rt) s))))"

definition HandleUse :: "runtime \<Rightarrow> handler" where
  "HandleUse rt args as_json = with_help ''use'' args (case args of
      [] \<Rightarrow> emit_usage rt as_json ''use'' ''use requires <binary|build>''
    | keyword # rest \<Rightarrow> (case ParseToolchainModeSelection keyword of
        None \<Rightarrow> emit_usage rt as_json ''use'' ''use requires <binary|build>''
      | Some mode \<Rightarrow> with_flags rt as_json ''use'' manifest_flag rest (no_flags as_json) (\<lambda>f.
          update_state rt as_json ''use''
            ((no_update (manifest_of f))\<lparr>tu_mode := Some (ToolchainModeSelectionName mode)\<rparr>)
            (\<lambda>s. ''set project toolchain mode to '' @ ts_mode s))))"

fun subject_update :: "set_subject \<Rightarrow> string \<Rightarrow> toolchain_update \<Rightarrow> toolchain_update" where
  "subject_update SubjectChannel v u = u\<lparr>tu_channel := Some v\<rparr>"
| "subject_update SubjectBuild v u = u\<lparr>tu_build_mode := Some v\<rparr>"
| "subject_update SubjectRisk v u = u\<lparr>tu_risk_class := Some v\<rparr>"
| "subject_update SubjectLane v u = u\<lparr>tu_lane := Some v\<rparr>"
| "subject_update SubjectSecurity v u = u\<lparr>tu_security := Some v\<rparr>"

definition set_value :: "runtime \<Rightarrow> bool \<Rightarrow> set_subject \<Rightarrow> string list \<Rightarrow> (fs, outcome) io" where
  "set_value rt as_json subject args = (case args of
      [] \<Rightarrow> emit_usage rt as_json ''set'' ''set requires a value after the subject''
    | raw # rest \<Rightarrow> with_flags rt as_json ''set'' manifest_flag rest (no_flags as_json) (\<lambda>f.
        let v = NormalizeSetKeyword raw in
        update_state rt as_json ''set'' (subject_update subject v (no_update (manifest_of f)))
          (\<lambda>s. ''updated project '' @ SetSubjectName subject @ '' to '' @ v)))"

definition HandleSet :: "runtime \<Rightarrow> handler" where
  "HandleSet rt args as_json = with_help ''set'' args (case args of
      keyword # a # rest \<Rightarrow> (case ParseSetSubject keyword of
        None \<Rightarrow> emit_usage rt as_json ''set'' (''set supports only '' @ squote ''channel'' @ '', '' @ squote ''build'' @ '', '' @
          squote ''risk'' @ '', '' @ squote ''lane'' @ '', or '' @ squote ''security'')
      | Some subject \<Rightarrow> set_value rt as_json subject (if NormalizeSetKeyword a = ''as'' then rest else a # rest))
    | _ \<Rightarrow> emit_usage rt as_json ''set'' ''set requires a subject and value'')"

subsection \<open>Managed compilers\<close>

definition tool_status :: "runtime \<Rightarrow> string option \<Rightarrow> (fs, outcome) io" where
  "tool_status rt mp = (let env = rt_env rt in
     io_bind (case mp of None \<Rightarrow> io_return None
       | Some m \<Rightarrow> io_bind (fs_query (\<lambda>w. LoadManifest env w m)) (\<lambda>_.
           io_bind (fs_query (\<lambda>w. LoadProjectToolchainState env w m)) (\<lambda>s. io_return (Some s)))) (\<lambda>state.
     io_bind (fs_query (\<lambda>w. QueryToolStatus env w mp)) (\<lambda>status.
     emit_success rt True (BuildToolStatusPayload status state
       (map_option (ResolveCloudExecutionPolicy env (rt_macros rt)) state)))))"

definition HandleToolStatus :: "runtime \<Rightarrow> handler" where
  "HandleToolStatus rt args as_json =
     with_flags rt as_json ''tool status'' (any_of [json_flag, manifest_flag]) args (no_flags as_json) (\<lambda>f.
     if \<not> cm_json f then emit_usage rt as_json ''tool status'' ''tool status currently requires --json''
     else io_attempt rt as_json ''tool status'' [manifest_clause, tool_clause] (tool_status rt (cm_manifest_path f)))"

definition tool_help :: "string list \<Rightarrow> string \<Rightarrow> (fs, outcome) io \<Rightarrow> (fs, outcome) io" where
  "tool_help args usage k = (if args = [''--help''] then io_return (printed (usage @ nl)) else k)"

definition tool_clauses :: catch_clauses where
  "tool_clauses = tool_clause # probe_clauses @ [cache_clause]"

definition HandleToolInstall :: "runtime \<Rightarrow> handler" where
  "HandleToolInstall rt args as_json = tool_help args ''usage: pafio tool install --styio-bin <path>''
     (with_flags rt as_json ''tool install'' styio_bin_flag args (no_flags as_json) (\<lambda>f. case cm_styio_bin f of
       None \<Rightarrow> emit_usage rt as_json ''tool install'' ''tool install requires --styio-bin <path>''
     | Some binary \<Rightarrow> io_attempt rt as_json ''tool install'' tool_clauses
         (io_bind (InstallManagedStyio (rt_env rt) binary) (\<lambda>r.
          emit_success rt as_json ([(''command'', JString ''tool install''),
            (''message'', JString (''installed managed styio compiler: '' @ ti_managed_binary_path r)),
            (''source_binary'', JString (ti_source_binary r)), (''pafio_home'', JString (ti_pafio_home r)),
            (''install_root'', JString (ti_install_root r)), (''install_binary_path'', JString (ti_install_binary_path r)),
            (''install_metadata_path'', JString (ti_install_metadata_path r)), (''current_root'', JString (ti_current_root r)),
            (''managed_binary_path'', JString (ti_managed_binary_path r)),
            (''current_metadata_path'', JString (ti_current_metadata_path r))] @ compiler_entries (ti_report r))))))"

definition HandleToolUse :: "runtime \<Rightarrow> handler" where
  "HandleToolUse rt args as_json =
     tool_help args ''usage: pafio tool use --version <compiler-version> [--channel <channel>]''
     (with_flags rt as_json ''tool use'' (any_of [version_flag, channel_flag]) args (no_flags as_json) (\<lambda>f. case cm_version f of
       None \<Rightarrow> emit_usage rt as_json ''tool use'' ''tool use requires --version <compiler-version>''
     | Some version \<Rightarrow> io_attempt rt as_json ''tool use'' tool_clauses
         (io_bind (UseManagedStyio (rt_env rt) \<lparr>tu_compiler_version = version, tu_compiler_channel = cm_channel f\<rparr>) (\<lambda>r.
          emit_success rt as_json ([(''command'', JString ''tool use''),
            (''message'', JString (''activated managed styio compiler: '' @ ur_managed_binary_path r)),
            (''pafio_home'', JString (ur_pafio_home r)), (''install_root'', JString (ur_install_root r)),
            (''install_binary_path'', JString (ur_install_binary_path r)),
            (''install_metadata_path'', JString (ur_install_metadata_path r)), (''current_root'', JString (ur_current_root r)),
            (''managed_binary_path'', JString (ur_managed_binary_path r)),
            (''current_metadata_path'', JString (ur_current_metadata_path r))] @ compiler_entries (ur_report r))))))"

text \<open>A pin that was written names its compiler; the options are read as the code dereferences them.\<close>

definition pin_payload :: "tool_pin_result \<Rightarrow> (string \<times> json) list" where
  "pin_payload r = (if tp_cleared r
     then [(''command'', JString ''tool pin''), (''message'', JString (''cleared project toolchain pin: '' @ tp_pin_path r)),
       (''manifest_path'', JString (tp_manifest_path r)), (''pin_path'', JString (tp_pin_path r)), (''mode'', JString ''clear'')]
     else (let version = case_option [] id (tp_compiler_version r); channel = case_option [] id (tp_compiler_channel r) in
       [(''command'', JString ''tool pin''),
        (''message'', JString (''pinned project compiler to managed styio '' @ channel @ ''/'' @ version)),
        (''manifest_path'', JString (tp_manifest_path r)), (''pin_path'', JString (tp_pin_path r)),
        (''mode'', JString ''write''), (''compiler_version'', JString version), (''channel'', JString channel),
        (''install_root'', JString (case_option [] id (tp_install_root r))),
        (''install_binary_path'', JString (case_option [] id (tp_install_binary_path r)))]))"

definition HandleToolPin :: "runtime \<Rightarrow> handler" where
  "HandleToolPin rt args as_json = (let usage = emit_usage rt as_json ''tool pin'' in
     tool_help args ''usage: pafio tool pin (--version <compiler-version> [--channel <channel>] | --clear) [--manifest-path <path>]''
     (with_flags rt as_json ''tool pin'' (any_of [manifest_flag, version_flag, channel_flag, switch_flag ''--clear'']) args
        (no_flags as_json) (\<lambda>f.
      if cm_switch f \<and> cm_version f \<noteq> None then usage ''tool pin cannot combine --clear and --version''
      else if cm_switch f \<and> cm_channel f \<noteq> None then usage ''tool pin cannot combine --clear and --channel''
      else if \<not> cm_switch f \<and> cm_version f = None
        then usage ''tool pin requires --version <compiler-version> unless --clear is set''
      else io_attempt rt as_json ''tool pin'' ([manifest_clause, tool_clause] @ probe_clauses @ [cache_clause])
        (io_bind (PinManagedStyio (rt_env rt) \<lparr>tq_manifest_path = manifest_of f, tq_compiler_version = cm_version f,
            tq_compiler_channel = cm_channel f, tq_clear = cm_switch f\<rparr>) (\<lambda>r.
         emit_success rt as_json (pin_payload r))))))"

end
