(* ===== verification/PackageApp.thy ===== *)
theory PackageApp
  imports Contracts Vendor Publish
begin

section \<open>The package commands\<close>

text \<open>
  \<open>src/PafioApp/PackageApp.cpp\<close>: creating a project, editing and fetching its dependencies, the lockfile and tree
  commands, \<open>vendor\<close>, \<open>pack\<close>, \<open>publish\<close> (a dry run, a static registry root through \<open>registry-v2-publish.py\<close>, or the
  control plane through \<open>curl\<close>), and the registry trust pins.
\<close>

subsection \<open>Publishing to a registry\<close>

definition NormalizeRegistryRootValue :: "string \<Rightarrow> string" where
  "NormalizeRegistryRootValue v = pop_back_while (\<lambda>c. c = slash) v"

definition ParseJsonObjectText :: "env \<Rightarrow> string \<Rightarrow> string \<Rightarrow> json result" where
  "ParseJsonObjectText env content context = (case json_parse (env_json env) content of
      Inl _ \<Rightarrow> Inl (PublishError (context @ '' did not emit valid JSON''))
    | Inr payload \<Rightarrow> if is_object payload then Inr payload
        else Inl (PublishError (context @ '' must emit a top-level JSON object'')))"

definition RegistryV2KeyDirectory :: "env \<Rightarrow> string result" where
  "RegistryV2KeyDirectory env = (case ResolveOptionalPafioHome env of
      None \<Rightarrow> Inl (PublishError ''unable to resolve PAFIO_HOME for registry v2 signing keys: set PAFIO_HOME or HOME'')
    | Some home \<Rightarrow> Inr (path_append (path_append (RegistryServerRoot env home) ''v2'') ''keys''))"

definition publish_process :: "string \<Rightarrow> string list \<Rightarrow> string \<Rightarrow> process_request" where
  "publish_process program args context = \<lparr>pr_program = program, pr_args = args, pr_workdir = None, pr_search_path = True,
     pr_timeout_ms = kExternalProcessStepTimeout, pr_context = context\<rparr>"

definition project_script :: "env \<Rightarrow> string \<Rightarrow> string" where
  "project_script env name = path_append (path_append (env_project_root env) ''scripts'') name"

definition EnsureRegistryV2KeyDirectory :: "env \<Rightarrow> string \<Rightarrow> (fs, unit) io" where
  "EnsureRegistryV2KeyDirectory env key_dir = (\<lambda>w.
     if fs_exists env w (path_append key_dir ''keys.json'') then (Inr (), w) else
     io_bind (RunProcess env PublishError (publish_process ''python3''
         [project_script env ''registry-v2-keygen.py'', ''--output-dir'', key_dir] ''registry v2 key generation'')) (\<lambda>r.
     io_guard (exit_code r = 0) (PublishError (''failed to initialize registry v2 signing keys: '' @ DescribeProcessFailure r))) w)"

definition RunRegistryV2FilesystemPublish :: "env \<Rightarrow> string \<Rightarrow> publish_result \<Rightarrow> (fs, json) io" where
  "RunRegistryV2FilesystemPublish env registry_root candidate =
     io_bind (io_lift (RegistryV2KeyDirectory env)) (\<lambda>key_dir.
     io_bind (EnsureRegistryV2KeyDirectory env key_dir) (\<lambda>_.
     io_bind (RunProcess env PublishError (publish_process ''python3''
         [project_script env ''registry-v2-publish.py'', ''--root'', registry_root, ''--key-dir'', key_dir,
          ''--archive-path'', pb_archive_path candidate, ''--publisher-id'', ''pafio-cli''] ''registry v2 publish'')) (\<lambda>r.
     io_bind (io_guard (exit_code r = 0) (PublishError (''registry v2 filesystem publish failed: '' @ DescribeProcessFailure r))) (\<lambda>_.
     io_lift (ParseJsonObjectText env (stdout_text r) ''registry v2 publish'')))))"

definition RegistryControlPlaneBaseUrl :: "string \<Rightarrow> string" where
  "RegistryControlPlaneBaseUrl registry_root = (let root = NormalizeRegistryRootValue registry_root in
     if ends_with root ''/api/pafio-registry-control/v1'' then root else root @ ''/api/pafio-registry-control/v1'')"

text \<open>The reason a failure envelope gives, from the most specific field on.\<close>

definition envelope_detail :: "json \<Rightarrow> string result" where
  "envelope_detail envelope =
     rbind (case jget ''error_payload'' envelope of
         Some (JObject kvs) \<Rightarrow> json_value_string (JObject kvs) ''detail'' []
       | _ \<Rightarrow> Inr []) (\<lambda>detail.
     rbind (if detail = [] then json_value_string envelope ''stderr'' [] else Inr detail) (\<lambda>detail.
     if detail = [] then json_value_string envelope ''message'' ''registry control-plane returned a failure envelope''
     else Inr detail))"

definition open_envelope :: "env \<Rightarrow> json \<Rightarrow> json result" where
  "open_envelope env envelope =
     rbind (json_value_int env envelope ''returncode'' (- 1)) (\<lambda>code.
     if code \<noteq> 0 then rbind (envelope_detail envelope) (\<lambda>detail.
       Inl (PublishError (''registry control-plane publish failed: '' @ detail)))
     else case jget ''payload'' envelope of
       Some (JObject kvs) \<Rightarrow> Inr (JObject kvs)
     | _ \<Rightarrow> Inl (PublishError ''registry control-plane publish response is missing payload''))"

definition RunRegistryV2ControlPlanePublish :: "env \<Rightarrow> string \<Rightarrow> string list \<Rightarrow> publish_result \<Rightarrow> (fs, json) io" where
  "RunRegistryV2ControlPlanePublish env registry_root request_headers candidate =
     io_bind (io_lift (dump_json env (- 1) (jobject [(''archive_path'', JString (pb_archive_path candidate)),
       (''publisher_id'', JString ''pafio-cli'')]))) (\<lambda>body.
     io_bind (RunProcess env PublishError (publish_process ''curl''
         ([''-fsS'', ''-X'', ''POST'', RegistryControlPlaneBaseUrl registry_root @ ''/publish'', ''-H'',
           ''Content-Type: application/json''] @ concat (map (\<lambda>h. [''-H'', h]) request_headers) @ [''--data'', body])
         ''registry control-plane publish request'')) (\<lambda>r.
     io_bind (io_guard (exit_code r = 0) (PublishError (''registry control-plane publish request failed: '' @
       DescribeProcessFailure r))) (\<lambda>_.
     io_lift (rbind (ParseJsonObjectText env (stdout_text r) ''registry control-plane publish response'')
       (open_envelope env)))))"

text \<open>\<open>at\<close> throws for a missing key; \<open>value\<close> with a boolean default throws for another type.\<close>

definition json_at :: "json \<Rightarrow> string \<Rightarrow> json result" where
  "json_at j key = (case jget key j of None \<Rightarrow> Inl (RuntimeError ''json out_of_range'') | Some v \<Rightarrow> Inr v)"

definition json_at_string :: "json \<Rightarrow> string \<Rightarrow> string result" where
  "json_at_string j key = rbind (json_at j key) (\<lambda>v. json_string (Some v))"

definition json_value_bool :: "json \<Rightarrow> string \<Rightarrow> bool \<Rightarrow> bool result" where
  "json_value_bool j key d = (if \<not> is_object j then Inl type_error
     else case jget key j of None \<Rightarrow> Inr d | Some (JBool b) \<Rightarrow> Inr b | Some _ \<Rightarrow> Inl type_error)"

definition candidate_entries :: "publish_result \<Rightarrow> (string \<times> json) list" where
  "candidate_entries c = [(''manifest_path'', JString (pb_manifest_path c)), (''package_root'', JString (pb_package_root c)),
     (''archive_path'', JString (pb_archive_path c)), (''package'', JString (pb_package_name c)),
     (''version'', JString (pb_package_version c)), (''dependencies'', jnat (pb_dependency_count c)),
     (''dev_dependencies'', jnat (pb_dev_dependency_count c))]"

definition sequence_entries :: "env \<Rightarrow> json \<Rightarrow> (string \<times> json) list result" where
  "sequence_entries env p =
     rbind (json_value_bool p ''created_root'' False) (\<lambda>created.
     rbind (rmap (\<lambda>key. rbind (json_value_int env p key 0) (\<lambda>n. Inr (key, JInt n)))
       [''sequence'', ''checkpoint_version'', ''snapshot_version'', ''timestamp_version'']) (\<lambda>numbers.
     Inr ((''created_root'', JBool created) # numbers)))"

definition archive_entries :: "json \<Rightarrow> (string \<times> json) list result" where
  "archive_entries p = rmap (\<lambda>(key, name). rbind (json_at p key) (\<lambda>v. Inr (name, v)))
     [(''archive_sha256'', ''sha256''), (''archive_size_bytes'', ''size_bytes''), (''published_at'', ''published_at'')]"

definition BuildFilesystemPublishPayload :: "env \<Rightarrow> publish_result \<Rightarrow> string \<Rightarrow> json \<Rightarrow> (string \<times> json) list result" where
  "BuildFilesystemPublishPayload env candidate registry_root p =
     rbind (json_at_string p ''index_path'') (\<lambda>index_path.
     rbind (json_at_string p ''artifact_path'') (\<lambda>artifact_path.
     rbind (json_at_string p ''log_leaf_path'') (\<lambda>log_leaf_path.
     rbind (sequence_entries env p) (\<lambda>sequence.
     rbind (archive_entries p) (\<lambda>archive.
     Inr ([(''command'', JString ''publish''), (''mode'', JString ''publish''), (''transport'', JString ''filesystem''),
       (''registry_protocol'', JString ''v2''),
       (''message'', JString (''published package into registry v2 static root: '' @ path_append registry_root index_path))] @
       candidate_entries candidate @
       [(''registry_root'', JString registry_root),
        (''registry_config_path'', JString (path_append registry_root ''config.json'')),
        (''registry_index_path'', JString (path_append registry_root index_path)),
        (''registry_artifact_path'', JString (path_append registry_root artifact_path)),
        (''registry_log_leaf_path'', JString (path_append registry_root log_leaf_path))] @ sequence @ archive))))))"

definition BuildHttpPublishPayload ::
    "env \<Rightarrow> publish_result \<Rightarrow> string \<Rightarrow> write_decision \<Rightarrow> json \<Rightarrow> (string \<times> json) list result" where
  "BuildHttpPublishPayload env candidate registry_root security p =
     rbind (rmap (\<lambda>(key, name). rbind (json_at p key) (\<lambda>v. Inr (name, v)))
       [(''index_path'', ''registry_index_path''), (''artifact_path'', ''registry_artifact_path''),
        (''log_leaf_path'', ''registry_log_leaf_path'')]) (\<lambda>paths.
     rbind (sequence_entries env p) (\<lambda>sequence.
     rbind (archive_entries p) (\<lambda>archive.
     Inr ([(''command'', JString ''publish''), (''mode'', JString ''publish''), (''transport'', JString ''http''),
       (''registry_protocol'', JString ''v2''), (''message'', JString (''published package through registry v2 control plane: '' @
         RegistryControlPlaneBaseUrl registry_root @ ''/publish''))] @ candidate_entries candidate @
       [(''registry_root'', JString (NormalizeRegistryRootValue registry_root)),
        (''control_plane_base_url'', JString (RegistryControlPlaneBaseUrl registry_root)),
        (''publish_endpoint'', JString (RegistryControlPlaneBaseUrl registry_root @ ''/publish''))] @ paths @ sequence @
       [(''registry_security_provider'', JString (wd_provider_name security)),
        (''registry_write_security_mode'', JString (wd_mode security)),
        (''registry_header_count'', jnat (length (wd_request_headers security)))] @ archive @
       optional_json ''registry_profile'' JString (wd_profile_name security)))))"

definition WriteCanonicalLockfile :: "env \<Rightarrow> string \<Rightarrow> string \<Rightarrow> (fs, unit) io" where
  "WriteCanonicalLockfile env lockfile_path rendered =
     fs_write env lockfile_path rendered (RuntimeError (''failed to open lockfile for write: '' @ lockfile_path))"

end
