(* ===== verification/PackageCommands.thy ===== *)
theory PackageCommands
  imports PackageApp
begin

section \<open>The handlers of the package commands\<close>

text \<open>\<open>src/PafioApp/PackageApp.cpp\<close>, from \<open>HandleNew\<close> to \<open>HandleRegistry\<close>.\<close>

subsection \<open>New projects\<close>

definition any_exception :: catch_clauses where
  "any_exception = [(XStd, ''UsageError'', kExitUsage)]"

text \<open>The directory a new project gets when none is named: the part of the name after the first slash.\<close>

definition default_directory :: "string \<Rightarrow> string" where
  "default_directory name = (case find_char slash name of None \<Rightarrow> name | Some i \<Rightarrow> drop (i + 1) name)"

definition split_directory :: "string \<Rightarrow> string list \<Rightarrow> string \<times> string list" where
  "split_directory name args = (case args of
      a # rest \<Rightarrow> if starts_with a ''--'' then (default_directory name, args) else (a, rest)
    | [] \<Rightarrow> (default_directory name, []))"

definition create_project ::
    "runtime \<Rightarrow> bool \<Rightarrow> string \<Rightarrow> string \<Rightarrow> string \<Rightarrow> string \<Rightarrow> (string \<times> json) list \<Rightarrow> (fs, outcome) io" where
  "create_project rt as_json command name root kind payload =
     io_try rt as_json command any_exception (InitializeProject (rt_env rt) name root kind) (\<lambda>_.
     emit_success rt as_json payload)"

definition HandleNew :: "runtime \<Rightarrow> handler" where
  "HandleNew rt args as_json = with_help ''new'' args (case args of
      [] \<Rightarrow> emit_usage rt as_json ''new'' ''new requires a package name''
    | name # rest \<Rightarrow> (case split_directory name rest of (directory, rest) \<Rightarrow>
        (case KindFromFlags ''bin'' rest of (kind, left) \<Rightarrow>
         if left \<noteq> [] then emit_usage rt as_json ''new'' ''unexpected arguments for new''
         else create_project rt as_json ''new'' name directory kind
           [(''command'', JString ''new''), (''message'', JString (''initialized project at '' @ directory)),
            (''root'', JString (absolute (env_cwd (rt_env rt)) directory))])))"

text \<open>The leading \<open>--name\<close> options; the last one counts.\<close>

fun init_name :: "string option \<Rightarrow> string list \<Rightarrow> command_error + string option \<times> string list" where
  "init_name name (a # b # args) = (if a = ''--name'' then init_name (Some b) args else Inr (name, a # b # args))"
| "init_name name [a] = (if a = ''--name'' then Inl (usage_error ''init'' ''--name requires a value'') else Inr (name, [a]))"
| "init_name name [] = Inr (name, [])"

definition HandleInit :: "runtime \<Rightarrow> handler" where
  "HandleInit rt args as_json = with_help ''init'' args (case init_name None args of
      Inl e \<Rightarrow> emit_error rt as_json e
    | Inr (name, rest) \<Rightarrow> (case KindFromFlags ''bin'' rest of (kind, left) \<Rightarrow>
        if left \<noteq> [] then emit_usage rt as_json ''init'' ''unexpected arguments for init''
        else (let root = env_cwd (rt_env rt);
                  package_name = (case name of Some n \<Rightarrow> n | None \<Rightarrow> InferLocalPackageName root) in
          create_project rt as_json ''init'' package_name root kind
            [(''command'', JString ''init''), (''message'', JString (''initialized project in '' @ root)),
             (''root'', JString (absolute root root)), (''package'', JString package_name)])))"

subsection \<open>Dependencies\<close>

definition edit_clauses :: catch_clauses where
  "edit_clauses = manifest_clause # source_clauses"

record add_flags =
  af_request :: add_request
  af_saw_source :: bool

definition on_add :: "(add_request \<Rightarrow> add_request) \<Rightarrow> add_flags \<Rightarrow> add_flags" where
  "on_add f s = s\<lparr>af_request := f (af_request s)\<rparr>"

definition source_flag :: "string \<Rightarrow> (add_request \<Rightarrow> add_request) \<Rightarrow> add_flags flag_spec" where
  "source_flag name f = option_named name (Argument (\<lambda>v s.
     if af_saw_source s then Inl ''add accepts exactly one dependency source''
     else Inr ((on_add (\<lambda>rq. f (rq\<lparr>ar_source := v\<rparr>)) s)\<lparr>af_saw_source := True\<rparr>)))"

definition add_flag :: "add_flags flag_spec" where
  "add_flag = any_of
     [option_named ''--manifest-path'' (put_value (\<lambda>v. on_add (\<lambda>rq. rq\<lparr>ar_manifest_path := v\<rparr>))),
      option_named ''--alias'' (put_value (\<lambda>v. on_add (\<lambda>rq. rq\<lparr>ar_alias := Some v\<rparr>))),
      option_named ''--dev'' (Switch (on_add (\<lambda>rq. rq\<lparr>ar_section := kDevDependencies\<rparr>))),
      source_flag ''--path'' (\<lambda>rq. rq\<lparr>ar_use_git := False\<rparr>), source_flag ''--git'' (\<lambda>rq. rq\<lparr>ar_use_git := True\<rparr>),
      source_flag ''--registry'' (\<lambda>rq. rq\<lparr>ar_use_registry := True\<rparr>),
      option_named ''--rev'' (put_value (\<lambda>v. on_add (\<lambda>rq. rq\<lparr>ar_rev := Some v\<rparr>))),
      option_named ''--version'' (put_value (\<lambda>v. on_add (\<lambda>rq. rq\<lparr>ar_version := Some v\<rparr>)))]"

definition default_add :: "string \<Rightarrow> add_flags" where
  "default_add name = \<lparr>af_request = \<lparr>ar_manifest_path = ''pafio.toml'', ar_package_name = name, ar_alias = None,
     ar_section = kDependencies, ar_use_git = False, ar_use_registry = False, ar_source = [], ar_rev = None,
     ar_version = None\<rparr>, af_saw_source = False\<rparr>"

definition edit_entries :: "string \<Rightarrow> dependency_result \<Rightarrow> (string \<times> json) list" where
  "edit_entries message r = [(''message'', JString message), (''manifest_path'', JString (dc_manifest_path r)),
     (''lockfile_path'', JString (dc_lockfile_path r)), (''alias'', JString (dc_alias r)),
     (''package'', JString (dc_package_name r)), (''section'', JString (DependencySectionName (dc_section r))),
     (''packages'', jnat (dc_package_count r))]"

definition add_source_kind :: "add_request \<Rightarrow> string" where
  "add_source_kind rq = (if ar_use_git rq then ''git'' else if ar_use_registry rq then ''registry'' else ''path'')"

definition HandleAdd :: "runtime \<Rightarrow> handler" where
  "HandleAdd rt args as_json = with_help ''add'' args (case args of
      [] \<Rightarrow> emit_usage rt as_json ''add'' ''add requires a package name''
    | name # rest \<Rightarrow> with_flags rt as_json ''add'' add_flag rest (default_add name) (\<lambda>s. (let rq = af_request s in
        if \<not> af_saw_source s then emit_usage rt as_json ''add''
          ''add requires --path <path>, --git <source> --rev <rev>, or --registry <url> --version <x.y.z>''
        else io_attempt rt as_json ''add'' edit_clauses
          (io_bind (AddDependencyAndRefreshLock (rt_fuel rt) (rt_env rt) (rt_mat rt) rq) (\<lambda>r.
           emit_success rt as_json ((''command'', JString ''add'') #
             edit_entries (''added dependency '' @ squote (dc_alias r) @ '' and refreshed lockfile'') r @
             [(''source_kind'', JString (add_source_kind rq))]))))))"

definition remove_flag :: "remove_request flag_spec" where
  "remove_flag = any_of
     [option_named ''--manifest-path'' (put_value (\<lambda>v rq. rq\<lparr>dr_manifest_path := v\<rparr>)),
      option_named ''--dev'' (Switch (\<lambda>rq. rq\<lparr>dr_section := Some kDevDependencies\<rparr>))]"

definition HandleRemove :: "runtime \<Rightarrow> handler" where
  "HandleRemove rt args as_json = with_help ''remove'' args (case args of
      [] \<Rightarrow> emit_usage rt as_json ''remove'' ''remove requires a dependency alias or package name''
    | target # rest \<Rightarrow> with_flags rt as_json ''remove'' remove_flag rest
        \<lparr>dr_manifest_path = ''pafio.toml'', dr_target = target, dr_section = None\<rparr> (\<lambda>rq.
        io_attempt rt as_json ''remove'' edit_clauses
          (io_bind (RemoveDependencyAndRefreshLock (rt_fuel rt) (rt_env rt) (rt_mat rt) rq) (\<lambda>r.
           emit_success rt as_json ((''command'', JString ''remove'') #
             edit_entries (''removed dependency '' @ squote (dc_alias r) @ '' and refreshed lockfile'') r)))))"

definition fetch_dependencies :: "runtime \<Rightarrow> string \<Rightarrow> resolve_options \<Rightarrow> (fs, fetch_result) io" where
  "fetch_dependencies rt mp options =
     FetchDependencies (rt_fuel rt) (rt_env rt) (rt_mat rt) mp (ro_offline options) (ro_vendor_root options)"

definition HandleFetch :: "runtime \<Rightarrow> handler" where
  "HandleFetch rt args as_json = with_help ''fetch'' args
     (with_flags rt as_json ''fetch'' (any_of [manifest_flag, workflow_flag]) args (no_flags as_json) (\<lambda>f.
      with_resolve_options rt as_json ''fetch'' (manifest_of f) (cm_workflow f) None (\<lambda>options.
      io_attempt rt as_json ''fetch'' project_clauses
        (io_bind (fetch_dependencies rt (manifest_of f) options) (\<lambda>r.
         emit_success rt as_json ([(''command'', JString ''fetch''),
           (''message'', JString (''fetched dependency sources for '' @ to_dec (fc_package_count r) @ '' package(s)'')),
           (''manifest_path'', JString (fc_manifest_path r)), (''packages'', jnat (fc_package_count r)),
           (''git_packages'', jnat (fc_git_package_count r)), (''registry_packages'', jnat (fc_registry_package_count r))] @
           workflow_entries (cm_workflow f)))))))"

subsection \<open>The lockfile\<close>

definition lock_package_count :: "lock_generation \<Rightarrow> json" where
  "lock_package_count g = jnat (length (lf_packages (lg_lockfile g)))"

definition lock_payload :: "string \<Rightarrow> string \<Rightarrow> lock_generation \<Rightarrow> workflow_flags \<Rightarrow> (string \<times> json) list" where
  "lock_payload mode message g flags = [(''command'', JString ''lock''), (''message'', JString (message @ lg_lockfile_path g)),
     (''manifest_path'', JString (lg_manifest_path g)), (''lockfile_path'', JString (lg_lockfile_path g)),
     (''mode'', JString mode), (''packages'', lock_package_count g), (''offline'', JBool (wf_offline flags))]"

definition any_lock_error :: catch_clauses where
  "any_lock_error = [(XStd, ''LockfileError'', kExitLock)]"

definition lock_check :: "runtime \<Rightarrow> bool \<Rightarrow> workflow_flags \<Rightarrow> lock_generation \<Rightarrow> (fs, outcome) io" where
  "lock_check rt as_json flags g = (let path = lg_lockfile_path g in (\<lambda>w.
     if \<not> fs_exists (rt_env rt) w path then emit_error rt as_json (lock_error ''lock'' (''lockfile missing: '' @ path)) w
     else io_try rt as_json ''lock'' any_lock_error (fs_query (\<lambda>w. ReadFileText (rt_env rt) w path)) (\<lambda>current.
       if current \<noteq> SerializeLockfileCanonical (lg_lockfile g)
       then emit_error rt as_json (lock_error ''lock'' (''lockfile is stale: '' @ path))
       else emit_success rt as_json (lock_payload ''check'' ''lockfile is up to date: '' g flags)) w))"

definition lock_write :: "runtime \<Rightarrow> bool \<Rightarrow> workflow_flags \<Rightarrow> lock_generation \<Rightarrow> (fs, outcome) io" where
  "lock_write rt as_json flags g = io_try rt as_json ''lock'' any_lock_error
     (WriteCanonicalLockfile (rt_env rt) (lg_lockfile_path g) (SerializeLockfileCanonical (lg_lockfile g))) (\<lambda>_.
     emit_success rt as_json (lock_payload ''write'' ''wrote lockfile: '' g flags))"

definition offline_flag :: "command_flags flag_spec" where
  "offline_flag = option_named ''--offline'' (Switch (\<lambda>f. f\<lparr>cm_workflow := (cm_workflow f)\<lparr>wf_offline := True\<rparr>\<rparr>))"

definition HandleLock :: "runtime \<Rightarrow> handler" where
  "HandleLock rt args as_json = with_help ''lock'' args
     (with_flags rt as_json ''lock'' (any_of [manifest_flag, switch_flag ''--check'', offline_flag]) args (no_flags as_json) (\<lambda>f w.
      (if \<not> fs_exists (rt_env rt) w (manifest_of f) then emit_error rt as_json (manifest_missing ''lock'' (manifest_of f))
       else io_bind (io_query (\<lambda>w. BuildResolveOptions (rt_env rt) w (manifest_of f) (cm_workflow f) None)) (\<lambda>options.
         io_try rt as_json ''lock'' project_clauses (resolve_lockfile rt (manifest_of f) options) (\<lambda>g.
         (if cm_switch f then lock_check else lock_write) rt as_json (cm_workflow f) g))) w))"

text \<open>The lockfile is written unless it is locked or current; the mode says which.\<close>

definition sync_lockfile :: "runtime \<Rightarrow> workflow_flags \<Rightarrow> lock_generation \<Rightarrow> (fs, string) io" where
  "sync_lockfile rt flags g = (let env = rt_env rt; path = lg_lockfile_path g;
       rendered = SerializeLockfileCanonical (lg_lockfile g) in (\<lambda>w.
     if wf_locked flags then (Inr ''locked'', w)
     else io_bind (if fs_exists env w path then io_bind (fs_query (\<lambda>w. ReadFileText env w path)) (\<lambda>current.
         io_return (current \<noteq> rendered)) else io_return True) (\<lambda>write.
       if write then io_bind (WriteCanonicalLockfile env path rendered) (\<lambda>_. io_return ''write'')
       else io_return ''unchanged'') w))"

definition sync_project :: "runtime \<Rightarrow> bool \<Rightarrow> string \<Rightarrow> workflow_flags \<Rightarrow> resolve_options \<Rightarrow> (fs, outcome) io" where
  "sync_project rt as_json mp flags options =
     io_bind (resolve_lockfile rt mp options) (\<lambda>g.
     io_bind (sync_lockfile rt flags g) (\<lambda>mode.
     io_bind (fetch_dependencies rt mp options) (\<lambda>r.
     emit_success rt as_json ([(''command'', JString ''sync''),
       (''message'', JString (''synced project dependencies for '' @ to_dec (length (lf_packages (lg_lockfile g))) @ '' package(s)'')),
       (''manifest_path'', JString (lg_manifest_path g)), (''lockfile_path'', JString (lg_lockfile_path g)),
       (''lockfile_mode'', JString mode), (''packages'', lock_package_count g),
       (''git_packages'', jnat (fc_git_package_count r)), (''registry_packages'', jnat (fc_registry_package_count r))] @
       workflow_entries flags))))"

definition HandleSync :: "runtime \<Rightarrow> handler" where
  "HandleSync rt args as_json = with_help ''sync'' args
     (with_flags rt as_json ''sync'' (any_of [manifest_flag, workflow_flag]) args (no_flags as_json) (\<lambda>f.
      with_resolve_options rt as_json ''sync'' (manifest_of f) (cm_workflow f) None (\<lambda>options.
      io_attempt rt as_json ''sync'' (project_clauses @ any_lock_error)
        (sync_project rt as_json (manifest_of f) (cm_workflow f) options))))"

definition tree_package :: "lock_package \<Rightarrow> json" where
  "tree_package p = jobject ([(''id'', JString (lk_id p)), (''name'', JString (lk_name p)), (''version'', JString (lk_version p)),
     (''source_kind'', JString (lk_source_kind p)), (''dependencies'', jstrings (lk_dependencies p))] @
     optional_json ''git'' JString (lk_git p) @ optional_json ''rev'' JString (lk_rev p) @
     optional_json ''registry'' JString (lk_registry p) @ optional_json ''sha256'' JString (lk_sha256 p))"

definition print_tree :: "runtime \<Rightarrow> bool \<Rightarrow> lock_generation \<Rightarrow> (fs, outcome) io" where
  "print_tree rt as_json g =
     (if as_json then io_lift (rbind (dump_json (rt_env rt) (- 1) (jobject [(''command'', JString ''tree''),
        (''manifest_path'', JString (lg_manifest_path g)), (''lockfile_path'', JString (lg_lockfile_path g)),
        (''resolver'', JString (lf_resolver (lg_lockfile g))), (''root_ids'', jstrings (lg_root_ids g)),
        (''packages'', JArray (map tree_package (lf_packages (lg_lockfile g))))])) (\<lambda>body. Inr (printed (body @ nl))))
      else io_lift (rbind (RenderDependencyTreeText g) (\<lambda>text. Inr (printed text))))"

definition HandleTree :: "runtime \<Rightarrow> handler" where
  "HandleTree rt args as_json = with_help ''tree'' args
     (with_flags rt as_json ''tree'' manifest_flag args (no_flags as_json) (\<lambda>f w.
      (if \<not> fs_exists (rt_env rt) w (manifest_of f) then emit_error rt as_json (manifest_missing ''tree'' (manifest_of f))
       else io_try rt as_json ''tree'' project_clauses
         (resolve_lockfile rt (manifest_of f) \<lparr>ro_offline = False, ro_vendor_root = None\<rparr>) (print_tree rt as_json)) w))"

subsection \<open>Vendoring, packing, publishing\<close>

definition HandleVendor :: "runtime \<Rightarrow> handler" where
  "HandleVendor rt args as_json = with_help ''vendor'' args
     (with_flags rt as_json ''vendor'' (any_of [manifest_flag, output_flag, workflow_flag]) args (no_flags as_json) (\<lambda>f.
      with_resolve_options rt as_json ''vendor'' (manifest_of f) (cm_workflow f) (cm_output_path f) (\<lambda>options.
      io_attempt rt as_json ''vendor'' (project_clauses @ [(XVendor, ''VendorError'', kExitVendor)])
        (io_bind (WriteVendorTree (rt_fuel rt) (rt_env rt) (rt_mat rt) \<lparr>vq_manifest_path = manifest_of f,
            vq_output_path = cm_output_path f, vq_offline = wf_offline (cm_workflow f)\<rparr>) (\<lambda>r.
         emit_success rt as_json ([(''command'', JString ''vendor''),
           (''message'', JString (''materialized vendored dependency snapshots under '' @ vn_vendor_root r)),
           (''manifest_path'', JString (vn_manifest_path r)), (''vendor_root'', JString (vn_vendor_root r)),
           (''metadata_path'', JString (vn_metadata_path r)), (''packages'', jnat (vn_package_count r)),
           (''git_snapshots'', jnat (vn_git_snapshot_count r))] @ workflow_entries (cm_workflow f)))))))"

definition pack_clauses :: catch_clauses where
  "pack_clauses = [manifest_clause, (XWorkspace, ''WorkspaceError'', kExitWorkspace), (XPack, ''PackError'', kExitPack)]"

definition HandlePack :: "runtime \<Rightarrow> handler" where
  "HandlePack rt args as_json = with_help ''pack'' args
     (with_flags rt as_json ''pack'' (any_of [manifest_flag, package_flag, output_flag]) args (no_flags as_json) (\<lambda>f.
      io_attempt rt as_json ''pack'' pack_clauses
        (io_bind (WriteSourcePackage (rt_env rt) \<lparr>pq_manifest_path = manifest_of f, pq_package_name = cm_package f,
            pq_output_path = cm_output_path f\<rparr>) (\<lambda>r.
         emit_success rt as_json [(''command'', JString ''pack''),
           (''message'', JString (''wrote source package: '' @ pk_archive_path r)),
           (''manifest_path'', JString (pk_manifest_path r)), (''package_root'', JString (pk_package_root r)),
           (''archive_path'', JString (pk_archive_path r)), (''archive_prefix'', JString (pk_archive_prefix r)),
           (''package'', JString (pk_package_name r)), (''version'', JString (pk_package_version r)),
           (''files'', jnat (pk_file_count r))]))))"

record publish_flags =
  pf_request :: publish_request
  pf_registry_root :: "string option"
  pf_registry_profile :: "string option"
  pf_registry_policy_file :: "string option"
  pf_registry_headers :: "string list"
  pf_dry_run :: bool

definition on_publish :: "(publish_request \<Rightarrow> publish_request) \<Rightarrow> publish_flags \<Rightarrow> publish_flags" where
  "on_publish f s = s\<lparr>pf_request := f (pf_request s)\<rparr>"

definition add_header :: "string \<Rightarrow> publish_flags \<Rightarrow> string + publish_flags" where
  "add_header v s = (case NormalizeRegistryHeader v of
      None \<Rightarrow> Inl ''--registry-header must match <name:value> with non-empty name and value''
    | Some header \<Rightarrow> Inr (s\<lparr>pf_registry_headers := pf_registry_headers s @ [header]\<rparr>))"

definition publish_flag :: "publish_flags flag_spec" where
  "publish_flag = any_of
     [option_named ''--manifest-path'' (put_value (\<lambda>v. on_publish (\<lambda>rq. rq\<lparr>bq_manifest_path := v\<rparr>))),
      option_named ''--package'' (put_value (\<lambda>v. on_publish (\<lambda>rq. rq\<lparr>bq_package_name := Some v\<rparr>))),
      option_named ''--output'' (put_value (\<lambda>v. on_publish (\<lambda>rq. rq\<lparr>bq_output_path := Some v\<rparr>))),
      option_named ''--registry'' (put_value (\<lambda>v s. s\<lparr>pf_registry_root := Some v\<rparr>)),
      option_named ''--registry-profile'' (put_value (\<lambda>v s. s\<lparr>pf_registry_profile := Some v\<rparr>)),
      option_named ''--registry-policy-file'' (put_value (\<lambda>v s. s\<lparr>pf_registry_policy_file := Some v\<rparr>)),
      option_named ''--registry-header'' (Argument add_header),
      option_named ''--dry-run'' (Switch (\<lambda>s. s\<lparr>pf_dry_run := True\<rparr>))]"

definition default_publish :: publish_flags where
  "default_publish = \<lparr>pf_request = \<lparr>bq_manifest_path = ''pafio.toml'', bq_package_name = None, bq_output_path = None\<rparr>,
     pf_registry_root = None, pf_registry_profile = None, pf_registry_policy_file = None, pf_registry_headers = [],
     pf_dry_run = False\<rparr>"

text \<open>Combinations of the options that are refused before anything is prepared.\<close>

definition publish_conflict :: "publish_flags \<Rightarrow> string option" where
  "publish_conflict s =
     (if pf_dry_run s \<and> pf_registry_headers s \<noteq> [] then Some ''--registry-header is not valid with --dry-run''
      else if pf_dry_run s \<and> pf_registry_policy_file s \<noteq> None then Some ''--registry-policy-file is not valid with --dry-run''
      else if pf_dry_run s \<and> pf_registry_profile s \<noteq> None then Some ''--registry-profile is not valid with --dry-run''
      else if pf_registry_profile s \<noteq> None \<and> pf_registry_policy_file s \<noteq> None
        then Some ''--registry-profile cannot be combined with --registry-policy-file''
      else if \<not> pf_dry_run s \<and> pf_registry_root s = None
        then Some ''publish requires --registry <path-or-url> unless --dry-run is set''
      else None)"

text \<open>Options that only a registry behind \<open>http\<close> takes.\<close>

definition http_only_option :: "publish_flags \<Rightarrow> string option" where
  "http_only_option s = (let only = '' is only valid for http:// or https:// registry roots'' in
      if pf_registry_policy_file s \<noteq> None then Some (''--registry-policy-file'' @ only)
      else if pf_registry_profile s \<noteq> None then Some (''--registry-profile'' @ only)
      else if pf_registry_headers s \<noteq> [] then Some (''--registry-header'' @ only)
      else None)"

definition publish_http :: "runtime \<Rightarrow> bool \<Rightarrow> publish_flags \<Rightarrow> string \<Rightarrow> publish_result \<Rightarrow> (fs, outcome) io" where
  "publish_http rt as_json s registry_root candidate =
     io_bind (io_lift (ResolveRegistryWriteSecurity (rt_slots rt) \<lparr>wr_registry_root = registry_root,
       wr_profile_name = pf_registry_profile s, wr_policy_file = pf_registry_policy_file s,
       wr_explicit_request_headers = pf_registry_headers s\<rparr>)) (\<lambda>security.
     io_bind (RunRegistryV2ControlPlanePublish (rt_env rt) (wd_registry_root security) (wd_request_headers security) candidate) (\<lambda>p.
     io_bind (io_lift (BuildHttpPublishPayload (rt_env rt) candidate (wd_registry_root security) security p))
       (emit_success rt as_json)))"

definition file_registry_root :: "string \<Rightarrow> string" where
  "file_registry_root root = (if IsFileRegistryRoot root then FileUrlToPath root else root)"

definition publish_filesystem :: "runtime \<Rightarrow> bool \<Rightarrow> publish_flags \<Rightarrow> string \<Rightarrow> publish_result \<Rightarrow> (fs, outcome) io" where
  "publish_filesystem rt as_json s registry_root candidate = (let root = file_registry_root registry_root in
     case http_only_option s of
       Some message \<Rightarrow> emit_usage rt as_json ''publish'' message
     | None \<Rightarrow>
       io_bind (RunRegistryV2FilesystemPublish (rt_env rt) root candidate) (\<lambda>p.
       io_bind (io_lift (BuildFilesystemPublishPayload (rt_env rt) candidate
         (lexically_normal (absolute (env_cwd (rt_env rt)) root)) p)) (emit_success rt as_json)))"

definition publish_dry_run :: "runtime \<Rightarrow> bool \<Rightarrow> publish_result \<Rightarrow> (fs, outcome) io" where
  "publish_dry_run rt as_json c = emit_success rt as_json ([(''command'', JString ''publish''), (''mode'', JString ''dry-run''),
     (''message'', JString (''prepared publish candidate: '' @ pb_archive_path c))] @ candidate_entries c)"

definition publish_clauses :: catch_clauses where
  "publish_clauses = pack_clauses @ [(XPublish, ''PublishError'', kExitPublish)]"

definition HandlePublish :: "runtime \<Rightarrow> handler" where
  "HandlePublish rt args as_json = with_help ''publish'' args
     (with_flags rt as_json ''publish'' publish_flag args default_publish (\<lambda>s. case publish_conflict s of
        Some message \<Rightarrow> emit_usage rt as_json ''publish'' message
      | None \<Rightarrow> io_attempt rt as_json ''publish'' publish_clauses
          (io_bind (PreparePublishCandidate (rt_env rt) (pf_request s)) (\<lambda>candidate.
           if pf_dry_run s then publish_dry_run rt as_json candidate
           else (case pf_registry_root s of
               None \<Rightarrow> io_throw (LogicError ''bad_optional_access'')
             | Some root \<Rightarrow> (if IsHttpRegistryRoot root then publish_http else publish_filesystem) rt as_json s root candidate)))))"

subsection \<open>Trust pins\<close>

definition trust_import :: "runtime \<Rightarrow> bool \<Rightarrow> string \<Rightarrow> string \<Rightarrow> (fs, outcome) io" where
  "trust_import rt as_json home descriptor =
     io_bind (ImportRegistryTrustDescriptor (rt_env rt) home descriptor) (\<lambda>pin.
     emit_success rt as_json [(''command'', JString ''registry trust import''),
       (''message'', JString (''imported registry trust descriptor for '' @ tp_registry_root pin)),
       (''pafio_home'', JString home), (''pin'', SerializeRegistryTrustPin pin)])"

definition trust_status :: "runtime \<Rightarrow> bool \<Rightarrow> string \<Rightarrow> (fs, outcome) io" where
  "trust_status rt as_json home =
     io_bind (fs_query (\<lambda>w. LoadRegistryTrustPins (rt_env rt) w home)) (\<lambda>pins.
     emit_success rt as_json [(''command'', JString ''registry trust status''),
       (''message'', JString ''loaded registry trust pins''), (''pafio_home'', JString home),
       (''pins'', JArray (map SerializeRegistryTrustPin pins))])"

definition trust_command :: "runtime \<Rightarrow> bool \<Rightarrow> string \<Rightarrow> string list \<Rightarrow> (fs, outcome) io" where
  "trust_command rt as_json action args = (let usage = emit_usage rt as_json ''registry'' in
     io_bind (io_lift (ResolvePafioHome (rt_env rt))) (\<lambda>home.
     if action = ''import'' then (case args of
         [descriptor] \<Rightarrow> trust_import rt as_json home descriptor
       | _ \<Rightarrow> usage ''registry trust import requires <descriptor-url|descriptor-file>'')
     else if action = ''status'' then
       (if args = [] \<or> args = [''--json''] then trust_status rt as_json home
        else usage ''registry trust status accepts only --json'')
     else usage ''registry trust supports only import and status''))"

definition HandleRegistry :: "runtime \<Rightarrow> handler" where
  "HandleRegistry rt args as_json = with_help ''registry'' args (case args of
      subject # action # rest \<Rightarrow>
        if subject \<noteq> ''trust'' then emit_usage rt as_json ''registry'' (''registry requires the '' @ squote ''trust'' @ '' subcommand'')
        else io_attempt rt as_json ''registry'' [(XFetch, ''FetchError'', kExitFetch), cache_clause]
          (trust_command rt as_json action rest)
    | _ \<Rightarrow> emit_usage rt as_json ''registry'' (''registry requires the '' @ squote ''trust'' @ '' subcommand''))"

end
