(* ===== verification/CommandLine.thy ===== *)
theory CommandLine
  imports Workflow ToolApp PackageCommands
begin

section \<open>The command line\<close>

text \<open>
  \<open>src/PafioCLI/CLI.cpp\<close> and \<open>main.cpp\<close>: the global options, the table of commands, and the run of one command line.
  The result is the outcome of the command; an exception no handler catches leaves \<open>main\<close> and is left in the result.
\<close>

datatype tool_subcommand = ToolInstall | ToolStatus | ToolUse | ToolPin

datatype top_level_command = MachineInfo | ProjectGraph | Cloud | New | Init | Install | Use | Set | Check | Add | Remove |
  Sync | Fetch | Build | Run | Test | Lock | Tree | Vendor | Pack | Publish | Registry | Tool

definition ParseToolSubcommand :: "string \<Rightarrow> tool_subcommand option" where
  "ParseToolSubcommand raw =
     map_of [(''install'', ToolInstall), (''status'', ToolStatus), (''use'', ToolUse), (''pin'', ToolPin)] raw"

definition top_level_commands :: "(string \<times> top_level_command) list" where
  "top_level_commands =
     [(''machine-info'', MachineInfo), (''project-graph'', ProjectGraph), (''cloud'', Cloud), (''new'', New), (''init'', Init),
      (''install'', Install), (''use'', Use), (''set'', Set), (''check'', Check), (''add'', Add), (''remove'', Remove),
      (''sync'', Sync), (''fetch'', Fetch), (''build'', Build), (''run'', Run), (''test'', Test), (''lock'', Lock),
      (''tree'', Tree), (''vendor'', Vendor), (''pack'', Pack), (''publish'', Publish), (''registry'', Registry),
      (''tool'', Tool)]"

definition ParseTopLevelCommand :: "string \<Rightarrow> top_level_command option" where
  "ParseTopLevelCommand raw = map_of top_level_commands raw"

definition tool_usage :: "runtime \<Rightarrow> bool \<Rightarrow> (fs, outcome) io" where
  "tool_usage rt as_json = emit_usage rt as_json ''tool'' (''tool requires the '' @ squote ''install'' @ '', '' @
     squote ''status'' @ '', '' @ squote ''use'' @ '', or '' @ squote ''pin'' @ '' subcommand'')"

definition HandleToolCommand :: "runtime \<Rightarrow> handler" where
  "HandleToolCommand rt args as_json = with_help ''tool'' args (case args of
      [] \<Rightarrow> tool_usage rt as_json
    | subcommand # rest \<Rightarrow> (case ParseToolSubcommand subcommand of
        None \<Rightarrow> tool_usage rt as_json
      | Some ToolInstall \<Rightarrow> HandleToolInstall rt rest as_json
      | Some ToolStatus \<Rightarrow> with_help ''tool'' rest (HandleToolStatus rt rest as_json)
      | Some ToolUse \<Rightarrow> HandleToolUse rt rest as_json
      | Some ToolPin \<Rightarrow> HandleToolPin rt rest as_json))"

definition HandleMachineInfo :: "runtime \<Rightarrow> handler" where
  "HandleMachineInfo rt args as_json = with_help ''machine-info'' args
     (if args \<noteq> [] \<and> args \<noteq> [''--json''] then emit_usage rt as_json ''machine-info'' ''machine-info accepts only --json''
      else io_lift (rbind (dump_json (rt_env rt) (- 1) BuildMachineInfoPayload) (\<lambda>body. Inr (printed (body @ nl)))))"

fun handler_of :: "top_level_command \<Rightarrow> runtime \<Rightarrow> handler" where
  "handler_of MachineInfo = HandleMachineInfo"
| "handler_of ProjectGraph = HandleProjectGraph"
| "handler_of Cloud = HandleCloud"
| "handler_of New = HandleNew"
| "handler_of Init = HandleInit"
| "handler_of Install = HandleInstall"
| "handler_of Use = HandleUse"
| "handler_of Set = HandleSet"
| "handler_of Check = HandleCheck"
| "handler_of Add = HandleAdd"
| "handler_of Remove = HandleRemove"
| "handler_of Sync = HandleSync"
| "handler_of Fetch = HandleFetch"
| "handler_of Build = HandleBuild"
| "handler_of Run = HandleRun"
| "handler_of Test = HandleTest"
| "handler_of Lock = HandleLock"
| "handler_of Tree = HandleTree"
| "handler_of Vendor = HandleVendor"
| "handler_of Pack = HandlePack"
| "handler_of Publish = HandlePublish"
| "handler_of Registry = HandleRegistry"
| "handler_of Tool = HandleToolCommand"

text \<open>The loop over the global options.\<close>

fun run_global :: "runtime \<Rightarrow> bool \<Rightarrow> string list \<Rightarrow> (fs, outcome) io" where
  "run_global rt as_json [] = io_return PrintGlobalHelp"
| "run_global rt as_json (a # args) =
     (if a = ''--help'' then
        (if args \<noteq> [] then emit_usage rt as_json ''global'' ''--help does not accept extra arguments before a command''
         else io_return PrintGlobalHelp)
      else if a = ''--json'' then run_global rt True args
      else if a = ''--version'' then
        (if args \<noteq> [] then emit_usage rt as_json ''global'' ''--version does not accept extra arguments''
         else io_return (printed (''pafio '' @ kVersion @ nl)))
      else case ParseTopLevelCommand a of
        None \<Rightarrow> emit_usage rt as_json a (''unknown command: '' @ a)
      | Some command \<Rightarrow> handler_of command rt args as_json)"

definition RunCli :: "runtime \<Rightarrow> string list \<Rightarrow> (fs, outcome) io" where
  "RunCli rt argv = run_global rt False argv"

end
