(* ===== verification/CliFacts.thy ===== *)
theory CliFacts
  imports CommandLine
begin

section \<open>Facts about commands\<close>

text \<open>
  A command that ends without an exception either succeeds or reports an error of the published table.  The rules of
  \<open>ends_well_intros\<close> follow the structure of the handlers; one fact per handler is proved with them.
\<close>

named_theorems ends_well_intros \<open>rules for commands that end well\<close>

definition error_table :: "(string \<times> int) list" where
  "error_table =
     [(''UsageError'', kExitUsage), (''ManifestError'', kExitManifest), (''LockfileError'', kExitLock),
      (''WorkspaceError'', kExitWorkspace), (''ResolutionError'', kExitResolve), (''FetchError'', kExitFetch),
      (''CacheError'', kExitCache), (''PackError'', kExitPack), (''PublishError'', kExitPublish),
      (''ToolError'', kExitToolInstall), (''VendorError'', kExitVendor), (''PlanError'', kExitPlan),
      (''ContractError'', kExitContract), (''CompilerSpawnError'', kExitCompilerSpawn), (''CompilerError'', kExitCompiler)]"

definition in_table :: "command_error \<Rightarrow> bool" where
  "in_table ce \<longleftrightarrow> (ce_category ce, ce_code ce) \<in> set error_table"

definition clauses_in_table :: "catch_clauses \<Rightarrow> bool" where
  "clauses_in_table clauses \<longleftrightarrow> snd ` set clauses \<subseteq> set error_table"

text \<open>An outcome is a success, or the report of one error after what the command printed before.\<close>

definition reported :: "runtime \<Rightarrow> outcome \<Rightarrow> bool" where
  "reported rt oc \<longleftrightarrow> oc_code oc = kExitSuccess \<or>
     (\<exists>ce as_json e oc'. in_table ce \<and> EmitError rt ce as_json = Inr oc' \<and> oc = echoed e oc')"

definition ends_well :: "runtime \<Rightarrow> (fs, outcome) io \<Rightarrow> bool" where
  "ends_well rt m \<longleftrightarrow> (\<forall>w oc w'. m w = (Inr oc, w') \<longrightarrow> reported rt oc)"

lemmas table_simps = error_table_def kExitUsage_def kExitManifest_def kExitLock_def kExitWorkspace_def kExitResolve_def
  kExitFetch_def kExitCache_def kExitPack_def kExitPublish_def kExitToolInstall_def kExitVendor_def kExitPlan_def
  kExitContract_def kExitCompilerSpawn_def kExitCompiler_def

lemmas clause_lists = manifest_clause_def source_clauses_def project_clauses_def tool_clause_def cache_clause_def
  probe_clauses_def plan_clauses_def spawn_clause_def tool_clauses_def any_exception_def edit_clauses_def
  any_lock_error_def pack_clauses_def publish_clauses_def

lemma echoed_nothing: "echoed ([], []) oc = oc"
  by (simp add: echoed_def)

lemma reported_error: "in_table ce \<Longrightarrow> EmitError rt ce as_json = Inr oc \<Longrightarrow> reported rt oc"
  unfolding reported_def using echoed_nothing by metis

lemma reported_success: "oc_code oc = kExitSuccess \<Longrightarrow> reported rt oc"
  by (simp add: reported_def)

lemma EmitSuccess_code: "EmitSuccess rt payload as_json = Inr oc \<Longrightarrow> oc_code oc = kExitSuccess"
  by (auto simp: EmitSuccess_def printed_def result_simps split: if_splits option.splits json.splits)

lemma caught_by_table: "clauses_in_table clauses \<Longrightarrow> caught_by rt command clauses e = Some ce \<Longrightarrow> in_table ce"
  by (auto simp: caught_by_def clauses_in_table_def in_table_def find_Some_iff image_subset_iff dest!: nth_mem)

lemma ends_well_return [ends_well_intros]: "oc_code oc = kExitSuccess \<Longrightarrow> ends_well rt (io_return oc)"
  by (auto simp: ends_well_def result_simps intro: reported_success)

lemma ends_well_throw [ends_well_intros]: "ends_well rt (io_throw e)"
  by (auto simp: ends_well_def result_simps)

lemma ends_well_error [ends_well_intros]: "in_table ce \<Longrightarrow> ends_well rt (emit_error rt as_json ce)"
  by (auto simp: ends_well_def emit_error_def result_simps intro: reported_error)

lemma ends_well_usage [ends_well_intros]: "ends_well rt (emit_usage rt as_json command message)"
  by (auto simp: emit_usage_def usage_error_def in_table_def table_simps intro!: ends_well_error)

lemma ends_well_success [ends_well_intros]: "ends_well rt (emit_success rt as_json payload)"
  by (auto simp: ends_well_def emit_success_def result_simps dest: EmitSuccess_code intro!: reported_success)

lemma ends_well_lift [ends_well_intros]: "(\<And>oc. r = Inr oc \<Longrightarrow> oc_code oc = kExitSuccess) \<Longrightarrow> ends_well rt (io_lift r)"
  by (auto simp: ends_well_def result_simps intro!: reported_success)

lemma ends_well_bind [ends_well_intros]: "(\<And>x. ends_well rt (f x)) \<Longrightarrow> ends_well rt (io_bind m f)"
  by (fastforce simp: ends_well_def result_simps)

lemma ends_well_branch [ends_well_intros]:
  "ends_well rt a \<Longrightarrow> ends_well rt b \<Longrightarrow> ends_well rt (\<lambda>w. (if P w then a else b) w)"
  by (auto simp: ends_well_def)

lemma ends_well_cond [ends_well_intros]:
  "ends_well rt a \<Longrightarrow> ends_well rt b \<Longrightarrow> ends_well rt (\<lambda>w. if P w then a w else b w)"
  by (auto simp: ends_well_def)

lemma ends_well_at: "(\<And>x. ends_well rt (f x)) \<Longrightarrow> ends_well rt (\<lambda>w. f (g w) w)"
  by (auto simp: ends_well_def)

lemma ends_well_if [ends_well_intros]: "(b \<Longrightarrow> ends_well rt m) \<Longrightarrow> (\<not> b \<Longrightarrow> ends_well rt m') \<Longrightarrow> ends_well rt (if b then m else m')"
  by simp

lemma catch_ends:
  assumes "clauses_in_table clauses" and "io_catch rt command clauses m w = (Inr r, w')"
  shows "(\<exists>ce. r = Inl ce \<and> in_table ce) \<or> (\<exists>x. r = Inr x \<and> m w = (Inr x, w'))"
  using assms
  by (auto simp: io_catch_def split: prod.splits sum.splits option.splits dest: caught_by_table)

lemma ends_well_try [ends_well_intros]:
  assumes "clauses_in_table clauses" and "\<And>x. ends_well rt (k x)"
  shows "ends_well rt (io_try rt as_json command clauses m k)"
  unfolding ends_well_def
proof (intro allI impI)
  fix w oc w' assume "io_try rt as_json command clauses m k w = (Inr oc, w')"
  then obtain r w1 where c: "io_catch rt command clauses m w = (Inr r, w1)"
    and k: "(case r of Inl ce \<Rightarrow> io_lift (EmitError rt ce as_json) | Inr x \<Rightarrow> k x) w1 = (Inr oc, w')"
    by (auto simp: io_try_def result_simps)
  from catch_ends [OF assms(1) c] show "reported rt oc"
    using k assms(2) by (elim disjE exE conjE) (force simp: result_simps intro: reported_error, fastforce simp: ends_well_def result_simps)
qed

lemma ends_well_attempt [ends_well_intros]:
  assumes "clauses_in_table clauses" and "ends_well rt m"
  shows "ends_well rt (io_attempt rt as_json command clauses m)"
  unfolding ends_well_def io_attempt_def
proof (intro allI impI)
  fix w oc w' assume "io_try rt as_json command clauses m io_return w = (Inr oc, w')"
  then obtain r w1 where c: "io_catch rt command clauses m w = (Inr r, w1)"
    and k: "(case r of Inl ce \<Rightarrow> io_lift (EmitError rt ce as_json) | Inr x \<Rightarrow> io_return x) w1 = (Inr oc, w')"
    by (auto simp: io_try_def result_simps)
  from catch_ends [OF assms(1) c] show "reported rt oc"
    using k assms(2) by (elim disjE exE conjE) (force simp: result_simps intro: reported_error, fastforce simp: ends_well_def result_simps)
qed

lemma ends_well_help [ends_well_intros]: "ends_well rt k \<Longrightarrow> ends_well rt (with_help command args k)"
  by (auto simp: with_help_def PrintCommandUsage_def printed_def intro!: ends_well_return)

lemma ends_well_tool_help [ends_well_intros]: "ends_well rt k \<Longrightarrow> ends_well rt (tool_help args usage k)"
  by (auto simp: tool_help_def printed_def intro!: ends_well_return)

text \<open>The loop over the arguments reports usage errors only.\<close>

lemma parse_flags_Inl: "parse_flags command spec args s = Inl ce \<Longrightarrow> ce_category ce = ''UsageError'' \<and> ce_code ce = kExitUsage"
  by (induction command spec args s rule: parse_flags.induct)
    (auto simp: usage_error_def split: option.splits flag_action.splits sum.splits)

lemma parse_flags_table: "parse_flags command spec args s = Inl ce \<Longrightarrow> in_table ce"
  by (drule parse_flags_Inl) (simp add: in_table_def table_simps)

lemma ends_well_flags [ends_well_intros]:
  "(\<And>s'. ends_well rt (k s')) \<Longrightarrow> ends_well rt (with_flags rt as_json command spec args s k)"
  by (auto simp: with_flags_def split: sum.split intro!: ends_well_error dest: parse_flags_table)

lemma project_clauses_table: "clauses_in_table project_clauses"
  by (simp add: clauses_in_table_def clause_lists table_simps)

lemma locked_policy_table:
  assumes "ValidateLockedPolicy rt mp command flags options w = (Inr (Some ce), w')"
  shows "in_table ce"
proof -
  have lock: "in_table (lock_error command message)" for message
    by (simp add: lock_error_def in_table_def table_simps)
  show ?thesis
  proof (cases "wf_locked flags \<and> fs_exists (rt_env rt) w (lockfile_of mp)")
    case True
    with assms obtain r w1 where c: "io_catch rt command project_clauses (check_lockfile rt mp command options) w = (Inr r, w1)"
      and r: "(case r of Inl e \<Rightarrow> Some e | Inr e \<Rightarrow> e) = Some ce"
      by (auto simp: ValidateLockedPolicy_def result_simps)
    from catch_ends [OF project_clauses_table c] show ?thesis
    proof (elim disjE exE conjE)
      fix x assume "r = Inr x" and "check_lockfile rt mp command options w = (Inr x, w1)"
      with r show ?thesis by (auto simp: check_lockfile_def result_simps lock split: if_splits)
    qed (use r in simp)
  next
    case False
    with assms show ?thesis by (auto simp: ValidateLockedPolicy_def lock split: if_splits)
  qed
qed

lemma ends_well_options [ends_well_intros]:
  assumes "\<And>options. ends_well rt (k options)"
  shows "ends_well rt (with_resolve_options rt as_json command mp flags vendor_root k)"
  unfolding with_resolve_options_def
proof (rule ends_well_bind, unfold ends_well_def, intro allI impI)
  fix options w oc w'
  assume "with_locked_policy rt as_json mp command flags options (k options) w = (Inr oc, w')"
  then obtain e w1 where e: "ValidateLockedPolicy rt mp command flags options w = (Inr e, w1)"
    and k: "(case e of Some e \<Rightarrow> io_lift (EmitError rt e as_json) | None \<Rightarrow> k options) w1 = (Inr oc, w')"
    by (auto simp: with_locked_policy_def result_simps)
  show "reported rt oc"
  proof (cases e)
    case None
    with k assms [of options] show ?thesis by (auto simp: ends_well_def)
  next
    case (Some ce)
    with k locked_policy_table [OF e [unfolded Some]] show ?thesis by (auto simp: result_simps intro: reported_error)
  qed
qed

subsection \<open>The handlers\<close>

lemma tables [simp]:
  "clauses_in_table [manifest_clause]" "clauses_in_table [tool_clause]" "clauses_in_table [cache_clause]"
  "clauses_in_table [tool_clause, cache_clause]" "clauses_in_table [manifest_clause, tool_clause]"
  "clauses_in_table [manifest_clause, tool_clause, cache_clause]" "clauses_in_table [spawn_clause]"
  "clauses_in_table (probe_clauses @ [tool_clause])" "clauses_in_table project_clauses"
  "clauses_in_table (project_clauses @ [tool_clause])" "clauses_in_table plan_clauses" "clauses_in_table tool_clauses"
  "clauses_in_table (manifest_clause # tool_clause # probe_clauses @ [cache_clause])"
  "clauses_in_table [(XValidation, ''LockfileError'', kExitLock), (XStd, ''LockfileError'', kExitLock)]"
  "clauses_in_table any_exception" "clauses_in_table edit_clauses" "clauses_in_table any_lock_error"
  "clauses_in_table (project_clauses @ any_lock_error)" "clauses_in_table pack_clauses" "clauses_in_table publish_clauses"
  "clauses_in_table (project_clauses @ [(XVendor, ''VendorError'', kExitVendor)])"
  "clauses_in_table [(XFetch, ''FetchError'', kExitFetch), cache_clause]"
  by (simp_all add: clauses_in_table_def clause_lists table_simps)

lemma errors_in_table [simp]:
  "in_table (lock_error command message)" "in_table (manifest_missing command path)" "in_table (usage_error command message)"
  "in_table (command_failure ''ContractError'' kExitContract command message)"
  "in_table (command_failure ''CompilerError'' kExitCompiler command message)"
  "in_table (command_failure ''CompilerSpawnError'' kExitCompilerSpawn command message)"
  by (simp_all add: in_table_def lock_error_def manifest_missing_def command_failure_def usage_error_def table_simps)

lemma printed_code [simp]: "oc_code (printed content) = kExitSuccess"
  by (simp add: printed_def)

lemma HandleNew_ends: "ends_well rt (HandleNew rt args as_json)"
  unfolding HandleNew_def create_project_def
  by (auto intro!: ends_well_intros split: list.split prod.split)

lemma init_name_table: "init_name name args = Inl e \<Longrightarrow> in_table e"
  by (induction name args rule: init_name.induct) (auto split: if_splits)

lemma HandleInit_ends: "ends_well rt (HandleInit rt args as_json)"
  unfolding HandleInit_def create_project_def Let_def
  by (auto intro!: ends_well_intros split: sum.split prod.split dest: init_name_table)

lemma HandleAdd_ends: "ends_well rt (HandleAdd rt args as_json)"
  unfolding HandleAdd_def Let_def
  by (auto intro!: ends_well_intros split: list.split)

lemma HandleRemove_ends: "ends_well rt (HandleRemove rt args as_json)"
  unfolding HandleRemove_def
  by (auto intro!: ends_well_intros split: list.split)

lemma HandleFetch_ends: "ends_well rt (HandleFetch rt args as_json)"
  unfolding HandleFetch_def
  by (auto intro!: ends_well_intros)

lemma HandleSync_ends: "ends_well rt (HandleSync rt args as_json)"
  unfolding HandleSync_def sync_project_def
  by (auto intro!: ends_well_intros)

lemma HandleVendor_ends: "ends_well rt (HandleVendor rt args as_json)"
  unfolding HandleVendor_def
  by (auto intro!: ends_well_intros)

lemma HandlePack_ends: "ends_well rt (HandlePack rt args as_json)"
  unfolding HandlePack_def
  by (auto intro!: ends_well_intros)

lemma lock_check_ends: "ends_well rt (lock_check rt as_json flags g)"
  unfolding lock_check_def Let_def by (auto intro!: ends_well_intros)

lemma lock_write_ends: "ends_well rt (lock_write rt as_json flags g)"
  unfolding lock_write_def by (auto intro!: ends_well_intros)

lemma HandleLock_ends: "ends_well rt (HandleLock rt args as_json)"
  unfolding HandleLock_def by (auto intro!: ends_well_intros lock_check_ends lock_write_ends)

lemma print_tree_ends: "ends_well rt (print_tree rt as_json g)"
  unfolding print_tree_def by (auto intro!: ends_well_intros simp: result_simps)

lemma HandleTree_ends: "ends_well rt (HandleTree rt args as_json)"
  unfolding HandleTree_def by (auto intro!: ends_well_intros print_tree_ends)

lemma HandlePublish_ends: "ends_well rt (HandlePublish rt args as_json)"
  unfolding HandlePublish_def
  by (auto intro!: ends_well_intros simp: publish_dry_run_def publish_http_def publish_filesystem_def Let_def
      split: option.split)

lemma HandleRegistry_ends: "ends_well rt (HandleRegistry rt args as_json)"
  unfolding HandleRegistry_def trust_command_def trust_import_def trust_status_def Let_def
  by (auto intro!: ends_well_intros split: list.split)

lemma HandleProjectGraph_ends: "ends_well rt (HandleProjectGraph rt args as_json)"
  unfolding HandleProjectGraph_def project_graph_def Let_def
  by (auto intro!: ends_well_intros)

lemma check_success_ends: "ends_well rt (check_success rt as_json mp flags generated compiler styio)"
  unfolding check_success_def by (rule ends_well_at) (rule ends_well_success)

lemma HandleCheck_ends: "ends_well rt (HandleCheck rt args as_json)"
  unfolding HandleCheck_def check_project_def Let_def
  by (auto intro!: ends_well_intros check_success_ends)

lemma HandleCloudStatus_ends: "ends_well rt (HandleCloudStatus rt args as_json)"
  unfolding HandleCloudStatus_def
  by (auto intro!: ends_well_intros simp: result_simps dest: EmitSuccess_code)

lemma plan_flags_table: "ParsePlanInvocation command intent l b t args = Inl ce \<Longrightarrow> in_table ce"
  by (auto simp: ParsePlanInvocation_def Let_def split: list.splits if_splits dest: parse_flags_table)

lemma HandleCloudPlan_ends: "ends_well rt (HandleCloudPlan rt args as_json)"
  unfolding HandleCloudPlan_def cloud_job_def Let_def
  by (auto intro!: ends_well_intros split: list.split option.split sum.split dest: plan_flags_table)

lemma HandleCloud_ends: "ends_well rt (HandleCloud rt args as_json)"
  unfolding HandleCloud_def
  by (auto intro!: ends_well_intros HandleCloudStatus_ends HandleCloudPlan_ends
      split: list.split option.split cloud_subcommand.split)

lemma HandleMachineInfo_ends: "ends_well rt (HandleMachineInfo rt args as_json)"
  unfolding HandleMachineInfo_def by (auto intro!: ends_well_intros simp: result_simps)

lemma HandleInstall_ends: "ends_well rt (HandleInstall rt args as_json)"
  unfolding HandleInstall_def install_from_source_def
  by (auto intro!: ends_well_intros split: list.split prod.split)

lemma update_state_ends: "ends_well rt (update_state rt as_json command u message)"
  unfolding update_state_def by (auto intro!: ends_well_intros)

lemma HandleUse_ends: "ends_well rt (HandleUse rt args as_json)"
  unfolding HandleUse_def by (auto intro!: ends_well_intros update_state_ends split: list.split option.split)

lemma HandleSet_ends: "ends_well rt (HandleSet rt args as_json)"
  unfolding HandleSet_def set_value_def Let_def
  by (auto intro!: ends_well_intros update_state_ends split: list.split option.split)

lemma HandleTool_ends:
  "ends_well rt (HandleToolStatus rt args as_json)" "ends_well rt (HandleToolInstall rt args as_json)"
  "ends_well rt (HandleToolUse rt args as_json)" "ends_well rt (HandleToolPin rt args as_json)"
  unfolding HandleToolStatus_def tool_status_def HandleToolInstall_def HandleToolUse_def HandleToolPin_def Let_def
  by (auto intro!: ends_well_intros split: option.split)

lemma HandleToolCommand_ends: "ends_well rt (HandleToolCommand rt args as_json)"
  unfolding HandleToolCommand_def tool_usage_def
  by (auto intro!: ends_well_intros HandleTool_ends split: list.split option.split tool_subcommand.split)

subsection \<open>Runs of the compiler\<close>

lemma reported_echoed: "reported rt oc \<Longrightarrow> oc_code oc \<noteq> kExitSuccess \<Longrightarrow> reported rt (echoed e oc)"
proof -
  have "echoed e (echoed e' oc') = echoed (fst e @ fst e', snd e @ snd e') oc'" for e' oc'
    by (simp add: echoed_def)
  moreover assume "reported rt oc" "oc_code oc \<noteq> kExitSuccess"
  ultimately show ?thesis unfolding reported_def by metis
qed

lemma EmitError_code: "EmitError rt ce as_json = Inr oc \<Longrightarrow> oc_code oc = ce_code ce"
  by (auto simp: EmitError_def result_simps split: if_splits)

lemma reported_echoed_error: "in_table ce \<Longrightarrow> EmitError rt ce as_json = Inr oc \<Longrightarrow> reported rt (echoed e oc)"
  unfolding reported_def by metis

lemma emitted_error:
  assumes "emit_error rt as_json (command_failure category code command message) w = (Inr oc, w')"
    and "(category, code) \<in> set error_table" and "code \<noteq> kExitSuccess"
  shows "w' = w \<and> reported rt (echoed e oc) \<and> oc_code (echoed e oc) \<noteq> kExitSuccess"
proof -
  let ?ce = "command_failure category code command message"
  from assms(1) have emit: "EmitError rt ?ce as_json = Inr oc" and w: "w' = w" by (auto simp: emit_error_def result_simps)
  have "in_table ?ce" using assms(2) by (simp add: in_table_def command_failure_def)
  with reported_echoed_error [OF this emit] EmitError_code [OF emit] assms(3) w show ?thesis
    by (simp add: echoed_def command_failure_def)
qed

text \<open>The compiler ran and left its outputs, or the run is reported.\<close>

lemma run_compiler_cases:
  assumes "run_compiler rt as_json command binary plan w = (Inr r, w')"
  shows "(\<exists>oc. r = Inl oc \<and> reported rt oc \<and> oc_code oc \<noteq> kExitSuccess) \<or>
    (\<exists>echo q. r = Inr echo \<and> RunProcess (rt_env rt) RuntimeError (compiler_process binary (pr_plan_path plan)) w = (Inr q, w') \<and>
       exit_code q = 0 \<and> ValidateCompilePlanMaterialization (rt_env rt) w' plan = None)"
proof -
  have spawn: "(''CompilerSpawnError'', kExitCompilerSpawn) \<in> set error_table" "kExitCompilerSpawn \<noteq> kExitSuccess"
    and failed: "(''CompilerError'', kExitCompiler) \<in> set error_table" "kExitCompiler \<noteq> kExitSuccess"
    by (simp_all add: table_simps kExitSuccess_def)
  from assms obtain q w1 where q: "RunProcess (rt_env rt) RuntimeError (compiler_process binary (pr_plan_path plan)) w = (Inr q, w1)"
    by (auto simp: run_compiler_def result_simps)
  consider (spawn) "exit_code q = 127" | (failed) "exit_code q \<noteq> 127" "exit_code q \<noteq> 0"
    | (missing) m where "exit_code q = 0" "ValidateCompilePlanMaterialization (rt_env rt) w1 plan = Some m"
    | (finished) "exit_code q = 0" "ValidateCompilePlanMaterialization (rt_env rt) w1 plan = None"
    by (cases "ValidateCompilePlanMaterialization (rt_env rt) w1 plan") auto
  then show ?thesis
  proof cases
    case spawn
    with assms q obtain oc w2 where "emit_error rt as_json (command_failure ''CompilerSpawnError'' kExitCompilerSpawn command
        ''compiler failed to execute --compile-plan'') w1 = (Inr oc, w2)" and "r = Inl oc"
      by (auto simp: run_compiler_def result_simps)
    with emitted_error [OF this(1), of "([], [])"] show ?thesis
      by (simp add: echoed_nothing table_simps kExitSuccess_def)
  next
    case failed
    with assms q obtain oc w2 message where "emit_error rt as_json (command_failure ''CompilerError'' kExitCompiler command
        message) w1 = (Inr oc, w2)" and "r = Inl oc"
      by (auto simp: run_compiler_def result_simps Let_def)
    with emitted_error [OF this(1), of "([], [])"] show ?thesis
      by (simp add: echoed_nothing table_simps kExitSuccess_def)
  next
    case missing
    let ?echo = "if as_json then ([], []) else (stdout_text q, stderr_text q)"
    from missing assms q obtain oc where "emit_error rt as_json (command_failure ''CompilerError'' kExitCompiler command
        (''compiler completed but did not materialize compile-plan outputs: '' @ m)) w1 = (Inr oc, w')"
        and "r = Inl (echoed ?echo oc)"
      by (auto simp: run_compiler_def result_simps Let_def)
    with emitted_error [OF this(1), of ?echo] show ?thesis
      by (simp add: table_simps kExitSuccess_def)
  next
    case finished
    with assms q show ?thesis by (auto simp: run_compiler_def result_simps Let_def split: if_splits)
  qed
qed

lemma with_binary_ends:
  "(\<And>c. ends_well rt (k c)) \<Longrightarrow> ends_well rt (with_binary_compiler rt as_json command styio_bin mp k)"
  unfolding with_binary_compiler_def Let_def by (auto intro!: ends_well_intros split: option.split)

lemma with_compiler_ends:
  "(\<And>c. ends_well rt (k c)) \<Longrightarrow> ends_well rt (with_compiler rt as_json command p s k)"
  unfolding with_compiler_def by (auto intro!: ends_well_intros with_binary_ends)

lemma finish_plan_ends: "ends_well rt (finish_plan rt as_json command p s policy compiler plan)"
proof (cases "pv_dry_run p")
  case True
  then show ?thesis by (simp add: finish_plan_def ends_well_success)
next
  case False
  let ?run = "run_compiler rt as_json command (case_option [] id (fst compiler)) plan"
  show ?thesis unfolding ends_well_def
  proof (intro allI impI)
    fix w oc w' assume "finish_plan rt as_json command p s policy compiler plan w = (Inr oc, w')"
    with False obtain r w1 where c: "io_catch rt command [spawn_clause] ?run w = (Inr r, w1)"
      and k: "(case r of Inl ce \<Rightarrow> io_lift (EmitError rt ce as_json)
        | Inr x \<Rightarrow> report_run rt as_json command p s policy (fst (snd compiler)) plan x) w1 = (Inr oc, w')"
      by (auto simp: finish_plan_def io_try_def io_bind_Inr)
    have "clauses_in_table [spawn_clause]" by simp
    from catch_ends [OF this c] show "reported rt oc"
    proof (elim disjE exE conjE)
      fix ce assume "r = Inl ce" "in_table ce"
      with k show ?thesis by (auto simp: result_simps intro: reported_error)
    next
      fix x assume r: "r = Inr x" and "?run w = (Inr x, w1)"
      from run_compiler_cases [OF this(2)] show ?thesis
      proof (elim disjE exE conjE)
        fix oc' assume "x = Inl oc'" "reported rt oc'"
        with k r show ?thesis by (simp add: report_run_def result_simps)
      next
        fix echo q assume "x = Inr echo"
        with k r have "oc_code oc = kExitSuccess"
          by (auto simp: report_run_def result_simps emit_success_def echoed_def dest: EmitSuccess_code)
        then show ?thesis by (rule reported_success)
      qed
    qed
  qed
qed

lemma HandlePlanCommand_ends: "ends_well rt (HandlePlanCommand rt command intent l b t args as_json)"
  unfolding HandlePlanCommand_def plan_command_def Let_def
  by (auto intro!: ends_well_intros with_compiler_ends finish_plan_ends dest: plan_flags_table
      split: sum.split error.split)

lemma handler_ends: "ends_well rt (handler_of command rt args as_json)"
  by (cases command) (simp_all add: HandleMachineInfo_ends HandleProjectGraph_ends HandleCloud_ends HandleNew_ends
    HandleInit_ends HandleInstall_ends HandleUse_ends HandleSet_ends HandleCheck_ends HandleAdd_ends HandleRemove_ends
    HandleSync_ends HandleFetch_ends HandleBuild_def HandleRun_def HandleTest_def HandlePlanCommand_ends HandleLock_ends
    HandleTree_ends HandleVendor_ends HandlePack_ends HandlePublish_ends HandleRegistry_ends HandleToolCommand_ends)

lemma RunCli_ends: "ends_well rt (RunCli rt argv)"
proof -
  have "ends_well rt (run_global rt as_json argv)" for as_json
    by (induction rt as_json argv rule: run_global.induct)
      (auto intro!: ends_well_intros handler_ends simp: PrintGlobalHelp_def split: option.split)
  then show ?thesis by (simp add: RunCli_def)
qed

end
