(* ===== verification/CliProperties.thy ===== *)
theory CliProperties
  imports CliFacts CloudProperties InstallProperties
begin

section \<open>Properties of the command line\<close>

text \<open>
  What a run of \<open>pafio\<close> promises to its caller: the exit code and the report of an error, the meaning of \<open>--locked\<close>, the
  invocations that reach the planner, and what a successful build has left behind.
\<close>

subsection \<open>Exit codes\<close>

lemma table_nonzero: "(category, code) \<in> set error_table \<Longrightarrow> code \<noteq> kExitSuccess"
  by (auto simp: table_simps kExitSuccess_def)




definition sample_runtime :: "env \<Rightarrow> runtime" where
  "sample_runtime env = \<lparr>rt_env = env, rt_fuel = 3, rt_mat = no_registry, rt_slots = initial_slots,
     rt_macros = \<lparr>def_linux = True, def_WIN32 = False, def_APPLE = False, def_aarch64 = False, def_x86_64 = True,
       def_arm = False\<rparr>,
     rt_terminal = \<lparr>tm_isatty = False, tm_answer = None, tm_executable = (\<lambda>_. True)\<rparr>, rt_what = (\<lambda>_. ''exception'')\<rparr>"


subsection \<open>Steps of a command that succeeds\<close>

lemma error_code: "in_table ce \<Longrightarrow> EmitError rt ce as_json = Inr oc \<Longrightarrow> oc_code oc \<noteq> kExitSuccess"
  using EmitError_code table_nonzero by (fastforce simp: in_table_def)

lemma io_try_success:
  assumes "io_try rt as_json command clauses m k w = (Inr oc, w')" and "oc_code oc = kExitSuccess"
    and "clauses_in_table clauses"
  obtains x w1 where "m w = (Inr x, w1)" and "k x w1 = (Inr oc, w')"
proof -
  from assms(1) obtain r w1 where c: "io_catch rt command clauses m w = (Inr r, w1)"
    and k: "(case r of Inl ce \<Rightarrow> io_lift (EmitError rt ce as_json) | Inr x \<Rightarrow> k x) w1 = (Inr oc, w')"
    by (auto simp: io_try_def result_simps)
  from catch_ends [OF assms(3) c] show thesis
  proof (elim disjE exE conjE)
    fix ce assume "r = Inl ce" "in_table ce"
    with k assms(2) error_code [of ce rt as_json oc] show thesis by (auto simp: io_lift_eq)
  next
    fix x assume "r = Inr x" "m w = (Inr x, w1)"
    with k that show thesis by simp
  qed
qed

lemma emit_error_fails: "emit_error rt as_json ce w = (Inr oc, w') \<Longrightarrow> in_table ce \<Longrightarrow> oc_code oc \<noteq> kExitSuccess"
  by (auto simp: emit_error_def io_lift_eq dest: error_code)

lemma emit_usage_fails: "emit_usage rt as_json command message w = (Inr oc, w') \<Longrightarrow> oc_code oc \<noteq> kExitSuccess"
  by (auto simp: emit_usage_def dest: emit_error_fails)

lemma with_resolve_options_success:
  assumes "with_resolve_options rt as_json command mp flags vendor_root k w = (Inr oc, w')" and "oc_code oc = kExitSuccess"
  obtains w1 where "ValidateLockedPolicy rt mp command flags (BuildResolveOptions (rt_env rt) w mp flags vendor_root) w = (Inr None, w1)"
    and "k (BuildResolveOptions (rt_env rt) w mp flags vendor_root) w1 = (Inr oc, w')"
proof -
  let ?options = "BuildResolveOptions (rt_env rt) w mp flags vendor_root"
  from assms(1) obtain e w1 where e: "ValidateLockedPolicy rt mp command flags ?options w = (Inr e, w1)"
    and k: "(case e of Some ce \<Rightarrow> io_lift (EmitError rt ce as_json) | None \<Rightarrow> k ?options) w1 = (Inr oc, w')"
    by (auto simp: with_resolve_options_def with_locked_policy_def io_query_def io_bind_def split: prod.splits sum.splits)
  show thesis
  proof (cases e)
    case None
    with e k that show thesis by simp
  next
    case (Some ce)
    with k locked_policy_table [OF e [unfolded Some]] assms(2) error_code [of ce rt as_json oc] show thesis
      by (auto simp: io_lift_eq)
  qed
qed

text \<open>The handlers of \<open>add\<close> and \<open>remove\<close> have no clause for the workspace errors of the resolver.\<close>

lemma edit_misses_workspace_errors: "caught_by rt command edit_clauses (WorkspaceError message) = None"
  by (simp add: caught_by_def edit_clauses_def manifest_clause_def source_clauses_def)

subsection \<open>The locked policy\<close>






subsection \<open>Invocations\<close>

lemma parse_flags_invariant:
  assumes "parse_flags command spec args s = Inr s'" and "P s"
    and "\<And>a f s. spec a = Some (Switch f) \<Longrightarrow> P s \<Longrightarrow> P (f s)"
    and "\<And>a f v s s'. spec a = Some (Argument f) \<Longrightarrow> f v s = Inr s' \<Longrightarrow> P s \<Longrightarrow> P s'"
  shows "P s'"
  using assms
proof (induction command spec args s rule: parse_flags.induct)
  case (3 command spec a b args s)
  from "3.prems"(1) show ?case
    by (auto split: option.splits flag_action.splits sum.splits intro: "3.IH" "3.prems"(2-4))
qed (auto split: option.splits flag_action.splits)

definition admitted :: "bool \<Rightarrow> bool \<Rightarrow> bool \<Rightarrow> string \<Rightarrow> string \<Rightarrow> plan_invocation \<Rightarrow> bool" where
  "admitted allow_lib allow_bin allow_test intent mode p \<longleftrightarrow> (let rq = pv_request p in
     (rq_select_lib rq \<longrightarrow> allow_lib) \<and> (rq_bin_name rq \<noteq> None \<longrightarrow> allow_bin) \<and> (rq_test_name rq \<noteq> None \<longrightarrow> allow_test) \<and>
     rq_intent rq = intent \<and> rq_build_mode rq = mode)"

lemma plan_flag_admitted:
  "plan_flag command l b t a = Some (Switch f) \<Longrightarrow> admitted l b t i m p \<Longrightarrow> admitted l b t i m (f p)"
  "plan_flag command l b t a = Some (Argument g) \<Longrightarrow> g v p = Inr p' \<Longrightarrow> admitted l b t i m p \<Longrightarrow> admitted l b t i m p'"
  by (auto simp: plan_flag_def admitted_def on_request_def put_value_def refused_def ConsumeSourceWorkflowFlag_def
      ConsumeWorkflowFlag_def Let_def split: if_splits option.splits)

lemma ParsePlanInvocation_admitted:
  assumes "ParsePlanInvocation command intent l b t args = Inr p"
  shows "\<exists>mode. admitted l b t intent mode p \<and> (mode = [] \<or> VocabularyContains mode kSupportedBuildModes)"
proof -
  let ?start = "\<lambda>mode. on_request (\<lambda>r. r\<lparr>rq_build_mode := mode\<rparr>) \<lparr>pv_request = default_request intent, pv_styio_bin = None,
    pv_dry_run = False, pv_workflow = no_workflow_flags, pv_source = \<lparr>sf_allow_fetch = True, sf_assume_yes = False,
    sf_non_interactive = False, sf_source_root = None, sf_source_revision = None\<rparr>\<rparr>"
  have start: "admitted l b t intent mode (?start mode)" for mode
    by (simp add: admitted_def on_request_def default_request_def)
  have parsed: "admitted l b t intent mode p'"
    if "parse_flags command (plan_flag command l b t) rest (?start mode) = Inr p'" for rest mode p'
    using that start by (rule parse_flags_invariant) (auto intro: plan_flag_admitted)
  have plain: "?start [] = \<lparr>pv_request = default_request intent, pv_styio_bin = None,
    pv_dry_run = False, pv_workflow = no_workflow_flags, pv_source = \<lparr>sf_allow_fetch = True, sf_assume_yes = False,
    sf_non_interactive = False, sf_source_root = None, sf_source_revision = None\<rparr>\<rparr>"
    by (simp add: on_request_def default_request_def)
  show ?thesis
  proof (cases args)
    case Nil
    with assms start [of "[]"] show ?thesis unfolding plain by (auto simp: ParsePlanInvocation_def)
  next
    case (Cons a rest)
    show ?thesis
    proof (cases "command = ''build'' \<and> \<not> starts_with a ''--''")
      case True
      with assms Cons parsed [of rest "NormalizeSetKeyword a" p] show ?thesis
        by (auto simp: ParsePlanInvocation_def Let_def on_request_def split: if_splits)
    next
      case False
      with assms Cons parsed [of args "[]" p] show ?thesis unfolding plain
        by (auto simp: ParsePlanInvocation_def Let_def split: if_splits)
    qed
  qed
qed

text \<open>C18: The checks in front of the planner are complete for what the command line lets through: an invocation of
  build, run or test that parses is turned into a job, for every project state that loads, unless it gives a
  source option to a project in binary mode or a compiler binary to a project in build mode.\<close>

theorem parsed_invocation_accepted:
  assumes "(command, l, b, t) \<in> {(''build'', True, True, False), (''run'', False, True, False), (''test'', False, False, True)}"
    and "ParsePlanInvocation command command l b t args = Inr p"
    and "LoadProjectToolchainState env w (rq_manifest_path (pv_request p)) = Inr s"
  shows "(\<exists>job. BuildCloudBuildJobRequest env command (with_build_mode s (pv_request p)) s (invocation_options p) policy = Inr job) \<longleftrightarrow>
    \<not> (ts_mode s = ''binary'' \<and> has_source_options (invocation_options p)) \<and> \<not> (ts_mode s = ''build'' \<and> pv_styio_bin p \<noteq> None)"
proof -
  let ?rq = "with_build_mode s (pv_request p)"
  from assms(3) have "vocabulary_ok s" using LoadProjectToolchainState_ok by blast
  then have state: "ts_build_mode s \<in> set kSupportedBuildModes" by (simp add: vocabulary_ok_def)
  from ParsePlanInvocation_admitted [OF assms(2)] obtain mode where adm: "admitted l b t command mode p"
    and mode: "mode = [] \<or> mode \<in> set kSupportedBuildModes" by (auto simp: VocabularyContains_iff)
  then have "effective_build_mode ?rq s \<in> set kSupportedBuildModes"
    using state by (auto simp: effective_build_mode_def with_build_mode_def admitted_def Let_def)
  moreover have "rq_select_lib ?rq = rq_select_lib (pv_request p)" "rq_bin_name ?rq = rq_bin_name (pv_request p)"
    "rq_test_name ?rq = rq_test_name (pv_request p)" by (simp_all add: with_build_mode_def)
  ultimately have "ValidateWorkflowInvocation command ?rq s (invocation_options p) = None \<longleftrightarrow>
      \<not> (ts_mode s = ''binary'' \<and> has_source_options (invocation_options p)) \<and> \<not> (ts_mode s = ''build'' \<and> pv_styio_bin p \<noteq> None)"
    using assms(1) adm unfolding ValidateWorkflowInvocation_None
    by (auto simp: admitted_def Let_def invocation_options_def)
  moreover have "(\<exists>job. BuildCloudBuildJobRequest env command ?rq s (invocation_options p) policy = Inr job) \<longleftrightarrow>
      ValidateWorkflowInvocation command ?rq s (invocation_options p) = None"
    by (auto simp: BuildCloudBuildJobRequest_def Let_def split: option.splits)
  ultimately show ?thesis by simp
qed

theorem parsed_invocation_accepted_witness:
  "\<exists>p s. ParsePlanInvocation ''run'' ''run'' False True False [''--bin'', ''x'', ''--styio-bin'', ''/s''] = Inr p \<and>
     LoadProjectToolchainState state_env state_fs ''pafio.toml'' = Inr s \<and>
     (\<nexists>job. BuildCloudBuildJobRequest state_env ''run'' (with_build_mode s (pv_request p)) s (invocation_options p)
       (ResolveCloudExecutionPolicy state_env linux_macros s) = Inr job)"
proof -
  let ?p = "ParsePlanInvocation ''run'' ''run'' False True False [''--bin'', ''x'', ''--styio-bin'', ''/s'']"
  let ?s = "LoadProjectToolchainState state_env state_fs ''pafio.toml''"
  have "case ?p of Inr p \<Rightarrow> pv_styio_bin p = Some ''/s'' \<and> rq_manifest_path (pv_request p) = ''pafio.toml'' | _ \<Rightarrow> False"
    by code_simp
  then obtain p where p: "?p = Inr p" "pv_styio_bin p \<noteq> None" "rq_manifest_path (pv_request p) = ''pafio.toml''"
    by (auto split: sum.splits)
  have "case ?s of Inr s \<Rightarrow> ts_mode s = ''build'' | _ \<Rightarrow> False" by code_simp
  then obtain s where s: "?s = Inr s" "ts_mode s = ''build''" by (auto split: sum.splits)
  from s(1) p(3) have "LoadProjectToolchainState state_env state_fs (rq_manifest_path (pv_request p)) = Inr s" by simp
  from parsed_invocation_accepted [OF _ p(1) this] p s show ?thesis by blast
qed

subsection \<open>A build that succeeds\<close>

lemma with_compiler_success:
  assumes "with_compiler rt as_json command p s k w = (Inr oc, w')" and "oc_code oc = kExitSuccess"
  obtains c w1 where "k c w1 = (Inr oc, w')"
proof -
  consider (dry) "pv_dry_run p" | (binary) "\<not> pv_dry_run p" "ts_mode s = ''binary''"
    | (source) "\<not> pv_dry_run p" "ts_mode s \<noteq> ''binary''" by blast
  then show thesis
  proof cases
    case dry
    with assms(1) that show thesis by (simp add: with_compiler_def)
  next
    case binary
    let ?mp = "rq_manifest_path (pv_request p)"
    from binary assms(1) have run: "with_binary_compiler rt as_json command (pv_styio_bin p) ?mp k w = (Inr oc, w')"
      by (simp add: with_compiler_def)
    have clauses: "clauses_in_table [tool_clause, cache_clause]" "clauses_in_table (probe_clauses @ [tool_clause])" by simp_all
    from run [unfolded with_binary_compiler_def Let_def] assms(2) clauses(1) obtain compiler w1 where
      "(case compiler of
         None \<Rightarrow> emit_usage rt as_json command (command @ '' requires --styio-bin <path>, PAFIO_STYIO_BIN, '' @
           ''a project toolchain pin, or a managed current compiler unless --dry-run is set'')
       | Some binary \<Rightarrow>
         io_try rt as_json command (probe_clauses @ [tool_clause]) (CheckCompilerCompatibility (rt_env rt) binary) (\<lambda>report.
         if 1 \<notin> set (cr_supported_compile_plan_versions report)
         then emit_error rt as_json (command_failure ''ContractError'' kExitContract command
           (''active compatibility matrix does not allow compile-plan v1 '' @ command @ '' for this compiler''))
         else k (Some binary, binary_payload report, Some (cr_compiler_version report)))) w1 = (Inr oc, w')"
      by (rule io_try_success)
    then obtain binary where
      "io_try rt as_json command (probe_clauses @ [tool_clause]) (CheckCompilerCompatibility (rt_env rt) binary) (\<lambda>report.
         if 1 \<notin> set (cr_supported_compile_plan_versions report)
         then emit_error rt as_json (command_failure ''ContractError'' kExitContract command
           (''active compatibility matrix does not allow compile-plan v1 '' @ command @ '' for this compiler''))
         else k (Some binary, binary_payload report, Some (cr_compiler_version report))) w1 = (Inr oc, w')"
      using assms(2) emit_usage_fails by (auto split: option.splits)
    from this assms(2) clauses(2) show thesis
      by (rule io_try_success) (use assms(2) that emit_error_fails in \<open>auto split: if_splits\<close>)
  next
    case source
    have clauses: "clauses_in_table [manifest_clause, tool_clause, cache_clause]" by simp
    from source assms(1) have "io_try rt as_json command [manifest_clause, tool_clause, cache_clause]
        (source_compiler rt p s) k w = (Inr oc, w')" by (simp add: with_compiler_def)
    from this assms(2) clauses show thesis by (rule io_try_success) (rule that)
  qed
qed

definition materialized :: "env \<Rightarrow> fs \<Rightarrow> plan_result \<Rightarrow> bool" where
  "materialized env w plan \<longleftrightarrow> fs_is_directory env w (pr_build_root plan) \<and> fs_is_directory env w (pr_artifact_dir plan) \<and>
     fs_is_directory env w (pr_diag_dir plan) \<and> fs_is_regular_file env w (path_append (pr_build_root plan) ''receipt.json'')"

lemma ValidateCompilePlanMaterialization_None: "ValidateCompilePlanMaterialization env w plan = None \<longleftrightarrow> materialized env w plan"
  by (auto simp: ValidateCompilePlanMaterialization_def missing_outputs_def materialized_def split: list.splits)

lemma emit_success_world: "emit_success rt as_json payload w = (Inr oc, w') \<Longrightarrow> w' = w"
  by (auto simp: emit_success_def result_simps)

lemma finish_plan_success:
  assumes "finish_plan rt as_json command p s policy compiler plan w = (Inr oc, w')" and "oc_code oc = kExitSuccess"
    and "\<not> pv_dry_run p"
  obtains binary q where
    "RunProcess (rt_env rt) RuntimeError (compiler_process binary (pr_plan_path plan)) w = (Inr q, w')"
    "exit_code q = 0" "materialized (rt_env rt) w' plan"
proof -
  have clauses: "clauses_in_table [spawn_clause]" by simp
  let ?run = "run_compiler rt as_json command (case_option [] id (fst compiler)) plan"
  from assms(1,3) have "io_try rt as_json command [spawn_clause] ?run
      (report_run rt as_json command p s policy (fst (snd compiler)) plan) w = (Inr oc, w')"
    by (simp add: finish_plan_def)
  from this assms(2) clauses obtain x w1 where x: "?run w = (Inr x, w1)"
    and k: "report_run rt as_json command p s policy (fst (snd compiler)) plan x w1 = (Inr oc, w')"
    by (rule io_try_success)
  from run_compiler_cases [OF x] show thesis
  proof (elim disjE exE conjE)
    fix oc' assume "x = Inl oc'" "oc_code oc' \<noteq> kExitSuccess"
    with k assms(2) show thesis by (simp add: report_run_def result_simps)
  next
    fix echo q assume "x = Inr echo" and q: "exit_code q = 0"
      "ValidateCompilePlanMaterialization (rt_env rt) w1 plan = None"
      "RunProcess (rt_env rt) RuntimeError (compiler_process (case_option [] id (fst compiler)) (pr_plan_path plan)) w = (Inr q, w1)"
    with k have "w' = w1" by (auto simp: report_run_def result_simps dest: emit_success_world)
    with q that show thesis by (simp add: ValidateCompilePlanMaterialization_None)
  qed
qed

text \<open>C5: A build, run or test that is not a dry run exits with 0 only when the work was done: the compile plan of the
  requested manifest and intent was written, offline exactly when \<open>--offline\<close> was given, the compiler ran on that plan as the last step and exited
  with 0, and the final world holds the plan's build root, artifact and diagnostics directories and a receipt.\<close>

theorem successful_build_materialized:
  assumes "HandlePlanCommand rt command intent l b t args as_json w = (Inr oc, w')" and "oc_code oc = kExitSuccess"
    and "ParsePlanInvocation command intent l b t args = Inr p" and "\<not> pv_dry_run p" and "args \<noteq> [''--help'']"
  shows "\<exists>rq plan w1 w2 binary q. rq_manifest_path rq = rq_manifest_path (pv_request p) \<and> rq_intent rq = intent \<and>
    rq_offline rq = wf_offline (pv_workflow p) \<and>
    WriteBuildCompilePlan (rt_fuel rt) (rt_env rt) (rt_mat rt) rq w1 = (Inr plan, w2) \<and>
    RunProcess (rt_env rt) RuntimeError (compiler_process binary (pr_plan_path plan)) w2 = (Inr q, w') \<and> exit_code q = 0 \<and>
    materialized (rt_env rt) w' plan"
proof -
  have clauses: "clauses_in_table [tool_clause]" "clauses_in_table plan_clauses" by simp_all
  from assms(1,3,5) have "io_try rt as_json command [tool_clause]
      (fs_query (\<lambda>w. LoadProjectToolchainState (rt_env rt) w (rq_manifest_path (pv_request p))))
      (plan_command rt as_json command p) w = (Inr oc, w')"
    by (simp add: HandlePlanCommand_def with_help_def)
  from this assms(2) clauses(1) obtain s w0 where run: "plan_command rt as_json command p s w0 = (Inr oc, w')"
    by (rule io_try_success)
  define p' where "p' = on_request (with_build_mode s) p"
  define policy where "policy = ResolveCloudExecutionPolicy (rt_env rt) (rt_macros rt) s"
  from ParsePlanInvocation_admitted [OF assms(3)] have intent: "rq_intent (pv_request p) = intent"
    by (auto simp: admitted_def Let_def)
  have p': "rq_manifest_path (pv_request p') = rq_manifest_path (pv_request p)" "rq_intent (pv_request p') = intent"
    "pv_workflow p' = pv_workflow p" "\<not> pv_dry_run p'"
    using assms(4) intent by (simp_all add: p'_def on_request_def with_build_mode_def)
  let ?mp = "rq_manifest_path (pv_request p')"
  let ?rq = "\<lambda>(options :: resolve_options) (compiler :: ready_compiler). (pv_request p')\<lparr>rq_offline := wf_offline (pv_workflow p'),
     rq_vendor_root := ro_vendor_root options, rq_compiler_version := snd (snd compiler)\<rparr>"
  from run assms(2) obtain w1 where "with_resolve_options rt as_json command ?mp (pv_workflow p') None (\<lambda>options.
       with_compiler rt as_json command p' s (\<lambda>compiler.
       io_try rt as_json command plan_clauses (WriteBuildCompilePlan (rt_fuel rt) (rt_env rt) (rt_mat rt) (?rq options compiler))
         (finish_plan rt as_json command p' s policy compiler))) w1 = (Inr oc, w')"
    by (auto simp: plan_command_def Let_def p'_def [symmetric] policy_def [symmetric] result_simps
        dest: emit_usage_fails split: sum.splits error.splits)
  from this assms(2) obtain options w2 where "with_compiler rt as_json command p' s (\<lambda>compiler.
       io_try rt as_json command plan_clauses (WriteBuildCompilePlan (rt_fuel rt) (rt_env rt) (rt_mat rt) (?rq options compiler))
         (finish_plan rt as_json command p' s policy compiler)) w2 = (Inr oc, w')"
    by (rule with_resolve_options_success) (rule that)
  from this assms(2) obtain compiler w3 where
    "io_try rt as_json command plan_clauses (WriteBuildCompilePlan (rt_fuel rt) (rt_env rt) (rt_mat rt) (?rq options compiler))
       (finish_plan rt as_json command p' s policy compiler) w3 = (Inr oc, w')"
    by (rule with_compiler_success)
  from this assms(2) clauses(2) obtain plan w4 where
    plan: "WriteBuildCompilePlan (rt_fuel rt) (rt_env rt) (rt_mat rt) (?rq options compiler) w3 = (Inr plan, w4)"
    and fin: "finish_plan rt as_json command p' s policy compiler plan w4 = (Inr oc, w')"
    by (rule io_try_success)
  from fin assms(2) p'(4) obtain binary q where
    "RunProcess (rt_env rt) RuntimeError (compiler_process binary (pr_plan_path plan)) w4 = (Inr q, w')"
    "exit_code q = 0" "materialized (rt_env rt) w' plan"
    by (rule finish_plan_success)
  with plan p' show ?thesis
    by (intro exI [of _ "?rq options compiler"] exI [of _ plan] exI [of _ w3] exI [of _ w4] exI [of _ binary] exI [of _ q]) simp
qed

text \<open>A compiler that answers the probe and, given a plan, leaves a receipt beside it.\<close>

definition answer :: "string \<Rightarrow> process_result" where
  "answer out = \<lparr>exit_code = 0, terminated_by_signal = False, signal_number = 0, timed_out = False,
     stdout_truncated = False, stderr_truncated = False, stdout_text = out, stderr_text = []\<rparr>"

definition build_env :: env where
  "build_env = resolver_env\<lparr>
     env_spawn := (\<lambda>rq w. case pr_args rq of
         [option, plan] \<Rightarrow> (Inr (answer []), fs_put resolver_env (path_append (parent_path plan) ''receipt.json'') (File ''R'') w)
       | _ \<Rightarrow> (Inr (answer ''M''), w)),
     env_json := sample_json\<lparr>json_parse := (\<lambda>_. Inr machine_info_0_1)\<rparr>,
     env_toml := sample_api\<lparr>toml_parse := (\<lambda>c. if c = ''A'' then Inr (toml_of_manifest sample_app)
       else if c = ''B'' then Inr (toml_of_manifest sample_util) else if c = ''X'' then Inr support_matrix
       else Inl ''syntax error'')\<rparr>\<rparr>"

definition build_fs :: fs where
  "build_fs = plan_fs @ [([''s''], File ''S''), ([''pafio'', ''contracts'', ''compat'', ''styio-support.toml''], File ''X'')]"

definition build_args :: "string list" where
  "build_args = [''--lib'', ''--styio-bin'', ''/s'']"

definition build_run :: "outcome result \<times> fs" where
  "build_run = HandlePlanCommand (sample_runtime build_env) ''build'' ''build'' True True False build_args True build_fs"

definition build_invocation :: plan_invocation where
  "build_invocation = projr (ParsePlanInvocation ''build'' ''build'' True True False build_args)"

definition binary_state :: toolchain_state where
  "binary_state = projr (LoadProjectToolchainState build_env build_fs ''pafio.toml'')"

definition build_report :: compatibility_report where
  "build_report = projr (fst (CheckCompilerCompatibility build_env ''/s'' build_fs))"

definition full_invocation :: plan_invocation where
  "full_invocation = on_request (with_build_mode binary_state) build_invocation"

definition build_request :: plan_request where
  "build_request = (pv_request full_invocation)\<lparr>rq_offline := False, rq_vendor_root := None, rq_compiler_version := Some ''0.1.0''\<rparr>"

lemma build_invocation_facts:
  "ParsePlanInvocation ''build'' ''build'' True True False build_args = Inr build_invocation"
  "rq_manifest_path (pv_request build_invocation) = ''pafio.toml'' \<and> rq_manifest_path (pv_request full_invocation) = ''pafio.toml''"
  "\<not> pv_dry_run build_invocation \<and> \<not> pv_dry_run full_invocation"
  "pv_styio_bin full_invocation = Some ''/s'' \<and> pv_workflow full_invocation = \<lparr>wf_locked = False, wf_offline = False\<rparr>"
proof -
  have "\<not> isl (ParsePlanInvocation ''build'' ''build'' True True False build_args)" by code_simp
  then show "ParsePlanInvocation ''build'' ''build'' True True False build_args = Inr build_invocation"
    by (simp add: build_invocation_def)
qed (code_simp+)

lemma binary_state_facts:
  "LoadProjectToolchainState build_env build_fs ''pafio.toml'' = Inr binary_state"
  "ts_mode binary_state = ''binary''"
  "\<not> isl (BuildCloudBuildJobRequest build_env ''build'' (pv_request full_invocation) binary_state (invocation_options full_invocation)
     (ResolveCloudExecutionPolicy build_env linux_macros binary_state))"
proof -
  have "\<not> isl (LoadProjectToolchainState build_env build_fs ''pafio.toml'')" by code_simp
  then show "LoadProjectToolchainState build_env build_fs ''pafio.toml'' = Inr binary_state"
    by (simp add: binary_state_def)
qed (code_simp+)

lemma build_report_facts:
  "CheckCompilerCompatibility build_env ''/s'' build_fs = (Inr build_report, build_fs)"
  "1 \<in> set (cr_supported_compile_plan_versions build_report)" "cr_compiler_version build_report = ''0.1.0''"
  "ResolveStyioBinary build_env build_fs (Some ''/s'') (Some ''pafio.toml'') = Inr (Some ''/s'')"
  "ro_vendor_root (BuildResolveOptions build_env build_fs ''pafio.toml'' \<lparr>wf_locked = False, wf_offline = False\<rparr> None) = None"
proof -
  have "(case CheckCompilerCompatibility build_env ''/s'' build_fs of (Inr r, w) \<Rightarrow> w = build_fs | _ \<Rightarrow> False)" by code_simp
  then show "CheckCompilerCompatibility build_env ''/s'' build_fs = (Inr build_report, build_fs)"
    by (auto simp: build_report_def split: prod.splits sum.splits)
qed (code_simp+)

lemma build_steps:
  "\<exists>plan w1 echo w2. WriteBuildCompilePlan 3 build_env no_registry build_request build_fs = (Inr plan, w1) \<and>
     run_compiler (sample_runtime build_env) True ''build'' ''/s'' plan w1 = (Inr (Inr echo), w2)"
proof -
  have "(case WriteBuildCompilePlan 3 build_env no_registry build_request build_fs of
      (Inr plan, w1) \<Rightarrow> (case fst (run_compiler (sample_runtime build_env) True ''build'' ''/s'' plan w1) of
        Inr r \<Rightarrow> \<not> isl r | _ \<Rightarrow> False)
    | _ \<Rightarrow> False)" by code_simp
  then obtain plan w1 r where plan: "WriteBuildCompilePlan 3 build_env no_registry build_request build_fs = (Inr plan, w1)"
    and r: "fst (run_compiler (sample_runtime build_env) True ''build'' ''/s'' plan w1) = Inr r" "\<not> isl r"
    by (auto split: prod.split_asm sum.split_asm)
  from r have "run_compiler (sample_runtime build_env) True ''build'' ''/s'' plan w1 =
      (Inr (Inr (projr r)), snd (run_compiler (sample_runtime build_env) True ''build'' ''/s'' plan w1))"
    by (simp add: prod_eq_iff)
  with plan show ?thesis by blast
qed

lemma build_emits: "EmitSuccess (sample_runtime build_env) payload True = Inr (printed (''{}'' @ nl))"
  by (simp add: EmitSuccess_def sample_runtime_def build_env_def sample_json_def dump_json_def rbind_def)

lemma io_try_runs: "m w = (Inr x, w') \<Longrightarrow> io_try rt as_json command clauses m k w = k x w'"
  by (simp add: io_try_def io_catch_def io_bind_def)

lemma build_uses_compiler:
  "with_compiler (sample_runtime build_env) True ''build'' full_invocation binary_state k build_fs =
     k (Some ''/s'', binary_payload build_report, Some ''0.1.0'') build_fs"
proof -
  have rt: "rt_env (sample_runtime build_env) = build_env" by (simp add: sample_runtime_def)
  have "fs_query (\<lambda>w. ResolveStyioBinary build_env w (Some ''/s'') (Some ''pafio.toml'')) build_fs = (Inr (Some ''/s''), build_fs)"
    by (simp add: fs_query_def build_report_facts)
  then show ?thesis
    by (simp add: with_compiler_def with_binary_compiler_def Let_def rt build_invocation_facts binary_state_facts build_report_facts
        io_try_runs)
qed

lemma build_options:
  "\<exists>options. ro_vendor_root options = None \<and>
     (\<forall>k. with_resolve_options (sample_runtime build_env) True ''build'' ''pafio.toml'' \<lparr>wf_locked = False, wf_offline = False\<rparr> None
       k build_fs = k options build_fs)"
  using build_report_facts(5)
  by (intro exI [of _ "BuildResolveOptions build_env build_fs ''pafio.toml'' \<lparr>wf_locked = False, wf_offline = False\<rparr> None"])
    (simp add: with_resolve_options_def with_locked_policy_def ValidateLockedPolicy_def io_query_def io_bind_def sample_runtime_def)

lemma build_runs: "\<exists>oc w'. build_run = (Inr oc, w') \<and> oc_code oc = kExitSuccess"
proof -
  obtain plan w1 echo w2 where
    plan: "WriteBuildCompilePlan 3 build_env no_registry build_request build_fs = (Inr plan, w1)" and
    run: "run_compiler (sample_runtime build_env) True ''build'' ''/s'' plan w1 = (Inr (Inr echo), w2)"
    using build_steps by blast
  obtain job where job: "BuildCloudBuildJobRequest build_env ''build'' (pv_request full_invocation) binary_state
      (invocation_options full_invocation) (ResolveCloudExecutionPolicy build_env linux_macros binary_state) = Inr job"
    using binary_state_facts(3)
    by (cases "BuildCloudBuildJobRequest build_env ''build'' (pv_request full_invocation) binary_state
      (invocation_options full_invocation) (ResolveCloudExecutionPolicy build_env linux_macros binary_state)") auto
  obtain options where options: "ro_vendor_root options = None" "\<And>k. with_resolve_options (sample_runtime build_env) True ''build''
      ''pafio.toml'' \<lparr>wf_locked = False, wf_offline = False\<rparr> None k build_fs = k options build_fs"
    using build_options by blast
  have rt: "rt_env (sample_runtime build_env) = build_env" "rt_fuel (sample_runtime build_env) = 3"
    "rt_mat (sample_runtime build_env) = no_registry" "rt_macros (sample_runtime build_env) = linux_macros"
    by (simp_all add: sample_runtime_def linux_macros_def)
  have "fs_query (\<lambda>w. LoadProjectToolchainState build_env w ''pafio.toml'') build_fs = (Inr binary_state, build_fs)"
    by (simp add: fs_query_def binary_state_facts)
  then have "build_run = plan_command (sample_runtime build_env) True ''build'' build_invocation binary_state build_fs"
    by (simp add: build_run_def HandlePlanCommand_def with_help_def build_invocation_facts rt io_try_runs build_args_def [symmetric])
      (simp add: build_args_def)
  also have "\<dots> = finish_plan (sample_runtime build_env) True ''build'' full_invocation binary_state
      (ResolveCloudExecutionPolicy build_env linux_macros binary_state)
      (Some ''/s'', binary_payload build_report, Some ''0.1.0'') plan w1"
    using plan options
    by (simp add: plan_command_def Let_def full_invocation_def [symmetric] rt job build_invocation_facts build_uses_compiler
        build_request_def [symmetric] io_try_runs)
  also have "\<dots> = (Inr (echoed echo (printed (''{}'' @ nl))), w2)"
    using run by (simp add: finish_plan_def build_invocation_facts io_try_runs report_run_def emit_success_def build_emits result_simps)
  finally have "build_run = (Inr (echoed echo (printed (''{}'' @ nl))), w2)" .
  moreover have "oc_code (echoed echo (printed (''{}'' @ nl))) = kExitSuccess" by (simp add: echoed_def)
  ultimately show ?thesis by blast
qed

text \<open>The build of the sample package leaves the receipt of its plan.\<close>

theorem successful_build_materialized_witness:
  "\<exists>oc w' plan. build_run = (Inr oc, w') \<and> oc_code oc = 0 \<and> materialized build_env w' plan"
proof -
  obtain oc w' where run: "build_run = (Inr oc, w')" and ok: "oc_code oc = kExitSuccess" using build_runs by blast
  have "\<not> pv_dry_run build_invocation" "build_args \<noteq> [''--help'']"
    using build_invocation_facts(3) by (simp_all add: build_args_def)
  from successful_build_materialized [OF run [unfolded build_run_def] ok build_invocation_facts(1) this]
  have "\<exists>plan. materialized build_env w' plan" by (auto simp: sample_runtime_def)
  with run ok show ?thesis by (auto simp: kExitSuccess_def)
qed

end
