(* ===== verification/Spec2Isabelle.thy ===== *)
theory Spec2Isabelle
  imports CoreProperties ResolveProperties PlanProperties CloudProperties TreeProperties PackProperties
    SecurityProperties ClientProperties DependencyProperties VendorProperties PublishProperties InstallProperties
    ProcessProperties ScaffoldProperties SourceProperties CliProperties
begin

text \<open>
  \<^bold>\<open>Pafio, the package manager of Styio: a verification library of its C++ program\<close>

  Pafio reads a project's manifest \<open>pafio.toml\<close>, resolves its dependencies to one version per package, writes the lockfile
  \<open>pafio.lock\<close>, and hands the compiler a compile plan.  Around that core it packs and publishes source packages, reads
  registries, vendors git sources, and manages compilers, installed or built from source.  The paths below are those of
  \<open>src/src\<close> in the repository.

  \<^bold>\<open>1. How the program is put together, and which theory models which part.\<close>

  A command line enters \<open>RunCli\<close> (\<open>PafioCLI/CLI.cpp\<close>), which strips the global options and calls one handler of
  \<open>PafioApp\<close>.  A handler parses its options, calls the library components and turns each exception class it
  catches into an error report and an exit code.  The components call each other in the order of this list.

  \<^item> \<open>Prelude\<close>, \<open>Text\<close>, \<open>Paths\<close>: the exception classes of \<open>PafioCore/Errors.hpp\<close> as the constructors of \<open>error\<close>; results
    as \<open>error + 'a\<close>; effects as functions from a world to a result and a world; the functions of \<open>std::string\<close>,
    \<open>std::regex\<close> (Brzozowski derivatives) and \<open>std::filesystem::path\<close> the sources use.
  \<^item> \<open>World\<close>, \<open>Files\<close>: the file system as a finite list of nodes, the environment, child processes, the path layout
    (\<open>PafioCore/Paths.cpp\<close>) and what \<open>RunProcess\<close> makes of a result.  Every operation is \<open>fs_...\<close>; the reports
    of the sources are kept, so a stream the code does not check is not checked here.
  \<^item> \<open>Process\<close>: the inside of \<open>PafioCore/Process.cpp\<close>, from the environment of the child to its result.
  \<^item> \<open>Digest\<close>: \<open>Sha256\<close> with its block buffer, words and streaming interface, and the FNV hash of the cache keys.
  \<^item> \<open>Manifest\<close>, \<open>ManifestFacts\<close>, \<open>Lockfile\<close>: \<open>PafioManifest\<close>.  Records with the fields of the structs, parsers over a TOML
    document, canonical serializers, scaffolds of new projects.
  \<^item> \<open>Resolver\<close>, \<open>ResolverFacts\<close>, \<open>ResolverRuns\<close>: \<open>PafioResolve/Resolver.cpp\<close>.  The class \<open>SingleVersionResolver\<close> is the record
    \<open>resolver\<close> for what is fixed in a run and \<open>rstate\<close> for its tables; \<open>ResolveNode\<close> is the recursion of the code.
  \<^item> \<open>Tree\<close>: \<open>PafioTree/Render.cpp\<close> and the lock generation.
  \<^item> \<open>Plan\<close>, \<open>PlanFacts\<close>: \<open>PafioPlan/CompilePlan.cpp\<close>; the depth-first visit keeps marks, stack and order.
  \<^item> \<open>Toolchain\<close>, \<open>Cloud\<close>, \<open>SourceBuild\<close>: \<open>PafioToolchain\<close> and \<open>PafioCloud\<close>: the state file of a project, the routing to an
    execution lane, the build jobs, and compilers built from source.
  \<^item> \<open>Archive\<close>, \<open>Pack\<close>, \<open>Publish\<close>, \<open>Vendor\<close>: \<open>PafioPack\<close>, \<open>PafioPublish\<close>, \<open>PafioVendor\<close>.
  \<^item> \<open>Security\<close>, \<open>Client\<close>, \<open>ClientFacts\<close>: \<open>PafioSecurity\<close> and \<open>PafioRegistryClient\<close>.  The client gives the resolver its
    argument \<open>rt_mat\<close>: the materialization of a registry package.
  \<^item> \<open>Dependencies\<close>: \<open>PafioWorkflow/Dependencies.cpp\<close>, the edits with their rollback.
  \<^item> \<open>Compat\<close>, \<open>Install\<close>: \<open>PafioCompat\<close> and \<open>PafioTool/Install.cpp\<close>.
  \<^item> \<open>Cli\<close>, \<open>Commands\<close>, \<open>Contracts\<close>, \<open>Workflow\<close>, \<open>ToolApp\<close>, \<open>PackageApp\<close>, \<open>PackageCommands\<close>, \<open>CommandLine\<close>: \<open>PafioCLI\<close>,
    \<open>PafioApp\<close>, \<open>PafioTool/Contract.cpp\<close> and \<open>PafioResolve/ProjectGraphContract.cpp\<close>.  A catch clause is a pair of an
    exception class and the error it becomes (\<open>catch_clauses\<close>), so that a handler reads like its \<open>try\<close> block.  An
    exception that no clause names leaves \<open>RunCli\<close>, as it does in the code.

  \<^bold>\<open>2. Interfaces.\<close>

  \<^item> \<open>stream_digest\<close> (\<open>Digest\<close>): what a streaming digest promises, whatever the boundaries of the reads; interpreted on the
    state record of \<open>Sha256\<close>.
  \<^item> \<open>registry_provider\<close> (\<open>ClientFacts\<close>): what the resolver relies on in a registry client; interpreted on
    \<open>MaterializeRegistryPackage\<close> of the model.
  \<^item> \<open>sorting\<close> (\<open>Prelude\<close>): what the code relies on in \<open>std::sort\<close> with a key; interpreted on the sort of the library.

  \<^bold>\<open>3. What is shown.\<close>  Properties stand in the theories named after their component, each with an instance.

  \<^item> Resolution (\<open>ResolveProperties\<close>): one version per package name, every declared dependency linked, the recursion
    returns, the lockfile of a graph loads, path dependencies of git packages stay in their snapshot.
  \<^item> Planning (\<open>PlanProperties\<close>): the order is topological and exists exactly for acyclic graphs; the target is declared;
    the plan file is what is reported; the errors are the planner's.
  \<^item> Texts (\<open>CoreProperties\<close>, \<open>ScaffoldProperties\<close>, \<open>TreeProperties\<close>): manifests and lockfiles are read back as written, new projects load,
    the printed tree is the unfolding of the lockfile, digests are those of the standard.
  \<^item> Packages (\<open>PackProperties\<close>, \<open>PublishProperties\<close>, \<open>VendorProperties\<close>): the files of an archive, its ustar round trip, the checks before a
    publication, the agreement of the vendor tree with the resolver.
  \<^item> Registries (\<open>SecurityProperties\<close>, \<open>ClientProperties\<close>): nothing reaches the resolver unchecked, archives unpack inside their
    checkout, trust pins, offline independence of every remote.
  \<^item> Edits (\<open>DependencyProperties\<close>): a failed edit restores, an added dependency can be removed.
  \<^item> Compilers (\<open>InstallProperties\<close>, \<open>SourceProperties\<close>): compatibility reports, pins, source builds with consent and offline.
  \<^item> Jobs (\<open>CloudProperties\<close>): typed states, the routing as a refinement of a table, jobs and planner agree.
  \<^item> Child processes (\<open>ProcessProperties\<close>): the poll loop as an inductive state machine with its invariant; captured output is
    exact and bounded.
  \<^item> Commands (\<open>CliFacts\<close>, \<open>CliProperties\<close>): \<open>ends_well_intros\<close> are proof rules along the structure of the handlers; every
    command line ends in success or in the report of a published error; \<open>--locked\<close>, invocations, and what a
    successful build leaves behind.

  Lemmas beside the properties state defects of the code as it is, among them \<open>interrupted_fetch_blocks\<close>,
  \<open>failed_new_blocks_retry\<close>, \<open>edit_misses_workspace_errors\<close>, \<open>pipes_closed_twice\<close>, \<open>drain_has_no_deadline\<close>, \<open>wait_has_no_deadline\<close>.

  \<^bold>\<open>4. Bounds and fuel.\<close>

  \<^item> The resolver's recursion takes a number of levels; over \<open>N\<close> package names more than \<open>N\<close> levels are never used up,
    because a name is entered before the recursion descends (\<open>ResolverRuns\<close>).  \<open>OutOfFuel\<close> is an error no C++ code
    throws; the facts exclude it.
  \<^item> The plan's visit takes one level more than there are packages, the tree's printer two more: a path of a walk holds no
    package twice.
  \<^item> The poll loop consumes the list of the answers of the kernel, one per turn; a run that waits for more is \<open>None\<close>.
  \<^item> SHA-256 and FNV work on words of 32 and 64 bits with wrap-around; sizes of archives on natural numbers with the bound of
    the octal field; captured output has the limits of the source, \<open>2 ^ 20\<close> bytes by default.

  \<^bold>\<open>5. Parameters.\<close>  Code outside the repository is an argument: the TOML parser toml++ (\<open>toml_api\<close>), the JSON library nlohmann
  (\<open>json_api\<close>), the child processes \<open>git\<close>, \<open>tar\<close>, \<open>curl\<close>, \<open>cmake\<close> and the compiler (\<open>env_spawn\<close>, a function of the request
  and the file system), the terminal, the texts of standard exceptions, the platform macros.  Where a property
  needs a law of them (a text parses to the document it spells), the law is a hypothesis, and the instance
  provides a function that satisfies it.

  \<^bold>\<open>6. Not modelled.\<close>

  \<^item> \<open>main.cpp\<close>, which copies \<open>argv\<close>; declarations without bodies in headers.
  \<^item> File permissions other than "may be written" and "may be executed", times, symbolic links that are followed, and
    concurrent changes of the file system by other programs.
  \<^item> Signals other than as the status of a child; the exact moments at which the kernel answers.
  \<^item> Python programs (\<open>pafio_bootstrap\<close>, \<open>pafio_registry_v2\<close>, \<open>pafio_cloud_stress\<close>), scripts, the web console,
    tests and vendored code.
\<close>

end
